(* ===== verification/Vat_Prelude.thy ===== *)
theory Vat_Prelude
  imports Main "HOL-Library.Char_ord" "HOL-Library.List_Lexorder"
begin

text \<open>
  Shared vocabulary of the development: the Python string operations that the
  identity code of VAT is written with (\<open>str.lower\<close>, \<open>str.strip\<close>, \<open>str.split\<close>,
  \<open>in\<close>, \<open>startswith\<close>, \<open>join\<close>), Python truthiness of optional strings, and the
  association-table operations that stand for SQLAlchemy primary-key access.

  A Python \<open>str\<close> is a \<open>string\<close> (a list of \<open>char\<close>); the operations below agree with
  Python on ASCII text. Characters outside ASCII are carried unchanged.
\<close>

section \<open>Collections of rewrite rules\<close>

named_theorems py_str_simps \<open>rules on Python string operations\<close>
named_theorems vat_defs \<open>definitions of the model that proofs unfold together\<close>
named_theorems table_simps \<open>rules on keyed tables\<close>

section \<open>Characters\<close>

definition py_isspace :: "char \<Rightarrow> bool" where
  "py_isspace c = (let n = (of_char c :: nat) in (9 \<le> n \<and> n \<le> 13) \<or> (28 \<le> n \<and> n \<le> 32))"

definition lower_char :: "char \<Rightarrow> char" where
  "lower_char c = (let n = (of_char c :: nat) in if 65 \<le> n \<and> n \<le> 90 then char_of (n + 32) else c)"

definition upper_char :: "char \<Rightarrow> char" where
  "upper_char c = (let n = (of_char c :: nat) in if 97 \<le> n \<and> n \<le> 122 then char_of (n - 32) else c)"

definition py_isdigit :: "char \<Rightarrow> bool" where
  "py_isdigit c = (let n = (of_char c :: nat) in 48 \<le> n \<and> n \<le> 57)"

lemma of_char_lower: "(of_char (lower_char c) :: nat) =
    (let n = of_char c in if 65 \<le> n \<and> n \<le> 90 then n + 32 else n)"
  by (simp add: lower_char_def Let_def)

lemma lower_char_idem [simp]: "lower_char (lower_char c) = lower_char c"
  by (simp add: lower_char_def Let_def)

lemma isspace_lower_char [simp]: "py_isspace (lower_char c) = py_isspace c"
  by (auto simp: py_isspace_def of_char_lower Let_def)

lemma isdigit_lower_char [simp]: "py_isdigit (lower_char c) = py_isdigit c"
  by (auto simp: py_isdigit_def of_char_lower Let_def)

lemma lower_char_eq_iff_of_char:
  assumes "\<not> (65 \<le> (of_char d :: nat) \<and> (of_char d :: nat) \<le> 90)"
    and "\<not> (97 \<le> (of_char d :: nat) \<and> (of_char d :: nat) \<le> 122)"
  shows "lower_char c = d \<longleftrightarrow> c = d"
proof
  assume "lower_char c = d"
  then have "(of_char (lower_char c) :: nat) = of_char d" by simp
  with assms have "(of_char c :: nat) = of_char d"
    by (auto simp: of_char_lower Let_def split: if_splits)
  then show "c = d" by simp
next
  assume "c = d"
  with assms(1) show "lower_char c = d" by (auto simp: lower_char_def Let_def)
qed

section \<open>Case folding and stripping\<close>

definition py_lower :: "string \<Rightarrow> string" where
  "py_lower s = map lower_char s"

definition py_upper :: "string \<Rightarrow> string" where
  "py_upper s = map upper_char s"

definition lstrip_by :: "(char \<Rightarrow> bool) \<Rightarrow> string \<Rightarrow> string" where
  "lstrip_by p s = dropWhile p s"

definition rstrip_by :: "(char \<Rightarrow> bool) \<Rightarrow> string \<Rightarrow> string" where
  "rstrip_by p s = rev (dropWhile p (rev s))"

definition strip_by :: "(char \<Rightarrow> bool) \<Rightarrow> string \<Rightarrow> string" where
  "strip_by p s = rstrip_by p (lstrip_by p s)"

definition py_strip :: "string \<Rightarrow> string" where
  "py_strip s = strip_by py_isspace s"

lemma py_lower_Nil [simp]: "py_lower [] = []"
  by (simp add: py_lower_def)

lemma py_lower_Cons [simp]: "py_lower (c # s) = lower_char c # py_lower s"
  by (simp add: py_lower_def)

lemma py_lower_append [simp]: "py_lower (s @ t) = py_lower s @ py_lower t"
  by (simp add: py_lower_def)

lemma py_lower_eq_Nil [simp]: "py_lower s = [] \<longleftrightarrow> s = []"
  by (simp add: py_lower_def)

lemma length_py_lower [simp]: "length (py_lower s) = length s"
  by (simp add: py_lower_def)

lemma py_lower_idem [simp]: "py_lower (py_lower s) = py_lower s"
  by (simp add: py_lower_def)

lemma dropWhile_map_invariant:
  assumes "\<And>c. p (f c) = p c"
  shows "dropWhile p (map f s) = map f (dropWhile p s)"
  by (induction s) (auto simp: assms)

lemma lower_strip_by:
  assumes "\<And>c. p (lower_char c) = p c"
  shows "py_lower (strip_by p s) = strip_by p (py_lower s)"
  by (simp add: strip_by_def lstrip_by_def rstrip_by_def py_lower_def
      dropWhile_map_invariant [where p = p, OF assms] rev_map)

lemma dropWhile_hd: "dropWhile p s \<noteq> [] \<Longrightarrow> \<not> p (hd (dropWhile p s))"
  by (induction s) auto

lemma strip_by_fixed:
  assumes "s = [] \<or> (\<not> p (hd s) \<and> \<not> p (last s))"
  shows "strip_by p s = s"
proof (cases s rule: rev_cases)
  case Nil
  then show ?thesis by (simp add: strip_by_def lstrip_by_def rstrip_by_def)
next
  case (snoc t c)
  with assms have "\<not> p (hd s)" and c: "\<not> p c" by auto
  then have "dropWhile p s = s" using snoc by (cases t) auto
  with c snoc show ?thesis by (simp add: strip_by_def lstrip_by_def rstrip_by_def)
qed

lemma rstrip_hd:
  assumes "s \<noteq> []" and "\<not> p (hd s)"
  shows "rstrip_by p s \<noteq> [] \<and> hd (rstrip_by p s) = hd s"
proof -
  from assms(1) obtain c t where s: "s = c # t" by (cases s) auto
  with assms(2) have "dropWhile p (rev t @ [c]) = dropWhile p (rev t) @ [c]"
    by (cases "\<exists>x\<in>set t. \<not> p x") (auto simp: dropWhile_append3 dropWhile_append1 dropWhile_append2)
  with s show ?thesis by (simp add: rstrip_by_def)
qed

lemma strip_by_ends:
  "strip_by p s = [] \<or> (\<not> p (hd (strip_by p s)) \<and> \<not> p (last (strip_by p s)))"
proof (cases "dropWhile p s = []")
  case True
  then show ?thesis by (simp only: strip_by_def lstrip_by_def rstrip_by_def) simp
next
  case False
  let ?t = "dropWhile p s"
  have hd: "\<not> p (hd ?t)" using False by (rule dropWhile_hd)
  have ne: "rstrip_by p ?t \<noteq> []" and h: "hd (rstrip_by p ?t) = hd ?t"
    using rstrip_hd [of ?t p, OF False hd] by auto
  from ne have "dropWhile p (rev ?t) \<noteq> []" by (simp add: rstrip_by_def)
  then have "\<not> p (hd (dropWhile p (rev ?t)))" by (rule dropWhile_hd)
  then have "\<not> p (last (rstrip_by p ?t))"
    by (simp add: rstrip_by_def last_rev)
  with ne h hd show ?thesis by (simp add: strip_by_def lstrip_by_def)
qed

lemma strip_by_Nil: "strip_by p s = [] \<longleftrightarrow> (\<forall>c \<in> set s. p c)"
proof (cases "dropWhile p s = []")
  case True
  then show ?thesis
    by (simp only: strip_by_def lstrip_by_def rstrip_by_def) (simp add: dropWhile_eq_Nil_conv)
next
  case False
  then have "\<not> (\<forall>c \<in> set s. p c)" by (simp add: dropWhile_eq_Nil_conv)
  moreover have "rstrip_by p (dropWhile p s) \<noteq> []"
    using rstrip_hd [of "dropWhile p s" p, OF False dropWhile_hd [OF False]] by simp
  ultimately show ?thesis by (simp add: strip_by_def lstrip_by_def)
qed

lemma strip_by_idem [simp]: "strip_by p (strip_by p s) = strip_by p s"
  by (rule strip_by_fixed) (rule strip_by_ends)

lemma py_strip_Nil [simp]: "py_strip [] = []"
  by (simp add: py_strip_def strip_by_def lstrip_by_def rstrip_by_def)

lemma py_strip_idem [simp]: "py_strip (py_strip s) = py_strip s"
  by (simp add: py_strip_def)

lemma lower_strip [py_str_simps]: "py_lower (py_strip s) = py_strip (py_lower s)"
  by (simp add: py_strip_def lower_strip_by)

lemma py_strip_fixed: "s = [] \<or> (\<not> py_isspace (hd s) \<and> \<not> py_isspace (last s)) \<Longrightarrow> py_strip s = s"
  by (simp add: py_strip_def strip_by_fixed)

lemma set_strip_by: "set (strip_by p s) \<subseteq> set s"
  by (auto simp: strip_by_def lstrip_by_def rstrip_by_def dest!: set_dropWhileD)

lemma set_py_strip: "set (py_strip s) \<subseteq> set s"
  by (simp add: py_strip_def set_strip_by)

lemma notin_py_strip [simp]: "c \<notin> set s \<Longrightarrow> c \<notin> set (py_strip s)"
  using set_py_strip by blast

section \<open>Searching, splitting and joining\<close>

definition py_startswith :: "string \<Rightarrow> string \<Rightarrow> bool" where
  "py_startswith s p = (take (length p) s = p)"

text \<open>\<open>py_in needle hay\<close> is Python's \<open>needle in hay\<close>.\<close>

fun py_in :: "string \<Rightarrow> string \<Rightarrow> bool" where
  "py_in n [] = (n = [])"
| "py_in n (c # cs) = (py_startswith (c # cs) n \<or> py_in n cs)"

text \<open>\<open>split_char sep s\<close> is \<open>s.split(sep)\<close> for a one-character separator.\<close>

fun split_char :: "char \<Rightarrow> string \<Rightarrow> string list" where
  "split_char sep [] = [[]]"
| "split_char sep (c # cs) =
     (if c = sep then [] # split_char sep cs
      else case split_char sep cs of [] \<Rightarrow> [[c]] | w # ws \<Rightarrow> (c # w) # ws)"

text \<open>
  \<open>split_once sep s\<close> is \<open>s.split(sep, 1)\<close> when the separator occurs (the part before and
  the part after its first occurrence) and \<open>None\<close> when it does not.
\<close>

fun split_once :: "string \<Rightarrow> string \<Rightarrow> (string \<times> string) option" where
  "split_once sep [] = (if sep = [] then Some ([], []) else None)"
| "split_once sep (c # cs) =
     (if py_startswith (c # cs) sep then Some ([], drop (length sep) (c # cs))
      else map_option (\<lambda>(l, r). (c # l, r)) (split_once sep cs))"

text \<open>
  \<open>rsplit_char sep s\<close> is \<open>s.rsplit(sep, 1)\<close> when the character occurs: the part before and
  the part after its last occurrence.
\<close>

fun rsplit_char :: "char \<Rightarrow> string \<Rightarrow> (string \<times> string) option" where
  "rsplit_char sep [] = None"
| "rsplit_char sep (c # cs) =
     (case rsplit_char sep cs of
        Some (l, r) \<Rightarrow> Some (c # l, r)
      | None \<Rightarrow> if c = sep then Some ([], cs) else None)"

text \<open>\<open>split_ws_once s\<close> is \<open>s.split(None, 1)\<close>: at most one split at a run of whitespace.\<close>

definition ws_parts :: "string \<Rightarrow> string \<Rightarrow> string list" where
  "ws_parts w r = (if w = [] then [] else if r = [] then [w] else [w, r])"

definition split_ws_once :: "string \<Rightarrow> string list" where
  "split_ws_once s =
     (let t = lstrip_by py_isspace s
      in ws_parts (takeWhile (\<lambda>c. \<not> py_isspace c) t)
           (lstrip_by py_isspace (dropWhile (\<lambda>c. \<not> py_isspace c) t)))"

fun py_join :: "string \<Rightarrow> string list \<Rightarrow> string" where
  "py_join sep [] = []"
| "py_join sep [w] = w"
| "py_join sep (w # v # ws) = w @ sep @ py_join sep (v # ws)"

lemma startswith_append [simp]: "py_startswith (p @ s) p"
  by (simp add: py_startswith_def)

lemma startswith_Nil [simp]: "py_startswith s []"
  by (simp add: py_startswith_def)

lemma startswithE:
  assumes "py_startswith s p"
  obtains r where "s = p @ r"
proof
  from assms have "take (length p) s = p" by (simp add: py_startswith_def)
  then show "s = p @ drop (length p) s" by (metis append_take_drop_id)
qed

lemma startswith_iff: "py_startswith s p \<longleftrightarrow> (\<exists>r. s = p @ r)"
  by (auto elim: startswithE)

lemma py_in_iff: "py_in n s \<longleftrightarrow> (\<exists>l r. s = l @ n @ r)"
proof (induction s)
  case Nil
  then show ?case by auto
next
  case (Cons c cs)
  have "(\<exists>l r. c # cs = l @ n @ r) \<longleftrightarrow> (\<exists>r. c # cs = n @ r) \<or> (\<exists>l r. cs = l @ n @ r)"
    (is "?L \<longleftrightarrow> ?R1 \<or> ?R2")
  proof
    assume ?L
    then obtain l r where lr: "c # cs = l @ n @ r" by blast
    then show "?R1 \<or> ?R2" by (cases l) auto
  next
    assume "?R1 \<or> ?R2"
    then show ?L by (metis append_Cons append_Nil)
  qed
  with Cons show ?case by (simp add: startswith_iff)
qed

lemma py_in_char [simp]: "py_in [c] s \<longleftrightarrow> c \<in> set s"
  by (auto simp: py_in_iff in_set_conv_decomp)

lemma split_char_ne [simp]: "split_char sep s \<noteq> []"
  by (induction s) (auto split: list.splits)

lemma split_char_no_sep: "sep \<notin> set s \<Longrightarrow> split_char sep s = [s]"
  by (induction s) auto

lemma split_char_sep:
  "sep \<notin> set w \<Longrightarrow> split_char sep (w @ sep # s) = w # split_char sep s"
  by (induction w) (auto split: list.splits)

lemma py_join_Cons: "py_join sep (w # ws) = (if ws = [] then w else w @ sep @ py_join sep ws)"
  by (cases ws) auto

lemma join_split_char: "py_join [sep] (split_char sep s) = s"
proof (induction s)
  case (Cons c cs)
  then show ?case
    by (cases "split_char sep cs") (auto simp: py_join_Cons split: if_splits)
qed simp

lemma split_join_char:
  "ws \<noteq> [] \<Longrightarrow> \<forall>w \<in> set ws. sep \<notin> set w \<Longrightarrow> split_char sep (py_join [sep] ws) = ws"
  by (induction ws) (auto simp: py_join_Cons split_char_sep split_char_no_sep)

lemma join_char_inject:
  assumes "length us = length ws" and "us \<noteq> []"
    and "\<forall>w \<in> set us. sep \<notin> set w" and "\<forall>w \<in> set ws. sep \<notin> set w"
  shows "py_join [sep] us = py_join [sep] ws \<longleftrightarrow> us = ws"
  using assms by (metis length_0_conv split_join_char)

lemma split_once_none [simp]: "sep \<noteq> [] \<Longrightarrow> split_once sep s = None \<longleftrightarrow> \<not> py_in sep s"
  by (induction s) auto

lemma split_once_some: "split_once sep s = Some (l, r) \<Longrightarrow> s = l @ sep @ r"
  by (induction s arbitrary: l)
    (auto split: if_splits elim!: startswithE)

lemma rsplit_char_none: "rsplit_char sep s = None \<longleftrightarrow> sep \<notin> set s"
  by (induction s) (auto split: option.splits)

lemma rsplit_char_last: "sep \<notin> set r \<Longrightarrow> rsplit_char sep (l @ sep # r) = Some (l, r)"
  by (induction l) (auto simp: rsplit_char_none [THEN iffD2] split: option.splits)

section \<open>Optional strings\<close>

text \<open>\<open>x or ""\<close> and the truth value of a \<open>str | None\<close>.\<close>

definition or_empty :: "string option \<Rightarrow> string" where
  "or_empty x = (case x of None \<Rightarrow> [] | Some s \<Rightarrow> s)"

definition truthy :: "string option \<Rightarrow> bool" where
  "truthy x = (or_empty x \<noteq> [])"

text \<open>\<open>s or None\<close>: the empty string becomes \<open>None\<close>.\<close>

definition nonempty :: "string \<Rightarrow> string option" where
  "nonempty s = (if s = [] then None else Some s)"

text \<open>\<open>a or b\<close> on optional strings.\<close>

definition py_or :: "string option \<Rightarrow> string option \<Rightarrow> string option" where
  "py_or a b = (if truthy a then a else b)"

lemma or_empty_simps [simp]: "or_empty None = []" "or_empty (Some s) = s"
  by (simp_all add: or_empty_def)

lemma truthy_simps [simp]: "\<not> truthy None" "truthy (Some s) \<longleftrightarrow> s \<noteq> []"
  by (simp_all add: truthy_def)

lemma nonempty_simps [simp]:
  "nonempty [] = None" "nonempty s = None \<longleftrightarrow> s = []" "nonempty s = Some t \<longleftrightarrow> s = t \<and> t \<noteq> []"
  "or_empty (nonempty s) = s" "truthy (nonempty s) \<longleftrightarrow> s \<noteq> []"
  by (auto simp: nonempty_def)

end
