(* ===== verification/Vat_Tables.thy ===== *)
theory Vat_Tables
  imports Vat_Prelude
begin

text \<open>
  Keyed tables and the interfaces shared by the components. A database table is the
  list of its rows in insertion order. \<open>tbl_get\<close> is \<open>db.get\<close> / \<open>db.scalar\<close> on a unique
  key, \<open>tbl_update\<close> is the mutation of the rows that satisfy a condition, and \<open>db.add\<close> is
  appending a row. Three locales state the contracts that several components promise: an
  upsert on a unique key, a canonicalising function, and a step system with an
  inductive invariant.
\<close>

section \<open>Table operations\<close>

definition tbl_get :: "('r \<Rightarrow> 'k) \<Rightarrow> 'k \<Rightarrow> 'r list \<Rightarrow> 'r option" where
  "tbl_get key k t = find (\<lambda>r. key r = k) t"

definition tbl_update :: "('r \<Rightarrow> bool) \<Rightarrow> ('r \<Rightarrow> 'r) \<Rightarrow> 'r list \<Rightarrow> 'r list" where
  "tbl_update p f t = map (\<lambda>r. if p r then f r else r) t"

lemma tbl_get_Nil [simp]: "tbl_get key k [] = None"
  by (simp add: tbl_get_def)

lemma tbl_get_Cons [simp]:
  "tbl_get key k (r # t) = (if key r = k then Some r else tbl_get key k t)"
  by (simp add: tbl_get_def)

lemma tbl_update_Nil [simp]: "tbl_update p f [] = []"
  by (simp add: tbl_update_def)

lemma tbl_update_Cons [simp]:
  "tbl_update p f (r # t) = (if p r then f r else r) # tbl_update p f t"
  by (simp add: tbl_update_def)

lemma length_tbl_update [simp]: "length (tbl_update p f t) = length t"
  by (simp add: tbl_update_def)

lemma tbl_get_None: "tbl_get key k t = None \<longleftrightarrow> k \<notin> key ` set t"
  by (induction t) auto

lemma tbl_get_Some: "tbl_get key k t = Some r \<Longrightarrow> r \<in> set t \<and> key r = k"
  by (induction t) (auto split: if_splits)

lemma tbl_get_append [table_simps]:
  "tbl_get key k (t @ u) = (case tbl_get key k t of None \<Rightarrow> tbl_get key k u | Some r \<Rightarrow> Some r)"
  by (induction t) auto

lemma tbl_get_distinct:
  "distinct (map key t) \<Longrightarrow> r \<in> set t \<Longrightarrow> tbl_get key (key r) t = Some r"
  by (induction t) (auto simp: image_iff)

lemma tbl_get_filter:
  assumes "distinct (map key t)" and "tbl_get key k t = Some r"
  shows "filter (\<lambda>x. key x = k) t = [r]"
  using assms
proof (induction t)
  case (Cons x t)
  show ?case
  proof (cases "key x = k")
    case True
    with Cons.prems(1) have "filter (\<lambda>x. key x = k) t = []" by (auto simp: filter_empty_conv image_iff)
    with True Cons.prems(2) show ?thesis by simp
  next
    case False
    with Cons show ?thesis by simp
  qed
qed simp

lemma tbl_get_update_same [table_simps]:
  assumes "\<And>r. key (f r) = key r"
  shows "tbl_get key k (tbl_update (\<lambda>r. key r = k) f t) = map_option f (tbl_get key k t)"
  by (induction t) (auto simp: assms)

lemma tbl_get_update_other [table_simps]:
  assumes "\<And>r. key (f r) = key r" and "k \<noteq> k'"
  shows "tbl_get key k (tbl_update (\<lambda>r. key r = k') f t) = tbl_get key k t"
  by (induction t) (use assms in auto)

lemma keys_tbl_update [table_simps]:
  assumes "\<And>r. key (f r) = key r"
  shows "map key (tbl_update p f t) = map key t"
  by (simp add: tbl_update_def assms)

lemma tbl_update_none: "(\<And>r. r \<in> set t \<Longrightarrow> \<not> p r) \<Longrightarrow> tbl_update p f t = t"
  by (induction t) auto

lemma set_tbl_update: "set (tbl_update p f t) = (\<lambda>r. if p r then f r else r) ` set t"
  by (simp add: tbl_update_def)

lemma set_tbl_replace:
  assumes "distinct (map key t)" and "r \<in> set t"
  shows "set (tbl_update (\<lambda>x. key x = key r) (\<lambda>_. r') t) = insert r' (set t - {r})"
proof -
  have "x = r" if "x \<in> set t" "key x = key r" for x
    using inj_onD [OF conjunct2 [OF assms(1) [unfolded distinct_map]] that(2) that(1) assms(2)] .
  then show ?thesis using assms(2) by (auto simp: set_tbl_update image_iff)
qed

lemma filter_tbl_update:
  assumes "\<And>r. q (f r) = q r"
  shows "filter q (tbl_update p f t) = tbl_update p f (filter q t)"
  by (induction t) (auto simp: assms)

section \<open>Interface: upsert on a unique key\<close>

text \<open>
  The provider maps a command \<open>c\<close> to its key and merges it with the row stored under
  that key, if there is one. The client may assume that exactly that row changes and
  that keys stay unique.
\<close>

locale upsert_table =
  fixes key :: "'r \<Rightarrow> 'k"
    and ckey :: "'c \<Rightarrow> 'k"
    and merge :: "'c \<Rightarrow> 'r option \<Rightarrow> 'r"
    and upsert :: "'c \<Rightarrow> 'r list \<Rightarrow> 'r list"
  assumes get_same: "tbl_get key (ckey c) (upsert c t) = Some (merge c (tbl_get key (ckey c) t))"
    and get_other: "k \<noteq> ckey c \<Longrightarrow> tbl_get key k (upsert c t) = tbl_get key k t"
    and distinct_keys: "distinct (map key t) \<Longrightarrow> distinct (map key (upsert c t))"
begin

lemma get_upsert:
  "tbl_get key k (upsert c t) =
     (if k = ckey c then Some (merge c (tbl_get key k t)) else tbl_get key k t)"
  by (simp add: get_same get_other)

lemma set_upsert:
  assumes "distinct (map key t)"
  shows "set (upsert c t) = insert (merge c (tbl_get key (ckey c) t)) {r \<in> set t. key r \<noteq> ckey c}"
proof -
  have "r \<in> set (upsert c t) \<longleftrightarrow> tbl_get key (key r) (upsert c t) = Some r" for r
    using tbl_get_distinct [OF distinct_keys [OF assms], of r c] tbl_get_Some [of key "key r" "upsert c t" r] by blast
  moreover have "r \<in> set t \<longleftrightarrow> tbl_get key (key r) t = Some r" for r
    using tbl_get_distinct [OF assms, of r] tbl_get_Some [of key "key r" t r] by blast
  moreover have "key (merge c (tbl_get key (ckey c) t)) = ckey c"
    using tbl_get_Some [OF get_same [of c t]] by simp
  ultimately show ?thesis
    by (auto simp: get_upsert split: if_splits)
qed

lemma keys_upsert: "key ` set (upsert c t) = insert (ckey c) (key ` set t)"
proof -
  have "k \<in> key ` set (upsert c t) \<longleftrightarrow> k = ckey c \<or> k \<in> key ` set t" for k
    using tbl_get_None [of key k "upsert c t"] tbl_get_None [of key k t]
    by (auto simp: get_upsert split: if_splits)
  then show ?thesis by blast
qed

lemma upsert_commute:
  "ckey c \<noteq> ckey d \<Longrightarrow>
     tbl_get key k (upsert c (upsert d t)) = tbl_get key k (upsert d (upsert c t))"
  by (auto simp: get_upsert)

lemma get_upserts:
  "tbl_get key k (fold upsert cs t) =
     fold (\<lambda>c r. if ckey c = k then Some (merge c r) else r) cs (tbl_get key k t)"
  by (induction cs arbitrary: t) (auto simp: get_upsert intro!: arg_cong2 [where f = "fold _"])

lemma distinct_upserts: "distinct (map key t) \<Longrightarrow> distinct (map key (fold upsert cs t))"
  by (induction cs arbitrary: t) (auto simp: distinct_keys)

lemma row_after_upsert:
  assumes "distinct (map key t)" and "r \<in> set (upsert c t)" and "key r = ckey c"
  shows "r = merge c (tbl_get key (ckey c) t)"
  using tbl_get_distinct [OF distinct_keys [OF assms(1)] assms(2)] assms(3) by (simp add: get_same)

end

text \<open>
  The get-then-add shape that the services write: look the key up, change the row that is
  there, else append a new one. It provides the interface as soon as a merged row
  carries the key of its command.
\<close>

definition tbl_upsert ::
  "('r \<Rightarrow> 'k) \<Rightarrow> ('c \<Rightarrow> 'k) \<Rightarrow> ('c \<Rightarrow> 'r option \<Rightarrow> 'r) \<Rightarrow> 'c \<Rightarrow> 'r list \<Rightarrow> 'r list" where
  "tbl_upsert key ckey merge c t =
     (case tbl_get key (ckey c) t of
        None \<Rightarrow> t @ [merge c None]
      | Some _ \<Rightarrow> tbl_update (\<lambda>r. key r = ckey c) (\<lambda>r. merge c (Some r)) t)"

lemma tbl_get_upsert_update:
  assumes "\<And>r. key r = k \<Longrightarrow> key (f r) = k"
  shows "tbl_get key k' (tbl_update (\<lambda>r. key r = k) f t) =
    (if k' = k then map_option f (tbl_get key k t) else tbl_get key k' t)"
  by (induction t) (use assms in auto)

lemma map_key_upsert_update:
  assumes "\<And>r. key r = k \<Longrightarrow> key (f r) = k"
  shows "map key (tbl_update (\<lambda>r. key r = k) f t) = map key t"
  by (induction t) (use assms in auto)

lemma upsert_tableI:
  assumes "\<And>c. key (merge c None) = ckey c"
    and "\<And>c r. key r = ckey c \<Longrightarrow> key (merge c (Some r)) = ckey c"
  shows "upsert_table key ckey merge (tbl_upsert key ckey merge)"
proof
  fix c k t
  show "tbl_get key (ckey c) (tbl_upsert key ckey merge c t) =
      Some (merge c (tbl_get key (ckey c) t))"
    using assms by (auto simp: tbl_upsert_def tbl_get_append tbl_get_upsert_update split: option.splits)
  show "tbl_get key k (tbl_upsert key ckey merge c t) = tbl_get key k t" if "k \<noteq> ckey c"
    using assms that
    by (auto simp: tbl_upsert_def tbl_get_append tbl_get_upsert_update split: option.splits)
  show "distinct (map key (tbl_upsert key ckey merge c t))" if "distinct (map key t)"
    using assms that tbl_get_None [of key "ckey c" t]
    by (auto simp: tbl_upsert_def map_key_upsert_update split: option.splits)
qed

section \<open>Interface: canonicalising function\<close>

locale canonicaliser =
  fixes canon :: "'a \<Rightarrow> 'a"
  assumes idem: "canon (canon x) = canon x"
begin

lemma fixed_iff_range: "canon x = x \<longleftrightarrow> x \<in> range canon"
  by (metis idem rangeE rangeI)

lemma same_canon_trans: "canon x = canon y \<Longrightarrow> canon x = canon (canon y)"
  by (simp add: idem)

end

section \<open>Interface: reversible undirected links\<close>

text \<open>
  A store of undirected links: a link can be made, taken back and restored, and taking
  back forgets nothing. \<open>stored\<close> and \<open>active\<close> are sets of unordered pairs.
\<close>

locale link_graph =
  fixes ok :: "'s \<Rightarrow> bool" and valid :: "'a \<Rightarrow> 'a \<Rightarrow> bool"
    and stored :: "'s \<Rightarrow> 'a set set" and active :: "'s \<Rightarrow> 'a set set"
    and link :: "'a \<Rightarrow> 'a \<Rightarrow> 's \<Rightarrow> 's" and unlink :: "'a \<Rightarrow> 'a \<Rightarrow> 's \<Rightarrow> 's" and restore :: "'a \<Rightarrow> 'a \<Rightarrow> 's \<Rightarrow> 's"
  assumes active_stored: "ok s \<Longrightarrow> active s \<subseteq> stored s"
    and link: "ok s \<Longrightarrow> valid x y \<Longrightarrow> ok (link x y s) \<and> stored (link x y s) = insert {x, y} (stored s) \<and>
      active (link x y s) = insert {x, y} (active s)"
    and unlink: "ok s \<Longrightarrow> valid x y \<Longrightarrow> ok (unlink x y s) \<and> stored (unlink x y s) = stored s \<and>
      active (unlink x y s) = active s - {{x, y}}"
    and restore: "ok s \<Longrightarrow> valid x y \<Longrightarrow> ok (restore x y s) \<and> stored (restore x y s) = stored s \<and>
      active (restore x y s) = (if {x, y} \<in> stored s then insert {x, y} (active s) else active s)"
begin

lemma link_symmetric:
  assumes "ok s" and "valid x y" and "valid y x"
  shows "active (link x y s) = active (link y x s)"
  using link [OF assms(1,2)] link [OF assms(1,3)] by (simp add: insert_commute)

lemma unlink_restore:
  assumes "ok s" and "valid x y" and "{x, y} \<in> active s"
  shows "active (restore x y (unlink x y s)) = active s \<and> stored (restore x y (unlink x y s)) = stored s"
proof -
  have u: "ok (unlink x y s)" "stored (unlink x y s) = stored s" "active (unlink x y s) = active s - {{x, y}}"
    using unlink [OF assms(1,2)] by auto
  show ?thesis using restore [OF u(1) assms(2)] u active_stored [OF assms(1)] assms(3) by auto
qed

lemma unlink_link:
  assumes "ok s" and "valid x y" and "{x, y} \<notin> active s"
  shows "active (unlink x y (link x y s)) = active s"
proof -
  have "ok (link x y s)" "active (link x y s) = insert {x, y} (active s)" using link [OF assms(1,2)] by auto
  then show ?thesis using unlink [of "link x y s" x y] assms by simp
qed

end

section \<open>Interface: step systems and reachable states\<close>

inductive reach :: "('s \<Rightarrow> bool) \<Rightarrow> ('s \<Rightarrow> 's \<Rightarrow> bool) \<Rightarrow> 's \<Rightarrow> bool" for init step where
  reach_init: "init s \<Longrightarrow> reach init step s"
| reach_step: "reach init step s \<Longrightarrow> step s t \<Longrightarrow> reach init step t"

locale step_system =
  fixes init :: "'s \<Rightarrow> bool" and step :: "'s \<Rightarrow> 's \<Rightarrow> bool" and inv :: "'s \<Rightarrow> bool"
  assumes init_inv: "init s \<Longrightarrow> inv s"
    and step_inv: "inv s \<Longrightarrow> step s t \<Longrightarrow> inv t"
begin

lemma reach_inv: "reach init step s \<Longrightarrow> inv s"
  by (induction rule: reach.induct) (auto intro: init_inv step_inv)

lemma steps_inv: "step\<^sup>*\<^sup>* s t \<Longrightarrow> inv s \<Longrightarrow> inv t"
  by (induction rule: rtranclp_induct) (auto intro: step_inv)

end

section \<open>Interface: rows that are moved to another owner\<close>

text \<open>
  Rows are stored under an owner and a label, at most one row for each pair. Moving the rows of one
  owner to another hands a row over, or merges it into the row that the new owner has under
  the same label and deletes it.
\<close>

definition tbl_move ::
  "('r \<Rightarrow> 'o) \<Rightarrow> ('r \<Rightarrow> 'l) \<Rightarrow> ('o \<Rightarrow> 'r \<Rightarrow> 'r) \<Rightarrow> ('r \<Rightarrow> 'r \<Rightarrow> 'r) \<Rightarrow> 'o \<Rightarrow> 'r \<Rightarrow> nat \<times> nat \<times> 'r list \<Rightarrow>
    nat \<times> nat \<times> 'r list" where
  "tbl_move owner label hand_over merged tgt row acc =
     (let key = (\<lambda>r. (owner r, label r))
      in case acc of (n, m, t) \<Rightarrow>
        (case tbl_get key (tgt, label row) t of
           None \<Rightarrow> (Suc n, m, tbl_update (\<lambda>r. key r = key row) (hand_over tgt) t)
         | Some e \<Rightarrow> (n, Suc m, filter (\<lambda>r. key r \<noteq> key row) (tbl_update (\<lambda>r. key r = key e) (\<lambda>_. merged e row) t))))"

lemma tbl_get_rekey:
  assumes "\<And>r. key r = k0 \<Longrightarrow> key (f r) = k1" and "k1 \<notin> key ` set t" and "k1 \<noteq> k0"
  shows "tbl_get key k (tbl_update (\<lambda>r. key r = k0) f t) =
    (if k = k0 then None else if k = k1 then map_option f (tbl_get key k0 t) else tbl_get key k t)"
  using assms by (induction t) auto

lemma distinct_rekey:
  assumes "\<And>r. key r = k0 \<Longrightarrow> key (f r) = k1" and "k1 \<notin> key ` set t" and "distinct (map key t)"
  shows "distinct (map key (tbl_update (\<lambda>r. key r = k0) f t))"
proof -
  have "map key (tbl_update (\<lambda>r. key r = k0) f t) = map (\<lambda>k. if k = k0 then k1 else k) (map key t)"
    using assms(1) by (induction t) auto
  moreover have "inj_on (\<lambda>k. if k = k0 then k1 else k) (set (map key t))"
    using assms(2) by (auto simp: inj_on_def)
  ultimately show ?thesis using assms(3) by (simp only: distinct_map [of _ "map key t"])
qed

lemma tbl_get_drop: "tbl_get key k (filter (\<lambda>r. key r \<noteq> k0) t) = (if k = k0 then None else tbl_get key k t)"
  by (induction t) auto

lemma sum_tbl_drop:
  fixes w :: "'r \<Rightarrow> nat"
  assumes "distinct (map key t)" and "tbl_get key k t = Some r"
  shows "sum_list (map w (filter (\<lambda>x. key x \<noteq> k) t)) + w r = sum_list (map w t)"
  using assms
proof (induction t)
  case (Cons x t)
  have "filter (\<lambda>y. key y \<noteq> k) t = t" if "k \<notin> key ` set t" using that by (induction t) auto
  then show ?case using Cons by (auto split: if_splits)
qed simp

lemma sum_tbl_replace:
  fixes w :: "'r \<Rightarrow> nat"
  assumes "distinct (map key t)" and "tbl_get key k t = Some e"
  shows "sum_list (map w (tbl_update (\<lambda>r. key r = k) (\<lambda>_. x) t)) + w e = sum_list (map w t) + w x"
  using assms
proof (induction t)
  case (Cons y t)
  have "tbl_update (\<lambda>r. key r = k) (\<lambda>_. x) t = t" if "k \<notin> key ` set t" using that by (induction t) auto
  then show ?case using Cons by (auto split: if_splits)
qed simp

locale movable_rows =
  fixes owner :: "'r \<Rightarrow> 'o" and label :: "'r \<Rightarrow> 'l" and hand_over :: "'o \<Rightarrow> 'r \<Rightarrow> 'r" and merged :: "'r \<Rightarrow> 'r \<Rightarrow> 'r"
  assumes hand_over: "owner (hand_over a r) = a" "label (hand_over a r) = label r"
    and merged: "owner (merged e r) = owner e" "label (merged e r) = label e"
begin

abbreviation key :: "'r \<Rightarrow> 'o \<times> 'l" where
  "key r \<equiv> (owner r, label r)"

definition arrived :: "'o \<Rightarrow> 'r option \<Rightarrow> 'r option \<Rightarrow> 'r option" where
  "arrived tgt old moved =
     (case moved of
        None \<Rightarrow> old
      | Some r \<Rightarrow> Some (case old of None \<Rightarrow> hand_over tgt r | Some e \<Rightarrow> merged e r))"

lemma move_one:
  assumes "distinct (map key t)" and "row \<in> set t" and "owner row \<noteq> tgt"
    and "tbl_move owner label hand_over merged tgt row (n, m, t) = (n', m', t')"
  shows "distinct (map key t') \<and> n' + m' = Suc (n + m) \<and>
    tbl_get key k t' =
      (if k = key row then None
       else if k = (tgt, label row) then arrived tgt (tbl_get key k t) (Some row) else tbl_get key k t)"
proof (cases "tbl_get key (tgt, label row) t")
  case None
  have t': "t' = tbl_update (\<lambda>r. key r = key row) (hand_over tgt) t" "n' = Suc n" "m' = m"
    using assms(4) None by (simp_all add: tbl_move_def)
  have h: "key (hand_over tgt r) = (tgt, label row)" if "key r = key row" for r using that hand_over by simp
  have free: "(tgt, label row) \<notin> key ` set t" using None by (simp only: tbl_get_None) simp
  have row: "tbl_get key (key row) t = Some row" by (rule tbl_get_distinct [OF assms(1,2)])
  have "distinct (map key t')" unfolding t' by (rule distinct_rekey [OF h free assms(1)])
  moreover have "tbl_get key k t' =
      (if k = key row then None else if k = (tgt, label row) then map_option (hand_over tgt) (tbl_get key (key row) t)
       else tbl_get key k t)"
    unfolding t' by (rule tbl_get_rekey [OF h free]) (use assms(3) in auto)
  ultimately show ?thesis using t' row None by (simp add: arrived_def)
next
  case (Some e)
  let ?u = "tbl_update (\<lambda>r. key r = key e) (\<lambda>_. merged e row) t"
  have t': "t' = filter (\<lambda>r. key r \<noteq> key row) ?u" "n' = n" "m' = Suc m"
    using assms(4) Some by (simp_all add: tbl_move_def)
  have e: "key e = (tgt, label row)" using tbl_get_Some [OF Some] by simp
  have k: "key (merged e row) = key e" using merged by simp
  have "map key ?u = map key t" by (rule map_key_upsert_update) (simp add: k)
  then have "distinct (map key t')" using assms(1) unfolding t' by (intro distinct_map_filter) simp
  moreover have "tbl_get key k ?u = (if k = key e then map_option (\<lambda>_. merged e row) (tbl_get key (key e) t) else tbl_get key k t)"
    by (rule tbl_get_upsert_update) (simp add: k)
  moreover have "tbl_get key k t' = (if k = key row then None else tbl_get key k ?u)"
    unfolding t' by (rule tbl_get_drop)
  moreover have "arrived tgt (tbl_get key (tgt, label row) t) (Some row) = Some (merged e row)"
    using Some by (simp add: arrived_def)
  ultimately show ?thesis using t'(2,3) Some e by (simp split: if_splits)
qed

lemma move_keeps:
  assumes "distinct (map key t)" and "row \<in> set t" and "owner row \<noteq> tgt"
    and "tbl_move owner label hand_over merged tgt row (n, m, t) = (n', m', t')"
    and "set rows \<subseteq> set t" and "\<forall>r \<in> set rows. owner r = owner row" and "label row \<notin> label ` set rows"
  shows "set rows \<subseteq> set t'"
proof
  fix r assume r: "r \<in> set rows"
  have "tbl_get key (key r) t = Some r" using r assms(1,5) by (intro tbl_get_distinct) auto
  moreover have "owner r = owner row" using r assms(6) by blast
  moreover have "label r \<noteq> label row" using r assms(7) by (metis imageI)
  ultimately have "tbl_get key (key r) t' = Some r" using move_one [OF assms(1-4), of "key r"] assms(3) by simp
  then show "r \<in> set t'" by (rule tbl_get_Some [THEN conjunct1])
qed

lemma move_rows:
  assumes "distinct (map key t)" and "set rows \<subseteq> set t" and "\<forall>r \<in> set rows. owner r = src" and "src \<noteq> tgt"
    and "distinct (map label rows)"
    and "fold (tbl_move owner label hand_over merged tgt) rows (n, m, t) = (n', m', t')"
  shows "distinct (map key t') \<and> n' + m' = n + m + length rows \<and>
    tbl_get key (a, g) t' =
      (if a = src \<and> g \<in> label ` set rows then None
       else if a = tgt then arrived tgt (tbl_get key (a, g) t) (tbl_get label g rows) else tbl_get key (a, g) t)"
  using assms
proof (induction rows arbitrary: n m t)
  case (Cons row rows)
  obtain n1 m1 t1 where step: "tbl_move owner label hand_over merged tgt row (n, m, t) = (n1, m1, t1)"
    by (metis prod_cases3)
  have row: "row \<in> set t" "owner row = src" "owner row \<noteq> tgt" using Cons.prems(2-4) by auto
  note one = move_one [OF Cons.prems(1) row(1,3) step]
  have d1: "distinct (map key t1)" using one by blast
  have sub: "set rows \<subseteq> set t1"
    by (rule move_keeps [OF Cons.prems(1) row(1,3) step]) (use Cons.prems(2-5) row in auto)
  have "fold (tbl_move owner label hand_over merged tgt) rows (n1, m1, t1) = (n', m', t')"
    using Cons.prems(6) step by simp
  note IH = Cons.IH [OF d1 sub _ Cons.prems(4) _ this]
  have n0: "tbl_get label (label row) rows = None" using Cons.prems(5) by (simp add: tbl_get_None)
  have cnt: "distinct (map key t') \<and> n' + m' = n + m + length (row # rows)" using IH one Cons.prems(3,5) by simp
  note get = IH [THEN conjunct2, THEN conjunct2] one [THEN conjunct2, THEN conjunct2, of "(a, g)"]
  show ?case
  proof (cases "g = label row")
    case True
    then have "tbl_get key (a, g) t' = (if a = tgt then arrived tgt (tbl_get key (a, g) t1) None else tbl_get key (a, g) t1)"
      using get(1) Cons.prems(3,5) n0 by simp
    then show ?thesis using True cnt get(2) Cons.prems(4) row by (simp add: arrived_def split: if_splits)
  next
    case False
    then have "tbl_get key (a, g) t1 = tbl_get key (a, g) t" using get(2) by simp
    then show ?thesis using False cnt get(1) Cons.prems(3-5) by (simp only: list.set image_insert insert_iff tbl_get_Cons) auto
  qed
qed (simp add: arrived_def)

lemma distinct_labels:
  assumes "distinct (map key t)"
  shows "distinct (map label (filter (\<lambda>r. owner r = src) t))"
proof -
  let ?rows = "filter (\<lambda>r. owner r = src) t"
  have "inj_on label (set ?rows)"
  proof (rule inj_onI)
    fix x y assume "x \<in> set ?rows" "y \<in> set ?rows" "label x = label y"
    then have "x \<in> set t" "y \<in> set t" "key x = key y" by auto
    then show "x = y" using assms by (auto simp: distinct_map inj_on_def)
  qed
  moreover have "distinct ?rows" using assms by (auto simp: distinct_map)
  ultimately show "distinct (map label ?rows)" by (simp add: distinct_map)
qed

lemma move_owner:
  assumes "distinct (map key t)" and "src \<noteq> tgt"
    and "fold (tbl_move owner label hand_over merged tgt) (filter (\<lambda>r. owner r = src) t) (0, 0, t) = (n, m, t')"
  shows "distinct (map key t') \<and> n + m = length (filter (\<lambda>r. owner r = src) t) \<and>
    tbl_get key (a, g) t' =
      (if a = src then None
       else if a = tgt then arrived tgt (tbl_get key (tgt, g) t) (tbl_get key (src, g) t) else tbl_get key (a, g) t)"
proof -
  let ?rows = "filter (\<lambda>r. owner r = src) t"
  have "set ?rows \<subseteq> set t" "\<forall>r \<in> set ?rows. owner r = src" by auto
  note rows = move_rows [OF assms(1) this assms(2) distinct_labels [OF assms(1)] assms(3), of a g]
  have g: "tbl_get label g ?rows = tbl_get key (src, g) t" by (induction t) auto
  have "tbl_get key (src, g) t = None" if "g \<notin> label ` set ?rows"
    using that by (auto simp: tbl_get_None)
  note none = this
  show ?thesis
  proof (cases "a = src")
    case True
    have "tbl_get key (a, g) t' = None"
      using rows none True assms(2) by (cases "g \<in> label ` set ?rows") (simp_all del: set_filter)
    then show ?thesis using rows True by (simp del: set_filter)
  next
    case False
    then show ?thesis using rows g by (simp del: set_filter)
  qed
qed

end

text \<open>A weight that merging adds up is preserved by the whole move.\<close>

locale weighted_rows = movable_rows +
  fixes w :: "'a \<Rightarrow> nat"
  assumes weight: "w (hand_over a r) = w r" "w (merged e r) = w e + w r"
begin

lemma move_one_weight:
  assumes "distinct (map key t)" and "row \<in> set t" and "owner row \<noteq> tgt"
    and "tbl_move owner label hand_over merged tgt row (n, m, t) = (n', m', t')"
  shows "sum_list (map w t') = sum_list (map w t)"
proof (cases "tbl_get key (tgt, label row) t")
  case None
  have "t' = tbl_update (\<lambda>r. key r = key row) (hand_over tgt) t"
    using assms(4) None by (simp add: tbl_move_def)
  moreover have "map w (tbl_update p (hand_over tgt) t) = map w t" for p by (simp add: tbl_update_def weight)
  ultimately show ?thesis by simp
next
  case (Some e)
  let ?u = "tbl_update (\<lambda>r. key r = key e) (\<lambda>_. merged e row) t"
  have t': "t' = filter (\<lambda>r. key r \<noteq> key row) ?u" using assms(4) Some by (simp add: tbl_move_def)
  have e: "key e = (tgt, label row)" using tbl_get_Some [OF Some] by simp
  have k: "key (merged e row) = key e" using merged by simp
  have "map key ?u = map key t" by (rule map_key_upsert_update) (simp add: k)
  then have d: "distinct (map key ?u)" using assms(1) by simp
  have "tbl_get key (key row) ?u = tbl_get key (key row) t"
    using tbl_get_upsert_update [of key "key e" "\<lambda>_. merged e row" "key row" t] k e assms(3) by auto
  also have "\<dots> = Some row" by (rule tbl_get_distinct [OF assms(1,2)])
  finally have "sum_list (map w t') + w row = sum_list (map w ?u)" unfolding t' by (rule sum_tbl_drop [OF d])
  moreover have "sum_list (map w ?u) + w e = sum_list (map w t) + w (merged e row)"
    by (rule sum_tbl_replace [OF assms(1)]) (use Some e in simp)
  ultimately show ?thesis by (simp add: weight)
qed

lemma move_rows_weight:
  assumes "distinct (map key t)" and "set rows \<subseteq> set t" and "\<forall>r \<in> set rows. owner r = src" and "src \<noteq> tgt"
    and "distinct (map label rows)"
    and "fold (tbl_move owner label hand_over merged tgt) rows (n, m, t) = (n', m', t')"
  shows "sum_list (map w t') = sum_list (map w t)"
  using assms
proof (induction rows arbitrary: n m t)
  case (Cons row rows)
  obtain n1 m1 t1 where step: "tbl_move owner label hand_over merged tgt row (n, m, t) = (n1, m1, t1)"
    by (metis prod_cases3)
  have row: "row \<in> set t" "owner row = src" "owner row \<noteq> tgt" using Cons.prems(2-4) by auto
  note one = move_one [OF Cons.prems(1) row(1,3) step]
  have d1: "distinct (map key t1)" using one by blast
  have sub: "set rows \<subseteq> set t1"
    by (rule move_keeps [OF Cons.prems(1) row(1,3) step]) (use Cons.prems(2-5) row in auto)
  have "fold (tbl_move owner label hand_over merged tgt) rows (n1, m1, t1) = (n', m', t')"
    using Cons.prems(6) step by simp
  then show ?case using Cons.IH [OF d1 sub] Cons.prems(3-5) move_one_weight [OF Cons.prems(1) row(1,3) step] by auto
qed simp

lemma move_owner_weight:
  assumes "distinct (map key t)" and "src \<noteq> tgt"
    and "fold (tbl_move owner label hand_over merged tgt) (filter (\<lambda>r. owner r = src) t) (0, 0, t) = (n, m, t')"
  shows "sum_list (map w t') = sum_list (map w t)"
  by (rule move_rows_weight [OF assms(1) _ _ assms(2) distinct_labels [OF assms(1)] assms(3)]) auto

end

end
