(* ===== verification/Vat_Identity.thy ===== *)
theory Vat_Identity
  imports Vat_Tables
begin

text \<open>
  Pure identity normalisation: \<open>services/dedup.py\<close>, \<open>core/tenancy.py\<close>,
  \<open>services/identity_normalization.py\<close> and \<open>services/sca_cross_scanner.py\<close>.
  The digest \<open>hashlib.sha256(..).hexdigest()\<close> is the parameter \<open>H\<close> of every definition
  that hashes; what a property needs of it is a named hypothesis.
\<close>

section \<open>dedup.py\<close>

definition normalize :: "string \<Rightarrow> string" where
  "normalize value = (if value = [] then [] else py_strip (py_lower value))"

definition component_base :: "string \<Rightarrow> string" where
  "component_base component =
     (if component = [] then []
      else let base = py_strip (hd (split_char CHR ''@'' component))
           in if base = [] then []
              else (case split_ws_once base of
                      name # version # _ \<Rightarrow>
                        if version \<noteq> [] \<and> py_isdigit (hd version)
                        then normalize (py_strip name) else normalize base
                    | _ \<Rightarrow> normalize base))"

definition fingerprint_payload ::
  "string \<Rightarrow> string \<Rightarrow> string option \<Rightarrow> string option \<Rightarrow> string option \<Rightarrow> string option \<Rightarrow> string" where
  "fingerprint_payload cve_id component img branch tag source_name =
     (let cve = normalize cve_id; comp = component_base component;
          im = normalize (or_empty img); br = normalize (or_empty branch);
          tg = normalize (or_empty tag)
      in if truthy source_name \<and> py_strip (or_empty source_name) \<noteq> []
         then py_join ''|'' [cve, comp, im, br, tg, normalize (or_empty source_name)]
         else py_join ''|'' [cve, comp, im, br, tg])"

definition make_fingerprint ::
  "(string \<Rightarrow> string) \<Rightarrow> string \<Rightarrow> string \<Rightarrow> string option \<Rightarrow> string option \<Rightarrow> string option \<Rightarrow>
   string option \<Rightarrow> string" where
  "make_fingerprint H cve_id component img branch tag source_name =
     H (fingerprint_payload cve_id component img branch tag source_name)"

definition make_fingerprint_for_source_issue ::
  "(string \<Rightarrow> string) \<Rightarrow> string \<Rightarrow> string \<Rightarrow> string option \<Rightarrow> string option \<Rightarrow> string option \<Rightarrow> string" where
  "make_fingerprint_for_source_issue H source_name source_issue_id img branch tag =
     (if source_name = [] \<or> source_issue_id = [] then []
      else let payload = source_name @ '':'' @ py_strip source_issue_id
           in H (if img \<noteq> None \<or> branch \<noteq> None \<or> tag \<noteq> None
                 then payload @ ''|'' @ normalize (or_empty img) @ ''|'' @ normalize (or_empty branch)
                      @ ''|'' @ normalize (or_empty tag)
                 else payload))"

section \<open>core/tenancy.py\<close>

definition DEFAULT_TENANT_ID :: string where
  "DEFAULT_TENANT_ID = ''t-default''"

definition normalize_tenant_id :: "string option \<Rightarrow> string" where
  "normalize_tenant_id tenant_id =
     (let cleaned = py_strip (or_empty tenant_id)
      in if cleaned = [] then DEFAULT_TENANT_ID else cleaned)"

definition default_tenant_id :: "string option \<Rightarrow> string" where
  "default_tenant_id tenant_id = normalize_tenant_id tenant_id"

definition tenants_compatible :: "string option \<Rightarrow> string option \<Rightarrow> bool" where
  "tenants_compatible left right = (normalize_tenant_id left = normalize_tenant_id right)"

text \<open>SQL \<open>coalesce(column, default) = normalize(tenant_id)\<close> on the stored column value.\<close>

definition coalesced_tenant_equals :: "string option \<Rightarrow> string option \<Rightarrow> bool" where
  "coalesced_tenant_equals column tenant_id =
     ((case column of None \<Rightarrow> DEFAULT_TENANT_ID | Some t \<Rightarrow> t) = normalize_tenant_id tenant_id)"

record user_context =
  ctx_tenant_id :: "string option"
  ctx_cross_tenant :: bool

definition row_tenant_visible :: "string option \<Rightarrow> user_context \<Rightarrow> bool" where
  "row_tenant_visible row_tenant_id ctx =
     (if ctx_cross_tenant ctx then True
      else if ctx_tenant_id ctx = None then False
      else tenants_compatible row_tenant_id (ctx_tenant_id ctx))"

section \<open>identity_normalization.py\<close>

definition normalize_cve_id :: "string option \<Rightarrow> string" where
  "normalize_cve_id value = normalize (or_empty value)"

record package_key =
  pk_ecosystem :: string
  pk_name :: string

definition package_key_from_component :: "string option \<Rightarrow> string option \<Rightarrow> package_key option" where
  "package_key_from_component ecosystem component =
     (if py_strip (or_empty component) = [] then None
      else let eco = normalize (or_empty ecosystem); base = component_base (or_empty component)
           in if base = [] then None else Some \<lparr>pk_ecosystem = eco, pk_name = base\<rparr>)"

section \<open>sca\_cross\_scanner.py\<close>

definition SCA_PACKAGE_ALIASES :: "(string \<times> string) list" where
  "SCA_PACKAGE_ALIASES =
     [(''ssl'', ''openssl''), (''libssl'', ''openssl''), (''libssl3'', ''openssl''),
      (''libssl1.1'', ''openssl''), (''libssl1.0.0'', ''openssl''), (''openssl'', ''openssl'')]"

definition normalize_ecosystem_token :: "string option \<Rightarrow> string" where
  "normalize_ecosystem_token ecosystem =
     (let e = py_strip (py_lower (or_empty ecosystem))
      in if e \<in> set [''npm'', ''yarn'', ''pnpm''] then ''npm'' else e)"

definition any_in :: "string list \<Rightarrow> string \<Rightarrow> bool" where
  "any_in needles hay = list_ex (\<lambda>x. py_in x hay) needles"

definition infer_sca_ecosystem_from_container_ref :: "string option \<Rightarrow> string option \<Rightarrow> string" where
  "infer_sca_ecosystem_from_container_ref img tag =
     (let blob = py_lower (or_empty img @ '' '' @ or_empty tag)
      in if py_strip blob = [] then []
         else if any_in [''debian'', ''ubuntu'', ''-deb'', ''deb12'', ''deb11'', ''bookworm'',
                         ''bullseye'', ''jammy'', ''focal''] blob then ''debian''
         else if any_in [''rhel'', ''ubi'', ''alma'', ''rocky'', ''centos'', ''fedora'', ''amzn'',
                         ''amazonlinux''] blob then ''rpm''
         else [])"

definition infer_sca_ecosystem_from_benchmark_family :: "string option \<Rightarrow> string" where
  "infer_sca_ecosystem_from_benchmark_family benchmark_family =
     (if \<not> truthy benchmark_family then []
      else let bf = py_lower (or_empty benchmark_family)
           in if any_in [''rhel'', ''red_hat'', ''centos'', ''rocky'', ''alma'', ''fedora'', ''ol_'',
                         ''_ol_''] bf then ''rpm''
              else if any_in [''ubuntu'', ''debian'', ''u_ubuntu''] bf then ''debian''
              else [])"

definition effective_sca_ecosystem ::
  "string option \<Rightarrow> string option \<Rightarrow> string option \<Rightarrow> string option \<Rightarrow> string" where
  "effective_sca_ecosystem ecosystem benchmark_family img tag =
     (let eco = normalize_ecosystem_token ecosystem
      in if eco \<noteq> [] then eco
         else let eco2 = infer_sca_ecosystem_from_benchmark_family benchmark_family
              in if eco2 \<noteq> [] then eco2 else infer_sca_ecosystem_from_container_ref img tag)"

definition normalize_sca_package_for_cross_scanner :: "string \<Rightarrow> string" where
  "normalize_sca_package_for_cross_scanner name =
     (let n = py_lower (py_strip name)
      in if n = [] then []
         else case map_of SCA_PACKAGE_ALIASES n of
                Some a \<Rightarrow> a
              | None \<Rightarrow> if py_startswith n ''libssl'' then ''openssl'' else n)"

section \<open>Canonical forms\<close>

lemma normalize_alt: "normalize s = py_strip (py_lower s)"
  by (simp add: normalize_def)

lemma normalize_Nil [simp]: "normalize [] = []"
  by (simp add: normalize_def)

lemma normalize_idem [simp]: "normalize (normalize s) = normalize s"
  by (simp add: normalize_alt lower_strip)

lemma lower_normalize [simp]: "py_lower (normalize s) = normalize s"
  by (simp add: normalize_alt lower_strip)

lemma strip_normalize [simp]: "py_strip (normalize s) = normalize s"
  by (simp add: normalize_alt)

lemma normalize_strip [simp]: "normalize (py_strip s) = normalize s"
  by (simp add: normalize_alt lower_strip)

lemma normalize_eq_Nil: "normalize s = [] \<longleftrightarrow> py_strip s = []"
  by (metis lower_strip normalize_alt py_lower_eq_Nil)

interpretation norm: canonicaliser normalize
  by unfold_locales simp

lemma strip_default_tenant [simp]: "py_strip DEFAULT_TENANT_ID = DEFAULT_TENANT_ID"
  by (rule py_strip_fixed) (simp add: DEFAULT_TENANT_ID_def py_isspace_def)

lemma tenant_not_blank [simp]: "normalize_tenant_id t \<noteq> []"
  by (simp add: normalize_tenant_id_def DEFAULT_TENANT_ID_def Let_def)

lemma normalize_tenant_idem [simp]:
  "normalize_tenant_id (Some (normalize_tenant_id t)) = normalize_tenant_id t"
  by (simp add: normalize_tenant_id_def Let_def)

interpretation tenant_norm: canonicaliser "\<lambda>t. Some (normalize_tenant_id t)"
  by unfold_locales simp

lemma lower_takeWhile:
  "takeWhile (\<lambda>c. \<not> py_isspace c) (py_lower s) = py_lower (takeWhile (\<lambda>c. \<not> py_isspace c) s)"
  by (induction s) auto

lemma lower_drop_space: "dropWhile py_isspace (py_lower s) = py_lower (dropWhile py_isspace s)"
  by (induction s) auto

lemma lower_drop_word:
  "dropWhile (\<lambda>c. \<not> py_isspace c) (py_lower s) = py_lower (dropWhile (\<lambda>c. \<not> py_isspace c) s)"
  by (induction s) auto

lemma ws_parts_lower: "ws_parts (py_lower w) (py_lower r) = map py_lower (ws_parts w r)"
  by (simp add: ws_parts_def)

lemma ws_parts_first: "ws_parts w r = x # xs \<Longrightarrow> x = w \<and> w \<noteq> []"
  by (simp add: ws_parts_def split: if_splits)

lemma split_ws_once_lower: "split_ws_once (py_lower s) = map py_lower (split_ws_once s)"
  by (simp only: split_ws_once_def Let_def lstrip_by_def lower_takeWhile lower_drop_space
      lower_drop_word ws_parts_lower)

lemma split_ws_once_word:
  assumes "w \<noteq> []" and "\<forall>c \<in> set w. \<not> py_isspace c"
  shows "split_ws_once w = [w]"
proof -
  have "dropWhile py_isspace w = w" using assms by (cases w) auto
  moreover have "takeWhile (\<lambda>c. \<not> py_isspace c) w = w" "dropWhile (\<lambda>c. \<not> py_isspace c) w = []"
    using assms(2) by (simp_all add: takeWhile_eq_all_conv)
  ultimately show ?thesis using assms(1)
    by (simp only: split_ws_once_def lstrip_by_def Let_def) (simp add: ws_parts_def)
qed

lemma split_ws_once_first:
  assumes "split_ws_once s = w # ws"
  shows "w \<noteq> []" and "\<forall>c \<in> set w. \<not> py_isspace c" and "set w \<subseteq> set s"
proof -
  have w: "w = takeWhile (\<lambda>c. \<not> py_isspace c) (dropWhile py_isspace s)" and "w \<noteq> []"
    using ws_parts_first [OF assms [unfolded split_ws_once_def lstrip_by_def Let_def]] by simp_all
  then show "w \<noteq> []" by simp
  show "\<forall>c \<in> set w. \<not> py_isspace c" unfolding w by (auto dest: set_takeWhileD)
  show "set w \<subseteq> set s" unfolding w by (auto dest: set_takeWhileD set_dropWhileD)
qed

lemma strip_word: "\<forall>c \<in> set w. \<not> py_isspace c \<Longrightarrow> py_strip w = w"
  by (rule py_strip_fixed) (cases w; simp)

lemma hd_split_char: "hd (split_char sep s) = takeWhile (\<lambda>c. c \<noteq> sep) s"
proof (induction s)
  case (Cons c s)
  then show ?case by (cases "split_char sep s") auto
qed simp

lemma notin_normalize:
  assumes "d \<notin> set s" and "\<And>c. lower_char c = d \<Longrightarrow> c = d"
  shows "d \<notin> set (normalize s)"
proof
  assume "d \<in> set (normalize s)"
  then have "d \<in> set (py_lower s)" using set_py_strip [of "py_lower s"] by (auto simp: normalize_alt)
  then obtain c where c: "c \<in> set s" "lower_char c = d" by (auto simp: py_lower_def)
  from assms(2) [OF c(2)] c(1) assms(1) show False by simp
qed

lemma lower_char_at: "lower_char c = CHR ''@'' \<longleftrightarrow> c = CHR ''@''"
  by (rule lower_char_eq_iff_of_char) simp_all

lemma at_in_lower [simp]: "CHR ''@'' \<in> set (py_lower s) \<longleftrightarrow> CHR ''@'' \<in> set s"
  unfolding py_lower_def set_map image_iff by (metis lower_char_at)

text \<open>
  \<open>component_base\<close> is the lower-cased base name: a word when a version was cut off, the
  trimmed text before the first \<open>@\<close> otherwise.
\<close>

lemma component_base_cases:
  obtains (blank) "component_base c = []"
  | (word) "component_base c \<noteq> []" "\<forall>x \<in> set (component_base c). \<not> py_isspace x"
      "CHR ''@'' \<notin> set (component_base c)" "py_lower (component_base c) = component_base c"
  | (base) b where "component_base c = py_lower b" "b \<noteq> []" "py_strip b = b" "CHR ''@'' \<notin> set b"
      "\<And>n v r. split_ws_once b = n # v # r \<Longrightarrow> \<not> (v \<noteq> [] \<and> py_isdigit (hd v))"
proof (cases "component_base c = []")
  case True
  then show ?thesis by (rule blank)
next
  case False
  let ?b = "py_strip (hd (split_char CHR ''@'' c))"
  have at: "CHR ''@'' \<notin> set ?b"
    using set_py_strip [of "hd (split_char CHR ''@'' c)"]
    by (auto simp: hd_split_char dest: set_takeWhileD)
  have ne: "?b \<noteq> []" using False by (auto simp: component_base_def Let_def split: if_splits)
  show ?thesis
  proof (cases "\<exists>n v r. split_ws_once ?b = n # v # r \<and> v \<noteq> [] \<and> py_isdigit (hd v)")
    case True
    then obtain n v r where s: "split_ws_once ?b = n # v # r" "v \<noteq> []" "py_isdigit (hd v)" by blast
    have nw: "\<forall>x \<in> set n. \<not> py_isspace x" and sub: "set n \<subseteq> set ?b"
      using split_ws_once_first [OF s(1)] by auto
    have eq: "component_base c = normalize n"
      using False ne s by (simp add: component_base_def Let_def split: if_splits)
    also have "\<dots> = py_lower n" using nw by (simp add: normalize_alt lower_strip [symmetric] strip_word)
    finally have eq': "component_base c = py_lower n" .
    show ?thesis
    proof (rule word)
      show "component_base c \<noteq> []" by (rule False)
      show "\<forall>x \<in> set (component_base c). \<not> py_isspace x" using nw by (auto simp: eq' py_lower_def)
      show "CHR ''@'' \<notin> set (component_base c)"
        using at sub by (auto simp: eq')
      show "py_lower (component_base c) = component_base c" by (simp add: eq)
    qed
  next
    case no: False
    have "component_base c = normalize ?b"
      using False ne no by (auto simp: component_base_def Let_def split: if_splits list.splits)
    also have "\<dots> = py_lower ?b" by (simp only: normalize_alt lower_strip [symmetric]) simp
    finally have eq: "component_base c = py_lower ?b" .
    show ?thesis by (rule base [OF eq ne _ at]) (use no in auto)
  qed
qed

lemma component_base_of_base:
  assumes "b \<noteq> []" "py_strip b = b" "CHR ''@'' \<notin> set b" "py_lower b = b"
    and "\<And>n v r. split_ws_once b = n # v # r \<Longrightarrow> \<not> (v \<noteq> [] \<and> py_isdigit (hd v))"
  shows "component_base b = b"
proof -
  have "normalize b = b" using assms by (simp add: normalize_alt)
  then show ?thesis
    using assms by (auto simp: component_base_def split_char_no_sep Let_def split: list.splits)
qed

lemma component_base_idem [simp]: "component_base (component_base c) = component_base c"
proof (cases c rule: component_base_cases)
  case blank
  then show ?thesis by (simp add: component_base_def)
next
  case word
  show ?thesis
    by (rule component_base_of_base) (use word in \<open>auto simp: strip_word split_ws_once_word\<close>)
next
  case (base b)
  show ?thesis unfolding base(1)
  proof (rule component_base_of_base)
    show "py_strip (py_lower b) = py_lower b" by (metis base(3) lower_strip)
    show "CHR ''@'' \<notin> set (py_lower b)" using base(4) by simp
    show "\<not> (v \<noteq> [] \<and> py_isdigit (hd v))" if sp: "split_ws_once (py_lower b) = n # v # r" for n v r
    proof -
      from sp obtain n' v' r' where "split_ws_once b = n' # v' # r'" "v = py_lower v'"
        by (auto simp: split_ws_once_lower)
      with base(5) show ?thesis by (cases v') auto
    qed
  qed (use base in auto)
qed

interpretation comp_norm: canonicaliser component_base
  by unfold_locales simp

lemma ecosystem_token_idem [simp]:
  "normalize_ecosystem_token (Some (normalize_ecosystem_token e)) = normalize_ecosystem_token e"
proof -
  have "py_strip (py_lower (normalize_ecosystem_token e)) = normalize_ecosystem_token e"
    by (simp add: normalize_ecosystem_token_def Let_def lower_strip py_strip_fixed py_isspace_def
        lower_char_def)
  then show ?thesis by (auto simp: normalize_ecosystem_token_def Let_def)
qed


section \<open>Fingerprints\<close>

lemma notin_component_base:
  assumes "d \<notin> set s" and "\<And>c. lower_char c = d \<Longrightarrow> c = d"
  shows "d \<notin> set (component_base s)"
proof -
  let ?b = "py_strip (hd (split_char CHR ''@'' s))"
  have b: "d \<notin> set ?b"
    using assms(1) set_py_strip [of "hd (split_char CHR ''@'' s)"]
    by (auto simp: hd_split_char dest: set_takeWhileD)
  have "d \<notin> set (normalize ?b)" by (rule notin_normalize [OF b assms(2)])
  moreover have "d \<notin> set (normalize (py_strip n))" if "split_ws_once ?b = n # ws" for n ws
  proof -
    have "d \<notin> set n" using b split_ws_once_first(3) [OF that] by blast
    then show ?thesis using notin_normalize [OF _ assms(2)] by simp
  qed
  ultimately show ?thesis
    by (auto simp: component_base_def Let_def split: list.splits)
qed

lemma lower_char_bar: "lower_char c = CHR ''|'' \<Longrightarrow> c = CHR ''|''"
  using lower_char_eq_iff_of_char [of "CHR ''|''" c] by simp

lemma bar_notin_normalize [simp]: "CHR ''|'' \<notin> set s \<Longrightarrow> CHR ''|'' \<notin> set (normalize s)"
  by (rule notin_normalize) (auto dest: lower_char_bar)

lemma bar_notin_component_base [simp]: "CHR ''|'' \<notin> set s \<Longrightarrow> CHR ''|'' \<notin> set (component_base s)"
  by (rule notin_component_base) (auto dest: lower_char_bar)



text \<open>
  The fingerprint depends on its inputs only through their canonical forms: normalising
  the CVE, component, image, branch, tag and source beforehand does not change it.
\<close>

lemma make_fingerprint_canonical:
  "make_fingerprint H (normalize c) (component_base m) (Some (normalize (or_empty i)))
      (Some (normalize (or_empty b))) (Some (normalize (or_empty t))) (map_option normalize s)
   = make_fingerprint H c m i b t s"
proof (cases s)
  case None
  then show ?thesis by (simp add: make_fingerprint_def fingerprint_payload_def)
next
  case (Some n)
  have "normalize n \<noteq> [] \<and> py_strip (normalize n) \<noteq> [] \<longleftrightarrow> n \<noteq> [] \<and> py_strip n \<noteq> []"
    by (auto simp: normalize_eq_Nil)
  with Some show ?thesis
    by (simp add: make_fingerprint_def fingerprint_payload_def Let_def)
qed

section \<open>Cross-scanner package identity\<close>

lemma any_in_Nil: "\<forall>n \<in> set ns. n \<noteq> [] \<Longrightarrow> \<not> any_in ns []"
  by (auto simp: any_in_def list_ex_iff)

lemma effective_explicit:
  "py_strip (or_empty e) \<noteq> [] \<Longrightarrow> effective_sca_ecosystem e bf i t = normalize_ecosystem_token e"
  by (simp add: effective_sca_ecosystem_def normalize_ecosystem_token_def Let_def lower_strip [symmetric])

text \<open>
  The package name used for cross-scanner matching is canonical: applying the alias
  table again changes nothing, no result is an alias that maps elsewhere, and every
  \<open>libssl\<close> variant, as well as the bare CPE product \<open>ssl\<close>, is \<open>openssl\<close>.
\<close>

lemma sca_package_canonical:
  "normalize_sca_package_for_cross_scanner (normalize_sca_package_for_cross_scanner n)
     = normalize_sca_package_for_cross_scanner n \<and>
   (py_startswith (normalize n) ''libssl'' \<or> normalize n = ''ssl'' \<longleftrightarrow>
      normalize_sca_package_for_cross_scanner n = ''openssl'' \<and> normalize n \<noteq> ''openssl'')"
proof -
  have eq: "normalize_sca_package_for_cross_scanner n =
      (if normalize n = [] then [] else
       if normalize n \<in> {''ssl'', ''openssl''} \<or> py_startswith (normalize n) ''libssl'' then ''openssl''
       else normalize n)" for n
    by (auto simp: normalize_sca_package_for_cross_scanner_def normalize_alt lower_strip Let_def
        SCA_PACKAGE_ALIASES_def py_startswith_def)
  have o: "normalize ''openssl'' = ''openssl''" by code_simp
  have d: "\<not> py_startswith ''openssl'' ''libssl''" by code_simp
  show ?thesis by (auto simp: eq o d py_startswith_def)
qed

end
