(* ===== verification/Vat_Container_Ref.thy ===== *)
theory Vat_Container_Ref
  imports Vat_Identity
begin

text \<open>
  Container references: \<open>parsers/image_digest.py\<close> and
  \<open>services/container_ref_normalization.py\<close>. The tenant policy string
  \<open>VAT_CONTAINER_ASSET_PATH_ALIASES\<close> is an argument of the definition that reads it from the
  settings.
\<close>

section \<open>image\_digest.py\<close>

definition is_hex :: "char \<Rightarrow> bool" where
  "is_hex c = (let n = (of_char c :: nat) in (48 \<le> n \<and> n \<le> 57) \<or> (97 \<le> n \<and> n \<le> 102))"

text \<open>\<open>re.sub(r"[^0-9a-f]", "", s)[:64]\<close>\<close>

definition hex_part :: "string \<Rightarrow> string" where
  "hex_part s = take 64 (filter is_hex s)"

definition normalize_image_digest :: "string option \<Rightarrow> string option" where
  "normalize_image_digest value =
     (if \<not> truthy value then None
      else let s = py_lower (py_strip (or_empty value))
           in if s = [] then None
              else let h = (if py_startswith s ''sha256:'' then hex_part (drop 7 s) else hex_part s)
                   in if length h < 12 then None else Some (''sha256:'' @ h))"

definition extract_digest_from_image_ref :: "string option \<Rightarrow> string option" where
  "extract_digest_from_image_ref img =
     (if \<not> truthy img then None
      else case split_once ''@sha256:'' (or_empty img) of
             None \<Rightarrow> None
           | Some (_, part) \<Rightarrow>
               let h = hex_part (py_lower part)
               in if length h < 12 then None else Some (''sha256:'' @ h))"

definition effective_image_digest :: "string option \<Rightarrow> string option \<Rightarrow> string option" where
  "effective_image_digest payload_digest img =
     (case normalize_image_digest payload_digest of
        Some d \<Rightarrow> Some d
      | None \<Rightarrow> extract_digest_from_image_ref img)"

section \<open>container\_ref\_normalization.py\<close>

definition parse_path_alias_segment :: "string \<Rightarrow> (string \<times> string) option" where
  "parse_path_alias_segment segment0 =
     (case split_once ''=>'' (py_strip segment0) of
        None \<Rightarrow> None
      | Some (left, right) \<Rightarrow>
          let src = py_lower (py_strip left); dst = py_lower (py_strip right)
          in if src = [] then None else Some (src, dst))"

definition parse_container_asset_path_aliases :: "string \<Rightarrow> (string \<times> string) list" where
  "parse_container_asset_path_aliases raw =
     (if py_strip raw = [] then []
      else List.map_filter parse_path_alias_segment (split_char CHR '';'' raw))"

fun apply_path_alias_pairs :: "(string \<times> string) list \<Rightarrow> string \<Rightarrow> string \<Rightarrow> string" where
  "apply_path_alias_pairs [] k canonical_key = canonical_key"
| "apply_path_alias_pairs ((src, dst) # pairs) k canonical_key =
     (if py_startswith (py_lower k) src then dst @ drop (length src) k
      else apply_path_alias_pairs pairs k canonical_key)"

definition apply_container_asset_path_aliases :: "string \<Rightarrow> string \<Rightarrow> string" where
  "apply_container_asset_path_aliases setting canonical_key =
     (if py_strip canonical_key = [] then canonical_key
      else let pairs = parse_container_asset_path_aliases setting
           in if pairs = [] then canonical_key
              else apply_path_alias_pairs pairs (py_strip canonical_key) canonical_key)"

record normalized_container_ref =
  canonical_asset_key :: string
  observed_tag :: "string option"
  observed_digest :: "string option"
  raw_ref :: string

definition split_digest :: "string \<Rightarrow> string \<times> string option" where
  "split_digest ref =
     (case split_once ''@sha256:'' ref of
        None \<Rightarrow> (ref, None)
      | Some (left, right) \<Rightarrow> (py_strip left, normalize_image_digest (Some (''sha256:'' @ right))))"

text \<open>The last colon counts as the tag separator only when no slash follows it.\<close>

definition split_tag :: "string \<Rightarrow> string \<times> string option" where
  "split_tag repo_ref =
     (case rsplit_char CHR '':'' repo_ref of
        None \<Rightarrow> (repo_ref, None)
      | Some (left, right) \<Rightarrow>
          if CHR ''/'' \<notin> set right \<and> py_strip right \<noteq> []
          then (py_strip left, Some (py_strip right)) else (repo_ref, None))"

definition split_registry_and_path :: "string \<Rightarrow> string option \<times> string" where
  "split_registry_and_path repo =
     (case split_once ''/'' repo of
        None \<Rightarrow> (None, repo)
      | Some (first, rest) \<Rightarrow>
          if CHR ''.'' \<in> set first \<or> CHR '':'' \<in> set first \<or> first = ''localhost''
          then (Some first, rest) else (None, repo))"

abbreviation strip_slashes :: "string \<Rightarrow> string" where
  "strip_slashes \<equiv> strip_by (\<lambda>c. c = CHR ''/'')"

definition docker_hub_path :: "string \<Rightarrow> string" where
  "docker_hub_path path =
     (let p = strip_slashes path
      in if p = [] then ''library/unknown'' else if CHR ''/'' \<notin> set p then ''library/'' @ p else p)"

definition normalize_container_ref :: "string option \<Rightarrow> normalized_container_ref" where
  "normalize_container_ref value =
     (let raw = py_strip (or_empty value)
      in if raw = []
         then \<lparr>canonical_asset_key = ''docker.io/library/unknown'', observed_tag = None,
               observed_digest = None, raw_ref = []\<rparr>
         else let (repo_tag_part, digest) = split_digest raw;
                  (repo_part, tag) = split_tag repo_tag_part;
                  (registry0, path0) = split_registry_and_path repo_part;
                  registry = (case registry0 of None \<Rightarrow> ''docker.io'' | Some r \<Rightarrow> r);
                  path = (case registry0 of None \<Rightarrow> docker_hub_path path0 | Some r \<Rightarrow> path0);
                  canonical0 = strip_slashes (py_lower registry @ ''/'' @ py_lower (strip_slashes path));
                  canonical = (if canonical0 = [] then ''docker.io/library/unknown'' else canonical0)
              in \<lparr>canonical_asset_key = canonical,
                  observed_tag = (case tag of None \<Rightarrow> None | Some t \<Rightarrow> nonempty t),
                  observed_digest = digest, raw_ref = raw\<rparr>)"

definition is_safe_tag_only_alias_variant :: "string option \<Rightarrow> string \<Rightarrow> bool" where
  "is_safe_tag_only_alias_variant raw_ref0 canonical_key =
     (let raw = py_strip (or_empty raw_ref0); canonical = py_lower (py_strip canonical_key)
      in if raw = [] \<or> canonical = [] then False
         else let n = normalize_container_ref (Some raw)
              in if canonical_asset_key n \<noteq> canonical then False
                 else truthy (observed_tag n) \<and> \<not> truthy (observed_digest n))"

section \<open>Digests\<close>

lemma lower_hex: "is_hex c \<Longrightarrow> lower_char c = c"
  by (auto simp: is_hex_def lower_char_def Let_def)

lemma hex_not_space: "is_hex c \<Longrightarrow> \<not> py_isspace c"
  by (auto simp: is_hex_def py_isspace_def Let_def)

lemma lower_all_hex: "\<forall>c \<in> set h. is_hex c \<Longrightarrow> py_lower h = h"
  by (induction h) (auto simp: lower_hex)

lemma set_hex_part: "c \<in> set (hex_part s) \<Longrightarrow> is_hex c"
  by (auto simp: hex_part_def dest: in_set_takeD)

lemma length_hex_part: "length (hex_part s) \<le> 64"
  by (simp add: hex_part_def)

lemma hex_part_fixed: "\<forall>c \<in> set h. is_hex c \<Longrightarrow> length h \<le> 64 \<Longrightarrow> hex_part h = h"
  by (simp add: hex_part_def filter_True)

lemma startswith_sha [simp]: "py_startswith (''sha256:'' @ h) ''sha256:''"
  by (rule startswith_append)

lemma strip_sha_hex:
  assumes "\<forall>c \<in> set h. is_hex c" and "h \<noteq> []"
  shows "py_strip (''sha256:'' @ h) = ''sha256:'' @ h"
  by (rule py_strip_fixed) (use assms hex_not_space [of "last h"] in \<open>simp add: py_isspace_def\<close>)

lemma lower_sha: "py_lower ''sha256:'' = ''sha256:''"
  by code_simp

lemma normalize_image_digest_canonical:
  assumes "\<forall>c \<in> set h. is_hex c" and "12 \<le> length h" and "length h \<le> 64"
  shows "normalize_image_digest (Some (''sha256:'' @ h)) = Some (''sha256:'' @ h)"
proof -
  have h: "h \<noteq> []" using assms(2) by auto
  have "py_lower (py_strip (''sha256:'' @ h)) = ''sha256:'' @ h"
    unfolding strip_sha_hex [OF assms(1) h] py_lower_append lower_sha lower_all_hex [OF assms(1)] ..
  then show ?thesis
    using assms by (simp add: normalize_image_digest_def Let_def hex_part_fixed py_startswith_def)
qed

text \<open>
  A manifest digest is either rejected or canonical. Whatever \<open>normalize_image_digest\<close> or
  \<open>effective_image_digest\<close> returns is \<open>sha256:\<close> followed by 12 to 64 lower-case hexadecimal
  digits, and it is a fixed point of the normalisation.
\<close>

lemma effective_image_digest_canonical:
  assumes "effective_image_digest pd img = Some d"
  shows "\<exists>h. d = ''sha256:'' @ h \<and> 12 \<le> length h \<and> length h \<le> 64 \<and> (\<forall>c \<in> set h. is_hex c) \<and>
           normalize_image_digest (Some d) = Some d \<and> effective_image_digest (Some d) img = Some d"
proof -
  have "\<exists>s. d = ''sha256:'' @ hex_part s \<and> 12 \<le> length (hex_part s)"
    using assms
    by (auto simp: effective_image_digest_def normalize_image_digest_def
        extract_digest_from_image_ref_def Let_def split: option.splits if_splits)
  then obtain s where d: "d = ''sha256:'' @ hex_part s" "12 \<le> length (hex_part s)" by blast
  have "normalize_image_digest (Some d) = Some d"
    unfolding d(1) by (rule normalize_image_digest_canonical) (auto simp: set_hex_part length_hex_part d(2))
  then show ?thesis
    using d length_hex_part set_hex_part by (intro exI [of _ "hex_part s"]) (auto simp: effective_image_digest_def)
qed

section \<open>References\<close>

lemma split_once_char: "c \<notin> set l \<Longrightarrow> split_once [c] (l @ c # r) = Some (l, r)"
  by (induction l) (auto simp: py_startswith_def)

lemma no_at_no_digest: "CHR ''@'' \<notin> set s \<Longrightarrow> split_once ''@sha256:'' s = None"
  by (subst split_once_none) (auto simp: py_in_iff)

lemma split_once_at:
  assumes "CHR ''@'' \<notin> set l"
  shows "split_once ''@sha256:'' (l @ ''@sha256:'' @ r) = Some (l, r)"
  using assms by (induction l) (auto simp: py_startswith_def)


text \<open>
  The part of a reference that names the repository, as \<open>split_registry_and_path\<close> and the
  Docker Hub rule turn it into a canonical key.
\<close>

definition repo_key :: "string \<Rightarrow> string" where
  "repo_key repo =
     (let (registry0, path0) = split_registry_and_path repo;
          registry = (case registry0 of None \<Rightarrow> ''docker.io'' | Some r \<Rightarrow> r);
          path = (case registry0 of None \<Rightarrow> docker_hub_path path0 | Some r \<Rightarrow> path0);
          canonical0 = strip_slashes (py_lower registry @ ''/'' @ py_lower (strip_slashes path))
      in if canonical0 = [] then ''docker.io/library/unknown'' else canonical0)"

lemma normalize_container_ref_parts:
  assumes "py_strip (or_empty v) = raw" and "raw \<noteq> []"
    and "split_digest raw = (rt, dg)" and "split_tag rt = (rp, tag)"
  shows "normalize_container_ref v =
     \<lparr>canonical_asset_key = repo_key rp, observed_tag = (case tag of None \<Rightarrow> None | Some t \<Rightarrow> nonempty t),
      observed_digest = dg, raw_ref = raw\<rparr>"
  using assms by (simp add: normalize_container_ref_def repo_key_def Let_def split: prod.splits)

text \<open>A clean repository name: trimmed, no digest marker, no tag of its own.\<close>

definition bare_repo :: "string \<Rightarrow> bool" where
  "bare_repo r = (r \<noteq> [] \<and> py_strip r = r \<and> CHR ''@'' \<notin> set r \<and> split_tag r = (r, None))"

definition plain_tag :: "string \<Rightarrow> bool" where
  "plain_tag t = (t \<noteq> [] \<and> (\<forall>c \<in> set t. \<not> py_isspace c \<and> c \<notin> {CHR ''@'', CHR '':'', CHR ''/''}))"

lemma strip_sandwich:
  assumes "py_strip r = r" "r \<noteq> []" "t \<noteq> []" "\<not> py_isspace (last t)"
  shows "py_strip (r @ m @ t) = r @ m @ t"
proof (rule py_strip_fixed)
  have "r = [] \<or> \<not> py_isspace (hd r) \<and> \<not> py_isspace (last r)"
    using strip_by_ends [of py_isspace r] assms(1) by (simp add: py_strip_def)
  with assms show "r @ m @ t = [] \<or> \<not> py_isspace (hd (r @ m @ t)) \<and> \<not> py_isspace (last (r @ m @ t))"
    by auto
qed

lemma normalize_bare_repo:
  assumes "bare_repo r"
  shows "normalize_container_ref (Some r) =
    \<lparr>canonical_asset_key = repo_key r, observed_tag = None, observed_digest = None, raw_ref = r\<rparr>"
  using normalize_container_ref_parts [of "Some r" r r None r None] assms
  by (simp add: bare_repo_def split_digest_def no_at_no_digest)

lemma split_tag_tagged:
  assumes "bare_repo r" and "plain_tag t"
  shows "split_tag (r @ '':'' @ t) = (r, Some t)"
proof -
  have "CHR '':'' \<notin> set t" "CHR ''/'' \<notin> set t" "py_strip t = t"
    using assms(2) by (auto simp: plain_tag_def strip_word)
  then show ?thesis
    using assms rsplit_char_last [of "CHR '':''" t r] by (simp add: split_tag_def plain_tag_def bare_repo_def)
qed

text \<open>
  Tag and digest variants of one image share one asset identity. For a clean repository
  name \<open>r\<close> (trimmed, untagged, undigested; a registry port is allowed), adding a tag, or a
  tag and a manifest digest, does not change the canonical asset key, and the tag and the
  digest are reported separately.
\<close>

lemma container_ref_variants:
  assumes "bare_repo r" and "plain_tag t" and "h \<noteq> []" and "\<not> py_isspace (last h)"
  shows "canonical_asset_key (normalize_container_ref (Some (r @ '':'' @ t)))
           = canonical_asset_key (normalize_container_ref (Some r)) \<and>
         observed_tag (normalize_container_ref (Some (r @ '':'' @ t))) = Some t \<and>
         observed_digest (normalize_container_ref (Some (r @ '':'' @ t))) = None \<and>
         canonical_asset_key (normalize_container_ref (Some (r @ '':'' @ t @ ''@sha256:'' @ h)))
           = canonical_asset_key (normalize_container_ref (Some r)) \<and>
         observed_tag (normalize_container_ref (Some (r @ '':'' @ t @ ''@sha256:'' @ h))) = Some t \<and>
         observed_digest (normalize_container_ref (Some (r @ '':'' @ t @ ''@sha256:'' @ h)))
           = normalize_image_digest (Some (''sha256:'' @ h))"
proof -
  let ?rt = "r @ '':'' @ t"
  have t: "t \<noteq> []" "\<not> py_isspace (last t)" "CHR ''@'' \<notin> set ?rt" "r \<noteq> []" "py_strip r = r"
    using assms(1,2) by (auto simp: plain_tag_def bare_repo_def)
  have s1: "py_strip ?rt = ?rt" using strip_sandwich [of r t "'':''"] t by simp
  have s2: "py_strip (?rt @ ''@sha256:'' @ h) = ?rt @ ''@sha256:'' @ h"
    using strip_sandwich [OF s1, of h "''@sha256:''"] assms(3,4) by simp
  have st: "split_tag ?rt = (r, Some t)" using assms(1,2) by (rule split_tag_tagged)
  have d1: "split_digest ?rt = (?rt, None)" by (simp only: split_digest_def no_at_no_digest [OF t(3)] option.case)
  have d2: "split_digest (?rt @ ''@sha256:'' @ h) = (?rt, normalize_image_digest (Some (''sha256:'' @ h)))"
    by (simp only: split_digest_def split_once_at [OF t(3)] option.case prod.case s1)
  have n1: "normalize_container_ref (Some ?rt) =
      \<lparr>canonical_asset_key = repo_key r, observed_tag = nonempty t, observed_digest = None, raw_ref = ?rt\<rparr>"
    using normalize_container_ref_parts [of "Some ?rt" ?rt ?rt None r "Some t"] s1 d1 st t(4) by simp
  have n2: "normalize_container_ref (Some (?rt @ ''@sha256:'' @ h)) =
      \<lparr>canonical_asset_key = repo_key r, observed_tag = nonempty t,
       observed_digest = normalize_image_digest (Some (''sha256:'' @ h)), raw_ref = ?rt @ ''@sha256:'' @ h\<rparr>"
    using normalize_container_ref_parts [of "Some (?rt @ ''@sha256:'' @ h)" _ ?rt _ r "Some t"] s2 d2 st t(4) by simp
  show ?thesis
    using n1 n2 normalize_bare_repo [OF assms(1)] t(1) by (simp add: nonempty_def)
qed

lemma lower_char_slash: "lower_char c = CHR ''/'' \<longleftrightarrow> c = CHR ''/''"
  by (rule lower_char_eq_iff_of_char) simp_all

lemma lower_char_keep:
  "lower_char (CHR ''.'') = CHR ''.''" "lower_char (CHR '':'') = CHR '':''"
  "lower_char (CHR ''/'') = CHR ''/''"
  by (simp_all add: lower_char_def Let_def)

lemma slash_in_lower [simp]: "CHR ''/'' \<in> set (py_lower s) \<longleftrightarrow> CHR ''/'' \<in> set s"
  unfolding py_lower_def set_map image_iff by (metis lower_char_slash)

lemma lower_strip_slashes: "py_lower (strip_slashes s) = strip_slashes (py_lower s)"
  by (rule lower_strip_by) (simp add: lower_char_slash)

text \<open>A registry host as \<open>split_registry_and_path\<close> recognises it.\<close>

definition registry_host :: "string \<Rightarrow> bool" where
  "registry_host a = (CHR ''/'' \<notin> set a \<and> (CHR ''.'' \<in> set a \<or> CHR '':'' \<in> set a \<or> a = ''localhost''))"

lemma registry_host_lower:
  assumes "registry_host a"
  shows "registry_host (py_lower a)"
proof -
  have l: "py_lower ''localhost'' = ''localhost''" by code_simp
  have "CHR ''.'' \<in> set (py_lower a) \<or> CHR '':'' \<in> set (py_lower a) \<or> py_lower a = ''localhost''"
    using assms lower_char_keep(1,2) l unfolding registry_host_def py_lower_def set_map image_iff by metis
  then show ?thesis using assms by (simp add: registry_host_def)
qed

lemma registry_host_docker: "registry_host ''docker.io''"
  by code_simp

lemma split_registry_cases:
  assumes "split_registry_and_path repo = (reg, path)"
  shows "case reg of None \<Rightarrow> path = repo | Some a \<Rightarrow> registry_host a \<and> repo = a @ ''/'' @ path"
proof -
  have no: "CHR ''/'' \<notin> set l" if "split_once ''/'' s = Some (l, r)" for l r s
    using that by (induction s arbitrary: l) (auto simp: py_startswith_def split: if_splits)
  show ?thesis
    using assms no split_once_some [of "''/''" repo]
    by (auto simp: split_registry_and_path_def registry_host_def split: option.splits prod.splits if_splits)
qed

lemma split_registry_host:
  "registry_host a \<Longrightarrow> split_registry_and_path (a @ CHR ''/'' # b) = (Some a, b)"
  by (simp add: split_registry_and_path_def split_once_char registry_host_def)

lemma repo_key_shape:
  "\<exists>a p. registry_host a \<and> py_lower a = a \<and> repo_key repo = strip_slashes (a @ ''/'' @ strip_slashes (py_lower p))"
proof -
  obtain reg path where sp: "split_registry_and_path repo = (reg, path)" by fastforce
  let ?a = "case reg of None \<Rightarrow> ''docker.io'' | Some r \<Rightarrow> r"
  let ?p = "case reg of None \<Rightarrow> docker_hub_path path | Some r \<Rightarrow> path"
  have a: "registry_host ?a"
    using split_registry_cases [OF sp] registry_host_docker by (auto split: option.splits)
  then have ne: "?a \<noteq> []" "CHR ''/'' \<notin> set ?a" by (auto simp: registry_host_def)
  let ?k = "strip_slashes (py_lower ?a @ ''/'' @ py_lower (strip_slashes ?p))"
  have "?k \<noteq> []"
  proof
    assume "?k = []"
    then have "\<forall>c \<in> set (py_lower ?a). c = CHR ''/''" by (simp add: strip_by_Nil)
    moreover have "CHR ''/'' \<notin> set (py_lower ?a)" "py_lower ?a \<noteq> []" using ne by simp_all
    ultimately show False by (metis last_in_set)
  qed
  then have "repo_key repo = ?k" by (simp add: repo_key_def sp Let_def)
  then show ?thesis using registry_host_lower [OF a]
    by (intro exI [of _ "py_lower ?a"] exI [of _ ?p]) (simp add: lower_strip_slashes)
qed

lemma strip_slashes_host:
  assumes "CHR ''/'' \<notin> set a" "a \<noteq> []" "q = [] \<or> (hd q \<noteq> CHR ''/'' \<and> last q \<noteq> CHR ''/'')"
  shows "strip_slashes (a @ ''/'' @ q) = (if q = [] then a else a @ ''/'' @ q)"
proof (cases "q = []")
  case True
  obtain c a' where a: "a = c # a'" "c \<noteq> CHR ''/''" using assms by (cases a) auto
  have "last a \<noteq> CHR ''/''" using assms(1,2) by (metis last_in_set)
  then have "dropWhile (\<lambda>c. c = CHR ''/'') (rev a) = rev a" using assms(2)
    by (cases a rule: rev_cases) auto
  with a True show ?thesis by (simp add: strip_by_def lstrip_by_def rstrip_by_def)
next
  case False
  have "hd a \<noteq> CHR ''/''" using assms(1,2) by (cases a) auto
  then show ?thesis using False assms by (simp add: strip_by_fixed)
qed

text \<open>
  Canonicalisation of container references is stable. A canonical key of the form
  host/path whose path carries no colon is a fixed point: normalising the stored asset key
  again (as correlation, decision keys and the stub asset code all do) yields the same key
  and invents neither a tag nor a digest.
\<close>

lemma container_key_fixed_point:
  assumes "canonical_asset_key (normalize_container_ref v) = a @ ''/'' @ b"
    and "CHR ''/'' \<notin> set a" and "CHR '':'' \<notin> set b" and "b \<noteq> []"
    and "CHR ''@'' \<notin> set (a @ b)" and "py_strip (a @ ''/'' @ b) = a @ ''/'' @ b"
    and "py_strip (or_empty v) \<noteq> []"
  shows "normalize_container_ref (Some (a @ ''/'' @ b)) =
     \<lparr>canonical_asset_key = a @ ''/'' @ b, observed_tag = None, observed_digest = None,
      raw_ref = a @ ''/'' @ b\<rparr>"
proof -
  let ?k = "a @ ''/'' @ b"
  obtain rp where "canonical_asset_key (normalize_container_ref v) = repo_key rp"
    using normalize_container_ref_parts [OF refl assms(7)]
    by (metis normalized_container_ref.select_convs(1) prod.exhaust)
  then obtain a' p where a': "registry_host a'" "py_lower a' = a'"
      and k: "?k = strip_slashes (a' @ ''/'' @ strip_slashes (py_lower p))"
    using repo_key_shape [of rp] assms(1) by auto
  let ?q = "strip_slashes (py_lower p)"
  have q: "?q = [] \<or> (hd ?q \<noteq> CHR ''/'' \<and> last ?q \<noteq> CHR ''/'')" using strip_by_ends by blast
  have ha: "CHR ''/'' \<notin> set a'" "a' \<noteq> []" using a'(1) by (auto simp: registry_host_def)
  have k2: "?k = (if ?q = [] then a' else a' @ ''/'' @ ?q)"
    using k strip_slashes_host [OF ha q] by simp
  with ha have "?q \<noteq> []" by (auto simp: split: if_splits)
  with k2 have eq: "a @ CHR ''/'' # b = a' @ CHR ''/'' # ?q" by simp
  have "Some (a, b) = split_once ''/'' (a @ CHR ''/'' # b)" by (simp only: split_once_char [OF assms(2)])
  also have "\<dots> = Some (a', ?q)" by (simp only: eq split_once_char [OF ha(1)])
  finally have ab: "a = a'" "b = ?q" by simp_all
  have lb: "py_lower b = b" by (simp add: ab(2) lower_strip_slashes [symmetric])
  have sb: "strip_slashes b = b" by (simp add: ab(2))
  have tag: "split_tag ?k = (?k, None)"
  proof (cases "rsplit_char CHR '':'' ?k")
    case (Some lr)
    obtain l r where lr: "rsplit_char CHR '':'' ?k = Some (l, r)" using Some by (cases lr) auto
    have "\<exists>x. r = x @ ''/'' @ b" using lr assms(3)
      by (induction a arbitrary: l) (auto simp: rsplit_char_none [THEN iffD2] split: option.splits if_splits)
    then show ?thesis using lr by (auto simp: split_tag_def)
  qed (simp add: split_tag_def)
  have dg: "split_digest ?k = (?k, None)"
    using assms(5) by (simp add: split_digest_def no_at_no_digest)
  have "repo_key ?k = ?k"
    using a' lb sb \<open>?q \<noteq> []\<close> strip_slashes_host [OF ha q] split_registry_host [OF a'(1), of b]
    by (simp add: repo_key_def ab(1) ab(2) [symmetric])
  with normalize_container_ref_parts [of "Some ?k" ?k ?k None ?k None] assms(6) dg tag
  show ?thesis by simp
qed

end
