(* ===== verification/Vat_Keys.thy ===== *)
theory Vat_Keys
  imports Vat_Container_Ref
begin

text \<open>
  The two typed identity keys: the cross-source correlation key of \<open>services/correlation.py\<close>
  and the durable decision subject key of \<open>services/decision_subject_key.py\<close>. Keyword
  arguments are records; keys and confidences are the strings that the code builds.
\<close>

section \<open>correlation.py\<close>

record correlation_args =
  ck_finding_type :: string
  ck_image :: string
  ck_branch :: string
  ck_tag :: string
  ck_cve_id :: string
  ck_component :: string
  ck_ecosystem :: "string option"
  ck_rule_id :: "string option"
  ck_file_path :: "string option"
  ck_sast_partial_fingerprint_hash :: "string option"
  ck_image_digest :: "string option"
  ck_include_digest :: bool
  ck_benchmark_family :: "string option"
  ck_license_expression :: "string option"

definition CORRELATION_KEY_VERSION :: string where
  "CORRELATION_KEY_VERSION = ''v1''"

definition colon :: "string list \<Rightarrow> string" where
  "colon ws = py_join '':'' ws"

definition with_digest :: "correlation_args \<Rightarrow> string \<Rightarrow> string" where
  "with_digest a inner =
     (let dig = normalize (or_empty (ck_image_digest a))
      in if ck_include_digest a \<and> dig \<noteq> [] then colon [inner, ''digest'', dig] else inner)"

definition ck_asset :: "correlation_args \<Rightarrow> string" where
  "ck_asset a = py_join ''|'' [normalize (ck_image a), normalize (ck_branch a), normalize (ck_tag a)]"

definition ck_eco :: "correlation_args \<Rightarrow> string" where
  "ck_eco a =
     (if normalize (ck_finding_type a) \<in> set [''sca'', ''license'']
      then effective_sca_ecosystem (ck_ecosystem a) (ck_benchmark_family a) (Some (ck_image a)) (Some (ck_tag a))
      else normalize (or_empty (ck_ecosystem a)))"

definition ck_comp :: "correlation_args \<Rightarrow> string" where
  "ck_comp a =
     (let comp_raw = component_base (ck_component a)
      in if normalize (ck_finding_type a) \<in> set [''sca'', ''license'']
         then (if comp_raw \<noteq> [] then normalize_sca_package_for_cross_scanner comp_raw else [])
         else comp_raw)"

definition license_inner :: "correlation_args \<Rightarrow> string \<times> string" where
  "license_inner a =
     (let license_asset = py_join ''|'' [normalize (ck_image a), normalize (ck_branch a)];
          spdx = normalize (or_empty (ck_license_expression a)); comp = ck_comp a
      in if spdx \<noteq> [] \<and> comp \<noteq> [] then (colon [''license'', license_asset, spdx, comp], ''high'')
         else if spdx \<noteq> [] then (colon [''license'', license_asset, spdx], ''medium'')
         else if comp \<noteq> [] then (colon [''license'', license_asset, [], comp], ''medium'')
         else (colon [''license'', license_asset, normalize_cve_id (Some (ck_cve_id a))], ''low''))"

definition static_inner :: "correlation_args \<Rightarrow> string \<times> string" where
  "static_inner a =
     (let ft = normalize (ck_finding_type a); asset = ck_asset a;
          rid = normalize (or_empty (ck_rule_id a)); fpath = normalize (or_empty (ck_file_path a));
          pfp = py_strip (or_empty (ck_sast_partial_fingerprint_hash a))
      in if rid \<noteq> [] \<and> fpath \<noteq> []
         then (if pfp \<noteq> [] then colon [ft, asset, rid, fpath, ''fp'', normalize pfp]
               else colon [ft, asset, rid, fpath], ''medium'')
         else if rid \<noteq> [] then (colon [ft, asset, rid], ''low'')
         else (colon [ft, asset, normalize_cve_id (Some (ck_cve_id a))], ''low''))"

definition correlation_inner :: "correlation_args \<Rightarrow> string \<times> string" where
  "correlation_inner a =
     (let ft = normalize (ck_finding_type a); asset = ck_asset a; comp = ck_comp a;
          cve = normalize_cve_id (Some (ck_cve_id a))
      in if ft = ''license'' then (case license_inner a of (inner, conf) \<Rightarrow> (with_digest a inner, conf))
         else if ft = ''sca'' then
           (if comp \<noteq> [] then (with_digest a (colon [ft, asset, ck_eco a, comp, cve]), ''high'')
            else (with_digest a (colon [ft, asset, cve]), ''medium''))
         else if ft \<in> set [''sast'', ''iac'', ''secret''] then static_inner a
         else (colon [''other'', asset, cve, comp], ''low''))"

definition correlation_key_for_payload :: "correlation_args \<Rightarrow> string \<times> string" where
  "correlation_key_for_payload a =
     (case correlation_inner a of (inner, conf) \<Rightarrow> (colon [CORRELATION_KEY_VERSION, inner], conf))"

section \<open>decision\_subject\_key.py\<close>

definition DECISION_KEY_VERSION :: string where
  "DECISION_KEY_VERSION = ''decision:v1''"

record decision_subject_candidate =
  dsc_subject_key :: string
  dsc_confidence :: string
  dsc_kind :: string

record subject_args =
  dk_tenant_id :: "string option"
  dk_finding_type :: string
  dk_canonical_asset :: string
  dk_branch :: string
  dk_tag :: string
  dk_cve_id :: string
  dk_component :: string
  dk_ecosystem :: "string option"
  dk_rule_id :: "string option"
  dk_file_path :: "string option"
  dk_sast_partial_fingerprint_hash :: "string option"
  dk_benchmark_family :: "string option"
  dk_license_expression :: "string option"
  dk_stable_rule_key :: "string option"
  dk_profile_scope :: "string option"
  dk_source_name :: "string option"
  dk_source_issue_id :: "string option"

text \<open>\<open>openscap_identity.normalize_profile_scope\<close>\<close>

definition normalize_profile_scope :: "string option \<Rightarrow> string" where
  "normalize_profile_scope profile_scope = normalize (or_empty profile_scope)"

definition asset_segment :: "string \<Rightarrow> string \<Rightarrow> string \<Rightarrow> bool \<Rightarrow> string" where
  "asset_segment img branch tag drop_tag =
     (if drop_tag then py_join ''|'' [normalize img, normalize branch]
      else py_join ''|'' [normalize img, normalize branch, normalize tag])"

definition wrap_key :: "string option \<Rightarrow> string \<Rightarrow> string" where
  "wrap_key tenant_id inner = colon [DECISION_KEY_VERSION, normalize_tenant_id tenant_id, inner]"

definition dk_comp :: "subject_args \<Rightarrow> string" where
  "dk_comp a =
     (let comp_raw = component_base (dk_component a)
      in if normalize (dk_finding_type a) \<in> set [''sca'', ''license'']
         then (if comp_raw \<noteq> [] then normalize_sca_package_for_cross_scanner comp_raw else [])
         else comp_raw)"

definition dk_eco :: "subject_args \<Rightarrow> string" where
  "dk_eco a =
     (if normalize (dk_finding_type a) \<in> set [''sca'', ''license'']
      then effective_sca_ecosystem (dk_ecosystem a) (dk_benchmark_family a)
             (Some (dk_canonical_asset a)) (Some (dk_tag a))
      else normalize (or_empty (dk_ecosystem a)))"

definition openscap_inner :: "subject_args \<Rightarrow> string" where
  "openscap_inner a =
     colon [''openscap'', asset_segment (dk_canonical_asset a) (dk_branch a) (dk_tag a) False,
            normalize (or_empty (dk_stable_rule_key a)),
            normalize (or_empty (py_or (dk_benchmark_family a) (Some ''unknown_benchmark''))),
            normalize_profile_scope (dk_profile_scope a)]"

definition dk_license_inner :: "subject_args \<Rightarrow> string \<times> string" where
  "dk_license_inner a =
     (let license_asset = asset_segment (dk_canonical_asset a) (dk_branch a) (dk_tag a) True;
          spdx = normalize (or_empty (dk_license_expression a)); comp = dk_comp a
      in if spdx \<noteq> [] \<and> comp \<noteq> [] then (colon [''license'', license_asset, spdx, comp], ''high'')
         else if spdx \<noteq> [] then (colon [''license'', license_asset, spdx], ''medium'')
         else if comp \<noteq> [] then (colon [''license'', license_asset, [], comp], ''medium'')
         else (colon [''license'', license_asset, normalize_cve_id (Some (dk_cve_id a))], ''low''))"

definition dk_static_inner :: "subject_args \<Rightarrow> string \<times> string" where
  "dk_static_inner a =
     (let ft = normalize (dk_finding_type a);
          asset = asset_segment (dk_canonical_asset a) (dk_branch a) (dk_tag a) False;
          rid = normalize (or_empty (dk_rule_id a)); fpath = normalize (or_empty (dk_file_path a));
          pfp = py_strip (or_empty (dk_sast_partial_fingerprint_hash a))
      in if rid \<noteq> [] \<and> fpath \<noteq> []
         then (if pfp \<noteq> [] then (colon [ft, asset, rid, fpath, ''fp'', normalize pfp], ''high'')
               else (colon [ft, asset, rid, fpath], ''medium''))
         else if rid \<noteq> [] then (colon [ft, asset, rid], ''low'')
         else (colon [ft, asset, normalize_cve_id (Some (dk_cve_id a))], ''low''))"

definition primary_inner_key :: "subject_args \<Rightarrow> string \<times> string" where
  "primary_inner_key a =
     (let ft = normalize (dk_finding_type a);
          asset = asset_segment (dk_canonical_asset a) (dk_branch a) (dk_tag a) False;
          cve = normalize_cve_id (Some (dk_cve_id a)); comp = dk_comp a
      in if normalize (or_empty (dk_stable_rule_key a)) \<noteq> [] then (openscap_inner a, ''high'')
         else if ft = ''license'' then dk_license_inner a
         else if ft = ''sca'' then
           (if comp \<noteq> [] then (colon [''sca'', asset, dk_eco a, comp, cve], ''high'')
            else (colon [''sca'', asset, cve], ''medium''))
         else if ft \<in> set [''sast'', ''iac'', ''secret''] then dk_static_inner a
         else (colon [''other'', asset, cve, comp], ''low''))"

definition primary_candidate :: "subject_args \<Rightarrow> decision_subject_candidate" where
  "primary_candidate a =
     (case primary_inner_key a of (inner, conf) \<Rightarrow>
        \<lparr>dsc_subject_key = wrap_key (dk_tenant_id a) inner, dsc_confidence = conf, dsc_kind = ''primary''\<rparr>)"

definition openscap_candidates :: "subject_args \<Rightarrow> decision_subject_candidate list" where
  "openscap_candidates a =
     (if normalize (or_empty (dk_stable_rule_key a)) \<noteq> [] \<and>
         \<not> py_startswith (fst (primary_inner_key a)) ''openscap:''
      then [\<lparr>dsc_subject_key = wrap_key (dk_tenant_id a) (openscap_inner a), dsc_confidence = ''high'',
             dsc_kind = ''openscap''\<rparr>]
      else [])"

definition source_issue_candidates :: "subject_args \<Rightarrow> decision_subject_candidate list" where
  "source_issue_candidates a =
     (let sid = py_strip (or_empty (dk_source_issue_id a)); src = normalize (or_empty (dk_source_name a))
      in if sid \<noteq> [] \<and> src \<noteq> []
         then [\<lparr>dsc_subject_key = wrap_key (dk_tenant_id a)
                   (colon [''source'', src, sid,
                           asset_segment (dk_canonical_asset a) (dk_branch a) (dk_tag a) False]),
                dsc_confidence = ''high'', dsc_kind = ''source_issue''\<rparr>]
         else [])"

definition decision_subject_keys_for_payload :: "subject_args \<Rightarrow> decision_subject_candidate list" where
  "decision_subject_keys_for_payload a =
     [primary_candidate a] @ openscap_candidates a @ source_issue_candidates a"

section \<open>Separators\<close>

definition clean :: "string \<Rightarrow> bool" where
  "clean s = (CHR '':'' \<notin> set s \<and> CHR ''|'' \<notin> set s)"

lemma lower_char_colon: "lower_char c = CHR '':'' \<Longrightarrow> c = CHR '':''"
  using lower_char_eq_iff_of_char [of "CHR '':''" c] by simp

lemma clean_normalize [simp]: "clean s \<Longrightarrow> clean (normalize s)"
  using notin_normalize [OF _ lower_char_colon, of s] by (simp add: clean_def)

lemma clean_component_base [simp]: "clean s \<Longrightarrow> clean (component_base s)"
  using notin_component_base [OF _ lower_char_colon, of s] by (simp add: clean_def)

lemma clean_Nil [simp]: "clean []"
  by (simp add: clean_def)

lemma clean_ecosystem [simp]: "clean (or_empty e) \<Longrightarrow> clean (effective_sca_ecosystem e bf i t)"
proof -
  assume e: "clean (or_empty e)"
  have "clean (normalize_ecosystem_token e)"
    using clean_normalize [OF e]
    by (simp add: normalize_ecosystem_token_def normalize_alt Let_def) (simp add: clean_def)
  moreover have "clean ''debian''" "clean ''rpm''" by code_simp+
  ultimately show ?thesis
    by (simp add: effective_sca_ecosystem_def infer_sca_ecosystem_from_benchmark_family_def
        infer_sca_ecosystem_from_container_ref_def Let_def)
qed

lemma clean_package [simp]: "clean n \<Longrightarrow> clean (normalize_sca_package_for_cross_scanner n)"
proof -
  assume n: "clean n"
  have "clean ''openssl''" by code_simp
  moreover have "a = ''openssl''" if "map_of SCA_PACKAGE_ALIASES m = Some a" for m a
    using that by (auto simp: SCA_PACKAGE_ALIASES_def split: if_splits)
  ultimately show ?thesis
    using clean_normalize [OF n]
    by (auto simp: normalize_sca_package_for_cross_scanner_def normalize_alt lower_strip Let_def split: option.splits)
qed

lemma bar_join3_inject:
  assumes "clean a" "clean b" "clean c" "clean a'" "clean b'" "clean c'"
  shows "py_join ''|'' [a, b, c] = py_join ''|'' [a', b', c'] \<longleftrightarrow> a = a' \<and> b = b' \<and> c = c'"
  using join_char_inject [of "[a, b, c]" "[a', b', c']" "CHR ''|''"] assms by (auto simp: clean_def)

lemma colon_notin_bar3:
  "clean a \<Longrightarrow> clean b \<Longrightarrow> clean c \<Longrightarrow> CHR '':'' \<notin> set (py_join ''|'' [a, b, c])"
  by (simp add: clean_def)

lemma colon_inject:
  assumes "length us = length ws" "us \<noteq> []" "\<forall>w \<in> set (us @ ws). CHR '':'' \<notin> set w"
  shows "colon us = colon ws \<longleftrightarrow> us = ws"
  unfolding colon_def by (rule join_char_inject) (use assms in auto)

lemma colon_Cons: "ws \<noteq> [] \<Longrightarrow> colon (w # ws) = w @ '':'' @ colon ws"
  by (simp add: colon_def py_join_Cons)

section \<open>Correlation keys\<close>

lemma sca_key_eq:
  assumes "normalize (ck_finding_type a) = ''sca''" "ck_comp a \<noteq> []" "\<not> ck_include_digest a"
  shows "fst (correlation_key_for_payload a) =
     colon [''v1'', ''sca'', ck_asset a, ck_eco a, ck_comp a, normalize (ck_cve_id a)]"
  using assms
  by (simp add: correlation_key_for_payload_def correlation_inner_def with_digest_def Let_def
      CORRELATION_KEY_VERSION_def normalize_cve_id_def colon_def)

definition clean_args :: "correlation_args \<Rightarrow> bool" where
  "clean_args a = (\<forall>w \<in> set [ck_image a, ck_branch a, ck_tag a, ck_cve_id a, ck_component a,
      or_empty (ck_ecosystem a)]. clean w)"

lemma clean_sca_parts:
  assumes "clean_args a" "normalize (ck_finding_type a) = ''sca''"
  shows "\<forall>w \<in> set [''v1'', ''sca'', ck_asset a, ck_eco a, ck_comp a, normalize (ck_cve_id a)]. CHR '':'' \<notin> set w"
proof -
  have "clean (ck_eco a)" "clean (ck_comp a)" "clean (normalize (ck_cve_id a))"
    using assms by (auto simp: clean_args_def ck_eco_def ck_comp_def Let_def)
  moreover have "CHR '':'' \<notin> set (ck_asset a)"
    unfolding ck_asset_def using assms by (intro colon_notin_bar3) (auto simp: clean_args_def)
  ultimately show ?thesis by (auto simp: clean_def)
qed


abbreviation scap_args :: correlation_args where
  "scap_args \<equiv> \<lparr>ck_finding_type = ''SCA'', ck_image = ''kafka'', ck_branch = [], ck_tag = ''3.6.1-debian-12'',
     ck_cve_id = ''CVE-2023-1'', ck_component = ''ssl'', ck_ecosystem = None, ck_rule_id = None,
     ck_file_path = None, ck_sast_partial_fingerprint_hash = None, ck_image_digest = None,
     ck_include_digest = False, ck_benchmark_family = None, ck_license_expression = None\<rparr>"

abbreviation trivy_args :: correlation_args where
  "trivy_args \<equiv> scap_args\<lparr>ck_component := ''libssl3@3.0.2'', ck_ecosystem := Some ''Debian'',
     ck_cve_id := ''cve-2023-1''\<rparr>"


text \<open>
  Licence findings correlate by SPDX expression and package only: once either is known,
  neither the source's own identifier (the CVE field) nor the image tag influences the
  correlation key or its confidence.
\<close>

lemma license_key_ignores_cve_and_tag:
  assumes "normalize (ck_finding_type a) = ''license''"
    and "normalize (or_empty (ck_license_expression a)) \<noteq> [] \<or> ck_comp a \<noteq> []"
  shows "correlation_key_for_payload (a\<lparr>ck_cve_id := c, ck_tag := t\<rparr>) = correlation_key_for_payload a"
proof -
  have "ck_comp (a\<lparr>ck_cve_id := c, ck_tag := t\<rparr>) = ck_comp a" by (simp add: ck_comp_def)
  with assms show ?thesis
    by (auto simp: correlation_key_for_payload_def correlation_inner_def license_inner_def with_digest_def Let_def)
qed

section \<open>Decision subject keys\<close>

lemma wrap_key_split:
  assumes "CHR '':'' \<notin> set (normalize_tenant_id t)"
  shows "split_char CHR '':'' (wrap_key t inner) =
     ''decision'' # ''v1'' # normalize_tenant_id t # split_char CHR '':'' inner"
proof -
  have "wrap_key t inner = ''decision'' @ CHR '':'' # ''v1'' @ CHR '':'' # normalize_tenant_id t @ CHR '':'' # inner"
    by (simp add: wrap_key_def colon_def DECISION_KEY_VERSION_def)
  moreover have "split_char CHR '':'' (''decision'' @ CHR '':'' # r) = ''decision'' # split_char CHR '':'' r" for r
    by (rule split_char_sep) simp
  moreover have "split_char CHR '':'' (''v1'' @ CHR '':'' # r) = ''v1'' # split_char CHR '':'' r" for r
    by (rule split_char_sep) simp
  ultimately show ?thesis by (simp only: split_char_sep [OF assms])
qed

lemma wrap_key_tenant:
  assumes "CHR '':'' \<notin> set (normalize_tenant_id t1)" "CHR '':'' \<notin> set (normalize_tenant_id t2)"
    and "wrap_key t1 i1 = wrap_key t2 i2"
  shows "normalize_tenant_id t1 = normalize_tenant_id t2"
  using wrap_key_split [OF assms(1), of i1] wrap_key_split [OF assms(2), of i2] assms(3) by simp

lemma candidate_key_wrapped:
  assumes "c \<in> set (decision_subject_keys_for_payload a)"
  shows "\<exists>inner. dsc_subject_key c = wrap_key (dk_tenant_id a) inner"
  using assms
  by (auto simp: decision_subject_keys_for_payload_def primary_candidate_def openscap_candidates_def
      source_issue_candidates_def Let_def split: prod.splits if_splits)

text \<open>
  C29. Triage decisions are isolated by tenant: no candidate key of a finding of one tenant is a
  candidate key of any finding of another tenant (tenant ids without a colon), so a decision
  recorded in one organisation can never be looked up from another through its key.
\<close>

theorem subject_keys_tenant_isolated:
  assumes "CHR '':'' \<notin> set (normalize_tenant_id (dk_tenant_id a))"
    and "CHR '':'' \<notin> set (normalize_tenant_id (dk_tenant_id b))"
    and "\<not> tenants_compatible (dk_tenant_id a) (dk_tenant_id b)"
  shows "dsc_subject_key ` set (decision_subject_keys_for_payload a) \<inter>
         dsc_subject_key ` set (decision_subject_keys_for_payload b) = {}"
proof -
  have "dsc_subject_key c \<noteq> dsc_subject_key d"
    if cd: "c \<in> set (decision_subject_keys_for_payload a)" "d \<in> set (decision_subject_keys_for_payload b)" for c d
  proof -
    obtain i j where "dsc_subject_key c = wrap_key (dk_tenant_id a) i"
        "dsc_subject_key d = wrap_key (dk_tenant_id b) j"
      using candidate_key_wrapped [OF cd(1)] candidate_key_wrapped [OF cd(2)] by blast
    then show ?thesis
      using wrap_key_tenant [OF assms(1,2), of i j] assms(3) by (auto simp: tenants_compatible_def)
  qed
  then show ?thesis by blast
qed

abbreviation acme_args :: subject_args where
  "acme_args \<equiv> \<lparr>dk_tenant_id = Some ''acme'', dk_finding_type = ''SCA'', dk_canonical_asset = ''docker.io/a/b'',
     dk_branch = [], dk_tag = ''v1'', dk_cve_id = ''CVE-1'', dk_component = ''lodash@4'',
     dk_ecosystem = Some ''npm'', dk_rule_id = None, dk_file_path = None,
     dk_sast_partial_fingerprint_hash = None, dk_benchmark_family = None, dk_license_expression = None,
     dk_stable_rule_key = None, dk_profile_scope = None, dk_source_name = Some ''Aikido'',
     dk_source_issue_id = Some ''77''\<rparr>"

theorem subject_keys_tenant_isolated_witness:
  "dsc_subject_key ` set (decision_subject_keys_for_payload acme_args) \<inter>
   dsc_subject_key ` set (decision_subject_keys_for_payload (acme_args\<lparr>dk_tenant_id := None\<rparr>)) = {}"
  by (rule subject_keys_tenant_isolated) code_simp+

text \<open>
  The shape of the candidate list of an ingest-time lookup: the primary key always comes
  first; the only further candidate is the source-issue alias, present exactly when the source
  name and issue id are non-blank. The separate \<open>openscap\<close> candidate is never produced,
  because a stable rule key already makes the primary key the OpenSCAP key.
\<close>

lemma subject_candidates_shape:
  "decision_subject_keys_for_payload a = primary_candidate a # source_issue_candidates a \<and>
   dsc_kind (primary_candidate a) = ''primary'' \<and>
   (source_issue_candidates a \<noteq> [] \<longleftrightarrow>
      py_strip (or_empty (dk_source_issue_id a)) \<noteq> [] \<and> py_strip (or_empty (dk_source_name a)) \<noteq> []) \<and>
   map dsc_kind (source_issue_candidates a) \<in> {[], [''source_issue'']}"
proof -
  have "py_startswith (openscap_inner a) ''openscap:''"
    by (simp add: openscap_inner_def colon_def py_startswith_def)
  then have "openscap_candidates a = []"
    by (simp add: openscap_candidates_def primary_inner_key_def Let_def)
  moreover have "dsc_kind (primary_candidate a) = ''primary''"
    by (simp add: primary_candidate_def split: prod.splits)
  ultimately show ?thesis
    by (auto simp: decision_subject_keys_for_payload_def source_issue_candidates_def Let_def normalize_eq_Nil)
qed

end
