(* ===== verification/Vat_Values.thy ===== *)
theory Vat_Values
  imports Vat_Tables
begin

text \<open>
  Python values that the stored rows carry: JSON documents (the JSONB columns and the
  entries of \<open>finding.audit\<close>), naive UTC \<open>datetime\<close> values with \<open>isoformat\<close> and
  \<open>fromisoformat\<close>, decimal rendering of integers and \<open>str()\<close> of a JSON value.
  \<open>fromisoformat\<close> accepts the extended naive formats (date; date and time down to hours,
  minutes, seconds, or fractional seconds with three or six digits), which are the ones
  that the writers of this repository produce; time-zone suffixes and the basic formats are
  outside the model and read as \<open>ValueError\<close>.
\<close>

section \<open>Errors raised by the code\<close>

datatype py_error = ValueError string | TypeError string | KeyError string | NameError string | IntegrityError string | DataError string
  | OverflowError string | AttributeError string | MultipleResultsFound
  | HTTPException nat string

section \<open>Decimal digits\<close>

definition digit_char :: "nat \<Rightarrow> char" where
  "digit_char n = char_of (48 + n)"

definition digit_val :: "char \<Rightarrow> nat option" where
  "digit_val c = (let n = of_char c in if 48 \<le> n \<and> n \<le> 57 then Some (n - 48) else None)"

text \<open>\<open>pad k n\<close> is \<open>f"{n:0kd}"\<close> for \<open>n < 10 ^ k\<close>: exactly \<open>k\<close> digits.\<close>

fun pad :: "nat \<Rightarrow> nat \<Rightarrow> string" where
  "pad 0 n = []"
| "pad (Suc k) n = pad k (n div 10) @ [digit_char (n mod 10)]"

fun nat_str :: "nat \<Rightarrow> string" where
  "nat_str n = (if n < 10 then [digit_char n] else nat_str (n div 10) @ [digit_char (n mod 10)])"

declare nat_str.simps [simp del]

definition int_str :: "int \<Rightarrow> string" where
  "int_str i = (if i < 0 then CHR ''-'' # nat_str (nat (- i)) else nat_str (nat i))"

text \<open>\<open>read_digits k acc s\<close> reads exactly \<open>k\<close> digits.\<close>

fun read_digits :: "nat \<Rightarrow> nat \<Rightarrow> string \<Rightarrow> (nat \<times> string) option" where
  "read_digits 0 acc s = Some (acc, s)"
| "read_digits (Suc k) acc [] = None"
| "read_digits (Suc k) acc (c # s) =
     (case digit_val c of None \<Rightarrow> None | Some d \<Rightarrow> read_digits k (10 * acc + d) s)"

lemma digit_val_char [simp]: "n < 10 \<Longrightarrow> digit_val (digit_char n) = Some n"
  by (simp add: digit_val_def digit_char_def Let_def)

lemma read_digits_add:
  "read_digits (k + l) acc s =
     (case read_digits k acc s of None \<Rightarrow> None | Some (a, r) \<Rightarrow> read_digits l a r)"
  by (induction k acc s rule: read_digits.induct) (auto split: option.splits)

lemma read_pad:
  "n < 10 ^ k \<Longrightarrow> read_digits k acc (pad k n @ r) = Some (acc * 10 ^ k + n, r)"
proof (induction k arbitrary: n acc r)
  case (Suc k)
  have "n div 10 < 10 ^ k" using Suc.prems by (simp add: less_mult_imp_div_less mult.commute)
  then have "read_digits k acc (pad k (n div 10) @ digit_char (n mod 10) # r) =
      Some (acc * 10 ^ k + n div 10, digit_char (n mod 10) # r)"
    using Suc.IH by simp
  moreover have "read_digits (Suc 0) a (digit_char (n mod 10) # r) = Some (10 * a + n mod 10, r)" for a
    by simp
  ultimately have "read_digits (k + Suc 0) acc (pad (Suc k) n @ r) =
      Some (10 * (acc * 10 ^ k + n div 10) + n mod 10, r)"
    unfolding read_digits_add by (simp del: read_digits.simps)
  moreover have "10 * (acc * 10 ^ k + n div 10) + n mod 10 = acc * 10 ^ Suc k + n"
    by (simp add: algebra_simps)
  ultimately show ?case by simp
qed simp

section \<open>Naive UTC datetimes\<close>

datatype datetime = DateTime (dt_year: nat) (dt_month: nat) (dt_day: nat)
  (dt_hour: nat) (dt_minute: nat) (dt_second: nat) (dt_micro: nat)

definition dt_key :: "datetime \<Rightarrow> nat list" where
  "dt_key t = [dt_year t, dt_month t, dt_day t, dt_hour t, dt_minute t, dt_second t, dt_micro t]"

lemma dt_key_inject [simp]: "dt_key s = dt_key t \<longleftrightarrow> s = t"
  by (cases s; cases t) (simp add: dt_key_def)

text \<open>Comparison of naive datetimes is the lexicographic order of their fields.\<close>

instantiation datetime :: linorder
begin

definition less_eq_datetime :: "datetime \<Rightarrow> datetime \<Rightarrow> bool" where
  "less_eq_datetime s t = (dt_key s \<le> dt_key t)"

definition less_datetime :: "datetime \<Rightarrow> datetime \<Rightarrow> bool" where
  "less_datetime s t = (dt_key s < dt_key t)"

instance
proof
  fix x y z :: datetime
  show "x < y \<longleftrightarrow> x \<le> y \<and> \<not> y \<le> x" by (simp add: less_eq_datetime_def less_datetime_def less_le_not_le)
  show "x \<le> x" by (simp add: less_eq_datetime_def)
  show "x \<le> y \<Longrightarrow> y \<le> z \<Longrightarrow> x \<le> z" by (simp add: less_eq_datetime_def)
  show "x \<le> y \<Longrightarrow> y \<le> x \<Longrightarrow> x = y"
    by (simp add: less_eq_datetime_def)
  show "x \<le> y \<or> y \<le> x" by (simp add: less_eq_datetime_def linear)
qed

end

definition is_leap :: "nat \<Rightarrow> bool" where
  "is_leap y = (y mod 4 = 0 \<and> (y mod 100 \<noteq> 0 \<or> y mod 400 = 0))"

definition days_in_month :: "nat \<Rightarrow> nat \<Rightarrow> nat" where
  "days_in_month y m =
     (if m = 2 then (if is_leap y then 29 else 28) else if m \<in> set [4, 6, 9, 11] then 30 else 31)"

definition valid_datetime :: "datetime \<Rightarrow> bool" where
  "valid_datetime t =
     (1 \<le> dt_year t \<and> dt_year t \<le> 9999 \<and> 1 \<le> dt_month t \<and> dt_month t \<le> 12 \<and> 1 \<le> dt_day t \<and>
      dt_day t \<le> days_in_month (dt_year t) (dt_month t) \<and> dt_hour t < 24 \<and> dt_minute t < 60 \<and>
      dt_second t < 60 \<and> dt_micro t < 1000000)"

definition date_isoformat :: "datetime \<Rightarrow> string" where
  "date_isoformat t = pad 4 (dt_year t) @ ''-'' @ pad 2 (dt_month t) @ ''-'' @ pad 2 (dt_day t)"

definition isoformat :: "datetime \<Rightarrow> string" where
  "isoformat t =
     date_isoformat t @ ''T'' @ pad 2 (dt_hour t) @ '':'' @ pad 2 (dt_minute t) @ '':'' @
     pad 2 (dt_second t) @ (if dt_micro t = 0 then [] else ''.'' @ pad 6 (dt_micro t))"

definition strftime_z :: "datetime \<Rightarrow> string" where
  "strftime_z t =
     date_isoformat t @ ''T'' @ pad 2 (dt_hour t) @ '':'' @ pad 2 (dt_minute t) @ '':'' @
     pad 2 (dt_second t) @ ''Z''"

definition check_datetime :: "datetime \<Rightarrow> datetime option" where
  "check_datetime t = (if valid_datetime t then Some t else None)"

definition expect :: "char \<Rightarrow> string \<Rightarrow> string option" where
  "expect c s = (case s of [] \<Rightarrow> None | d # r \<Rightarrow> if d = c then Some r else None)"

definition parse_fraction :: "string \<Rightarrow> nat option" where
  "parse_fraction s =
     (if s = [] then Some 0
      else case expect CHR ''.'' s of
             None \<Rightarrow> None
           | Some r \<Rightarrow>
               if length r = 6 then map_option fst (read_digits 6 0 r)
               else if length r = 3 then map_option (\<lambda>(v, _). 1000 * v) (read_digits 3 0 r)
               else None)"

definition parse_field :: "string \<Rightarrow> (nat \<times> string) option" where
  "parse_field s = (case expect CHR '':'' s of None \<Rightarrow> None | Some r \<Rightarrow> read_digits 2 0 r)"

definition parse_time :: "nat \<Rightarrow> nat \<Rightarrow> nat \<Rightarrow> string \<Rightarrow> datetime option" where
  "parse_time y m d s =
     (case read_digits 2 0 s of
        None \<Rightarrow> None
      | Some (h, r) \<Rightarrow>
          if r = [] then check_datetime (DateTime y m d h 0 0 0)
          else (case parse_field r of
                  None \<Rightarrow> None
                | Some (mi, r2) \<Rightarrow>
                    if r2 = [] then check_datetime (DateTime y m d h mi 0 0)
                    else (case parse_field r2 of
                            None \<Rightarrow> None
                          | Some (sec, r3) \<Rightarrow>
                              (case parse_fraction r3 of
                                 None \<Rightarrow> None
                               | Some us \<Rightarrow> check_datetime (DateTime y m d h mi sec us)))))"

definition fromisoformat :: "string \<Rightarrow> datetime option" where
  "fromisoformat s =
     (case read_digits 4 0 s of
        None \<Rightarrow> None
      | Some (y, r) \<Rightarrow>
          (case Option.bind (expect CHR ''-'' r) (read_digits 2 0) of
             None \<Rightarrow> None
           | Some (m, r2) \<Rightarrow>
               (case Option.bind (expect CHR ''-'' r2) (read_digits 2 0) of
                  None \<Rightarrow> None
                | Some (d, r3) \<Rightarrow>
                    (case r3 of
                       [] \<Rightarrow> check_datetime (DateTime y m d 0 0 0 0)
                     | sep # r4 \<Rightarrow> parse_time y m d r4))))"

lemma expect_Cons [simp]: "expect c (c # r) = Some r"
  by (simp add: expect_def)

lemma days_in_month_le: "days_in_month y m \<le> 31"
  by (simp add: days_in_month_def)

lemma length_pad [simp]: "length (pad k n) = k"
  by (induction k arbitrary: n) auto

lemma read2_pad: "n < 100 \<Longrightarrow> read_digits 2 0 (pad 2 n @ r) = Some (n, r)"
  using read_pad [of n 2 0 r] by simp

lemma read2_pad_end: "n < 100 \<Longrightarrow> read_digits 2 0 (pad 2 n) = Some (n, [])"
  using read2_pad [of n "[]"] by simp

lemma fromisoformat_isoformat:
  assumes "valid_datetime t"
  shows "fromisoformat (isoformat t) = Some t"
proof -
  obtain y mo d h mi s us where t: "t = DateTime y mo d h mi s us" by (cases t)
  have b: "y < 10 ^ 4" "mo < 100" "d < 100" "h < 100" "mi < 100" "s < 100" "us < 10 ^ 6"
    using assms days_in_month_le [of y mo] by (auto simp: t valid_datetime_def)
  have y: "read_digits 4 0 (pad 4 y @ r) = Some (y, r)" for r using read_pad [OF b(1), of 0 r] by simp
  have u: "read_digits 6 0 (pad 6 us) = Some (us, [])" using read_pad [OF b(7), of 0 "[]"] by simp
  have f: "parse_fraction (if us = 0 then [] else CHR ''.'' # pad 6 us) = Some us"
    using u by (simp add: parse_fraction_def)
  have p: "parse_field (CHR '':'' # pad 2 n @ r) = Some (n, r)" if "n < 100" for n r
    using that by (simp add: parse_field_def read2_pad)
  note [simp del] = pad.simps read_digits.simps
  have "parse_time y mo d (pad 2 h @ CHR '':'' # pad 2 mi @ CHR '':'' # pad 2 s @
      (if us = 0 then [] else CHR ''.'' # pad 6 us)) = Some t"
    using b p f assms by (simp add: parse_time_def read2_pad t check_datetime_def)
  then show ?thesis
    using b y by (simp add: fromisoformat_def isoformat_def date_isoformat_def t read2_pad split: if_splits)
qed

text \<open>A rendered time starts and ends with a digit.\<close>

definition is_digit_char :: "char \<Rightarrow> bool" where
  "is_digit_char c = (48 \<le> (of_char c :: nat) \<and> (of_char c :: nat) \<le> 57)"

lemma digit_char_digit: "n < 10 \<Longrightarrow> is_digit_char (digit_char n)"
  by (simp add: is_digit_char_def digit_char_def)

lemma pad_ends: "0 < k \<Longrightarrow> pad k n \<noteq> [] \<and> is_digit_char (hd (pad k n)) \<and> is_digit_char (last (pad k n))"
proof (induction k arbitrary: n)
  case (Suc k)
  show ?case
  proof (cases k)
    case 0
    then show ?thesis by (simp add: digit_char_digit)
  next
    case (Suc j)
    then show ?thesis
      using Suc.IH [of "n div 10"] by (auto simp: digit_char_digit hd_append split: if_splits)
  qed
qed simp

lemma isoformat_ends:
  "isoformat t \<noteq> [] \<and> is_digit_char (hd (isoformat t)) \<and> is_digit_char (last (isoformat t))"
  using pad_ends [of 4] pad_ends [of 2] pad_ends [of 6]
  by (simp add: isoformat_def date_isoformat_def hd_append last_append del: pad.simps)

lemma digit_not_special:
  "is_digit_char c \<Longrightarrow> \<not> py_isspace c \<and> c \<noteq> CHR ''Z''"
  by (auto simp: is_digit_char_def py_isspace_def Let_def)

section \<open>JSON values\<close>

text \<open>
  \<open>JFloat n\<close> is the float \<open>n / 100\<close>: the only floats that the modelled code computes are the
  correlation scores, sums of 0.80 and 0.10.
\<close>

datatype json = JNull | JBool bool | JInt int | JFloat int | JStr string | JList "json list"
  | JObj "(string \<times> json) list"

type_synonym json_object = "(string \<times> json) list"

definition is_dict :: "json \<Rightarrow> bool" where
  "is_dict j = (case j of JObj _ \<Rightarrow> True | _ \<Rightarrow> False)"

definition as_dict :: "json \<Rightarrow> json_object" where
  "as_dict j = (case j of JObj kvs \<Rightarrow> kvs | _ \<Rightarrow> [])"

text \<open>\<open>d.get(k)\<close>: \<open>None\<close> (JSON null) when the key is missing.\<close>

definition jget :: "string \<Rightarrow> json_object \<Rightarrow> json" where
  "jget k kvs = (case map_of kvs k of None \<Rightarrow> JNull | Some v \<Rightarrow> v)"

definition jget_default :: "string \<Rightarrow> json \<Rightarrow> json_object \<Rightarrow> json" where
  "jget_default k d kvs = (case map_of kvs k of None \<Rightarrow> d | Some v \<Rightarrow> v)"

text \<open>\<open>d[k] = v\<close>: the first entry of the key is overwritten in place, a new key is appended.\<close>

fun jset :: "string \<Rightarrow> json \<Rightarrow> json_object \<Rightarrow> json_object" where
  "jset k v [] = [(k, v)]"
| "jset k v ((k', w) # kvs) = (if k' = k then (k, v) # kvs else (k', w) # jset k v kvs)"

definition py_truth :: "json \<Rightarrow> bool" where
  "py_truth j =
     (case j of JNull \<Rightarrow> False | JBool b \<Rightarrow> b | JInt i \<Rightarrow> i \<noteq> 0 | JFloat i \<Rightarrow> i \<noteq> 0 | JStr s \<Rightarrow> s \<noteq> []
      | JList xs \<Rightarrow> xs \<noteq> [] | JObj kvs \<Rightarrow> kvs \<noteq> [])"

text \<open>
  \<open>repr\<close> of an ASCII string: single quotes unless the text has a single quote and no double
  quote; the chosen quote, backslash and control characters are escaped.
\<close>

definition hex_digit :: "nat \<Rightarrow> char" where
  "hex_digit n = (if n < 10 then char_of (48 + n) else char_of (87 + n))"

definition repr_char :: "char \<Rightarrow> char \<Rightarrow> string" where
  "repr_char q c =
     (let n = (of_char c :: nat) in
      if c = q \<or> n = 92 then [CHR 92, c]
      else if n = 9 then [CHR 92, CHR ''t''] else if n = 10 then [CHR 92, CHR ''n'']
      else if n = 13 then [CHR 92, CHR ''r'']
      else if n < 32 \<or> n = 127 then [CHR 92, CHR ''x'', hex_digit (n div 16), hex_digit (n mod 16)]
      else [c])"

definition repr_str :: "string \<Rightarrow> string" where
  "repr_str s =
     (let q = (if CHR 39 \<in> set s \<and> CHR 34 \<notin> set s then CHR 34 else CHR 39)
      in q # concat (map (repr_char q) s) @ [q])"

text \<open>\<open>str(j)\<close>: a string is itself; a container prints the \<open>repr\<close> of its members.\<close>

definition float_str :: "int \<Rightarrow> string" where
  "float_str i =
     (let n = nat (abs i); c = n mod 100
      in (if i < 0 then ''-'' else []) @ nat_str (n div 100) @ ''.'' @
         (if c mod 10 = 0 then pad 1 (c div 10) else pad 2 c))"

fun py_repr :: "json \<Rightarrow> string" where
  "py_repr JNull = ''None''"
| "py_repr (JBool b) = (if b then ''True'' else ''False'')"
| "py_repr (JInt i) = int_str i"
| "py_repr (JFloat i) = float_str i"
| "py_repr (JStr s) = repr_str s"
| "py_repr (JList xs) = ''['' @ py_join '', '' (map py_repr xs) @ '']''"
| "py_repr (JObj kvs) =
     ''{'' @ py_join '', '' (map (\<lambda>(k, v). repr_str k @ '': '' @ py_repr v) kvs) @ ''}''"

definition py_str :: "json \<Rightarrow> string" where
  "py_str j = (case j of JStr s \<Rightarrow> s | _ \<Rightarrow> py_repr j)"

text \<open>\<open>str(x or "")\<close>.\<close>

definition str_or_empty :: "json \<Rightarrow> string" where
  "str_or_empty j = (if py_truth j then py_str j else [])"

definition opt_json :: "string option \<Rightarrow> json" where
  "opt_json x = (case x of None \<Rightarrow> JNull | Some s \<Rightarrow> JStr s)"

lemma map_of_jset: "map_of (jset k v kvs) = (map_of kvs)(k \<mapsto> v)"
  by (induction k v kvs rule: jset.induct) (auto simp: fun_eq_iff)

lemma jget_jset: "jget k' (jset k v kvs) = (if k' = k then v else jget k' kvs)"
  by (simp add: jget_def map_of_jset)

lemma py_truth_simps [simp]:
  "\<not> py_truth JNull" "py_truth (JBool b) = b" "py_truth (JInt i) = (i \<noteq> 0)"
  "py_truth (JFloat i) = (i \<noteq> 0)"
  "py_truth (JStr s) = (s \<noteq> [])" "py_truth (JList xs) = (xs \<noteq> [])" "py_truth (JObj kvs) = (kvs \<noteq> [])"
  by (simp_all add: py_truth_def)

lemma is_dict_simps [simp]:
  "is_dict (JObj kvs)" "\<not> is_dict JNull" "\<not> is_dict (JBool b)" "\<not> is_dict (JInt i)" "\<not> is_dict (JFloat i)"
  "\<not> is_dict (JStr s)" "\<not> is_dict (JList xs)" "as_dict (JObj kvs) = kvs"
  by (simp_all add: is_dict_def as_dict_def)

lemma str_or_empty_simps [simp]:
  "str_or_empty JNull = []" "str_or_empty (JStr s) = s" "str_or_empty (opt_json x) = or_empty x"
  by (simp_all add: str_or_empty_def py_str_def opt_json_def split: option.splits)

end
