(* ===== verification/Vat_State.thy ===== *)
theory Vat_State
  imports Vat_Keys Vat_Values
begin

text \<open>
  The stored rows (\<open>app/models\<close>) and the session that the services thread. Every table is
  the list of its rows in insertion order; a query without \<open>ORDER BY\<close> returns rows in that
  order. The world outside the process is the record \<open>env\<close>: the clock, the UUID source,
  SHA-256 and the settings that the modelled code reads. The session counts the readings
  of the clock and of the UUID source, so that two readings are two different values.

  A nullable JSONB column is a \<open>json option\<close>: \<open>None\<close> is SQL NULL, \<open>Some JNull\<close> the JSON
  document \<open>null\<close> that the ORM writes when \<open>None\<close> is assigned to the attribute. Both read back
  as \<open>None\<close> (\<open>jsonb_get\<close>).
\<close>

section \<open>Enumerations of models/finding.py\<close>

datatype finding_type = SCA | Secret | IaC | SAST | License

datatype severity = Critical | High | Medium | Low | Informational

datatype status = Open | SyncedToTracker | InReview | Approved | Rejected | RiskAccepted
  | FalsePositive | Suppressed | NotApplicable | Mitigated | Duplicate | Resolved | Reopened

datatype suppression_scope = Scope_global | Scope_contextual

definition finding_type_value :: "finding_type \<Rightarrow> string" where
  "finding_type_value t =
     (case t of SCA \<Rightarrow> ''SCA'' | Secret \<Rightarrow> ''Secret'' | IaC \<Rightarrow> ''IaC'' | SAST \<Rightarrow> ''SAST''
      | License \<Rightarrow> ''License'')"

definition severity_value :: "severity \<Rightarrow> string" where
  "severity_value s =
     (case s of Critical \<Rightarrow> ''Critical'' | High \<Rightarrow> ''High'' | Medium \<Rightarrow> ''Medium'' | Low \<Rightarrow> ''Low''
      | Informational \<Rightarrow> ''Informational'')"

definition status_value :: "status \<Rightarrow> string" where
  "status_value s =
     (case s of Open \<Rightarrow> ''Open'' | SyncedToTracker \<Rightarrow> ''SyncedToTracker'' | InReview \<Rightarrow> ''InReview''
      | Approved \<Rightarrow> ''Approved'' | Rejected \<Rightarrow> ''Rejected'' | RiskAccepted \<Rightarrow> ''RiskAccepted''
      | FalsePositive \<Rightarrow> ''FalsePositive'' | Suppressed \<Rightarrow> ''Suppressed''
      | NotApplicable \<Rightarrow> ''NotApplicable'' | Mitigated \<Rightarrow> ''Mitigated'' | Duplicate \<Rightarrow> ''Duplicate''
      | Resolved \<Rightarrow> ''Resolved'' | Reopened \<Rightarrow> ''Reopened'')"

definition scope_value :: "suppression_scope \<Rightarrow> string" where
  "scope_value s = (case s of Scope_global \<Rightarrow> ''global'' | Scope_contextual \<Rightarrow> ''contextual'')"

definition all_statuses :: "status list" where
  "all_statuses =
     [Open, SyncedToTracker, InReview, Approved, Rejected, RiskAccepted, FalsePositive, Suppressed,
      NotApplicable, Mitigated, Duplicate, Resolved, Reopened]"

text \<open>\<open>Status(value)\<close> and \<open>SuppressionScope(value)\<close>: \<open>ValueError\<close> when no member has the value.\<close>

definition status_of_value :: "string \<Rightarrow> py_error + status" where
  "status_of_value v =
     (case find (\<lambda>s. status_value s = v) all_statuses of
        Some s \<Rightarrow> Inr s | None \<Rightarrow> Inl (ValueError (repr_str v @ '' is not a valid Status'')))"

definition scope_of_value :: "string \<Rightarrow> py_error + suppression_scope" where
  "scope_of_value v =
     (case find (\<lambda>s. scope_value s = v) [Scope_global, Scope_contextual] of
        Some s \<Rightarrow> Inr s | None \<Rightarrow> Inl (ValueError (repr_str v @ '' is not a valid SuppressionScope'')))"

lemma status_value_inject [simp]: "status_value s = status_value t \<longleftrightarrow> s = t"
  by (cases s; cases t) (simp_all add: status_value_def)

lemma status_of_value_value [simp]: "status_of_value (status_value s) = Inr s"
  by (cases s) (simp_all add: status_of_value_def all_statuses_def status_value_def)

lemma status_of_value_Inr: "status_of_value v = Inr s \<Longrightarrow> v = status_value s"
  by (auto simp: status_of_value_def find_Some_iff split: option.splits)

lemma scope_value_inject [simp]: "scope_value s = scope_value t \<longleftrightarrow> s = t"
  by (cases s; cases t) (simp_all add: scope_value_def)

lemma scope_of_value_value [simp]: "scope_of_value (scope_value s) = Inr s"
  by (cases s) (simp_all add: scope_of_value_def scope_value_def)

section \<open>Nullable JSONB columns\<close>

definition jsonb_get :: "json option \<Rightarrow> json" where
  "jsonb_get c = (case c of None \<Rightarrow> JNull | Some j \<Rightarrow> j)"

text \<open>Assigning an attribute: an assignment without a net change leaves the column alone.\<close>

definition jsonb_set :: "json option \<Rightarrow> json \<Rightarrow> json option" where
  "jsonb_set c v = (if jsonb_get c = v then c else Some v)"

lemma jsonb_get_set [simp]: "jsonb_get (jsonb_set c v) = v"
  by (auto simp: jsonb_set_def jsonb_get_def)

lemma jsonb_get_simps [simp]: "jsonb_get None = JNull" "jsonb_get (Some j) = j"
  by (simp_all add: jsonb_get_def)

section \<open>Rows\<close>

record finding =
  f_id :: string
  f_finding_type :: finding_type
  f_fingerprint_id :: string
  f_cve_id :: string
  f_severity :: severity
  f_status :: status
  f_previous_status :: "string option"
  f_component_base :: "string option"
  f_component :: "string option"
  f_image :: "string option"
  f_branch :: "string option"
  f_tag :: "string option"
  f_image_digest :: "string option"
  f_title :: "string option"
  f_description :: "string option"
  f_file_path :: "string option"
  f_line :: "int option"
  f_rule_id :: "string option"
  f_cwe_id :: "string option"
  f_ecosystem :: "string option"
  f_license_expression :: "string option"
  f_stable_rule_key :: "string option"
  f_benchmark_id :: "string option"
  f_benchmark_family :: "string option"
  f_profile_scope :: "string option"
  f_source :: "string option"
  f_owner :: "string option"
  f_control_ref :: "string option"
  f_sla_due :: "string option"
  f_justification :: "string option"
  f_compensating_controls :: "string option"
  f_reviewer_note :: "string option"
  f_sources :: "json list"
  f_suppression_scope :: "suppression_scope option"
  f_attestation :: "json option"
  f_regression_of :: "string list"
  f_regression_count :: int
  f_audit :: "json list"
  f_archived :: bool
  f_archived_at :: "datetime option"
  f_archived_reason :: "string option"
  f_tenant_id :: "string option"
  f_external_links :: "json list"
  f_correlation_key :: "string option"
  f_correlation_confidence :: "string option"
  f_correlated_to :: "string option"
  f_created_at :: datetime
  f_source_file_url :: "string option"
  f_snippet_masked :: "string option"
  f_secret_type :: "string option"
  f_resource :: "string option"
  f_content_version :: "string option"
  f_needs_family_classification :: bool
  f_team :: "string option"
  f_cvss :: "string option"
  f_epss :: "string option"
  f_risk_scoring :: json
  f_observed_clusters :: "string list"
  f_source_issue_group_id :: "string option"
  f_aikido_source_id :: "string option"
  f_first_detected_at :: "datetime option"
  f_closed_at :: "datetime option"
  f_sync_status :: "string option"
  f_sync_failed_at :: "datetime option"
  f_sync_last_error :: "string option"

text \<open>\<open>models/triage_decision.py\<close>, \<open>triage_decision_revision.py\<close>, \<open>decision_finding_link.py\<close>,
  \<open>decision_subject_alias.py\<close>\<close>

record triage_decision =
  d_id :: string
  d_tenant_id :: string
  d_subject_key :: string
  d_subject_confidence :: string
  d_finding_type :: string
  d_status :: string
  d_suppression_scope :: "string option"
  d_justification :: "string option"
  d_compensating_controls :: "string option"
  d_reviewer_note :: "string option"
  d_attestation :: "json option"
  d_identity_snapshot :: json
  d_decision_version :: nat
  d_created_by :: string
  d_created_at :: datetime
  d_updated_by :: "string option"
  d_updated_at :: datetime
  d_last_finding_id :: "string option"
  d_last_applied_at :: "datetime option"

record triage_decision_revision =
  rv_id :: string
  rv_decision_id :: string
  rv_revision :: nat
  rv_snapshot :: json
  rv_actor_id :: string
  rv_reason :: "string option"
  rv_created_at :: datetime

record decision_finding_link =
  l_decision_id :: string
  l_finding_id :: string
  l_link_method :: string
  l_link_confidence :: string
  l_applied_decision_version :: nat
  l_linked_at :: datetime
  l_unlinked_at :: "datetime option"

record decision_subject_alias =
  sa_tenant_id :: string
  sa_alias_key :: string
  sa_canonical_key :: string
  sa_reason :: string
  sa_created_at :: datetime

text \<open>\<open>models/asset_alias.py\<close>, \<open>asset_merge_event.py\<close>\<close>

record asset_alias =
  aa_source_asset_id :: string
  aa_canonical_asset_id :: string
  aa_created_by :: "string option"
  aa_created_at :: datetime
  aa_updated_at :: datetime

record asset_merge_event =
  me_id :: nat
  me_source_asset_id :: string
  me_target_asset_id :: string
  me_finding_id :: string
  me_prev_values :: json
  me_next_values :: json
  me_created_by :: "string option"
  me_created_at :: datetime
  me_reverted_at :: "datetime option"

text \<open>\<open>models/audit_event.py\<close>, \<open>audit_ledger_checkpoint.py\<close>\<close>

record audit_event =
  ev_event_id :: string
  ev_trace_id :: string
  ev_event_type :: string
  ev_actor_type :: string
  ev_actor_id :: "string option"
  ev_source_id :: "string option"
  ev_parser_id :: "string option"
  ev_asset_id :: "string option"
  ev_finding_id :: "string option"
  ev_decision_name :: "string option"
  ev_decision_reason_code :: "string option"
  ev_decision_confidence :: "string option"
  ev_decision_result :: "string option"
  ev_data :: json
  ev_prev_record_hash :: "string option"
  ev_record_hash :: string
  ev_created_at :: datetime
  ev_retention_class :: string
  ev_redaction_level :: string
  ev_sensitivity :: string
  ev_note :: "string option"

record audit_ledger_checkpoint =
  cp_id :: string
  cp_checkpoint_date :: string
  cp_retention_class :: string
  cp_event_count :: nat
  cp_anchor_hash :: string

text \<open>\<open>models/correlation_edge.py\<close>, \<open>finding_identifier.py\<close>, \<open>crosswalk_entry.py\<close>,
  \<open>crosswalk_run.py\<close>\<close>

record correlation_edge =
  e_id :: string
  e_finding_id_a :: string
  e_finding_id_b :: string
  e_edge_type :: string
  e_confidence :: string
  e_evidence :: json
  e_active :: bool
  e_operation_id :: "string option"
  e_created_by :: "string option"
  e_created_at :: datetime
  e_updated_at :: datetime
  e_removed_by :: "string option"
  e_removed_at :: "datetime option"
  e_remove_reason :: "string option"

record finding_identifier =
  fi_finding_id :: string
  fi_namespace :: string
  fi_value :: string
  fi_confidence :: string
  fi_source :: string

record crosswalk_entry =
  cw_id :: nat
  cw_run_id :: "string option"
  cw_source :: string
  cw_source_version :: string
  cw_from_namespace :: string
  cw_from_value :: string
  cw_to_namespace :: string
  cw_to_value :: string
  cw_confidence :: string
  cw_score :: json
  cw_active :: bool
  cw_metadata :: json
  cw_last_verified_at :: "datetime option"
  cw_disabled_at :: "datetime option"
  cw_disabled_reason :: "string option"
  cw_updated_at :: datetime

record crosswalk_run =
  cr_id :: string
  cr_source :: string
  cr_source_version :: string
  cr_status :: string
  cr_trace_id :: "string option"
  cr_input_checksum :: string
  cr_stats :: json
  cr_created_by :: "string option"
  cr_started_at :: datetime
  cr_completed_at :: "datetime option"

section \<open>The world outside and the session\<close>

text \<open>\<open>models/asset.py\<close>, \<open>asset_observed_tag.py\<close>, \<open>asset_digest_conflict.py\<close>,
  \<open>finding_observation.py\<close>\<close>

record asset =
  as_id :: string
  as_name :: string
  as_type :: string
  as_source :: string
  as_branch :: "string option"
  as_tag :: "string option"

record asset_observed_tag =
  ot_asset_id :: string
  ot_tag :: string
  ot_observation_count :: nat
  ot_last_scan_session_id :: "string option"
  ot_last_digest :: "string option"
  ot_first_seen_at :: datetime
  ot_last_seen_at :: datetime

record asset_digest_conflict =
  dc_asset_id :: string
  dc_tag :: string
  dc_status :: string
  dc_digests :: "string list"
  dc_acknowledged_by :: "string option"
  dc_acknowledged_at :: "datetime option"
  dc_first_seen_at :: datetime
  dc_last_seen_at :: datetime

record finding_observation =
  ob_finding_id :: string
  ob_scan_session_id :: string
  ob_source_name :: string
  ob_cluster_id :: "string option"
  ob_scanner_version :: "string option"
  ob_content_version :: "string option"
  ob_benchmark_id :: "string option"
  ob_benchmark_family :: "string option"
  ob_profile_scope :: "string option"
  ob_stable_rule_key :: "string option"
  ob_result_state :: string
  ob_raw_evidence_ref :: "string option"

text \<open>
  \<open>models/sync_event.py\<close> with the requests of \<open>schemas/vat.py\<close> as payloads. The number of an
  event stands for the random key that the database draws.
\<close>

record label_config =
  lc_name :: string
  lc_color :: "string option"

datatype sync_request =
    CreateIssue (ci_finding: json_object) (ci_template: string) (ci_label_names: "string list option")
      (ci_label_configs: "label_config list option")
  | PostDecision (pd_tracker_issue_id: string) (pd_body: string)
  | UpdateIssue (ui_issue_id: string) (ui_finding: json_object) (ui_changed_fields: "string list")
      (ui_label_names: "string list option") (ui_label_configs: "label_config list option") (ui_issue_uuid: "string option")
  | SourceIgnore (si_issue_id: string) (si_scope: string)
  | SourceUnignore (su_issue_id: string)

record sync_event =
  se_id :: nat
  se_finding_id :: string
  se_target :: string
  se_target_key :: string
  se_event_type :: string
  se_payload :: sync_request
  se_status :: string
  se_attempts :: nat
  se_max_attempts :: nat
  se_last_error :: "string option"
  se_next_retry_at :: "datetime option"
  se_completed_at :: "datetime option"
  se_created_at :: datetime
  se_updated_at :: datetime

record env =
  env_clock :: "nat \<Rightarrow> datetime"
  env_uuid_hex :: "nat \<Rightarrow> string"
  env_sha256 :: "string \<Rightarrow> string"
  env_decision_ledger_enabled :: bool
  env_correlation_linking_enabled :: bool
  env_container_asset_path_aliases :: string
  env_correlation_include_digest :: bool
  env_local_to_utc :: "datetime \<Rightarrow> datetime"

record session =
  s_clk :: nat
  s_uid :: nat
  s_findings :: "finding list"
  s_decisions :: "triage_decision list"
  s_revisions :: "triage_decision_revision list"
  s_links :: "decision_finding_link list"
  s_subject_aliases :: "decision_subject_alias list"
  s_asset_aliases :: "asset_alias list"
  s_merge_events :: "asset_merge_event list"
  s_audit_events :: "audit_event list"
  s_bulk_chain :: "(string \<times> string) list option"
  s_bulk_rows :: "audit_event list"
  s_checkpoints :: "audit_ledger_checkpoint list"
  s_edges :: "correlation_edge list"
  s_identifiers :: "finding_identifier list"
  s_crosswalks :: "crosswalk_entry list"
  s_crosswalk_runs :: "crosswalk_run list"
  s_assets :: "asset list"
  s_observed_tags :: "asset_observed_tag list"
  s_digest_conflicts :: "asset_digest_conflict list"
  s_observations :: "finding_observation list"
  s_sync_events :: "sync_event list"
  s_calls :: nat

text \<open>One reading of \<open>datetime.utcnow()\<close> and of \<open>uuid.uuid4().hex\<close>.\<close>

definition utcnow :: "env \<Rightarrow> session \<Rightarrow> datetime \<times> session" where
  "utcnow E s = (env_clock E (s_clk s), s\<lparr>s_clk := Suc (s_clk s)\<rparr>)"

definition uuid4_hex :: "env \<Rightarrow> session \<Rightarrow> string \<times> session" where
  "uuid4_hex E s = (env_uuid_hex E (s_uid s), s\<lparr>s_uid := Suc (s_uid s)\<rparr>)"

definition put_finding :: "finding \<Rightarrow> session \<Rightarrow> session" where
  "put_finding f s = s\<lparr>s_findings := tbl_update (\<lambda>r. f_id r = f_id f) (\<lambda>_. f) (s_findings s)\<rparr>"

definition put_decision :: "triage_decision \<Rightarrow> session \<Rightarrow> session" where
  "put_decision d s = s\<lparr>s_decisions := tbl_update (\<lambda>r. d_id r = d_id d) (\<lambda>_. d) (s_decisions s)\<rparr>"

definition empty_session :: session where
  "empty_session =
     \<lparr>s_clk = 0, s_uid = 0, s_findings = [], s_decisions = [], s_revisions = [], s_links = [],
      s_subject_aliases = [], s_asset_aliases = [], s_merge_events = [], s_audit_events = [],
      s_bulk_chain = None, s_bulk_rows = [], s_checkpoints = [], s_edges = [], s_identifiers = [],
      s_crosswalks = [], s_crosswalk_runs = [], s_assets = [],
      s_observed_tags = [], s_digest_conflicts = [], s_observations = [],
      s_sync_events = [], s_calls = 0\<rparr>"

lemma empty_session_simps [simp]:
  "s_clk empty_session = 0" "s_uid empty_session = 0" "s_findings empty_session = []"
  "s_decisions empty_session = []" "s_revisions empty_session = []" "s_links empty_session = []"
  "s_subject_aliases empty_session = []" "s_asset_aliases empty_session = []"
  "s_merge_events empty_session = []" "s_audit_events empty_session = []"
  "s_bulk_chain empty_session = None" "s_bulk_rows empty_session = []"
  "s_checkpoints empty_session = []" "s_edges empty_session = []" "s_identifiers empty_session = []"
  "s_crosswalks empty_session = []" "s_crosswalk_runs empty_session = []"
  "s_assets empty_session = []" "s_observed_tags empty_session = []"
  "s_digest_conflicts empty_session = []" "s_observations empty_session = []"
  "s_sync_events empty_session = []" "s_calls empty_session = 0"
  by (simp_all add: empty_session_def)

section \<open>An example row\<close>

text \<open>A finding of the examples, with a Risk Accepted review.\<close>

definition demo_finding :: finding where
  "demo_finding =
     \<lparr>f_id = ''F-1'', f_finding_type = SCA, f_fingerprint_id = ''fp'', f_cve_id = ''CVE-2024-1'',
      f_severity = High, f_status = RiskAccepted, f_previous_status = None,
      f_component_base = Some ''lodash'', f_component = Some ''lodash 4.17.20'',
      f_image = Some ''ghcr.io/acme/api:v1'', f_branch = None, f_tag = Some ''v1'', f_image_digest = None,
      f_title = Some ''Prototype pollution'', f_description = None, f_file_path = None, f_line = None,
      f_rule_id = None, f_cwe_id = None, f_ecosystem = Some ''npm'', f_license_expression = None,
      f_stable_rule_key = None, f_benchmark_id = None, f_benchmark_family = None,
      f_profile_scope = None, f_source = Some ''trivy'', f_owner = None, f_control_ref = None,
      f_sla_due = None, f_justification = Some ''mitigated by WAF'', f_compensating_controls = None,
      f_reviewer_note = None, f_sources = [], f_suppression_scope = None,
      f_attestation = Some (JObj [(''expiresAt'', JStr ''2026-06-30'')]), f_regression_of = [],
      f_regression_count = 0, f_audit = [], f_archived = False, f_archived_at = None,
      f_archived_reason = None, f_tenant_id = None, f_external_links = [], f_correlation_key = None,
      f_correlation_confidence = None, f_correlated_to = None, f_created_at = DateTime 2026 1 1 0 0 0 0,
      f_source_file_url = None, f_snippet_masked = None, f_secret_type = None, f_resource = None,
      f_content_version = None, f_needs_family_classification = False, f_team = None, f_cvss = None,
      f_epss = None, f_risk_scoring = JNull, f_observed_clusters = [], f_source_issue_group_id = None,
      f_aikido_source_id = None, f_first_detected_at = None, f_closed_at = None,
      f_sync_status = None, f_sync_failed_at = None, f_sync_last_error = None\<rparr>"

end
