(* ===== verification/Vat_Payload.thy ===== *)
theory Vat_Payload
  imports Vat_State "HOL-Library.Multiset"
begin

text \<open>
  \<open>schemas/vat.py\<close>: the canonical finding payload and its validators, and the fingerprint
  strategies that turn a payload into the replay-dedup fingerprint
  (\<open>services/ingest_identity.py\<close>, \<open>services/sarif_fingerprints.py\<close>, and
  \<open>make_openscap_fingerprint\<close> of \<open>services/openscap_identity.py\<close>). SHA-256 is the argument \<open>H\<close>.
\<close>

section \<open>Sanitizing untrusted input\<close>

definition sanitize_untrusted_text :: "string \<Rightarrow> string" where
  "sanitize_untrusted_text value =
     filter (\<lambda>ch. ch \<in> set [CHR 9, CHR 10, CHR 13] \<or> 32 \<le> (of_char ch :: nat))
       (filter (\<lambda>ch. ch \<noteq> CHR 0x00) value)"

text \<open>A dictionary is rebuilt entry by entry, so keys that become equal collapse to the last value.\<close>

fun sanitize_untrusted_value :: "json \<Rightarrow> json" where
  "sanitize_untrusted_value (JStr s) = JStr (sanitize_untrusted_text s)"
| "sanitize_untrusted_value (JList xs) = JList (map sanitize_untrusted_value xs)"
| "sanitize_untrusted_value (JObj kvs) =
     JObj (fold (\<lambda>(k, v) d. jset k v d)
       (map (\<lambda>(k, v). (sanitize_untrusted_text k, sanitize_untrusted_value v)) kvs) [])"
| "sanitize_untrusted_value v = v"

section \<open>VatFindingSchema\<close>

text \<open>The fields that the modelled services read.\<close>

record vat_finding =
  vf_cve_id :: string
  vf_severity :: severity
  vf_description :: string
  vf_component :: "string option"
  vf_component_base :: "string option"
  vf_image :: "string option"
  vf_branch :: "string option"
  vf_tag :: "string option"
  vf_image_digest :: "string option"
  vf_file_path :: "string option"
  vf_line :: "int option"
  vf_snippet_masked :: "string option"
  vf_rule_id :: "string option"
  vf_cwe_id :: "string option"
  vf_ecosystem :: "string option"
  vf_source_issue_id :: "string option"
  vf_title :: "string option"
  vf_finding_type :: finding_type
  vf_benchmark_id :: "string option"
  vf_benchmark_family :: "string option"
  vf_profile_scope :: "string option"
  vf_stable_rule_key :: "string option"
  vf_partial_fingerprints :: "(string \<times> string) list"
  vf_scanner_identity :: "string option"
  vf_license_expression :: "string option"
  vf_observed_container_tags :: "string list option"
  vf_source_file_url :: "string option"
  vf_secret_type :: "string option"
  vf_resource :: "string option"
  vf_source_issue_group_id :: "string option"
  vf_source_issue_url :: "string option"
  vf_status :: "string option"
  vf_first_detected_at :: "string option"
  vf_closed_at :: "string option"
  vf_cvss :: "string option"
  vf_epss :: "string option"
  vf_risk_scoring :: json
  vf_team :: "string option"
  vf_owner :: "string option"
  vf_content_version :: "string option"
  vf_result_state :: "string option"
  vf_needs_family_classification :: bool

definition schema_cve_id :: "string \<Rightarrow> string" where
  "schema_cve_id v = (if v \<noteq> [] then py_strip v else ''unknown'')"

definition schema_severity :: "string \<Rightarrow> severity" where
  "schema_severity v =
     (case map_of [(''critical'', Critical), (''high'', High), (''medium'', Medium), (''low'', Low),
                   (''info'', Informational), (''informational'', Informational)] (py_lower v) of
        Some s \<Rightarrow> s | None \<Rightarrow> Medium)"

section \<open>sarif\_fingerprints.py\<close>

definition pf_get :: "string \<Rightarrow> (string \<times> string) list \<Rightarrow> string" where
  "pf_get k pf = or_empty (map_of pf k)"

text \<open>The first key in sorted order that starts with \<open>primaryLocationLineHash\<close> and has a value.\<close>

definition first_primary_key :: "(string \<times> string) list \<Rightarrow> string option" where
  "first_primary_key pf =
     find (\<lambda>k. py_startswith k ''primaryLocationLineHash'' \<and> pf_get k pf \<noteq> []) (sort (map fst pf))"

definition primary_material :: "(string \<times> string) list \<Rightarrow> (string \<times> string) option" where
  "primary_material pf =
     (let v1 = py_strip (pf_get ''primaryLocationLineHash/v1'' pf)
      in if v1 \<noteq> [] then Some (v1, ''primaryLocationLineHash/v1'')
         else map_option (\<lambda>k. (py_strip (pf_get k pf), ''primaryLocationLineHash'')) (first_primary_key pf))"

definition context_material :: "(string \<times> string) list \<Rightarrow> (string \<times> string) option" where
  "context_material pf =
     (let cv1 = py_strip (pf_get ''contextRegionHash/v1'' pf); c = py_strip (pf_get ''contextRegionHash'' pf)
      in if cv1 \<noteq> [] then Some (cv1, ''contextRegionHash/v1'')
         else if c \<noteq> [] then Some (c, ''contextRegionHash'') else None)"

definition all_keys_blob :: "(string \<times> string) list \<Rightarrow> string" where
  "all_keys_blob pf =
     py_join ''|'' (map (\<lambda>(k, v). k @ ''='' @ v) (filter (\<lambda>(k, v). v \<noteq> []) (sort_key fst pf)))"

definition resolve_partial_fingerprints ::
  "(string \<Rightarrow> string) \<Rightarrow> (string \<times> string) list \<Rightarrow> string option \<times> string" where
  "resolve_partial_fingerprints H pf =
     (if pf = [] then (None, ''none'')
      else case primary_material pf of
             Some (m, branch) \<Rightarrow> (Some (H m), branch)
           | None \<Rightarrow>
               (case context_material pf of
                  Some (m, branch) \<Rightarrow> (Some (H m), branch)
                | None \<Rightarrow>
                    if all_keys_blob pf = [] then (None, ''none'')
                    else (Some (H (all_keys_blob pf)), ''sorted_all_keys_sha256'')))"

section \<open>openscap\_identity.make\_openscap\_fingerprint\<close>

definition make_openscap_fingerprint ::
  "(string \<Rightarrow> string) \<Rightarrow> string \<Rightarrow> string \<Rightarrow> string \<Rightarrow> string option \<Rightarrow> string" where
  "make_openscap_fingerprint H canonical_asset_id stable_rule_key_value benchmark_family profile_scope =
     H (''openscap|'' @ normalize canonical_asset_id @ ''|'' @ normalize stable_rule_key_value @ ''|'' @
        normalize benchmark_family @ ''|'' @ normalize_profile_scope profile_scope)"

section \<open>ingest\_identity.py\<close>

definition component_or_base :: "vat_finding \<Rightarrow> string" where
  "component_or_base p = or_empty (py_or (vf_component p) (vf_component_base p))"

definition OpenSCAPFingerprintStrategy :: "(string \<Rightarrow> string) \<Rightarrow> vat_finding \<Rightarrow> string" where
  "OpenSCAPFingerprintStrategy H p =
     make_openscap_fingerprint H
       (or_empty (py_or (vf_image p) (py_or (Some (component_or_base p)) (vf_tag p))))
       (or_empty (vf_stable_rule_key p))
       (or_empty (py_or (vf_benchmark_family p) (py_or (vf_benchmark_id p) (Some ''unknown_benchmark''))))
       (vf_profile_scope p)"

definition static_material :: "vat_finding \<Rightarrow> string \<Rightarrow> string" where
  "static_material p source_name =
     ''vat:static:'' @ normalize (or_empty (py_or (vf_rule_id p) (Some (vf_cve_id p)))) @ ''|'' @
     normalize (or_empty (vf_file_path p)) @ ''|'' @
     (case vf_line p of Some l \<Rightarrow> int_str l | None \<Rightarrow> []) @ ''|'' @
     normalize (or_empty (vf_snippet_masked p)) @ ''|'' @ normalize source_name"

definition DefaultFingerprintStrategy :: "(string \<Rightarrow> string) \<Rightarrow> vat_finding \<Rightarrow> string \<Rightarrow> string" where
  "DefaultFingerprintStrategy H p source_name =
     (let sid = py_strip (or_empty (vf_source_issue_id p));
          pfp = fst (resolve_partial_fingerprints H (vf_partial_fingerprints p));
          scanner = py_strip (or_empty (vf_scanner_identity p))
      in if sid \<noteq> [] then
           make_fingerprint_for_source_issue H source_name sid (Some (or_empty (vf_image p)))
             (Some (or_empty (vf_branch p))) (Some (or_empty (vf_tag p)))
         else if truthy pfp then
           H (''vat:sarif:pfp:'' @ or_empty pfp @ '':'' @ normalize source_name)
         else if scanner \<noteq> [] then
           H (''vat:scanner_id:'' @ normalize scanner @ '':'' @ normalize source_name)
         else if vf_finding_type p \<in> set [SAST, IaC, Secret] then H (static_material p source_name)
         else make_fingerprint H (vf_cve_id p) (component_or_base p) (Some (or_empty (vf_image p)))
                (Some (or_empty (vf_branch p))) (Some (or_empty (vf_tag p))) (Some source_name))"

definition compute_ingest_fingerprint :: "(string \<Rightarrow> string) \<Rightarrow> vat_finding \<Rightarrow> string \<Rightarrow> string" where
  "compute_ingest_fingerprint H p source_name =
     (if source_name \<in> set [''openscap'', ''openscap_oval''] \<and> truthy (vf_stable_rule_key p) \<and>
         (truthy (vf_image p) \<or> component_or_base p \<noteq> [] \<or> truthy (vf_tag p))
      then OpenSCAPFingerprintStrategy H p
      else DefaultFingerprintStrategy H p source_name)"

section \<open>Sanitized values\<close>

definition storable :: "char \<Rightarrow> bool" where
  "storable c = (c \<in> set [CHR 9, CHR 10, CHR 13] \<or> 32 \<le> (of_char c :: nat))"

text \<open>All strings of a JSON value, keys included.\<close>

fun json_strings :: "json \<Rightarrow> string list" where
  "json_strings (JStr s) = [s]"
| "json_strings (JList xs) = concat (map json_strings xs)"
| "json_strings (JObj kvs) = concat (map (\<lambda>(k, v). k # json_strings v) kvs)"
| "json_strings v = []"

lemma storable_sanitize_text: "c \<in> set (sanitize_untrusted_text s) \<Longrightarrow> storable c"
  by (simp add: sanitize_untrusted_text_def storable_def)

lemma set_jset: "set (jset k v d) \<subseteq> insert (k, v) (set d)"
  by (induction k v d rule: jset.induct) auto

lemma set_fold_jset: "set (fold (\<lambda>(k, v) d. jset k v d) kvs d) \<subseteq> set kvs \<union> set d"
  by (induction kvs arbitrary: d) (use set_jset in \<open>fastforce+\<close>)

text \<open>
  Whatever the client sends, no string of the sanitized payload (at any depth, keys included)
  has a character that PostgreSQL rejects, and text without such characters is kept
  as it is.
\<close>

lemma sanitize_untrusted_storable:
  "(\<forall>s \<in> set (json_strings (sanitize_untrusted_value v)). list_all storable s) \<and>
   (list_all storable t \<longrightarrow> sanitize_untrusted_text t = t)"
proof
  show "\<forall>s \<in> set (json_strings (sanitize_untrusted_value v)). list_all storable s"
  proof (induction v rule: sanitize_untrusted_value.induct)
    case (3 kvs)
    let ?m = "map (\<lambda>(k, v). (sanitize_untrusted_text k, sanitize_untrusted_value v)) kvs"
    have "list_all storable s" if "s \<in> set (json_strings (sanitize_untrusted_value (JObj kvs)))" for s
    proof -
      from that obtain k v where kv: "(k, v) \<in> set (fold (\<lambda>(k, v) d. jset k v d) ?m [])"
          and s: "s = k \<or> s \<in> set (json_strings v)"
        by auto
      have "(k, v) \<in> set ?m" using kv set_fold_jset [of ?m "[]"] by (simp only: list.set(1) Un_empty_right) blast
      then obtain k0 v0 where "(k0, v0) \<in> set kvs" "k = sanitize_untrusted_text k0"
          "v = sanitize_untrusted_value v0"
        by auto
      with s 3 show ?thesis by (metis list_all_iff storable_sanitize_text)
    qed
    then show ?case by blast
  qed (auto simp: list_all_iff storable_sanitize_text)
  have "storable c \<Longrightarrow> c \<noteq> CHR 0x00" for c by (auto simp: storable_def)
  then show "list_all storable t \<longrightarrow> sanitize_untrusted_text t = t"
    by (auto simp: sanitize_untrusted_text_def list_all_iff storable_def intro!: filter_True)
qed

section \<open>Fingerprint stability\<close>

lemma map_of_mset:
  assumes "mset xs = mset ys" and "distinct (map fst xs)"
  shows "map_of xs = map_of ys"
proof -
  have "mset (map fst xs) = mset (map fst ys)" using assms(1) by simp
  then have "distinct (map fst ys)" using assms(2) by (metis mset_eq_imp_distinct_iff)
  then show ?thesis using assms mset_eq_setD by (metis map_of_inject_set)
qed

lemma sort_mset: "mset xs = mset ys \<Longrightarrow> sort xs = sort (ys :: 'a :: linorder list)"
  by (rule sort_key_inj_key_eq) auto

lemma sort_fst_mset:
  fixes xs ys :: "(string \<times> string) list"
  assumes "mset xs = mset ys" and "distinct (map fst xs)"
  shows "sort_key fst xs = sort_key fst ys"
  using assms by (intro sort_key_inj_key_eq) (auto simp: distinct_map)

text \<open>
  The SARIF material does not depend on the order in which the scanner lists its partial
  fingerprints.
\<close>

lemma sarif_fingerprint_order_independent:
  assumes "mset pf = mset pf'" and "distinct (map fst pf)"
  shows "resolve_partial_fingerprints H pf = resolve_partial_fingerprints H pf'"
proof -
  have g: "pf_get k pf = pf_get k pf'" for k using map_of_mset [OF assms] by (simp add: pf_get_def)
  have k: "sort (map fst pf) = sort (map fst pf')" using assms(1) by (intro sort_mset) simp
  have "primary_material pf = primary_material pf'"
    by (simp only: primary_material_def first_primary_key_def g k)
  moreover have "context_material pf = context_material pf'" by (simp only: context_material_def g)
  moreover have "all_keys_blob pf = all_keys_blob pf'"
    by (simp only: all_keys_blob_def sort_fst_mset [OF assms])
  moreover have "pf = [] \<longleftrightarrow> pf' = []" using assms(1) by auto
  ultimately show ?thesis by (simp only: resolve_partial_fingerprints_def)
qed

definition vendor_material :: "vat_finding \<Rightarrow> string \<Rightarrow> string" where
  "vendor_material p source_name =
     py_join ''|'' [source_name @ '':'' @ py_strip (or_empty (vf_source_issue_id p)),
       normalize (or_empty (vf_image p)), normalize (or_empty (vf_branch p)), normalize (or_empty (vf_tag p))]"

lemma vendor_fingerprint:
  assumes "source_name \<notin> set [[], ''openscap'', ''openscap_oval'']"
    and "py_strip (or_empty (vf_source_issue_id p)) \<noteq> []"
  shows "compute_ingest_fingerprint H p source_name = H (vendor_material p source_name)"
  using assms
  by (simp add: compute_ingest_fingerprint_def DefaultFingerprintStrategy_def Let_def
      make_fingerprint_for_source_issue_def vendor_material_def)

text \<open>
  A finding that carries a vendor issue id is deduplicated by that id: for every source other
  than OpenSCAP, two payloads of the source have the same fingerprint exactly when their
  issue ids and their normalised image, branch and tag agree, whatever their other fields
  (severity, title, component version, location) say.
\<close>

lemma vendor_issue_fingerprint_iff:
  assumes "source_name \<notin> set [[], ''openscap'', ''openscap_oval'']"
    and "py_strip (or_empty (vf_source_issue_id p)) \<noteq> []" and "py_strip (or_empty (vf_source_issue_id q)) \<noteq> []"
    and "inj_on H {vendor_material p source_name, vendor_material q source_name}"
    and "\<forall>w \<in> set [source_name, or_empty (vf_source_issue_id p), or_empty (vf_image p), or_empty (vf_branch p),
                   or_empty (vf_tag p), or_empty (vf_source_issue_id q), or_empty (vf_image q),
                   or_empty (vf_branch q), or_empty (vf_tag q)]. CHR ''|'' \<notin> set w"
  shows "compute_ingest_fingerprint H p source_name = compute_ingest_fingerprint H q source_name \<longleftrightarrow>
    py_strip (or_empty (vf_source_issue_id p)) = py_strip (or_empty (vf_source_issue_id q)) \<and>
    normalize (or_empty (vf_image p)) = normalize (or_empty (vf_image q)) \<and>
    normalize (or_empty (vf_branch p)) = normalize (or_empty (vf_branch q)) \<and>
    normalize (or_empty (vf_tag p)) = normalize (or_empty (vf_tag q))"
proof -
  have bar: "CHR ''|'' \<notin> set source_name" "CHR ''|'' \<notin> set (or_empty (vf_image p))"
      "CHR ''|'' \<notin> set (or_empty (vf_branch p))" "CHR ''|'' \<notin> set (or_empty (vf_tag p))"
      "CHR ''|'' \<notin> set (or_empty (vf_image q))" "CHR ''|'' \<notin> set (or_empty (vf_branch q))"
      "CHR ''|'' \<notin> set (or_empty (vf_tag q))"
      "CHR ''|'' \<notin> set (py_strip (or_empty (vf_source_issue_id p)))"
      "CHR ''|'' \<notin> set (py_strip (or_empty (vf_source_issue_id q)))"
    using assms(5) by simp_all
  have "compute_ingest_fingerprint H p source_name = compute_ingest_fingerprint H q source_name \<longleftrightarrow>
      vendor_material p source_name = vendor_material q source_name"
    unfolding vendor_fingerprint [OF assms(1,2)] vendor_fingerprint [OF assms(1,3)]
    by (rule inj_on_eq_iff [OF assms(4)]) simp_all
  also have "\<dots> \<longleftrightarrow> [source_name @ '':'' @ py_strip (or_empty (vf_source_issue_id p)),
      normalize (or_empty (vf_image p)), normalize (or_empty (vf_branch p)), normalize (or_empty (vf_tag p))] =
     [source_name @ '':'' @ py_strip (or_empty (vf_source_issue_id q)),
      normalize (or_empty (vf_image q)), normalize (or_empty (vf_branch q)), normalize (or_empty (vf_tag q))]"
    unfolding vendor_material_def using bar by (intro join_char_inject) simp_all
  finally show ?thesis by simp
qed

text \<open>The payload of the examples.\<close>

definition demo_payload :: vat_finding where
  "demo_payload =
     \<lparr>vf_cve_id = ''CVE-2024-1'', vf_severity = High, vf_description = [], vf_component = Some ''lodash@4.17.20'',
      vf_component_base = None, vf_image = Some ''ghcr.io/acme/api'', vf_branch = None, vf_tag = Some ''v1'',
      vf_image_digest = None, vf_file_path = None, vf_line = None, vf_snippet_masked = None,
      vf_rule_id = None, vf_cwe_id = None, vf_ecosystem = Some ''npm'', vf_source_issue_id = Some ''42'',
      vf_title = None, vf_finding_type = SCA, vf_benchmark_id = None, vf_benchmark_family = None,
      vf_profile_scope = None, vf_stable_rule_key = None, vf_partial_fingerprints = [],
      vf_scanner_identity = None, vf_license_expression = None, vf_observed_container_tags = None,
      vf_source_file_url = None, vf_secret_type = None, vf_resource = None, vf_source_issue_group_id = None,
      vf_source_issue_url = None, vf_status = None, vf_first_detected_at = None, vf_closed_at = None,
      vf_cvss = None, vf_epss = None, vf_risk_scoring = JNull, vf_team = None, vf_owner = None,
      vf_content_version = None, vf_result_state = None, vf_needs_family_classification = False\<rparr>"

end
