(* ===== verification/Vat_Asset.thy ===== *)
theory Vat_Asset
  imports Vat_Payload
begin

text \<open>
  Asset identity: \<open>services/asset_resolver.py\<close>, the alias table of
  \<open>services/asset_aliases.py\<close> as far as it does not touch the ledger, and
  \<open>services/asset_type_infer.py\<close>. The alias chain walk is modelled with the depth limit of the
  code as the recursion bound.
\<close>

section \<open>asset\_aliases.py: resolving\<close>

definition clean_asset_id :: "string \<Rightarrow> string" where
  "clean_asset_id asset_id = py_strip asset_id"

text \<open>
  The loop of \<open>resolve_canonical_asset_id\<close>; the first argument is \<open>max_depth - depth\<close>.
\<close>

fun resolve_chain :: "nat \<Rightarrow> asset_alias list \<Rightarrow> string list \<Rightarrow> string \<Rightarrow> string" where
  "resolve_chain 0 aliases seen current = current"
| "resolve_chain (Suc n) aliases seen current =
     (if current = [] \<or> current \<in> set seen then current
      else case tbl_get aa_source_asset_id current aliases of
             None \<Rightarrow> current
           | Some row \<Rightarrow>
               let nxt = clean_asset_id (aa_canonical_asset_id row)
               in if nxt = [] \<or> nxt = current then current
                  else resolve_chain n aliases (current # seen) nxt)"

definition MAX_DEPTH :: nat where
  "MAX_DEPTH = 16"

definition resolve_canonical_asset_id :: "asset_alias list \<Rightarrow> string \<Rightarrow> string" where
  "resolve_canonical_asset_id aliases asset_id =
     (let current = clean_asset_id asset_id
      in if current = [] then current else resolve_chain MAX_DEPTH aliases [] current)"

section \<open>asset\_resolver.py\<close>

record asset_resolution =
  ar_asset_id :: string
  ar_asset_kind :: string
  ar_confidence :: string
  ar_reason :: string
  ar_source :: string
  ar_raw_asset_id :: "string option"
  ar_observed_tag :: "string option"
  ar_observed_digest :: "string option"

definition clean_value :: "string option \<Rightarrow> string" where
  "clean_value value = py_strip (or_empty value)"

definition infer_asset_kind :: "string \<Rightarrow> string \<Rightarrow> string" where
  "infer_asset_kind asset_id parser_id =
     (let aid = py_strip asset_id; pid = py_lower (py_strip parser_id);
          parts = split_char CHR ''/'' aid;
          k8s = (5 \<le> length parts \<and> py_lower (parts ! 0) = ''k8s'')
      in if aid = [] then ''unknown''
         else if k8s \<and> py_lower (parts ! 2) = ''cluster'' \<and> py_lower (parts ! 3) = ''node'' then ''node''
         else if k8s \<and> ''container'' \<in> set (map py_lower (drop 2 parts)) then ''container''
         else if pid \<in> set [''openscap'', ''openscap_oval''] then ''host_scope''
         else if pid \<in> set [''semgrep'', ''sarif'', ''gitleaks''] then ''path_scope''
         else if pid \<in> set [''npm_audit'', ''pip_audit''] then ''package_scope''
         else if py_in ''/images/'' aid \<or> py_startswith aid ''sha256:'' \<or> py_in '':'' aid then ''container''
         else if py_in ''/'' aid \<and> \<not> py_startswith aid ''/'' then ''repo''
         else if py_startswith aid ''/'' \<or> py_startswith aid ''commit:'' \<or> py_in ''>'' aid then ''path_scope''
         else ''package_scope'')"

text \<open>The choice of the asset field: value, raw value, reason and confidence.\<close>

definition choose_asset ::
  "string option \<Rightarrow> bool \<Rightarrow> bool \<Rightarrow> vat_finding \<Rightarrow>
   py_error + (string \<times> string option \<times> string \<times> string)" where
  "choose_asset asset_override strict_mode requires_explicit_asset payload =
     (let explicit = clean_value asset_override; img = clean_value (vf_image payload);
          comp = clean_value (vf_component payload); fpath = clean_value (vf_file_path payload)
      in if explicit \<noteq> [] then Inr (explicit, Some explicit, ''explicit_override'', ''explicit'')
         else if img \<noteq> [] then Inr (img, Some img, ''parser_image'', ''strong'')
         else if comp \<noteq> [] then Inr (comp, None, ''parser_component_fallback'', ''medium'')
         else if fpath \<noteq> [] then Inr (''path:'' @ fpath, None, ''parser_file_path_fallback'', ''weak'')
         else if strict_mode \<or> requires_explicit_asset then
           Inl (ValueError ''Asset mapping failed: explicit asset required but no resolvable asset fields'')
         else Inr (''unknown'', None, ''unknown_fallback'', ''weak''))"

text \<open>The container branch: canonical key, observed tag and digest, and the payload updates.\<close>

definition canonical_container_key :: "string \<Rightarrow> string \<Rightarrow> string" where
  "canonical_container_key path_aliases ref =
     apply_container_asset_path_aliases path_aliases (canonical_asset_key (normalize_container_ref (Some ref)))"

definition update_container_payload ::
  "string \<Rightarrow> string \<Rightarrow> vat_finding \<Rightarrow> vat_finding" where
  "update_container_payload asset_id raw payload =
     (let n = normalize_container_ref (Some raw);
          merged = py_or (effective_image_digest (vf_image_digest payload) (Some raw)) (observed_digest n);
          p1 = payload\<lparr>vf_image := Some asset_id\<rparr>;
          p2 = (if clean_value (vf_tag payload) = [] \<and> truthy (observed_tag n)
                then p1\<lparr>vf_tag := observed_tag n\<rparr> else p1)
      in if truthy merged then p2\<lparr>vf_image_digest := merged\<rparr> else p2)"

definition resolve_asset_for_payload ::
  "string \<Rightarrow> vat_finding \<Rightarrow> string \<Rightarrow> string \<Rightarrow> string option \<Rightarrow> bool \<Rightarrow> bool \<Rightarrow>
   py_error + (vat_finding \<times> asset_resolution)" where
  "resolve_asset_for_payload path_aliases payload parser_id source_id asset_override strict_mode
     requires_explicit_asset =
     (case choose_asset asset_override strict_mode requires_explicit_asset payload of
        Inl e \<Rightarrow> Inl e
      | Inr (asset0, raw_asset_id, reason, confidence) \<Rightarrow>
          (let explicit = clean_value asset_override; img = clean_value (vf_image payload);
               kind = infer_asset_kind asset0 parser_id;
               container = (kind = ''container'');
               n = normalize_container_ref (Some asset0);
               asset_id = (if container then canonical_container_key path_aliases asset0 else asset0);
               p1 = (if container then update_container_payload asset_id asset0 payload else payload);
               p2 = (if explicit \<noteq> [] \<and> img \<noteq> asset_id then p1\<lparr>vf_image := Some asset_id\<rparr>
                     else if img = [] \<and> asset_id \<noteq> ''unknown'' \<and> py_startswith reason ''parser_file_path''
                     then p1\<lparr>vf_image := Some asset_id\<rparr> else p1)
           in Inr (p2,
                   \<lparr>ar_asset_id = asset_id, ar_asset_kind = kind, ar_confidence = confidence,
                    ar_reason = reason, ar_source = source_id, ar_raw_asset_id = raw_asset_id,
                    ar_observed_tag = (if container then observed_tag n else None),
                    ar_observed_digest = (if container then observed_digest n else None)\<rparr>)))"

definition correlation_asset_image_for_ingest ::
  "env \<Rightarrow> asset_alias list \<Rightarrow> string option \<Rightarrow> string option \<Rightarrow> string" where
  "correlation_asset_image_for_ingest E aliases image_ref parser_id =
     (let img = clean_value image_ref
      in if img = [] then []
         else if infer_asset_kind img (or_empty parser_id) = ''container''
         then resolve_canonical_asset_id aliases
                (canonical_container_key (env_container_asset_path_aliases E) img)
         else resolve_canonical_asset_id aliases img)"

definition resolve_ingest_stub_asset_identity ::
  "env \<Rightarrow> asset_alias list \<Rightarrow> string \<Rightarrow> string \<Rightarrow> string option \<Rightarrow> string \<times> string" where
  "resolve_ingest_stub_asset_identity E aliases asset_hint parser_id source_asset_type =
     (let h = py_strip asset_hint; ty = or_empty (py_or source_asset_type (Some ''package''))
      in if h = [] then (h, ty)
         else if infer_asset_kind h parser_id = ''container''
         then (correlation_asset_image_for_ingest E aliases (Some h) (Some parser_id), ''container'')
         else (resolve_canonical_asset_id aliases h, ty))"

section \<open>asset\_type\_infer.py\<close>

text \<open>The keys that the inference reads from a finding dictionary.\<close>

record type_hint =
  th_image :: "string option"
  th_branch :: "string option"
  th_component :: "string option"
  th_filePath :: "string option"
  th_file_path :: "string option"
  th_findingType :: "string option"
  th_finding_type :: "string option"
  th_source :: "string option"

definition type_priority :: "string \<Rightarrow> nat" where
  "type_priority c =
     (case map_of [(''node'', 5), (''container'', 4), (''repo'', 3), (''path'', 2), (''package'', 1)] c of
        Some n \<Rightarrow> n | None \<Rightarrow> 0)"

definition image_name_char :: "char \<Rightarrow> bool" where
  "image_name_char c =
     (let n = (of_char (lower_char c) :: nat)
      in (97 \<le> n \<and> n \<le> 122) \<or> py_isdigit c \<or> c \<in> set [CHR ''.'', CHR ''_'', CHR ''-''])"

text \<open>\<open>re.match(r"^[a-z0-9._-]+$", s, re.I)\<close>; the dollar also matches before a final newline.\<close>

definition plain_image_name :: "string \<Rightarrow> bool" where
  "plain_image_name s =
     (let t = (if s \<noteq> [] \<and> last s = CHR 10 then butlast s else s) in t \<noteq> [] \<and> list_all image_name_char t)"

definition looks_like_container_image_ref :: "string option \<Rightarrow> bool" where
  "looks_like_container_image_ref img =
     (let s = py_strip (or_empty img)
      in if s = [] \<or> py_startswith s ''path:'' then False
         else if py_in ''/images/'' s then True
         else if py_in ''@sha256:'' s then True
         else case split_once '':'' s of
                None \<Rightarrow> False
              | Some (before, _) \<Rightarrow> CHR ''/'' \<in> set before \<or> plain_image_name before)"

definition looks_like_kubernetes_node_asset :: "string option \<Rightarrow> bool" where
  "looks_like_kubernetes_node_asset img =
     (let parts = split_char CHR ''/'' (py_lower (py_strip (or_empty img)))
      in 5 \<le> length parts \<and> parts ! 0 = ''k8s'' \<and> parts ! 2 = ''cluster'' \<and> parts ! 3 = ''node'')"

definition infer_asset_type_from_one_finding :: "type_hint \<Rightarrow> string" where
  "infer_asset_type_from_one_finding d =
     (let img = py_strip (or_empty (th_image d)); branch = py_strip (or_empty (th_branch d));
          comp = py_strip (or_empty (th_component d));
          fp = py_strip (or_empty (py_or (th_filePath d) (th_file_path d)));
          ft = py_lower (or_empty (py_or (th_findingType d) (th_finding_type d)));
          src = py_lower (py_strip (or_empty (th_source d)));
          is_code = (ft \<in> set [''sast'', ''secret'', ''iac''])
      in if looks_like_kubernetes_node_asset (Some img) then ''node''
         else if ft = ''secret'' then
           (if branch \<noteq> [] then ''repo''
            else if img \<noteq> [] \<and> looks_like_container_image_ref (Some img) then ''container'' else ''path'')
         else if src \<in> set [''openscap'', ''openscap_oval''] \<and> img \<noteq> [] then ''container''
         else if py_in ''/images/'' img then ''container''
         else if img \<noteq> [] \<and> branch \<noteq> [] then ''repo''
         else if img \<noteq> [] \<and> is_code then ''repo''
         else if img \<noteq> [] \<and> looks_like_container_image_ref (Some img) then ''container''
         else if img \<noteq> [] then ''container''
         else if fp \<noteq> [] \<and> img = [] \<and> comp = [] then ''path''
         else if fp \<noteq> [] \<and> is_code then ''repo''
         else if comp \<noteq> [] then ''package''
         else ''package'')"

text \<open>\<open>max(candidates, key=...)\<close> keeps the first of the greatest candidates.\<close>

fun max_by :: "('a \<Rightarrow> nat) \<Rightarrow> 'a \<Rightarrow> 'a list \<Rightarrow> 'a" where
  "max_by f best [] = best"
| "max_by f best (x # xs) = max_by f (if f best < f x then x else best) xs"

definition infer_asset_type_from_findings :: "type_hint list \<Rightarrow> string" where
  "infer_asset_type_from_findings ds =
     (case map infer_asset_type_from_one_finding ds of
        [] \<Rightarrow> ''package'' | c # cs \<Rightarrow> max_by type_priority c cs)"

section \<open>The alias chain\<close>

text \<open>One hop of the chain: the cleaned target, unless it is blank or the asset itself.\<close>

definition alias_next :: "asset_alias list \<Rightarrow> string \<Rightarrow> string option" where
  "alias_next aliases x =
     (case tbl_get aa_source_asset_id x aliases of
        None \<Rightarrow> None
      | Some row \<Rightarrow>
          let nxt = clean_asset_id (aa_canonical_asset_id row)
          in if nxt = [] \<or> nxt = x then None else Some nxt)"

inductive alias_path :: "asset_alias list \<Rightarrow> string \<Rightarrow> nat \<Rightarrow> string \<Rightarrow> bool" for A where
  path_end: "alias_next A x = None \<Longrightarrow> alias_path A x 0 x"
| path_hop: "alias_next A x = Some y \<Longrightarrow> alias_path A y n t \<Longrightarrow> alias_path A x (Suc n) t"

inductive_cases alias_path_0E: "alias_path A x 0 t"
inductive_cases alias_path_SucE: "alias_path A x (Suc n) t"

lemma alias_path_unique:
  "alias_path A x n t \<Longrightarrow> alias_path A x m u \<Longrightarrow> n = m \<and> t = u"
proof (induction arbitrary: m rule: alias_path.induct)
  case (path_end x)
  from path_end.prems path_end.hyps show ?case by cases auto
next
  case (path_hop x y n t)
  from path_hop.prems path_hop.hyps path_hop.IH show ?case by cases auto
qed

lemma alias_path_terminal: "alias_path A x n t \<Longrightarrow> alias_next A t = None"
  by (induction rule: alias_path.induct) auto

lemma resolve_chain_Suc:
  "x \<noteq> [] \<Longrightarrow> x \<notin> set seen \<Longrightarrow>
     resolve_chain (Suc n) A seen x =
       (case alias_next A x of None \<Rightarrow> x | Some y \<Rightarrow> resolve_chain n A (x # seen) y)"
  by (simp add: alias_next_def Let_def split: option.splits)

lemma alias_next_clean: "alias_next A x = Some y \<Longrightarrow> y \<noteq> [] \<and> py_strip y = y"
  by (auto simp: alias_next_def clean_asset_id_def Let_def split: option.splits if_splits)

lemma alias_path_clean:
  "alias_path A x n t \<Longrightarrow> x \<noteq> [] \<Longrightarrow> py_strip x = x \<Longrightarrow> t \<noteq> [] \<and> py_strip t = t"
  by (induction rule: alias_path.induct) (auto dest: alias_next_clean)

lemma resolve_chain_path:
  assumes "alias_path A x n t" and "n \<le> k" and "x \<noteq> []"
    and "\<forall>y \<in> set seen. \<exists>m u. n < m \<and> alias_path A y m u"
  shows "resolve_chain k A seen x = t"
  using assms
proof (induction arbitrary: k seen rule: alias_path.induct)
  case (path_end x)
  have "x \<notin> set seen"
    using path_end alias_path_unique [OF alias_path.path_end [OF path_end.hyps]] by (metis less_numeral_extra(3))
  then show ?case using path_end by (cases k) (simp_all add: resolve_chain_Suc del: resolve_chain.simps(2))
next
  case (path_hop x y n t)
  have p: "alias_path A x (Suc n) t" using path_hop.hyps by (rule alias_path.path_hop)
  have notin: "x \<notin> set seen" using path_hop.prems(3) alias_path_unique [OF p] by (metis less_irrefl)
  obtain k' where k: "k = Suc k'" using path_hop.prems(1) by (cases k) auto
  have "resolve_chain k' A (x # seen) y = t"
  proof (rule path_hop.IH)
    show "\<forall>z \<in> set (x # seen). \<exists>m u. n < m \<and> alias_path A z m u"
      using p path_hop.prems(3) Suc_lessD by (metis lessI set_ConsD)
  qed (use path_hop alias_next_clean k in auto)
  then show ?case using k notin path_hop by (simp add: resolve_chain_Suc del: resolve_chain.simps(2))
qed

text \<open>
  Whenever the alias chain of an asset ends after at most 16 hops, resolution returns the end of
  the chain, and resolving the result again returns the same asset: the key under which
  a finding is stored does not depend on how often it was canonicalised.
\<close>

lemma resolve_canonical_end:
  assumes "alias_path A (py_strip x) n t" and "n \<le> 16" and "py_strip x \<noteq> []"
  shows "resolve_canonical_asset_id A x = t \<and> resolve_canonical_asset_id A t = t"
proof -
  have r: "resolve_chain 16 A [] (py_strip x) = t"
    by (rule resolve_chain_path [OF assms(1-3)]) simp
  have t: "t \<noteq> [] \<and> py_strip t = t"
    by (rule alias_path_clean [OF assms(1,3)]) simp
  moreover have "resolve_chain 16 A [] t = t"
    by (rule resolve_chain_path [where n = 0])
      (use assms(1) t in \<open>auto intro: alias_path.path_end alias_path_terminal\<close>)
  ultimately show ?thesis
    using r assms(3) by (simp add: resolve_canonical_asset_id_def clean_asset_id_def MAX_DEPTH_def Let_def)
qed

text \<open>A chain of two aliases, stored with surrounding blanks.\<close>

definition demo_aliases :: "asset_alias list" where
  "demo_aliases =
     [\<lparr>aa_source_asset_id = ''a'', aa_canonical_asset_id = '' b '', aa_created_by = None,
       aa_created_at = DateTime 2026 1 1 0 0 0 0,
       aa_updated_at = DateTime 2026 1 1 0 0 0 0\<rparr>,
      \<lparr>aa_source_asset_id = ''b'', aa_canonical_asset_id = ''c'', aa_created_by = None,
       aa_created_at = DateTime 2026 1 1 0 0 0 0,
       aa_updated_at = DateTime 2026 1 1 0 0 0 0\<rparr>]"

lemma demo_alias_path: "alias_path demo_aliases (py_strip '' a'') 2 ''c''"
proof -
  have "alias_next demo_aliases (py_strip '' a'') = Some ''b''" by code_simp
  moreover have "alias_next demo_aliases ''b'' = Some ''c''" by code_simp
  moreover have "alias_next demo_aliases ''c'' = None" by code_simp
  ultimately show ?thesis unfolding numeral_2_eq_2 by (blast intro: alias_path.intros)
qed

section \<open>Merged asset types\<close>

lemma max_by_properties:
  "max_by f b xs \<in> set (b # xs) \<and> (\<forall>x \<in> set (b # xs). f x \<le> f (max_by f b xs))"
  by (induction xs arbitrary: b) (fastforce split: if_splits)+

lemma one_finding_type:
  "infer_asset_type_from_one_finding d \<in> {''node'', ''container'', ''repo'', ''path'', ''package''}"
  by (simp add: infer_asset_type_from_one_finding_def Let_def)

lemma type_priority_inj: "inj_on type_priority {''node'', ''container'', ''repo'', ''path'', ''package''}"
  by (simp add: inj_on_def type_priority_def)

text \<open>
  The type of an asset does not depend on the order or the multiplicity of its findings, it is
  one of the five scope types, and no finding of the asset has a type of higher priority.
\<close>

lemma asset_type_from_findings:
  assumes "set ds = set ds'" and "ds \<noteq> []"
  shows "infer_asset_type_from_findings ds = infer_asset_type_from_findings ds' \<and>
    infer_asset_type_from_findings ds \<in> infer_asset_type_from_one_finding ` set ds \<and>
    (\<forall>d \<in> set ds. type_priority (infer_asset_type_from_one_finding d) \<le>
                 type_priority (infer_asset_type_from_findings ds))"
proof -
  let ?g = infer_asset_type_from_one_finding
  have top: "infer_asset_type_from_findings es \<in> ?g ` set es \<and>
      (\<forall>d \<in> set es. type_priority (?g d) \<le> type_priority (infer_asset_type_from_findings es))"
    if "es \<noteq> []" for es
    using that max_by_properties [of type_priority "?g (hd es)" "map ?g (tl es)"]
    by (cases es) (auto simp: infer_asset_type_from_findings_def)
  have "ds' \<noteq> []" using assms by auto
  note t = top [OF assms(2)] and t' = top [OF this]
  have "type_priority (infer_asset_type_from_findings ds) = type_priority (infer_asset_type_from_findings ds')"
    using t t' assms(1) by (metis (no_types, lifting) antisym imageE)
  moreover have "x \<in> {''node'', ''container'', ''repo'', ''path'', ''package''}" if "x \<in> ?g ` set es" for x es
    using that one_finding_type by (elim imageE) (simp only:)
  note this [OF conjunct1 [OF t]] this [OF conjunct1 [OF t']]
  ultimately have "infer_asset_type_from_findings ds = infer_asset_type_from_findings ds'"
    by (rule inj_onD [OF type_priority_inj])
  with t show ?thesis by blast
qed

definition demo_hint :: type_hint where
  "demo_hint =
     \<lparr>th_image = Some ''nginx:1.24'', th_branch = None, th_component = None, th_filePath = None,
      th_file_path = None, th_findingType = Some ''SCA'', th_finding_type = None, th_source = None\<rparr>"

end
