(* ===== verification/Vat_Audit.thy ===== *)
theory Vat_Audit
  imports Vat_State "HOL-Library.Multiset"
begin

text \<open>
  \<open>services/audit_events.py\<close>: the append-only audit ledger with its per-trace hash chain, the
  batch mode of the chain, and the daily checkpoint anchors. The theorems show that every
  trace is a hash chain in both modes, that the batch mode writes exactly the rows that the
  per-event mode writes, and what the daily anchor covers.

  The mirror to OpenTelemetry, the metrics counters and the debug log are not modelled:
  they read the event and write nothing that the services read back.
\<close>

section \<open>json.dumps(obj, sort\_keys=True, separators=(",", ":"))\<close>

definition hex4 :: "nat \<Rightarrow> string" where
  "hex4 n = [hex_digit (n div 4096 mod 16), hex_digit (n div 256 mod 16), hex_digit (n div 16 mod 16),
             hex_digit (n mod 16)]"

definition json_char :: "char \<Rightarrow> string" where
  "json_char c =
     (let n = (of_char c :: nat) in
      if n = 34 \<or> n = 92 then [CHR 92, c]
      else if n = 8 then [CHR 92, CHR ''b''] else if n = 9 then [CHR 92, CHR ''t'']
      else if n = 10 then [CHR 92, CHR ''n''] else if n = 12 then [CHR 92, CHR ''f'']
      else if n = 13 then [CHR 92, CHR ''r'']
      else if n < 32 then [CHR 92, CHR ''u''] @ hex4 n
      else [c])"

definition json_str :: "string \<Rightarrow> string" where
  "json_str s = [CHR 34] @ concat (map json_char s) @ [CHR 34]"

fun stable_json :: "json \<Rightarrow> string" where
  "stable_json JNull = ''null''"
| "stable_json (JBool b) = (if b then ''true'' else ''false'')"
| "stable_json (JInt i) = int_str i"
| "stable_json (JFloat i) = float_str i"
| "stable_json (JStr s) = json_str s"
| "stable_json (JList xs) = ''['' @ py_join '','' (map stable_json xs) @ '']''"
| "stable_json (JObj kvs) =
     ''{'' @ py_join '','' (map (\<lambda>(k, v). json_str k @ '':'' @ v)
       (sort_key fst (map (\<lambda>(k, v). (k, stable_json v)) kvs))) @ ''}''"

section \<open>Emitting an event\<close>

record event_args =
  ea_trace_id :: string
  ea_event_type :: string
  ea_actor_type :: string
  ea_actor_id :: "string option"
  ea_source_id :: "string option"
  ea_parser_id :: "string option"
  ea_asset_id :: "string option"
  ea_finding_id :: "string option"
  ea_decision_name :: "string option"
  ea_decision_reason_code :: "string option"
  ea_decision_confidence :: "string option"
  ea_decision_result :: "string option"
  ea_data :: json_object
  ea_retention_class :: string
  ea_redaction_level :: string
  ea_sensitivity :: string
  ea_note :: "string option"

text \<open>The keyword defaults of \<open>emit_audit_event\<close>.\<close>

definition event_defaults :: event_args where
  "event_defaults =
     \<lparr>ea_trace_id = [], ea_event_type = [], ea_actor_type = ''system'', ea_actor_id = None,
      ea_source_id = None, ea_parser_id = None, ea_asset_id = None, ea_finding_id = None,
      ea_decision_name = None, ea_decision_reason_code = None, ea_decision_confidence = None,
      ea_decision_result = None, ea_data = [], ea_retention_class = ''operational'',
      ea_redaction_level = ''standard'', ea_sensitivity = ''internal'', ea_note = None\<rparr>"

text \<open>
  The newest event of a trace, by \<open>created_at\<close>. SQL leaves the choice among rows with the same
  time open; the model takes the one inserted last.
\<close>

fun newest :: "audit_event list \<Rightarrow> audit_event option" where
  "newest [] = None"
| "newest (e # es) =
     (case newest es of
        None \<Rightarrow> Some e
      | Some m \<Rightarrow> if ev_created_at m < ev_created_at e then Some e else Some m)"

definition latest_hash :: "string \<Rightarrow> audit_event list \<Rightarrow> string option" where
  "latest_hash tid es = map_option ev_record_hash (newest (filter (\<lambda>e. ev_trace_id e = tid) es))"

definition prev_hash :: "string \<Rightarrow> session \<Rightarrow> string option" where
  "prev_hash tid s =
     (case s_bulk_chain s of
        Some chain \<Rightarrow> (case map_of chain tid of Some h \<Rightarrow> Some h | None \<Rightarrow> latest_hash tid (s_audit_events s))
      | None \<Rightarrow> latest_hash tid (s_audit_events s))"

definition event_body :: "event_args \<Rightarrow> string \<Rightarrow> string option \<Rightarrow> datetime \<Rightarrow> json" where
  "event_body a eid prev t =
     JObj [(''event_id'', JStr eid), (''trace_id'', JStr (ea_trace_id a)),
           (''event_type'', JStr (ea_event_type a)), (''actor_type'', JStr (ea_actor_type a)),
           (''actor_id'', opt_json (ea_actor_id a)), (''source_id'', opt_json (ea_source_id a)),
           (''parser_id'', opt_json (ea_parser_id a)), (''asset_id'', opt_json (ea_asset_id a)),
           (''finding_id'', opt_json (ea_finding_id a)),
           (''decision_name'', opt_json (ea_decision_name a)),
           (''decision_reason_code'', opt_json (ea_decision_reason_code a)),
           (''decision_confidence'', opt_json (ea_decision_confidence a)),
           (''decision_result'', opt_json (ea_decision_result a)), (''data'', JObj (ea_data a)),
           (''prev_record_hash'', JStr (or_empty prev)),
           (''retention_class'', JStr (ea_retention_class a)),
           (''redaction_level'', JStr (ea_redaction_level a)),
           (''sensitivity'', JStr (ea_sensitivity a)), (''note'', opt_json (ea_note a)),
           (''created_at'', JStr (isoformat t))]"

definition event_row ::
  "event_args \<Rightarrow> string \<Rightarrow> string option \<Rightarrow> string \<Rightarrow> datetime \<Rightarrow> audit_event" where
  "event_row a eid prev h t =
     \<lparr>ev_event_id = eid, ev_trace_id = ea_trace_id a, ev_event_type = ea_event_type a,
      ev_actor_type = ea_actor_type a, ev_actor_id = ea_actor_id a, ev_source_id = ea_source_id a,
      ev_parser_id = ea_parser_id a, ev_asset_id = ea_asset_id a, ev_finding_id = ea_finding_id a,
      ev_decision_name = ea_decision_name a, ev_decision_reason_code = ea_decision_reason_code a,
      ev_decision_confidence = ea_decision_confidence a, ev_decision_result = ea_decision_result a,
      ev_data = JObj (ea_data a), ev_prev_record_hash = prev, ev_record_hash = h, ev_created_at = t,
      ev_retention_class = ea_retention_class a, ev_redaction_level = ea_redaction_level a,
      ev_sensitivity = ea_sensitivity a, ev_note = ea_note a\<rparr>"

text \<open>The chain dictionary of the batch mode: \<open>chain[tid] = h\<close>.\<close>

definition chain_set :: "string \<Rightarrow> string \<Rightarrow> (string \<times> string) list \<Rightarrow> (string \<times> string) list" where
  "chain_set tid h chain = (tid, h) # filter (\<lambda>(t, _). t \<noteq> tid) chain"

definition store_event :: "audit_event \<Rightarrow> session \<Rightarrow> session" where
  "store_event e s =
     (case s_bulk_chain s of
        Some chain \<Rightarrow>
          s\<lparr>s_bulk_chain := Some (chain_set (ev_trace_id e) (ev_record_hash e) chain),
            s_bulk_rows := s_bulk_rows s @ [e]\<rparr>
      | None \<Rightarrow> s\<lparr>s_audit_events := s_audit_events s @ [e]\<rparr>)"

text \<open>
  \<open>emit_audit_event\<close>: the identifier, the previous hash, one clock reading for the hashed body
  and a second one for the stored row.
\<close>

definition emit_audit_event :: "env \<Rightarrow> event_args \<Rightarrow> session \<Rightarrow> string \<times> session" where
  "emit_audit_event E a s =
     (let (eid, s1) = uuid4_hex E s;
          prev = prev_hash (ea_trace_id a) s1;
          (t1, s2) = utcnow E s1;
          record_hash = env_sha256 E (stable_json (event_body a eid prev t1));
          (t2, s3) = utcnow E s2
      in (eid, store_event (event_row a eid prev record_hash t2) s3))"

definition flush_bulk_audit_events :: "session \<Rightarrow> nat \<times> session" where
  "flush_bulk_audit_events s =
     (case s_bulk_chain s of
        None \<Rightarrow> (0, s)
      | Some _ \<Rightarrow>
          (length (s_bulk_rows s),
           s\<lparr>s_audit_events := s_audit_events s @ s_bulk_rows s, s_bulk_rows := []\<rparr>))"

text \<open>\<open>async with bulk_audit_chain(): body\<close>; the context variables are reset at the end.\<close>

definition bulk_audit_chain :: "(session \<Rightarrow> session) \<Rightarrow> session \<Rightarrow> session" where
  "bulk_audit_chain body s =
     (body (s\<lparr>s_bulk_chain := Some [], s_bulk_rows := []\<rparr>))
       \<lparr>s_bulk_chain := s_bulk_chain s, s_bulk_rows := s_bulk_rows s\<rparr>"

definition new_trace_id :: "env \<Rightarrow> session \<Rightarrow> string \<times> session" where
  "new_trace_id E s = uuid4_hex E s"

text \<open>\<open>trace_id or new_trace_id()\<close>\<close>

definition trace_or_new :: "env \<Rightarrow> string option \<Rightarrow> session \<Rightarrow> string \<times> session" where
  "trace_or_new E trace_id s = (if truthy trace_id then (or_empty trace_id, s) else new_trace_id E s)"

definition emit_all :: "env \<Rightarrow> event_args list \<Rightarrow> session \<Rightarrow> session" where
  "emit_all E as s = fold (\<lambda>a s. snd (emit_audit_event E a s)) as s"

section \<open>Daily checkpoints\<close>

definition in_window :: "datetime \<Rightarrow> datetime \<Rightarrow> string \<Rightarrow> audit_event \<Rightarrow> bool" where
  "in_window lo hi cls e = (ev_retention_class e = cls \<and> lo \<le> ev_created_at e \<and> ev_created_at e \<le> hi)"

definition checkpoint_rows :: "datetime \<Rightarrow> datetime \<Rightarrow> string \<Rightarrow> audit_event list \<Rightarrow> audit_event list" where
  "checkpoint_rows lo hi cls es =
     sort_key ev_created_at (sort_key ev_event_id (filter (in_window lo hi cls) es))"

record checkpoint_cmd =
  cc_id :: string
  cc_date :: string
  cc_class :: string
  cc_count :: nat
  cc_anchor :: string

definition cp_key :: "audit_ledger_checkpoint \<Rightarrow> string \<times> string" where
  "cp_key c = (cp_checkpoint_date c, cp_retention_class c)"

definition cc_key :: "checkpoint_cmd \<Rightarrow> string \<times> string" where
  "cc_key c = (cc_date c, cc_class c)"

definition checkpoint_merge :: "checkpoint_cmd \<Rightarrow> audit_ledger_checkpoint option \<Rightarrow> audit_ledger_checkpoint" where
  "checkpoint_merge c old =
     (case old of
        Some r \<Rightarrow> r\<lparr>cp_event_count := cc_count c, cp_anchor_hash := cc_anchor c\<rparr>
      | None \<Rightarrow> \<lparr>cp_id = cc_id c, cp_checkpoint_date = cc_date c, cp_retention_class = cc_class c,
                 cp_event_count = cc_count c, cp_anchor_hash = cc_anchor c\<rparr>)"

abbreviation checkpoint_upsert ::
  "checkpoint_cmd \<Rightarrow> audit_ledger_checkpoint list \<Rightarrow> audit_ledger_checkpoint list" where
  "checkpoint_upsert \<equiv> tbl_upsert cp_key cc_key checkpoint_merge"

definition create_daily_checkpoint ::
  "env \<Rightarrow> string \<Rightarrow> string \<Rightarrow> session \<Rightarrow> py_error + (audit_ledger_checkpoint \<times> session)" where
  "create_daily_checkpoint E date cls s =
     (case (fromisoformat (date @ ''T00:00:00''), fromisoformat (date @ ''T23:59:59'')) of
        (Some lo, Some hi) \<Rightarrow>
          (let rows = checkpoint_rows lo hi cls (s_audit_events s);
               anchor = env_sha256 E (concat (map ev_record_hash rows));
               (cid, s1) = (if tbl_get cp_key (date, cls) (s_checkpoints s) = None then uuid4_hex E s
                            else ([], s));
               c = \<lparr>cc_id = cid, cc_date = date, cc_class = cls, cc_count = length rows,
                    cc_anchor = anchor\<rparr>
           in Inr (checkpoint_merge c (tbl_get cp_key (date, cls) (s_checkpoints s)),
                   s1\<lparr>s_checkpoints := checkpoint_upsert c (s_checkpoints s)\<rparr>))
      | _ \<Rightarrow> Inl (ValueError (''Invalid isoformat string: '' @ repr_str (date @ ''T00:00:00''))))"

interpretation checkpoints: upsert_table cp_key cc_key checkpoint_merge checkpoint_upsert
  by (rule upsert_tableI) (auto simp: cp_key_def cc_key_def checkpoint_merge_def)

section \<open>The hash chain of a trace\<close>

definition trace_of :: "string \<Rightarrow> audit_event list \<Rightarrow> audit_event list" where
  "trace_of tid es = filter (\<lambda>e. ev_trace_id e = tid) es"

fun chained :: "string option \<Rightarrow> audit_event list \<Rightarrow> bool" where
  "chained prev [] = True"
| "chained prev (e # es) = (ev_prev_record_hash e = prev \<and> chained (Some (ev_record_hash e)) es)"

definition tail_hash :: "audit_event list \<Rightarrow> string option" where
  "tail_hash es = (if es = [] then None else Some (ev_record_hash (last es)))"

text \<open>Everything emitted so far: the stored rows, then the rows queued by the batch mode.\<close>

definition audit_stream :: "session \<Rightarrow> audit_event list" where
  "audit_stream s = s_audit_events s @ (case s_bulk_chain s of None \<Rightarrow> [] | Some _ \<Rightarrow> s_bulk_rows s)"

text \<open>The clock assumption: two readings are never equal and never go back.\<close>

definition strict_clock :: "env \<Rightarrow> bool" where
  "strict_clock E = (\<forall>i. env_clock E i < env_clock E (Suc i))"

definition bulk_ok :: "session \<Rightarrow> bool" where
  "bulk_ok s =
     (case s_bulk_chain s of
        None \<Rightarrow> True
      | Some m \<Rightarrow>
          (\<forall>tid. (map_of m tid = None \<longrightarrow> trace_of tid (s_bulk_rows s) = []) \<and>
                 (\<forall>h. map_of m tid = Some h \<longrightarrow> tail_hash (trace_of tid (audit_stream s)) = Some h)))"

definition times_ok :: "env \<Rightarrow> session \<Rightarrow> bool" where
  "times_ok E s =
     (sorted_wrt (<) (map ev_created_at (audit_stream s)) \<and>
      (\<forall>e \<in> set (audit_stream s). ev_created_at e < env_clock E (s_clk s)))"

definition audit_ok :: "env \<Rightarrow> session \<Rightarrow> bool" where
  "audit_ok E s =
     ((\<forall>tid. chained None (trace_of tid (audit_stream s))) \<and> times_ok E s \<and> bulk_ok s)"

lemma trace_of_append [simp]: "trace_of tid (xs @ ys) = trace_of tid xs @ trace_of tid ys"
  by (simp add: trace_of_def)

lemma trace_of_Nil [simp]: "trace_of tid [] = []"
  by (simp add: trace_of_def)

lemma trace_of_single [simp]: "trace_of tid [e] = (if ev_trace_id e = tid then [e] else [])"
  by (simp add: trace_of_def)

lemma tail_hash_simps [simp]: "tail_hash [] = None" "tail_hash (es @ [e]) = Some (ev_record_hash e)"
  by (simp_all add: tail_hash_def)

lemma chained_append:
  "chained prev (es @ [e]) \<longleftrightarrow>
     chained prev es \<and> ev_prev_record_hash e = (if es = [] then prev else tail_hash es)"
  by (induction es arbitrary: prev) (auto simp: tail_hash_def)

lemma newest_sorted:
  "sorted_wrt (<) (map ev_created_at es) \<Longrightarrow> newest es = (if es = [] then None else Some (last es))"
  by (induction es) (auto simp: less_le_not_le split: option.splits)

lemma latest_hash_sorted:
  assumes "sorted_wrt (<) (map ev_created_at es)"
  shows "latest_hash tid es = tail_hash (trace_of tid es)"
proof -
  have "sorted_wrt (<) (map ev_created_at (trace_of tid es))"
    using assms by (auto simp: trace_of_def sorted_wrt_map intro: sorted_wrt_filter)
  then show ?thesis
    using newest_sorted by (simp add: latest_hash_def trace_of_def [symmetric] tail_hash_def)
qed

lemma map_of_chain_set: "map_of (chain_set tid h m) t = (if t = tid then Some h else map_of m t)"
proof -
  have "map_of (filter (\<lambda>(t, _). t \<noteq> tid) m) t = map_of m t" if "t \<noteq> tid"
    using that by (induction m) auto
  then show ?thesis by (simp add: chain_set_def)
qed

text \<open>In both modes the hash that the next event links to is the tail of its trace.\<close>

lemma prev_hash_tail:
  assumes "audit_ok E s"
  shows "prev_hash tid s = tail_hash (trace_of tid (audit_stream s))"
proof -
  have "sorted_wrt (<) (map ev_created_at (s_audit_events s))"
    using assms by (simp add: audit_ok_def times_ok_def audit_stream_def sorted_wrt_append)
  then have l: "latest_hash tid (s_audit_events s) = tail_hash (trace_of tid (s_audit_events s))"
    by (rule latest_hash_sorted)
  show ?thesis
  proof (cases "s_bulk_chain s")
    case None
    then show ?thesis by (simp add: prev_hash_def l audit_stream_def)
  next
    case (Some m)
    with assms show ?thesis using Some by (auto simp: audit_ok_def bulk_ok_def prev_hash_def l audit_stream_def split: option.splits)
  qed
qed

text \<open>What an emission does to the stream, whatever the mode.\<close>

lemma audit_stream_store [simp]: "audit_stream (store_event e s) = audit_stream s @ [e]"
  by (simp add: audit_stream_def store_event_def split: option.splits)

lemma audit_stream_counters [simp]:
  "audit_stream (s\<lparr>s_clk := c\<rparr>) = audit_stream s" "audit_stream (s\<lparr>s_uid := u\<rparr>) = audit_stream s"
  by (simp_all add: audit_stream_def split: option.splits)

lemma prev_hash_uid [simp]: "prev_hash tid (s\<lparr>s_uid := u\<rparr>) = prev_hash tid s"
  by (simp add: prev_hash_def split: option.splits)

definition emitted :: "env \<Rightarrow> event_args \<Rightarrow> session \<Rightarrow> audit_event" where
  "emitted E a s =
     (let eid = env_uuid_hex E (s_uid s); prev = prev_hash (ea_trace_id a) s
      in event_row a eid prev
           (env_sha256 E (stable_json (event_body a eid prev (env_clock E (s_clk s)))))
           (env_clock E (Suc (s_clk s))))"

lemma emit_audit_event_eq:
  "emit_audit_event E a s =
     (env_uuid_hex E (s_uid s),
      store_event (emitted E a s) (s\<lparr>s_uid := Suc (s_uid s), s_clk := Suc (Suc (s_clk s))\<rparr>))"
  by (simp add: emit_audit_event_def emitted_def uuid4_hex_def utcnow_def Let_def)

lemma emitted_simps [simp]:
  "ev_trace_id (emitted E a s) = ea_trace_id a"
  "ev_prev_record_hash (emitted E a s) = prev_hash (ea_trace_id a) s"
  "ev_created_at (emitted E a s) = env_clock E (Suc (s_clk s))"
  by (simp_all add: emitted_def event_row_def Let_def)

lemma clk_store [simp]: "s_clk (store_event e s) = s_clk s"
  by (simp add: store_event_def split: option.splits)

lemma bulk_ok_store:
  assumes "bulk_ok s"
  shows "bulk_ok (store_event e s)"
proof (cases "s_bulk_chain s")
  case None
  then show ?thesis by (simp add: bulk_ok_def store_event_def)
next
  case (Some m)
  with assms show ?thesis
    by (auto simp: bulk_ok_def map_of_chain_set store_event_def audit_stream_def tail_hash_def
        split: if_splits)
qed

lemma bulk_ok_counters [simp]: "bulk_ok (s\<lparr>s_uid := u, s_clk := c\<rparr>) = bulk_ok s"
  by (simp add: bulk_ok_def audit_stream_def split: option.splits)

lemma audit_ok_emit:
  assumes "strict_clock E" and "audit_ok E s"
  shows "audit_ok E (snd (emit_audit_event E a s))"
proof -
  have c: "env_clock E (s_clk s) < env_clock E (Suc (s_clk s))"
      "env_clock E (Suc (s_clk s)) < env_clock E (Suc (Suc (s_clk s)))"
    using assms(1) by (simp_all add: strict_clock_def)
  have "ev_created_at e < env_clock E (Suc (s_clk s)) \<and>
      ev_created_at e < env_clock E (Suc (Suc (s_clk s)))" if "e \<in> set (audit_stream s)" for e
  proof -
    have "ev_created_at e < env_clock E (s_clk s)"
      using assms(2) that by (simp add: audit_ok_def times_ok_def)
    with c show ?thesis by (meson less_trans)
  qed
  then have "times_ok E (snd (emit_audit_event E a s))"
    using assms(2) c by (auto simp: emit_audit_event_eq audit_ok_def times_ok_def sorted_wrt_append)
  moreover have "bulk_ok (snd (emit_audit_event E a s))"
    using assms(2) by (simp add: emit_audit_event_eq audit_ok_def bulk_ok_store)
  moreover have "chained None (trace_of tid (audit_stream (snd (emit_audit_event E a s))))" for tid
    using assms(2) prev_hash_tail [OF assms(2), of tid]
    by (auto simp: emit_audit_event_eq audit_ok_def chained_append)
  ultimately show ?thesis by (simp add: audit_ok_def)
qed

lemma emit_all_simps [simp]:
  "emit_all E [] s = s" "emit_all E (a # as) s = emit_all E as (snd (emit_audit_event E a s))"
  by (simp_all add: emit_all_def)

lemma audit_ok_emit_all: "strict_clock E \<Longrightarrow> audit_ok E s \<Longrightarrow> audit_ok E (emit_all E as s)"
  by (induction as arbitrary: s) (auto intro: audit_ok_emit)

lemma bulk_off_emit [simp]:
  "s_bulk_chain s = None \<Longrightarrow> s_bulk_chain (snd (emit_audit_event E a s)) = None"
  by (simp add: emit_audit_event_eq store_event_def)

lemma bulk_off_emit_all [simp]: "s_bulk_chain s = None \<Longrightarrow> s_bulk_chain (emit_all E as s) = None"
  by (induction as arbitrary: s) auto

lemma emit_all_extends:
  "\<exists>r. length r = length as \<and> audit_stream (emit_all E as s) = audit_stream s @ r"
proof (induction as arbitrary: s)
  case (Cons a as)
  obtain r where "length r = length as" and
      "audit_stream (emit_all E as (snd (emit_audit_event E a s))) =
        audit_stream (snd (emit_audit_event E a s)) @ r"
    using Cons.IH by blast
  then have "length (emitted E a s # r) = length (a # as) \<and>
      audit_stream (emit_all E (a # as) s) = audit_stream s @ (emitted E a s # r)"
    by (simp add: emit_audit_event_eq)
  then show ?case by blast
qed simp

text \<open>
  C30. Events are only appended, one per call, and after any sequence of events every trace is a
  hash chain: its first event has no previous hash and each later one carries the
  \<open>record_hash\<close> of the event before it in the trace, for a clock that never repeats a reading.
\<close>

theorem audit_trace_chained:
  assumes "strict_clock E" and "audit_ok E s" and "s_bulk_chain s = None"
  shows "chained None (trace_of tid (s_audit_events (emit_all E as s))) \<and>
    take (length (s_audit_events s)) (s_audit_events (emit_all E as s)) = s_audit_events s \<and>
    length (s_audit_events (emit_all E as s)) = length (s_audit_events s) + length as"
proof -
  have st: "audit_stream s = s_audit_events s"
      "audit_stream (emit_all E as s) = s_audit_events (emit_all E as s)"
    using assms(3) by (simp_all add: audit_stream_def)
  obtain r where "length r = length as" "audit_stream (emit_all E as s) = audit_stream s @ r"
    using emit_all_extends by blast
  then show ?thesis
    using audit_ok_emit_all [OF assms(1,2), of as] unfolding audit_ok_def st by simp
qed

definition demo_clock :: "nat \<Rightarrow> datetime" where
  "demo_clock n = DateTime 2026 1 1 0 0 0 n"

text \<open>The environment of the examples; the digest is written as a tag in front of its input.\<close>

definition demo_env :: env where
  "demo_env =
     \<lparr>env_clock = demo_clock, env_uuid_hex = (\<lambda>n. ''u'' @ nat_str n), env_sha256 = (\<lambda>s. ''h:'' @ s),
      env_decision_ledger_enabled = True, env_correlation_linking_enabled = True,
      env_container_asset_path_aliases = [], env_correlation_include_digest = False, env_local_to_utc = (\<lambda>t. t)\<rparr>"

lemma strict_clock_demo [simp]: "strict_clock demo_env"
  by (simp add: strict_clock_def demo_env_def demo_clock_def less_datetime_def dt_key_def)

lemma audit_ok_empty [simp]: "audit_ok E empty_session"
  by (simp add: audit_ok_def audit_stream_def empty_session_def times_ok_def bulk_ok_def)

abbreviation demo_events :: "event_args list" where
  "demo_events \<equiv> [event_defaults\<lparr>ea_trace_id := ''t''\<rparr>, event_defaults\<lparr>ea_trace_id := ''u''\<rparr>,
     event_defaults\<lparr>ea_trace_id := ''t''\<rparr>]"

theorem audit_trace_chained_witness:
  "chained None (trace_of ''t'' (s_audit_events (emit_all demo_env demo_events empty_session))) \<and>
    take (length (s_audit_events empty_session)) (s_audit_events (emit_all demo_env demo_events empty_session)) =
      s_audit_events empty_session \<and>
    length (s_audit_events (emit_all demo_env demo_events empty_session)) =
      length (s_audit_events empty_session) + length demo_events"
  by (rule audit_trace_chained) simp_all

section \<open>The batch mode writes the same ledger\<close>

text \<open>The state after the queued rows have been inserted and the scope has been left.\<close>

definition settled :: "session \<Rightarrow> session" where
  "settled s = s\<lparr>s_audit_events := audit_stream s, s_bulk_chain := None, s_bulk_rows := []\<rparr>"

lemma settled_emit:
  assumes "strict_clock E" and "audit_ok E s" and "audit_ok E (settled s)"
  shows "settled (snd (emit_audit_event E a s)) = snd (emit_audit_event E a (settled s))"
proof -
  have "audit_stream (settled s) = audit_stream s"
    by (simp add: settled_def audit_stream_def)
  then have "prev_hash tid (settled s) = prev_hash tid s" for tid
    using prev_hash_tail [OF assms(2)] prev_hash_tail [OF assms(3)] by simp
  then have "emitted E a (settled s) = emitted E a s"
    by (simp add: emitted_def settled_def [of s])
  then show ?thesis
    by (simp add: emit_audit_event_eq settled_def store_event_def audit_stream_def split: option.splits)
qed

lemma audit_ok_settled: "audit_ok E s \<Longrightarrow> audit_ok E (settled s)"
  by (simp add: audit_ok_def times_ok_def bulk_ok_def settled_def audit_stream_def)

lemma settled_emit_all:
  "strict_clock E \<Longrightarrow> audit_ok E s \<Longrightarrow> settled (emit_all E as s) = emit_all E as (settled s)"
  by (induction as arbitrary: s) (simp_all add: settled_emit audit_ok_settled audit_ok_emit)

text \<open>
  C31. Emitting a list of events inside \<open>bulk_audit_chain\<close> and flushing the queue before the scope
  ends leaves the same session (rows, hashes, counters) as emitting them one by one.
\<close>

theorem bulk_audit_chain_equiv:
  assumes "strict_clock E" and "audit_ok E s" and "s_bulk_chain s = None" and "s_bulk_rows s = []"
  shows "bulk_audit_chain (\<lambda>s. snd (flush_bulk_audit_events (emit_all E as s))) s = emit_all E as s"
proof -
  let ?b = "s\<lparr>s_bulk_chain := Some [], s_bulk_rows := []\<rparr>"
  have ok: "audit_ok E ?b"
    using assms(2,3) by (simp add: audit_ok_def times_ok_def bulk_ok_def audit_stream_def)
  have on: "s_bulk_chain t \<noteq> None \<Longrightarrow> s_bulk_chain (emit_all E as t) \<noteq> None" for as t
    by (induction as arbitrary: t) (auto simp: emit_audit_event_eq store_event_def)
  then obtain m where m: "s_bulk_chain (emit_all E as ?b) = Some m" by fastforce
  have "settled ?b = s" using assms(3,4) by (simp add: settled_def audit_stream_def)
  then have "settled (emit_all E as ?b) = emit_all E as s"
    using settled_emit_all [OF assms(1) ok] by simp
  moreover have "bulk_audit_chain (\<lambda>s. snd (flush_bulk_audit_events (emit_all E as s))) s =
      settled (emit_all E as ?b)"
    using assms(3,4) m
    by (simp add: bulk_audit_chain_def flush_bulk_audit_events_def settled_def audit_stream_def)
  ultimately show ?thesis by simp
qed

theorem bulk_audit_chain_equiv_witness:
  "bulk_audit_chain (\<lambda>s. snd (flush_bulk_audit_events (emit_all demo_env demo_events s))) empty_session =
     emit_all demo_env demo_events empty_session"
  by (rule bulk_audit_chain_equiv) simp_all

section \<open>What a daily checkpoint anchors\<close>

definition same_day :: "datetime \<Rightarrow> datetime \<Rightarrow> bool" where
  "same_day t d = (dt_year t = dt_year d \<and> dt_month t = dt_month d \<and> dt_day t = dt_day d)"

definition last_fraction :: "datetime \<Rightarrow> bool" where
  "last_fraction t = (dt_hour t = 23 \<and> dt_minute t = 59 \<and> dt_second t = 59 \<and> 0 < dt_micro t)"

abbreviation day_start :: "datetime \<Rightarrow> datetime" where
  "day_start d \<equiv> DateTime (dt_year d) (dt_month d) (dt_day d) 0 0 0 0"

abbreviation day_end :: "datetime \<Rightarrow> datetime" where
  "day_end d \<equiv> DateTime (dt_year d) (dt_month d) (dt_day d) 23 59 59 0"

lemma day_bounds_parse:
  assumes "valid_datetime d"
  shows "fromisoformat (date_isoformat d @ ''T00:00:00'') = Some (day_start d)"
    and "fromisoformat (date_isoformat d @ ''T23:59:59'') = Some (day_end d)"
proof -
  have "valid_datetime (day_start d)" "valid_datetime (day_end d)"
    using assms by (simp_all add: valid_datetime_def)
  then have "fromisoformat (isoformat (day_start d)) = Some (day_start d)"
      "fromisoformat (isoformat (day_end d)) = Some (day_end d)"
    by (simp_all only: fromisoformat_isoformat)
  moreover have "pad 2 0 = ''00''" "pad 2 23 = ''23''" "pad 2 59 = ''59''"
    by code_simp+
  ultimately show "fromisoformat (date_isoformat d @ ''T00:00:00'') = Some (day_start d)"
    and "fromisoformat (date_isoformat d @ ''T23:59:59'') = Some (day_end d)"
    by (simp_all add: isoformat_def date_isoformat_def)
qed

lemma day_window:
  assumes "valid_datetime t"
  shows "day_start d \<le> t \<and> t \<le> day_end d \<longleftrightarrow> same_day t d \<and> \<not> last_fraction t"
  using assms
  by (cases t) (auto simp: less_eq_datetime_def dt_key_def same_day_def last_fraction_def valid_datetime_def)

lemma length_checkpoint_rows: "length (checkpoint_rows lo hi cls es) = length (filter (in_window lo hi cls) es)"
  by (simp add: checkpoint_rows_def)

lemma create_daily_checkpoint_ok:
  assumes "valid_datetime d"
  shows "\<exists>c s1. cc_key c = (date_isoformat d, cls) \<and>
    cc_count c = length (checkpoint_rows (day_start d) (day_end d) cls (s_audit_events s)) \<and>
    cc_anchor c = env_sha256 E (concat (map ev_record_hash
      (checkpoint_rows (day_start d) (day_end d) cls (s_audit_events s)))) \<and>
    create_daily_checkpoint E (date_isoformat d) cls s =
      Inr (checkpoint_merge c (tbl_get cp_key (date_isoformat d, cls) (s_checkpoints s)),
           s1\<lparr>s_checkpoints := checkpoint_upsert c (s_checkpoints s)\<rparr>)"
proof -
  obtain cid s1 where r: "(if tbl_get cp_key (date_isoformat d, cls) (s_checkpoints s) = None
      then uuid4_hex E s else ([], s)) = (cid, s1)"
    by (meson surj_pair)
  let ?rows = "checkpoint_rows (day_start d) (day_end d) cls (s_audit_events s)"
  let ?c = "\<lparr>cc_id = cid, cc_date = date_isoformat d, cc_class = cls, cc_count = length ?rows,
    cc_anchor = env_sha256 E (concat (map ev_record_hash ?rows))\<rparr>"
  have "create_daily_checkpoint E (date_isoformat d) cls s =
      Inr (checkpoint_merge ?c (tbl_get cp_key (date_isoformat d, cls) (s_checkpoints s)),
           s1\<lparr>s_checkpoints := checkpoint_upsert ?c (s_checkpoints s)\<rparr>)"
    unfolding create_daily_checkpoint_def r by (simp add: day_bounds_parse [OF assms] Let_def)
  then show ?thesis by (intro exI [of _ ?c] exI [of _ s1]) (simp add: cc_key_def)
qed

text \<open>
  For a calendar day written as \<open>YYYY-MM-DD\<close> the checkpoint succeeds, its anchor and its count
  cover exactly the events of the retention class whose time lies on that day, except those in
  the last fraction of a second of the day, and afterwards the table holds one
  checkpoint for the day and class, the one returned.
\<close>

lemma daily_checkpoint_window:
  assumes "valid_datetime d" and "\<forall>e \<in> set (s_audit_events s). valid_datetime (ev_created_at e)"
    and "distinct (map cp_key (s_checkpoints s))"
  shows "\<exists>cp s'. create_daily_checkpoint E (date_isoformat d) cls s = Inr (cp, s') \<and>
    cp_event_count cp =
      length (filter (\<lambda>e. ev_retention_class e = cls \<and> same_day (ev_created_at e) d \<and>
                          \<not> last_fraction (ev_created_at e)) (s_audit_events s)) \<and>
    filter (\<lambda>r. cp_key r = (date_isoformat d, cls)) (s_checkpoints s') = [cp]"
proof -
  let ?k = "(date_isoformat d, cls)"
  obtain c s1 where c: "cc_key c = ?k"
      and n: "cc_count c = length (filter (in_window (day_start d) (day_end d) cls) (s_audit_events s))"
      and r: "create_daily_checkpoint E (date_isoformat d) cls s =
        Inr (checkpoint_merge c (tbl_get cp_key ?k (s_checkpoints s)),
             s1\<lparr>s_checkpoints := checkpoint_upsert c (s_checkpoints s)\<rparr>)"
    using create_daily_checkpoint_ok [OF assms(1)] unfolding length_checkpoint_rows by blast
  define cp where "cp = checkpoint_merge c (tbl_get cp_key ?k (s_checkpoints s))"
  let ?t = "checkpoint_upsert c (s_checkpoints s)"
  have "cp_event_count cp = cc_count c"
    by (simp add: cp_def checkpoint_merge_def split: option.splits)
  moreover have "filter (in_window (day_start d) (day_end d) cls) (s_audit_events s) =
      filter (\<lambda>e. ev_retention_class e = cls \<and> same_day (ev_created_at e) d \<and>
        \<not> last_fraction (ev_created_at e)) (s_audit_events s)"
    using assms(2) day_window by (intro filter_cong) (auto simp: in_window_def)
  moreover have "tbl_get cp_key ?k ?t = Some cp"
    using checkpoints.get_same [of c "s_checkpoints s"] c by (simp add: cp_def)
  then have "filter (\<lambda>r. cp_key r = ?k) ?t = [cp]"
    using checkpoints.distinct_keys [OF assms(3), of c] by (simp add: tbl_get_filter)
  ultimately show ?thesis using r n by (simp add: cp_def [symmetric])
qed

text \<open>An event in the last half second of the first of January, and one at noon.\<close>

definition demo_day_events :: "audit_event list" where
  "demo_day_events =
     [event_row (event_defaults\<lparr>ea_trace_id := ''t''\<rparr>) ''e1'' None ''h1'' (DateTime 2026 1 1 12 0 0 0),
      event_row (event_defaults\<lparr>ea_trace_id := ''t''\<rparr>) ''e2'' (Some ''h1'') ''h2''
        (DateTime 2026 1 1 23 59 59 500000)]"

lemma checkpoint_rows_mset:
  assumes "mset es = mset fs" and "distinct (map ev_event_id es)"
  shows "checkpoint_rows lo hi cls es = checkpoint_rows lo hi cls fs"
proof -
  let ?f = "filter (in_window lo hi cls)"
  have "sort_key ev_event_id (?f es) = sort_key ev_event_id (?f fs)"
  proof (rule sort_key_inj_key_eq)
    show "mset (?f es) = mset (sort_key ev_event_id (?f fs))" using assms(1) by simp
    show "inj_on ev_event_id (set (?f es))"
      using assms(2) by (auto simp: distinct_map intro: inj_on_subset)
  qed simp
  then show ?thesis by (simp add: checkpoint_rows_def)
qed

text \<open>
  The anchor is deterministic: the returned checkpoint does not depend on the order in which
  the database stores or returns the events, only on the set of events with their identifiers.
\<close>

lemma checkpoint_order_independent:
  assumes "mset (s_audit_events s) = mset (s_audit_events t)"
    and "distinct (map ev_event_id (s_audit_events s))"
    and "s_checkpoints s = s_checkpoints t" and "s_uid s = s_uid t"
  shows "map_sum id fst (create_daily_checkpoint E date cls s) =
    map_sum id fst (create_daily_checkpoint E date cls t)"
  using checkpoint_rows_mset [OF assms(1,2)] assms(3,4)
  by (auto simp: create_daily_checkpoint_def uuid4_hex_def Let_def split: option.splits)

end
