(* ===== verification/Vat_Ledger.thy ===== *)
theory Vat_Ledger
  imports Vat_Asset Vat_Audit
begin

text \<open>
  \<open>services/decision_ledger.py\<close>, first part: looking decisions up, deciding whether a stored
  decision applies to a finding, projecting it, recording a reviewer decision, and the
  subject aliases. The finding argument of an operation is the ORM object: the operation
  returns its updated value and writes it back to the row with its id.

  \<open>models/triage_decision.py\<close> declares \<open>updated_at\<close> with \<open>onupdate=datetime.utcnow\<close>, so the
  UPDATE that flushes a changed decision sets \<open>updated_at\<close> unless the code assigned it
  itself; \<open>flush_decision\<close> is that UPDATE.
\<close>

section \<open>Status classes\<close>

definition TERMINAL_DECISION_STATUSES :: "string list" where
  "TERMINAL_DECISION_STATUSES =
     map status_value [RiskAccepted, FalsePositive, Suppressed, NotApplicable, Mitigated, Duplicate]"

definition REVIEW_REQUIRED_STATUSES :: "string list" where
  "REVIEW_REQUIRED_STATUSES = map status_value [Approved, Rejected]"

definition AUTO_APPLY_DECISION_STATUSES :: "string list" where
  "AUTO_APPLY_DECISION_STATUSES = TERMINAL_DECISION_STATUSES @ REVIEW_REQUIRED_STATUSES"

definition PRE_DECISION_STATUSES :: "string list" where
  "PRE_DECISION_STATUSES = map status_value [Open, SyncedToTracker, InReview, Reopened]"

definition RECORDABLE_STATUSES :: "string list" where
  "RECORDABLE_STATUSES =
     map status_value (filter (\<lambda>s. s \<notin> set [Open, SyncedToTracker, InReview, Reopened]) all_statuses)"

record decision_apply_result =
  dar_applied :: bool
  dar_decision_id :: "string option"
  dar_subject_key :: "string option"
  dar_link_method :: "string option"
  dar_conflict :: bool

definition not_applied :: decision_apply_result where
  "not_applied = \<lparr>dar_applied = False, dar_decision_id = None, dar_subject_key = None,
     dar_link_method = None, dar_conflict = False\<rparr>"

section \<open>Snapshots and small helpers\<close>

definition new_decision_id :: "env \<Rightarrow> session \<Rightarrow> string \<times> session" where
  "new_decision_id E s = (case uuid4_hex E s of (u, s1) \<Rightarrow> (''td-'' @ take 16 u, s1))"

definition new_revision_id :: "env \<Rightarrow> session \<Rightarrow> string \<times> session" where
  "new_revision_id E s = (case uuid4_hex E s of (u, s1) \<Rightarrow> (''tdr-'' @ take 16 u, s1))"

definition decision_snapshot :: "triage_decision \<Rightarrow> json" where
  "decision_snapshot d =
     JObj [(''status'', JStr (d_status d)), (''suppression_scope'', opt_json (d_suppression_scope d)),
           (''justification'', opt_json (d_justification d)),
           (''compensating_controls'', opt_json (d_compensating_controls d)),
           (''reviewer_note'', opt_json (d_reviewer_note d)),
           (''attestation'', jsonb_get (d_attestation d)),
           (''identity_snapshot'', d_identity_snapshot d), (''subject_key'', JStr (d_subject_key d)),
           (''decision_version'', JInt (int (d_decision_version d)))]"

definition identity_snapshot_from_finding :: "finding \<Rightarrow> json" where
  "identity_snapshot_from_finding f =
     JObj [(''cveId'', JStr (f_cve_id f)), (''title'', opt_json (f_title f)),
           (''severity'', JStr (severity_value (f_severity f))), (''component'', opt_json (f_component f)),
           (''image'', opt_json (f_image f)),
           (''findingType'', JStr (finding_type_value (f_finding_type f))),
           (''controlRef'', opt_json (f_control_ref f)), (''ruleId'', opt_json (f_rule_id f))]"

definition exp_date_str :: "json \<Rightarrow> string option" where
  "exp_date_str expires_at =
     (if \<not> py_truth expires_at then None
      else let text = py_strip (py_str expires_at)
           in if 10 \<le> length text then Some (take 10 text) else nonempty text)"

definition is_waiver_expired :: "json \<Rightarrow> string \<Rightarrow> bool" where
  "is_waiver_expired expires_at today =
     (case exp_date_str expires_at of None \<Rightarrow> False | Some d \<Rightarrow> d \<noteq> [] \<and> d < today)"

section \<open>Subject keys of a stored finding\<close>

definition canonical_asset_for_finding :: "env \<Rightarrow> asset_alias list \<Rightarrow> finding \<Rightarrow> string option \<Rightarrow> string" where
  "canonical_asset_for_finding E aliases f parser_id =
     (let raw = py_strip (or_empty (py_or (f_image f) (f_component f)))
      in if raw = [] then []
         else if infer_asset_kind raw (or_empty parser_id) = ''container''
         then correlation_asset_image_for_ingest E aliases (Some raw) parser_id
         else resolve_canonical_asset_id aliases raw)"

fun source_link_fields :: "json list \<Rightarrow> string option \<times> string option" where
  "source_link_fields [] = (None, None)"
| "source_link_fields (link # links) =
     (if is_dict link \<and> jget ''kind'' (as_dict link) = JStr ''source''
      then (nonempty (py_strip (str_or_empty (jget ''adapter_key'' (as_dict link)))),
            nonempty (py_strip (str_or_empty (jget ''issue_id'' (as_dict link)))))
      else source_link_fields links)"

definition decision_subject_keys_for_finding ::
  "finding \<Rightarrow> string \<Rightarrow> string option \<Rightarrow> string option \<Rightarrow> decision_subject_candidate list" where
  "decision_subject_keys_for_finding f canonical_asset source_name source_issue_id =
     decision_subject_keys_for_payload
       \<lparr>dk_tenant_id = f_tenant_id f, dk_finding_type = finding_type_value (f_finding_type f),
        dk_canonical_asset = canonical_asset, dk_branch = or_empty (f_branch f),
        dk_tag = or_empty (f_tag f), dk_cve_id = f_cve_id f,
        dk_component = or_empty (py_or (f_component f) (f_component_base f)),
        dk_ecosystem = f_ecosystem f, dk_rule_id = f_rule_id f, dk_file_path = f_file_path f,
        dk_sast_partial_fingerprint_hash = None, dk_benchmark_family = f_benchmark_family f,
        dk_license_expression = f_license_expression f, dk_stable_rule_key = f_stable_rule_key f,
        dk_profile_scope = f_profile_scope f, dk_source_name = source_name,
        dk_source_issue_id = source_issue_id\<rparr>"

definition candidates_for_finding ::
  "env \<Rightarrow> asset_alias list \<Rightarrow> finding \<Rightarrow> string option \<Rightarrow> decision_subject_candidate list" where
  "candidates_for_finding E aliases f parser_id =
     (let (source_name, source_issue_id) = source_link_fields (f_external_links f)
      in decision_subject_keys_for_finding f (canonical_asset_for_finding E aliases f parser_id)
           source_name source_issue_id)"

section \<open>Lookup\<close>

definition d_key :: "triage_decision \<Rightarrow> string \<times> string" where
  "d_key d = (d_tenant_id d, d_subject_key d)"

definition sa_key :: "decision_subject_alias \<Rightarrow> string \<times> string" where
  "sa_key a = (sa_tenant_id a, sa_alias_key a)"

definition lookup_key ::
  "triage_decision list \<Rightarrow> decision_subject_alias list \<Rightarrow> string \<Rightarrow> string \<Rightarrow> triage_decision option" where
  "lookup_key ds als tenant k =
     (case tbl_get d_key (tenant, k) ds of
        Some row \<Rightarrow> Some row
      | None \<Rightarrow>
          (case tbl_get sa_key (tenant, k) als of
             None \<Rightarrow> None
           | Some al \<Rightarrow> tbl_get d_key (tenant, sa_canonical_key al) ds))"

fun lookup_candidates ::
  "triage_decision list \<Rightarrow> decision_subject_alias list \<Rightarrow> string \<Rightarrow> decision_subject_candidate list \<Rightarrow>
   (triage_decision \<times> decision_subject_candidate) option" where
  "lookup_candidates ds als tenant [] = None"
| "lookup_candidates ds als tenant (c # cs) =
     (case lookup_key ds als tenant (dsc_subject_key c) of
        Some row \<Rightarrow> Some (row, c)
      | None \<Rightarrow> lookup_candidates ds als tenant cs)"

definition lookup_decision ::
  "session \<Rightarrow> string option \<Rightarrow> decision_subject_candidate list \<Rightarrow>
   (triage_decision \<times> decision_subject_candidate) option" where
  "lookup_decision s tenant_id candidates =
     lookup_candidates (s_decisions s) (s_subject_aliases s) (normalize_tenant_id tenant_id) candidates"

section \<open>Does a decision apply?\<close>

definition parse_audit_ts :: "json \<Rightarrow> datetime option" where
  "parse_audit_ts ts =
     (let text = rstrip_by (\<lambda>c. c = CHR ''Z'') (py_strip (str_or_empty ts))
      in if text = [] then None else fromisoformat text)"

text \<open>The times of the audit entries that a person wrote.\<close>

definition human_edit_times :: "json list \<Rightarrow> datetime list" where
  "human_edit_times audit =
     concat (map (\<lambda>entry.
       if \<not> is_dict entry then []
       else if py_lower (py_strip (str_or_empty (jget ''user'' (as_dict entry)))) \<in> set [[], ''system''] then []
       else case parse_audit_ts (jget ''ts'' (as_dict entry)) of None \<Rightarrow> [] | Some t \<Rightarrow> [t]) audit)"

definition latest_time :: "datetime list \<Rightarrow> datetime option" where
  "latest_time ts =
     fold (\<lambda>t acc. case acc of None \<Rightarrow> Some t | Some m \<Rightarrow> if m < t then Some t else Some m) ts None"

definition finding_has_newer_human_edit :: "finding \<Rightarrow> triage_decision \<Rightarrow> bool" where
  "finding_has_newer_human_edit f d =
     (case latest_time (human_edit_times (f_audit f)) of None \<Rightarrow> False | Some t \<Rightarrow> d_updated_at d < t)"

datatype apply_action = Apply | Skip | Conflict

text \<open>\<open>link_applied\<close> is the transient attribute \<open>_decision_applied_version\<close> of the finding.\<close>

definition decision_apply_action :: "finding \<Rightarrow> triage_decision \<Rightarrow> nat option \<Rightarrow> apply_action" where
  "decision_apply_action f d link_applied =
     (let dstatus = d_status d; fstatus = status_value (f_status f);
          decision_is_newer = (case link_applied of None \<Rightarrow> False | Some v \<Rightarrow> v < d_decision_version d)
      in if dstatus \<in> set REVIEW_REQUIRED_STATUSES then (if fstatus = dstatus then Skip else Conflict)
         else if dstatus \<notin> set TERMINAL_DECISION_STATUSES then Skip
         else if fstatus \<in> set PRE_DECISION_STATUSES then Apply
         else if fstatus = dstatus \<and> \<not> decision_is_newer then Skip
         else if finding_has_newer_human_edit f d then Conflict
         else Apply)"

definition should_apply_decision :: "finding \<Rightarrow> triage_decision \<Rightarrow> nat option \<Rightarrow> bool" where
  "should_apply_decision f d link_applied = (decision_apply_action f d link_applied = Apply)"

definition audit_entry :: "string \<Rightarrow> string \<Rightarrow> string \<Rightarrow> string \<Rightarrow> json" where
  "audit_entry ts user action note =
     JObj [(''ts'', JStr ts), (''user'', JStr user), (''action'', JStr action), (''note'', JStr note)]"

definition apply_decision_projection ::
  "env \<Rightarrow> finding \<Rightarrow> triage_decision \<Rightarrow> session \<Rightarrow> py_error + (finding \<times> session)" where
  "apply_decision_projection E f d s =
     (case status_of_value (d_status d) of
        Inl e \<Rightarrow> Inl e
      | Inr st \<Rightarrow>
          (case (if truthy (d_suppression_scope d)
                 then map_sum id Some (scope_of_value (or_empty (d_suppression_scope d)))
                 else Inr (f_suppression_scope f)) of
             Inl e \<Rightarrow> Inl e
           | Inr scope \<Rightarrow>
               (let (t, s1) = utcnow E s
                in Inr (f\<lparr>f_status := st, f_justification := d_justification d,
                         f_compensating_controls := d_compensating_controls d,
                         f_reviewer_note := d_reviewer_note d,
                         f_attestation := jsonb_set (f_attestation f) (jsonb_get (d_attestation d)),
                         f_suppression_scope := scope,
                         f_audit := f_audit f @
                           [audit_entry (isoformat t @ ''Z'') ''system'' ''Decision re-linked''
                              (''Applied decision '' @ d_id d @ '' ('' @ d_subject_key d @ '')'')]\<rparr>,
                        s1))))"

section \<open>Links\<close>

record link_cmd =
  lc_decision_id :: string
  lc_finding_id :: string
  lc_method :: string
  lc_confidence :: string
  lc_applied_version :: nat
  lc_linked_at :: datetime

definition l_key :: "decision_finding_link \<Rightarrow> string \<times> string" where
  "l_key l = (l_decision_id l, l_finding_id l)"

definition lc_key :: "link_cmd \<Rightarrow> string \<times> string" where
  "lc_key c = (lc_decision_id c, lc_finding_id c)"

definition link_merge :: "link_cmd \<Rightarrow> decision_finding_link option \<Rightarrow> decision_finding_link" where
  "link_merge c old =
     (case old of
        Some row \<Rightarrow> row\<lparr>l_link_method := lc_method c, l_link_confidence := lc_confidence c,
                       l_applied_decision_version := lc_applied_version c,
                       l_linked_at := lc_linked_at c, l_unlinked_at := None\<rparr>
      | None \<Rightarrow> \<lparr>l_decision_id = lc_decision_id c, l_finding_id = lc_finding_id c,
                 l_link_method = lc_method c, l_link_confidence = lc_confidence c,
                 l_applied_decision_version = lc_applied_version c, l_linked_at = lc_linked_at c,
                 l_unlinked_at = None\<rparr>)"

abbreviation link_upsert :: "link_cmd \<Rightarrow> decision_finding_link list \<Rightarrow> decision_finding_link list" where
  "link_upsert \<equiv> tbl_upsert l_key lc_key link_merge"

interpretation links: upsert_table l_key lc_key link_merge link_upsert
  by (rule upsert_tableI) (auto simp: l_key_def lc_key_def link_merge_def)

definition upsert_decision_link ::
  "env \<Rightarrow> string \<Rightarrow> string \<Rightarrow> decision_subject_candidate \<Rightarrow> nat \<Rightarrow> session \<Rightarrow> session" where
  "upsert_decision_link E did fid candidate applied_version s =
     (let (t, s1) = utcnow E s
      in s1\<lparr>s_links := link_upsert
              \<lparr>lc_decision_id = did, lc_finding_id = fid, lc_method = dsc_kind candidate,
               lc_confidence = dsc_confidence candidate, lc_applied_version = applied_version,
               lc_linked_at = t\<rparr> (s_links s1)\<rparr>)"

section \<open>Re-linking a finding to its decision\<close>

text \<open>The UPDATE of a decision whose \<open>updated_at\<close> the code did not assign.\<close>

definition flush_decision :: "env \<Rightarrow> triage_decision \<Rightarrow> session \<Rightarrow> session" where
  "flush_decision E d s =
     (let (t, s1) = utcnow E s in put_decision (d\<lparr>d_updated_at := t\<rparr>) s1)"

definition relink_event ::
  "string \<Rightarrow> string \<Rightarrow> finding \<Rightarrow> triage_decision \<Rightarrow> decision_subject_candidate \<Rightarrow> json_object \<Rightarrow> event_args" where
  "relink_event tid event_type f d matched extra =
     event_defaults\<lparr>ea_trace_id := tid, ea_event_type := event_type, ea_actor_type := ''system'',
       ea_finding_id := Some (f_id f), ea_decision_name := Some ''decision_relink'',
       ea_decision_reason_code := Some (dsc_kind matched),
       ea_decision_confidence := Some (dsc_confidence matched),
       ea_decision_result := Some (d_status d),
       ea_data := [(''decision_id'', JStr (d_id d)), (''subject_key'', JStr (d_subject_key d))] @ extra\<rparr>"

definition emit_relink ::
  "env \<Rightarrow> string option \<Rightarrow> apply_action \<Rightarrow> bool \<Rightarrow> finding \<Rightarrow> triage_decision \<Rightarrow>
   decision_subject_candidate \<Rightarrow> session \<Rightarrow> session" where
  "emit_relink E trace_id action first_link f d matched s =
     (if action = Conflict then
        (let (tid, s1) = trace_or_new E trace_id s
         in snd (emit_audit_event E (relink_event tid ''decision.relink.conflict'' f d matched
               [(''finding_status'', JStr (status_value (f_status f)))]) s1))
      else if action = Apply \<or> first_link then
        (let (tid, s1) = trace_or_new E trace_id s
         in snd (emit_audit_event E (relink_event tid ''decision.relinked'' f d matched
               [(''applied'', JBool (action = Apply))]) s1))
      else s)"

text \<open>The branch of \<open>resolve_and_apply_decision\<close> after a decision was found.\<close>

definition relink_found ::
  "env \<Rightarrow> finding \<Rightarrow> string option \<Rightarrow> triage_decision \<Rightarrow> decision_subject_candidate \<Rightarrow> session \<Rightarrow>
   py_error + (decision_apply_result \<times> finding \<times> session)" where
  "relink_found E f trace_id d matched s =
     (let existing_link = tbl_get l_key (d_id d, f_id f) (s_links s);
          link_applied = map_option l_applied_decision_version existing_link;
          action = decision_apply_action f d link_applied;
          applied = (action = Apply)
      in case (if applied then apply_decision_projection E f d s else Inr (f, s)) of
           Inl e \<Rightarrow> Inl e
         | Inr (f1, s1) \<Rightarrow>
             (let s2 = upsert_decision_link E (d_id d) (f_id f) matched
                         (if applied then d_decision_version d
                          else case link_applied of None \<Rightarrow> 0 | Some v \<Rightarrow> v) (put_finding f1 s1);
                  (t, s3) = utcnow E s2;
                  d1 = d\<lparr>d_last_finding_id := Some (f_id f), d_last_applied_at := Some t\<rparr>;
                  s4 = flush_decision E d1 s3;
                  s5 = emit_relink E trace_id action (existing_link = None) f1 d1 matched s4
              in Inr (\<lparr>dar_applied = applied, dar_decision_id = Some (d_id d),
                       dar_subject_key = Some (d_subject_key d), dar_link_method = Some (dsc_kind matched),
                       dar_conflict = (action = Conflict)\<rparr>, f1, s5)))"

definition resolve_and_apply_decision ::
  "env \<Rightarrow> finding \<Rightarrow> string option \<Rightarrow> string option \<Rightarrow> session \<Rightarrow>
   py_error + (decision_apply_result \<times> finding \<times> session)" where
  "resolve_and_apply_decision E f trace_id parser_id s =
     (if \<not> env_decision_ledger_enabled E then Inr (not_applied, f, s)
      else case lookup_decision s (f_tenant_id f) (candidates_for_finding E (s_asset_aliases s) f parser_id) of
             None \<Rightarrow> Inr (not_applied, f, s)
           | Some (d, matched) \<Rightarrow> relink_found E f trace_id d matched s)"

section \<open>Recording a reviewer decision\<close>

definition has_decision_content :: "finding \<Rightarrow> bool" where
  "has_decision_content f =
     (truthy (f_justification f) \<or> truthy (f_compensating_controls f) \<or> truthy (f_reviewer_note f) \<or>
      py_truth (jsonb_get (f_attestation f)) \<or>
      f_status f \<in> set [RiskAccepted, FalsePositive, Suppressed, NotApplicable])"

definition updated_decision :: "finding \<Rightarrow> string \<Rightarrow> datetime \<Rightarrow> triage_decision \<Rightarrow> triage_decision" where
  "updated_decision f user now d =
     d\<lparr>d_status := status_value (f_status f),
       d_suppression_scope := map_option scope_value (f_suppression_scope f),
       d_justification := f_justification f, d_compensating_controls := f_compensating_controls f,
       d_reviewer_note := f_reviewer_note f,
       d_attestation := jsonb_set (d_attestation d) (jsonb_get (f_attestation f)),
       d_identity_snapshot := identity_snapshot_from_finding f,
       d_decision_version := d_decision_version d + 1, d_updated_by := Some user, d_updated_at := now,
       d_last_finding_id := Some (f_id f)\<rparr>"

definition created_decision ::
  "string \<Rightarrow> string \<Rightarrow> decision_subject_candidate \<Rightarrow> finding \<Rightarrow> string \<Rightarrow> datetime \<Rightarrow> triage_decision" where
  "created_decision did tenant primary f user now =
     \<lparr>d_id = did, d_tenant_id = tenant, d_subject_key = dsc_subject_key primary,
      d_subject_confidence = dsc_confidence primary,
      d_finding_type = finding_type_value (f_finding_type f), d_status = status_value (f_status f),
      d_suppression_scope = map_option scope_value (f_suppression_scope f),
      d_justification = f_justification f, d_compensating_controls = f_compensating_controls f,
      d_reviewer_note = f_reviewer_note f, d_attestation = Some (jsonb_get (f_attestation f)),
      d_identity_snapshot = identity_snapshot_from_finding f, d_decision_version = 1,
      d_created_by = user, d_created_at = now, d_updated_by = Some user, d_updated_at = now,
      d_last_finding_id = Some (f_id f), d_last_applied_at = None\<rparr>"

text \<open>The update or the insertion of the decision row.\<close>

definition write_decision ::
  "env \<Rightarrow> finding \<Rightarrow> string \<Rightarrow> decision_subject_candidate \<Rightarrow> datetime \<Rightarrow> session \<Rightarrow>
   triage_decision \<times> session" where
  "write_decision E f user primary now s =
     (let tenant = normalize_tenant_id (f_tenant_id f)
      in case tbl_get d_key (tenant, dsc_subject_key primary) (s_decisions s) of
           Some d \<Rightarrow> (let d1 = updated_decision f user now d in (d1, put_decision d1 s))
         | None \<Rightarrow>
             (let (did, s1) = new_decision_id E s;
                  d1 = created_decision did tenant primary f user now
              in (d1, s1\<lparr>s_decisions := s_decisions s1 @ [d1]\<rparr>)))"

definition add_revision ::
  "env \<Rightarrow> triage_decision \<Rightarrow> string \<Rightarrow> string \<Rightarrow> datetime \<Rightarrow> session \<Rightarrow> session" where
  "add_revision E d actor reason now s =
     (let (rid, s1) = new_revision_id E s
      in s1\<lparr>s_revisions := s_revisions s1 @
              [\<lparr>rv_id = rid, rv_decision_id = d_id d, rv_revision = d_decision_version d,
                rv_snapshot = decision_snapshot d, rv_actor_id = actor, rv_reason = Some reason,
                rv_created_at = now\<rparr>]\<rparr>)"

text \<open>The source-issue aliases are added only where no alias has the key yet.\<close>

definition add_source_alias ::
  "string \<Rightarrow> string \<Rightarrow> datetime \<Rightarrow> decision_subject_candidate \<Rightarrow> decision_subject_alias list \<Rightarrow>
   decision_subject_alias list" where
  "add_source_alias tenant canonical now c als =
     (if dsc_kind c = ''source_issue'' \<and> tbl_get sa_key (tenant, dsc_subject_key c) als = None
      then als @ [\<lparr>sa_tenant_id = tenant, sa_alias_key = dsc_subject_key c, sa_canonical_key = canonical,
                   sa_reason = ''source_issue'', sa_created_at = now\<rparr>]
      else als)"

definition recorded_event ::
  "string \<Rightarrow> string \<Rightarrow> string \<Rightarrow> finding \<Rightarrow> triage_decision \<Rightarrow> decision_subject_candidate \<Rightarrow> event_args" where
  "recorded_event tid user reason f d primary =
     event_defaults\<lparr>ea_trace_id := tid, ea_event_type := ''decision.recorded'', ea_actor_type := ''user'',
       ea_actor_id := Some user, ea_finding_id := Some (f_id f),
       ea_decision_name := Some ''triage_decision'', ea_decision_reason_code := Some reason,
       ea_decision_confidence := Some (dsc_confidence primary), ea_decision_result := Some (d_status d),
       ea_data := [(''decision_id'', JStr (d_id d)), (''subject_key'', JStr (d_subject_key d)),
                   (''decision_version'', JInt (int (d_decision_version d)))]\<rparr>"

definition record_decision_from_finding ::
  "env \<Rightarrow> finding \<Rightarrow> string \<Rightarrow> string \<Rightarrow> string option \<Rightarrow> session \<Rightarrow> triage_decision option \<times> session" where
  "record_decision_from_finding E f user reason parser_id s =
     (if \<not> env_decision_ledger_enabled E \<or> status_value (f_status f) \<notin> set RECORDABLE_STATUSES \<or>
         \<not> has_decision_content f then (None, s)
      else case candidates_for_finding E (s_asset_aliases s) f parser_id of
             [] \<Rightarrow> (None, s)
           | primary # others \<Rightarrow>
               (let tenant = normalize_tenant_id (f_tenant_id f);
                    (now, s1) = utcnow E s;
                    (d, s2) = write_decision E f user primary now s1;
                    s3 = add_revision E d user reason now s2;
                    s4 = upsert_decision_link E (d_id d) (f_id f) primary (d_decision_version d) s3;
                    s5 = s4\<lparr>s_subject_aliases :=
                           fold (add_source_alias tenant (dsc_subject_key primary) now) others
                             (s_subject_aliases s4)\<rparr>;
                    (tid, s6) = new_trace_id E s5
                in (Some d, snd (emit_audit_event E (recorded_event tid user reason f d primary) s6))))"

section \<open>Unlinking and subject aliases\<close>

definition soft_unlink_findings :: "env \<Rightarrow> string list \<Rightarrow> session \<Rightarrow> nat \<times> session" where
  "soft_unlink_findings E finding_ids s =
     (if finding_ids = [] \<or> \<not> env_decision_ledger_enabled E then (0, s)
      else let (now, s1) = utcnow E s;
               stale = (\<lambda>l. l_finding_id l \<in> set finding_ids \<and> l_unlinked_at l = None)
           in (length (filter stale (s_links s1)),
               s1\<lparr>s_links := tbl_update stale (\<lambda>l. l\<lparr>l_unlinked_at := Some now\<rparr>) (s_links s1)\<rparr>))"

record alias_cmd =
  ac_tenant :: string
  ac_alias_key :: string
  ac_canonical_key :: string
  ac_reason :: string
  ac_now :: datetime

definition ac_key :: "alias_cmd \<Rightarrow> string \<times> string" where
  "ac_key c = (ac_tenant c, ac_alias_key c)"

definition alias_merge :: "alias_cmd \<Rightarrow> decision_subject_alias option \<Rightarrow> decision_subject_alias" where
  "alias_merge c old =
     (case old of
        Some a \<Rightarrow> a\<lparr>sa_canonical_key := ac_canonical_key c, sa_reason := ac_reason c\<rparr>
      | None \<Rightarrow> \<lparr>sa_tenant_id = ac_tenant c, sa_alias_key = ac_alias_key c,
                 sa_canonical_key = ac_canonical_key c, sa_reason = ac_reason c, sa_created_at = ac_now c\<rparr>)"

abbreviation alias_upsert :: "alias_cmd \<Rightarrow> decision_subject_alias list \<Rightarrow> decision_subject_alias list" where
  "alias_upsert \<equiv> tbl_upsert sa_key ac_key alias_merge"

interpretation subject_aliases: upsert_table sa_key ac_key alias_merge alias_upsert
  by (rule upsert_tableI) (auto simp: sa_key_def ac_key_def alias_merge_def)

text \<open>The clock is read only when a new alias is stored.\<close>

definition register_subject_alias ::
  "env \<Rightarrow> string option \<Rightarrow> string \<Rightarrow> string \<Rightarrow> string \<Rightarrow> session \<Rightarrow> session" where
  "register_subject_alias E tenant_id alias_key canonical_key reason s =
     (if \<not> env_decision_ledger_enabled E then s
      else let tenant = normalize_tenant_id tenant_id;
               (now, s1) = (if tbl_get sa_key (tenant, alias_key) (s_subject_aliases s) = None
                            then utcnow E s else (env_clock E (s_clk s), s))
           in s1\<lparr>s_subject_aliases := alias_upsert
                   \<lparr>ac_tenant = tenant, ac_alias_key = alias_key, ac_canonical_key = canonical_key,
                    ac_reason = reason, ac_now = now\<rparr> (s_subject_aliases s1)\<rparr>)"

definition rekey_subject_key_asset :: "string \<Rightarrow> string \<Rightarrow> string \<Rightarrow> string option" where
  "rekey_subject_key_asset subject_key old_norm new_norm =
     (let parts = split_char CHR '':'' subject_key
      in if length parts < 5 \<or> parts ! 0 \<noteq> ''decision'' then None
         else let asset_seg = split_char CHR ''|'' (parts ! 4)
              in if asset_seg = [] \<or> hd asset_seg \<noteq> old_norm then None
                 else Some (py_join '':'' (parts[4 := py_join ''|'' (new_norm # tl asset_seg)])))"

text \<open>SQL \<open>LIKE\<close> with the default escape character.\<close>

fun sql_like :: "string \<Rightarrow> string \<Rightarrow> bool" where
  "sql_like [] s = (s = [])"
| "sql_like (p # ps) [] = (p = CHR ''%'' \<and> sql_like ps [])"
| "sql_like (p # ps) (c # s) =
     (if p = CHR ''%'' then sql_like ps (c # s) \<or> sql_like (p # ps) s
      else if p = CHR 92 then (case ps of [] \<Rightarrow> False | q # qs \<Rightarrow> c = q \<and> sql_like qs s)
      else (p = CHR ''_'' \<or> c = p) \<and> sql_like ps s)"

definition merge_pattern :: "string \<Rightarrow> string" where
  "merge_pattern old_norm = ''decision:v1:%:'' @ old_norm @ ''|%''"

fun register_rekeyed ::
  "env \<Rightarrow> string \<Rightarrow> string \<Rightarrow> triage_decision list \<Rightarrow> nat \<times> session \<Rightarrow> nat \<times> session" where
  "register_rekeyed E old_norm new_norm [] acc = acc"
| "register_rekeyed E old_norm new_norm (d # ds) (cnt, s) =
     (case rekey_subject_key_asset (d_subject_key d) old_norm new_norm of
        None \<Rightarrow> register_rekeyed E old_norm new_norm ds (cnt, s)
      | Some new_key \<Rightarrow>
          if new_key = [] \<or> new_key = d_subject_key d then register_rekeyed E old_norm new_norm ds (cnt, s)
          else register_rekeyed E old_norm new_norm ds
                 (cnt + 1,
                  register_subject_alias E (Some (d_tenant_id d)) new_key (d_subject_key d) ''asset_merge'' s))"

definition register_decision_aliases_for_asset_merge ::
  "env \<Rightarrow> string \<Rightarrow> string \<Rightarrow> session \<Rightarrow> nat \<times> session" where
  "register_decision_aliases_for_asset_merge E old_asset_id new_asset_id s =
     (let old_norm = normalize old_asset_id; new_norm = normalize new_asset_id
      in if \<not> env_decision_ledger_enabled E \<or> old_norm = [] \<or> new_norm = [] \<or> old_norm = new_norm then (0, s)
         else register_rekeyed E old_norm new_norm
                (filter (\<lambda>d. sql_like (merge_pattern old_norm) (d_subject_key d)) (s_decisions s)) (0, s))"

section \<open>Frame rules\<close>

text \<open>Reading the clock or the UUID source and emitting an event change no ledger table.\<close>

definition same_ledger :: "session \<Rightarrow> session \<Rightarrow> bool" where
  "same_ledger s t =
     (s_findings t = s_findings s \<and> s_decisions t = s_decisions s \<and> s_revisions t = s_revisions s \<and>
      s_links t = s_links s \<and> s_subject_aliases t = s_subject_aliases s \<and>
      s_asset_aliases t = s_asset_aliases s \<and> s_edges t = s_edges s \<and> s_uid s \<le> s_uid t \<and>
      s_clk s \<le> s_clk t)"

lemma same_ledger_refl [simp]: "same_ledger s s"
  by (simp add: same_ledger_def)

lemma same_ledger_trans: "same_ledger s t \<Longrightarrow> same_ledger t u \<Longrightarrow> same_ledger s u"
  by (auto simp: same_ledger_def)

lemma same_ledger_clock [simp]: "same_ledger s (snd (utcnow E s))" "same_ledger s (snd (uuid4_hex E s))"
  by (simp_all add: same_ledger_def utcnow_def uuid4_hex_def)

lemma same_ledger_emit [simp]: "same_ledger s (snd (emit_audit_event E a s))"
  by (simp add: same_ledger_def emit_audit_event_eq store_event_def split: option.splits)

lemma same_ledger_trace [simp]: "same_ledger s (snd (trace_or_new E tr s))"
  by (simp add: trace_or_new_def new_trace_id_def)

lemma same_ledger_emit_relink [simp]: "same_ledger s (emit_relink E tr a b f d m s)"
  by (auto simp: emit_relink_def split: prod.splits
      intro: same_ledger_trans [OF same_ledger_trace [of s E tr, unfolded snd_def]])

section \<open>A sample ledger\<close>

text \<open>A ledger that holds one decision, recorded for the subject of an open finding.\<close>

definition demo_open :: finding where
  "demo_open = demo_finding\<lparr>f_id := ''F-2'', f_status := Open, f_justification := None\<rparr>"

definition demo_primary :: decision_subject_candidate where
  "demo_primary = hd (candidates_for_finding demo_env [] demo_open None)"

definition demo_decision :: triage_decision where
  "demo_decision = created_decision ''td-1'' (normalize_tenant_id None) demo_primary demo_finding ''alice''
     (DateTime 2025 12 1 0 0 0 0)"

definition demo_ledger :: session where
  "demo_ledger = empty_session\<lparr>s_findings := [demo_open], s_decisions := [demo_decision]\<rparr>"

lemma demo_lookup:
  "lookup_decision demo_ledger None [demo_primary] = Some (demo_decision, demo_primary)"
  by (simp add: lookup_decision_def lookup_key_def demo_ledger_def demo_decision_def created_decision_def d_key_def)

section \<open>Lookup stays in the tenant\<close>

lemma lookup_key_Some:
  "lookup_key ds als tenant k = Some d \<Longrightarrow> d \<in> set ds \<and> d_tenant_id d = tenant"
  by (auto simp: lookup_key_def d_key_def dest!: tbl_get_Some split: option.splits)

lemma lookup_candidates_Some:
  "lookup_candidates ds als tenant cs = Some (d, c) \<Longrightarrow>
     d \<in> set ds \<and> d_tenant_id d = tenant \<and> c \<in> set cs \<and>
     lookup_key ds als tenant (dsc_subject_key c) = Some d"
  by (induction cs) (auto dest: lookup_key_Some split: option.splits)

text \<open>
  A finding is only ever matched with a decision of its own tenant, whatever the candidates
  and the alias table contain, and the decision is one of the stored rows.
\<close>

lemma lookup_decision_tenant:
  assumes "lookup_decision s tenant_id cs = Some (d, c)"
  shows "d \<in> set (s_decisions s) \<and> d_tenant_id d = normalize_tenant_id tenant_id \<and> c \<in> set cs"
  using lookup_candidates_Some [OF assms [unfolded lookup_decision_def]] by blast

section \<open>The apply policy\<close>

lemma status_list_simps [simp]:
  "status_value s \<in> set TERMINAL_DECISION_STATUSES \<longleftrightarrow>
     s \<in> {RiskAccepted, FalsePositive, Suppressed, NotApplicable, Mitigated, Duplicate}"
  "status_value s \<in> set REVIEW_REQUIRED_STATUSES \<longleftrightarrow> s \<in> {Approved, Rejected}"
  "status_value s \<in> set PRE_DECISION_STATUSES \<longleftrightarrow> s \<in> {Open, SyncedToTracker, InReview, Reopened}"
  "status_value s \<in> set RECORDABLE_STATUSES \<longleftrightarrow> s \<notin> {Open, SyncedToTracker, InReview, Reopened}"
  by (cases s; simp add: TERMINAL_DECISION_STATUSES_def REVIEW_REQUIRED_STATUSES_def
      PRE_DECISION_STATUSES_def RECORDABLE_STATUSES_def all_statuses_def status_value_def)+

lemma terminal_status:
  "v \<in> set TERMINAL_DECISION_STATUSES \<Longrightarrow>
     \<exists>st. v = status_value st \<and> st \<in> {RiskAccepted, FalsePositive, Suppressed, NotApplicable, Mitigated, Duplicate}"
  unfolding TERMINAL_DECISION_STATUSES_def by auto

lemma apply_action_Apply:
  "decision_apply_action f d la = Apply \<longleftrightarrow>
     d_status d \<in> set TERMINAL_DECISION_STATUSES \<and>
     (f_status f \<in> {Open, SyncedToTracker, InReview, Reopened} \<or>
      ((status_value (f_status f) \<noteq> d_status d \<or> (\<exists>v. la = Some v \<and> v < d_decision_version d)) \<and>
       \<not> finding_has_newer_human_edit f d))"
proof -
  have "d_status d \<in> set TERMINAL_DECISION_STATUSES \<Longrightarrow> d_status d \<notin> set REVIEW_REQUIRED_STATUSES"
    by (auto dest!: terminal_status)
  then show ?thesis
    by (auto simp: decision_apply_action_def Let_def split: option.splits if_splits)
qed

section \<open>What re-linking writes\<close>

definition valid_scope :: "triage_decision \<Rightarrow> bool" where
  "valid_scope d = (\<exists>sc. d_suppression_scope d = map_option scope_value sc)"

text \<open>The finding after a projection, up to the text of the audit entry.\<close>

definition projected :: "finding \<Rightarrow> triage_decision \<Rightarrow> finding \<Rightarrow> bool" where
  "projected f d f1 =
     (status_value (f_status f1) = d_status d \<and> f_justification f1 = d_justification d \<and>
      f_compensating_controls f1 = d_compensating_controls d \<and> f_reviewer_note f1 = d_reviewer_note d \<and>
      jsonb_get (f_attestation f1) = jsonb_get (d_attestation d) \<and>
      (\<forall>v. d_suppression_scope d = Some v \<and> v \<noteq> [] \<longrightarrow> map_option scope_value (f_suppression_scope f1) = Some v) \<and>
      (\<exists>e. f_audit f1 = f_audit f @ [e]))"

text \<open>Nothing that identifies the finding is changed by a projection.\<close>

definition same_identity :: "finding \<Rightarrow> finding \<Rightarrow> bool" where
  "same_identity f g =
     (f_id g = f_id f \<and> f_tenant_id g = f_tenant_id f \<and> f_finding_type g = f_finding_type f \<and>
      f_branch g = f_branch f \<and> f_tag g = f_tag f \<and> f_cve_id g = f_cve_id f \<and>
      f_component g = f_component f \<and> f_component_base g = f_component_base f \<and>
      f_image g = f_image f \<and> f_ecosystem g = f_ecosystem f \<and> f_rule_id g = f_rule_id f \<and>
      f_file_path g = f_file_path f \<and> f_benchmark_family g = f_benchmark_family f \<and>
      f_license_expression g = f_license_expression f \<and> f_stable_rule_key g = f_stable_rule_key f \<and>
      f_profile_scope g = f_profile_scope f \<and> f_external_links g = f_external_links f)"

lemma candidates_same_identity:
  "same_identity f g \<Longrightarrow> candidates_for_finding E A g p = candidates_for_finding E A f p"
  by (simp add: same_identity_def candidates_for_finding_def decision_subject_keys_for_finding_def
      canonical_asset_for_finding_def)

lemma scope_of_value_Inr: "scope_of_value v = Inr sc \<Longrightarrow> v = scope_value sc"
  by (auto simp: scope_of_value_def find_Some_iff simp del: find.simps split: option.splits)

lemma map_sum_Some_Inr [simp]: "map_sum id Some r = Inr x \<longleftrightarrow> (\<exists>y. r = Inr y \<and> x = Some y)"
  by (cases r) auto

lemma projection_Inr:
  assumes "apply_decision_projection E f d s = Inr (f1, s1)"
  shows "projected f d f1 \<and> same_identity f f1 \<and> same_ledger s s1 \<and> s_clk s1 = Suc (s_clk s) \<and>
    audit_stream s1 = audit_stream s"
  using assms
  by (auto simp: apply_decision_projection_def projected_def same_identity_def same_ledger_def utcnow_def
      truthy_def Let_def dest!: status_of_value_Inr scope_of_value_Inr split: sum.splits if_splits)

lemma projection_total:
  assumes "d_status d \<in> set TERMINAL_DECISION_STATUSES" and "valid_scope d"
  shows "\<exists>f1 s1. apply_decision_projection E f d s = Inr (f1, s1)"
proof -
  obtain st where "d_status d = status_value st" using terminal_status [OF assms(1)] by blast
  moreover obtain sc where "d_suppression_scope d = map_option scope_value sc"
    using assms(2) by (auto simp: valid_scope_def)
  ultimately show ?thesis
    by (cases sc) (simp_all add: apply_decision_projection_def truthy_def utcnow_def Let_def)
qed

text \<open>The tables after \<open>relink_found\<close>.\<close>

definition relink_writes ::
  "env \<Rightarrow> finding \<Rightarrow> triage_decision \<Rightarrow> apply_action \<Rightarrow> finding \<Rightarrow> session \<Rightarrow> session \<Rightarrow> bool" where
  "relink_writes E f d action f1 s s' =
     ((\<exists>t n. s_clk s \<le> n \<and> s_decisions s' = tbl_update (\<lambda>r. d_id r = d_id d)
          (\<lambda>_. d\<lparr>d_last_finding_id := Some (f_id f), d_last_applied_at := Some t, d_updated_at := env_clock E n\<rparr>)
          (s_decisions s)) \<and>
      (\<exists>c. s_links s' = link_upsert c (s_links s) \<and> lc_key c = (d_id d, f_id f) \<and>
           lc_applied_version c =
             (if action = Apply then d_decision_version d
              else case tbl_get l_key (d_id d, f_id f) (s_links s) of
                     None \<Rightarrow> 0 | Some l \<Rightarrow> l_applied_decision_version l)) \<and>
      s_findings s' = tbl_update (\<lambda>r. f_id r = f_id f) (\<lambda>_. f1) (s_findings s) \<and>
      s_revisions s' = s_revisions s \<and> s_subject_aliases s' = s_subject_aliases s \<and>
      s_asset_aliases s' = s_asset_aliases s \<and> s_uid s \<le> s_uid s')"

lemma relink_found_Inr:
  assumes "relink_found E f tr d m s = Inr (r, f1, s')"
  defines "a \<equiv> decision_apply_action f d
                 (map_option l_applied_decision_version (tbl_get l_key (d_id d, f_id f) (s_links s)))"
  shows "relink_writes E f d a f1 s s' \<and> dar_applied r = (a = Apply) \<and> dar_conflict r = (a = Conflict) \<and>
    dar_decision_id r = Some (d_id d) \<and> (if a = Apply then projected f d f1 else f1 = f) \<and> same_identity f f1"
proof -
  obtain s1 where p: "(if a = Apply then apply_decision_projection E f d s else Inr (f, s)) = Inr (f1, s1)"
      and r: "dar_applied r = (a = Apply)" "dar_conflict r = (a = Conflict)" "dar_decision_id r = Some (d_id d)"
    using assms(1) by (auto simp: relink_found_def Let_def a_def [symmetric] split: sum.splits prod.splits)
  have i: "same_identity f f1" "same_ledger s s1" "s_clk s \<le> s_clk s1"
      "if a = Apply then projected f d f1 else f1 = f"
    using p projection_Inr by (auto simp: same_identity_def split: if_splits)
  let ?v = "if a = Apply then d_decision_version d
    else case tbl_get l_key (d_id d, f_id f) (s_links s) of None \<Rightarrow> 0 | Some l \<Rightarrow> l_applied_decision_version l"
  define s2 where "s2 = upsert_decision_link E (d_id d) (f_id f) m ?v (put_finding f1 s1)"
  define d1 where "d1 = d\<lparr>d_last_finding_id := Some (f_id f), d_last_applied_at := Some (env_clock E (s_clk s2))\<rparr>"
  have s': "s' = emit_relink E tr a (tbl_get l_key (d_id d, f_id f) (s_links s) = None) f1 d1 m
      (flush_decision E d1 (snd (utcnow E s2)))"
    using assms(1) p
    by (auto simp: relink_found_def Let_def a_def [symmetric] s2_def d1_def utcnow_def
        option.case_eq_if option.map_sel split: sum.splits if_splits)
  have "same_ledger (flush_decision E d1 (snd (utcnow E s2))) s'" unfolding s' by simp
  note w = this [unfolded same_ledger_def flush_decision_def utcnow_def put_decision_def s2_def d1_def
      upsert_decision_link_def put_finding_def Let_def]
  have "s_decisions s' = tbl_update (\<lambda>r. d_id r = d_id d)
      (\<lambda>_. d\<lparr>d_last_finding_id := Some (f_id f), d_last_applied_at := Some (env_clock E (Suc (s_clk s1))),
            d_updated_at := env_clock E (Suc (Suc (s_clk s1)))\<rparr>) (s_decisions s)"
    using w i(2) by (simp add: same_ledger_def)
  moreover have "s_clk s \<le> Suc (Suc (s_clk s1))" using i(3) by simp
  ultimately have D: "\<exists>t n. s_clk s \<le> n \<and> s_decisions s' = tbl_update (\<lambda>r. d_id r = d_id d)
      (\<lambda>_. d\<lparr>d_last_finding_id := Some (f_id f), d_last_applied_at := Some t, d_updated_at := env_clock E n\<rparr>)
      (s_decisions s)"
    by blast
  have "relink_writes E f d a f1 s s'"
    unfolding relink_writes_def using w i(1,2)
    by (intro conjI D) (auto simp: same_ledger_def same_identity_def lc_key_def)
  with i r show ?thesis by simp
qed

lemma tbl_get_put_decision:
  assumes "distinct (map d_id ds)" and "d \<in> set ds" and "d_key d' = d_key d"
  shows "tbl_get d_key k (tbl_update (\<lambda>r. d_id r = d_id d) (\<lambda>_. d') ds) =
    map_option (\<lambda>r. if d_id r = d_id d then d' else r) (tbl_get d_key k ds)"
proof -
  have "r = d" if "r \<in> set ds" "d_id r = d_id d" for r
    using assms(1,2) that by (auto simp: distinct_map dest: inj_onD)
  then have "tbl_get d_key k (tbl_update (\<lambda>r. d_id r = d_id d) (\<lambda>_. d') xs) =
      map_option (\<lambda>r. if d_id r = d_id d then d' else r) (tbl_get d_key k xs)" if "set xs \<subseteq> set ds" for xs
    using that assms(3) by (induction xs) auto
  then show ?thesis by simp
qed

lemma lookup_put_decision:
  assumes "distinct (map d_id ds)" and "d \<in> set ds" and "d_key d' = d_key d"
  shows "lookup_candidates (tbl_update (\<lambda>r. d_id r = d_id d) (\<lambda>_. d') ds) als tenant cs =
    map_option (\<lambda>(r, c). (if d_id r = d_id d then d' else r, c)) (lookup_candidates ds als tenant cs)"
  by (induction cs)
    (auto simp: lookup_key_def tbl_get_put_decision [OF assms] split: option.splits)

lemma resolve_Inr_applied:
  assumes "resolve_and_apply_decision E f tr p s = Inr (r, f1, s1)" and "dar_decision_id r \<noteq> None"
  shows "\<exists>d m. env_decision_ledger_enabled E \<and>
    lookup_decision s (f_tenant_id f) (candidates_for_finding E (s_asset_aliases s) f p) = Some (d, m) \<and>
    relink_found E f tr d m s = Inr (r, f1, s1)"
  using assms
  by (auto simp: resolve_and_apply_decision_def not_applied_def split: if_splits option.splits prod.splits)

lemma skip_relink:
  assumes "decision_apply_action f d (map_option l_applied_decision_version
      (tbl_get l_key (d_id d, f_id f) (s_links s))) = Skip"
    and "tbl_get l_key (d_id d, f_id f) (s_links s) \<noteq> None"
  shows "\<exists>r s'. relink_found E f tr d m s = Inr (r, f, s') \<and> \<not> dar_applied r \<and> \<not> dar_conflict r \<and>
    audit_stream s' = audit_stream s"
proof -
  obtain l where "tbl_get l_key (d_id d, f_id f) (s_links s) = Some l" using assms(2) by blast
  with assms(1) show ?thesis
    by (simp add: relink_found_def Let_def emit_relink_def flush_decision_def upsert_decision_link_def utcnow_def
        put_decision_def put_finding_def audit_stream_def split: option.split)
qed

text \<open>The state in which the next resolution of the same finding starts.\<close>

lemma relink_again:
  assumes "lookup_decision s (f_tenant_id f) (candidates_for_finding E (s_asset_aliases s) f p) = Some (d, m)"
    and "relink_found E f tr d m s = Inr (r, f1, s1)" and "distinct (map d_id (s_decisions s))"
  shows "\<exists>d1 k n.
    lookup_decision s1 (f_tenant_id f1) (candidates_for_finding E (s_asset_aliases s1) f1 p) = Some (d1, m) \<and>
    d_id d1 = d_id d \<and> d_status d1 = d_status d \<and> d_decision_version d1 = d_decision_version d \<and>
    d_suppression_scope d1 = d_suppression_scope d \<and> d_justification d1 = d_justification d \<and>
    d_reviewer_note d1 = d_reviewer_note d \<and> s_clk s \<le> n \<and> d_updated_at d1 = env_clock E n \<and>
    tbl_get l_key (d_id d1, f_id f1) (s_links s1) = Some k \<and>
    l_applied_decision_version k =
      (if dar_applied r then d_decision_version d
       else case tbl_get l_key (d_id d, f_id f) (s_links s) of None \<Rightarrow> 0 | Some l \<Rightarrow> l_applied_decision_version l)"
proof -
  note e = relink_found_Inr [OF assms(2)]
  then obtain t n c where n: "s_clk s \<le> n" and
      D: "s_decisions s1 = tbl_update (\<lambda>r. d_id r = d_id d)
        (\<lambda>_. d\<lparr>d_last_finding_id := Some (f_id f), d_last_applied_at := Some t, d_updated_at := env_clock E n\<rparr>)
        (s_decisions s)"
      and L: "s_links s1 = link_upsert c (s_links s)" "lc_key c = (d_id d, f_id f)"
        "lc_applied_version c = (if dar_applied r then d_decision_version d
           else case tbl_get l_key (d_id d, f_id f) (s_links s) of None \<Rightarrow> 0 | Some l \<Rightarrow> l_applied_decision_version l)"
      and S: "s_subject_aliases s1 = s_subject_aliases s" "s_asset_aliases s1 = s_asset_aliases s"
      and f: "same_identity f f1"
    unfolding relink_writes_def by auto
  define d1 where "d1 = d\<lparr>d_last_finding_id := Some (f_id f), d_last_applied_at := Some t,
    d_updated_at := env_clock E n\<rparr>"
  have "d \<in> set (s_decisions s)" using lookup_candidates_Some [OF assms(1) [unfolded lookup_decision_def]] by blast
  then have l1: "lookup_decision s1 (f_tenant_id f1) (candidates_for_finding E (s_asset_aliases s1) f1 p) = Some (d1, m)"
    using assms(1) f candidates_same_identity [OF f]
      lookup_put_decision [OF assms(3), of d d1 "s_subject_aliases s"]
    unfolding lookup_decision_def D S d1_def by (simp add: d_key_def same_identity_def)
  have "tbl_get l_key (d_id d1, f_id f1) (s_links s1) = Some (link_merge c (tbl_get l_key (lc_key c) (s_links s)))"
    using links.get_same [of c "s_links s"] f by (simp add: L d1_def same_identity_def)
  moreover have "l_applied_decision_version (link_merge c x) = lc_applied_version c" for x
    by (simp add: link_merge_def split: option.splits)
  ultimately show ?thesis
    using l1 n L(3) by (intro exI [of _ d1] exI [of _ "link_merge c (tbl_get l_key (lc_key c) (s_links s))"]
        exI [of _ n]) (simp add: d1_def)
qed

text \<open>
  Re-linking is idempotent: once a decision has been applied to a finding, running the
  resolution again changes nothing on the finding, reports neither an application nor a
  conflict, and writes no audit event. This is what keeps the nightly reconciliation and
  repeated imports from flooding the ledger.
\<close>

lemma resolve_and_apply_idempotent:
  assumes "resolve_and_apply_decision E f tr p s = Inr (r, f1, s1)" and "dar_applied r"
    and "distinct (map d_id (s_decisions s))"
  shows "\<exists>r2 s2. resolve_and_apply_decision E f1 tr2 p s1 = Inr (r2, f1, s2) \<and>
    \<not> dar_applied r2 \<and> \<not> dar_conflict r2 \<and> audit_stream s2 = audit_stream s1"
proof -
  have "dar_decision_id r \<noteq> None"
    using assms(1,2) by (auto simp: resolve_and_apply_decision_def not_applied_def
        dest!: relink_found_Inr split: if_splits option.splits)
  then obtain d m where on: "env_decision_ledger_enabled E"
      and l: "lookup_decision s (f_tenant_id f) (candidates_for_finding E (s_asset_aliases s) f p) = Some (d, m)"
      and "relink_found E f tr d m s = Inr (r, f1, s1)"
    using resolve_Inr_applied [OF assms(1)] by blast
  note e = relink_found_Inr [OF this(3)] and again = relink_again [OF l this(3) assms(3)]
  have a: "d_status d \<in> set TERMINAL_DECISION_STATUSES" using e assms(2) by (simp add: apply_action_Apply)
  from again e assms(2) obtain d1 k where d1:
      "lookup_decision s1 (f_tenant_id f1) (candidates_for_finding E (s_asset_aliases s1) f1 p) = Some (d1, m)"
      "d_status d1 = d_status d" "tbl_get l_key (d_id d1, f_id f1) (s_links s1) = Some k"
      "l_applied_decision_version k = d_decision_version d1"
    by auto
  moreover have "status_value (f_status f1) = d_status d" using e assms(2) by (auto simp: projected_def)
  ultimately have "decision_apply_action f1 d1 (map_option l_applied_decision_version
      (tbl_get l_key (d_id d1, f_id f1) (s_links s1))) = Skip"
    using a by (auto simp: decision_apply_action_def Let_def dest!: terminal_status)
  then show ?thesis
    using skip_relink [of f1 d1 s1 E tr2 m] d1 on by (auto simp: resolve_and_apply_decision_def)
qed

lemma lookup_primary:
  assumes "tbl_get d_key (normalize_tenant_id tid, dsc_subject_key c) (s_decisions s) = Some d"
  shows "lookup_decision s tid (c # cs) = Some (d, c)"
  using assms by (simp add: lookup_decision_def lookup_key_def)

lemma relink_found_Apply:
  assumes "decision_apply_action f d (map_option l_applied_decision_version
      (tbl_get l_key (d_id d, f_id f) (s_links s))) = Apply" and "valid_scope d"
  shows "\<exists>r f1 s1. relink_found E f tr d m s = Inr (r, f1, s1) \<and> dar_applied r \<and>
    dar_decision_id r = Some (d_id d) \<and> projected f d f1 \<and> same_identity f f1"
proof -
  have "d_status d \<in> set TERMINAL_DECISION_STATUSES" using assms(1) by (simp add: apply_action_Apply)
  then obtain f1 s1 where "apply_decision_projection E f d s = Inr (f1, s1)"
    using projection_total assms(2) by blast
  then have "\<exists>r s'. relink_found E f tr d m s = Inr (r, f1, s')"
    using assms(1) by (simp add: relink_found_def Let_def case_prod_beta)
  then show ?thesis using assms(1) relink_found_Inr by (metis (full_types))
qed

lemma candidates_not_Nil [simp]: "candidates_for_finding E A f p \<noteq> []"
  by (simp add: candidates_for_finding_def decision_subject_keys_for_finding_def
      decision_subject_keys_for_payload_def case_prod_beta)

lemma demo_candidates:
  "\<exists>cs. candidates_for_finding demo_env (s_asset_aliases demo_ledger) demo_open None = demo_primary # cs"
  by (cases "candidates_for_finding demo_env [] demo_open None")
    (simp_all add: demo_primary_def demo_ledger_def)

lemma demo_resolves:
  "\<exists>r f1 s1. resolve_and_apply_decision demo_env demo_open None None demo_ledger = Inr (r, f1, s1) \<and> dar_applied r"
proof -
  obtain cs where c: "candidates_for_finding demo_env (s_asset_aliases demo_ledger) demo_open None = demo_primary # cs"
    using demo_candidates by blast
  have "lookup_decision demo_ledger None (demo_primary # cs) = Some (demo_decision, demo_primary)"
    by (simp add: lookup_decision_def lookup_key_def demo_ledger_def demo_decision_def created_decision_def d_key_def)
  moreover have "decision_apply_action demo_open demo_decision (map_option l_applied_decision_version
      (tbl_get l_key (d_id demo_decision, f_id demo_open) (s_links demo_ledger))) = Apply"
    by (simp add: apply_action_Apply demo_decision_def created_decision_def demo_open_def demo_finding_def)
  moreover have "valid_scope demo_decision"
    by (simp add: valid_scope_def demo_decision_def created_decision_def demo_finding_def)
  ultimately have "\<exists>r f1 s1. relink_found demo_env demo_open None demo_decision demo_primary demo_ledger =
      Inr (r, f1, s1) \<and> dar_applied r"
    using relink_found_Apply by blast
  then show ?thesis
    using c \<open>lookup_decision demo_ledger None (demo_primary # cs) = _\<close>
    by (simp add: resolve_and_apply_decision_def demo_env_def demo_open_def demo_finding_def)
qed

section \<open>What recording writes\<close>

text \<open>The decision that \<open>write_decision\<close> leaves under the subject key.\<close>

definition decision_of :: "finding \<Rightarrow> triage_decision \<Rightarrow> bool" where
  "decision_of f d =
     (d_status d = status_value (f_status f) \<and>
      d_suppression_scope d = map_option scope_value (f_suppression_scope f) \<and>
      d_justification d = f_justification f \<and> d_compensating_controls d = f_compensating_controls f \<and>
      d_reviewer_note d = f_reviewer_note f \<and> jsonb_get (d_attestation d) = jsonb_get (f_attestation f) \<and>
      d_identity_snapshot d = identity_snapshot_from_finding f \<and> d_last_finding_id d = Some (f_id f))"

lemma write_decision_get:
  assumes "write_decision E f user primary now s = (d, s')" and "distinct (map d_id (s_decisions s))"
  shows "tbl_get d_key (normalize_tenant_id (f_tenant_id f), dsc_subject_key primary) (s_decisions s') = Some d \<and>
    decision_of f d \<and> d_tenant_id d = normalize_tenant_id (f_tenant_id f) \<and> d_subject_key d = dsc_subject_key primary"
proof (cases "tbl_get d_key (normalize_tenant_id (f_tenant_id f), dsc_subject_key primary) (s_decisions s)")
  case None
  then show ?thesis
    using assms(1) by (auto simp: write_decision_def Let_def new_decision_id_def uuid4_hex_def tbl_get_append
        created_decision_def decision_of_def d_key_def)
next
  case (Some d0)
  then have d0: "d0 \<in> set (s_decisions s)" "d_key d0 = (normalize_tenant_id (f_tenant_id f), dsc_subject_key primary)"
    by (auto dest: tbl_get_Some)
  have d: "d = updated_decision f user now d0" "s' = put_decision d s"
    using assms(1) Some by (auto simp: write_decision_def Let_def)
  have "d_id d = d_id d0" "d_key d = d_key d0" "decision_of f d"
    by (simp_all add: d(1) updated_decision_def d_key_def decision_of_def)
  then show ?thesis
    using Some d0 tbl_get_put_decision [OF assms(2) d0(1), of d]
    by (simp add: d(2) put_decision_def d_key_def)
qed

text \<open>The tables after a decision was recorded.\<close>

lemma record_Some:
  assumes "record_decision_from_finding E f user reason p s = (Some d, s')"
  shows "\<exists>primary others now s1 s2 c rid.
    candidates_for_finding E (s_asset_aliases s) f p = primary # others \<and>
    same_ledger s s1 \<and> write_decision E f user primary now s1 = (d, s2) \<and>
    s_decisions s' = s_decisions s2 \<and>
    s_revisions s' = s_revisions s2 @
      [\<lparr>rv_id = rid, rv_decision_id = d_id d, rv_revision = d_decision_version d,
        rv_snapshot = decision_snapshot d, rv_actor_id = user, rv_reason = Some reason, rv_created_at = now\<rparr>] \<and>
    s_links s' = link_upsert c (s_links s2) \<and> lc_key c = (d_id d, f_id f) \<and>
    lc_applied_version c = d_decision_version d \<and>
    s_subject_aliases s' = fold (add_source_alias (normalize_tenant_id (f_tenant_id f)) (dsc_subject_key primary) now)
      others (s_subject_aliases s2) \<and>
    s_asset_aliases s' = s_asset_aliases s2 \<and> s_findings s' = s_findings s2 \<and> s_uid s2 \<le> s_uid s' \<and>
    env_decision_ledger_enabled E"
proof -
  obtain primary others where c: "candidates_for_finding E (s_asset_aliases s) f p = primary # others"
    by (cases "candidates_for_finding E (s_asset_aliases s) f p") simp_all
  define now s1 where "now = env_clock E (s_clk s)" and "s1 = snd (utcnow E s)"
  obtain d0 s2 where w: "write_decision E f user primary now s1 = (d0, s2)" by fastforce
  define s3 where "s3 = add_revision E d0 user reason now s2"
  define s4 where "s4 = upsert_decision_link E (d_id d0) (f_id f) primary (d_decision_version d0) s3"
  define s5 where "s5 = s4\<lparr>s_subject_aliases :=
    fold (add_source_alias (normalize_tenant_id (f_tenant_id f)) (dsc_subject_key primary) now) others (s_subject_aliases s4)\<rparr>"
  define tid s6 where "tid = fst (new_trace_id E s5)" and "s6 = snd (new_trace_id E s5)"
  have r: "d = d0" "s' = snd (emit_audit_event E (recorded_event tid user reason f d0 primary) s6)"
      and on: "env_decision_ledger_enabled E"
    using assms w unfolding record_decision_from_finding_def c
    by (auto simp: Let_def now_def s1_def s3_def s4_def s5_def s6_def tid_def utcnow_def
        split: if_splits prod.splits)
  have "same_ledger s6 s'" unfolding r by simp
  then have "same_ledger s5 s'"
    using same_ledger_clock(2) [of s5 E] same_ledger_trans unfolding s6_def new_trace_id_def by blast
  then show ?thesis
    using c w on
    by (intro exI [of _ primary] exI [of _ others] exI [of _ now] exI [of _ s1] exI [of _ s2])
      (auto simp: s5_def s4_def s3_def add_revision_def upsert_decision_link_def same_ledger_def r(1) s1_def
        utcnow_def new_revision_id_def uuid4_hex_def Let_def lc_key_def)
qed

lemma write_decision_frame:
  "write_decision E f user primary now s = (d, s') \<Longrightarrow>
     s_asset_aliases s' = s_asset_aliases s \<and> s_findings s' = s_findings s \<and> s_revisions s' = s_revisions s \<and>
     s_links s' = s_links s \<and> s_subject_aliases s' = s_subject_aliases s \<and> s_uid s \<le> s_uid s'"
  by (auto simp: write_decision_def put_decision_def new_decision_id_def uuid4_hex_def Let_def split: option.splits)

lemma record_frame:
  assumes "record_decision_from_finding E f user reason p s = (x, s')"
  shows "s_asset_aliases s' = s_asset_aliases s \<and> s_findings s' = s_findings s"
proof (cases x)
  case None
  then show ?thesis
    using assms by (auto simp: record_decision_from_finding_def Let_def split: if_splits list.splits prod.splits)
next
  case (Some d)
  then show ?thesis
    using record_Some [of E f user reason p s d s'] assms write_decision_frame
    by (fastforce simp: same_ledger_def)
qed


definition demo_recorded :: "triage_decision option \<times> session" where
  "demo_recorded =
     record_decision_from_finding demo_env demo_finding ''alice'' ''reviewer_update'' None empty_session"

lemma demo_recorded_Some:
  "record_decision_from_finding demo_env demo_finding ''alice'' ''reviewer_update'' None empty_session =
     (Some (the (fst demo_recorded)), snd demo_recorded)"
proof -
  have "fst demo_recorded \<noteq> None"
    by (simp add: demo_recorded_def record_decision_from_finding_def demo_env_def demo_finding_def
        has_decision_content_def case_prod_beta Let_def split: list.split)
  then show ?thesis by (simp add: demo_recorded_def)
qed


section \<open>Human edits\<close>

lemma relink_found_no_projection:
  assumes "decision_apply_action f d (map_option l_applied_decision_version
      (tbl_get l_key (d_id d, f_id f) (s_links s))) \<noteq> Apply"
  shows "\<exists>r s'. relink_found E f tr d m s = Inr (r, f, s')"
  using assms by (simp add: relink_found_def Let_def case_prod_beta)


lemma parse_audit_ts_isoformat:
  assumes "valid_datetime t"
  shows "parse_audit_ts (JStr (isoformat t @ ''Z'')) = Some t"
proof -
  let ?s = "isoformat t @ ''Z''"
  have e: "isoformat t \<noteq> []" "is_digit_char (hd (isoformat t))" "is_digit_char (last (isoformat t))"
    using isoformat_ends [of t] by simp_all
  have "\<not> py_isspace (hd ?s)" using e(1) digit_not_special [OF e(2)] by simp
  moreover have "\<not> py_isspace (last ?s)" by (simp add: py_isspace_def)
  ultimately have "py_strip ?s = ?s" by (intro py_strip_fixed) blast
  moreover have "dropWhile (\<lambda>c. c = CHR ''Z'') (rev (isoformat t)) = rev (isoformat t)"
    using digit_not_special [OF e(3)] by (simp add: dropWhile_eq_self_iff hd_rev)
  then have "rstrip_by (\<lambda>c. c = CHR ''Z'') ?s = isoformat t" by (simp add: rstrip_by_def)
  ultimately show ?thesis
    using e(1) fromisoformat_isoformat [OF assms] by (simp add: parse_audit_ts_def Let_def)
qed

text \<open>A reviewer set the finding to Mitigated at the end of December, after the decision.\<close>

definition demo_edited :: finding where
  "demo_edited = demo_open\<lparr>f_status := Mitigated,
     f_audit := [audit_entry (isoformat (DateTime 2025 12 31 10 0 0 0) @ ''Z'') ''bob'' ''Status changed'' []]\<rparr>"

lemma demo_user: "py_lower (py_strip ''bob'') = ''bob''"
  by code_simp

lemma demo_edited_newer: "finding_has_newer_human_edit demo_edited demo_decision"
proof -
  have "human_edit_times (f_audit demo_edited) = [DateTime 2025 12 31 10 0 0 0]"
    by (simp add: demo_edited_def human_edit_times_def audit_entry_def jget_def parse_audit_ts_isoformat
        valid_datetime_def days_in_month_def demo_user)
  then show ?thesis
    by (simp add: finding_has_newer_human_edit_def latest_time_def demo_decision_def created_decision_def
        less_datetime_def dt_key_def)
qed

lemma demo_edited_lookup:
  "lookup_decision demo_ledger (f_tenant_id demo_edited)
     (candidates_for_finding demo_env (s_asset_aliases demo_ledger) demo_edited None) = Some (demo_decision, demo_primary)"
proof -
  have "same_identity demo_open demo_edited" by (simp add: same_identity_def demo_edited_def)
  then have "candidates_for_finding demo_env (s_asset_aliases demo_ledger) demo_edited None =
      candidates_for_finding demo_env (s_asset_aliases demo_ledger) demo_open None"
    by (rule candidates_same_identity)
  then show ?thesis
    using demo_candidates
    by (auto simp: lookup_decision_def lookup_key_def demo_ledger_def demo_decision_def created_decision_def
        d_key_def demo_edited_def demo_open_def demo_finding_def)
qed


text \<open>
  The protection lasts for one run only. A run that reports the conflict also writes
  \<open>last_finding_id\<close> and \<open>last_applied_at\<close> on the decision, and the flush of that change moves the
  decision's \<open>updated_at\<close> (\<open>onupdate=datetime.utcnow\<close>) past the edit; the next run then takes the
  decision for the newer one and overwrites the reviewer's status.
\<close>

lemma conflict_overwritten_by_next_run:
  assumes "lookup_decision s (f_tenant_id f) (candidates_for_finding E (s_asset_aliases s) f p) = Some (d, m)"
    and "resolve_and_apply_decision E f tr p s = Inr (r, f1, s1)" and "dar_conflict r"
    and "d_status d \<in> set TERMINAL_DECISION_STATUSES" and "valid_scope d"
    and "status_value (f_status f) \<noteq> d_status d"
    and "distinct (map d_id (s_decisions s))" and "env_decision_ledger_enabled E"
    and "\<forall>h n. latest_time (human_edit_times (f_audit f)) = Some h \<and> s_clk s \<le> n \<longrightarrow> h \<le> env_clock E n"
  shows "\<exists>r2 f2 s2. resolve_and_apply_decision E f1 tr2 p s1 = Inr (r2, f2, s2) \<and> dar_applied r2 \<and>
    status_value (f_status f2) = d_status d \<and> f_status f1 = f_status f \<and> f_status f2 \<noteq> f_status f"
proof -
  have R: "relink_found E f tr d m s = Inr (r, f1, s1)"
    using assms(1,2,8) by (simp add: resolve_and_apply_decision_def)
  have same: "f1 = f" using relink_found_Inr [OF R] assms(3) by auto
  obtain d1 n where d1:
      "lookup_decision s1 (f_tenant_id f1) (candidates_for_finding E (s_asset_aliases s1) f1 p) = Some (d1, m)"
      "d_status d1 = d_status d" "d_suppression_scope d1 = d_suppression_scope d"
      "s_clk s \<le> n" "d_updated_at d1 = env_clock E n"
    using relink_again [OF assms(1) R assms(7)] by blast
  have "\<not> finding_has_newer_human_edit f d1"
    using assms(9) d1(4,5) by (auto simp: finding_has_newer_human_edit_def dest: leD split: option.splits)
  then have "decision_apply_action f1 d1 (map_option l_applied_decision_version
      (tbl_get l_key (d_id d1, f_id f1) (s_links s1))) = Apply"
    using assms(4,6) d1(2) by (simp add: apply_action_Apply same)
  then obtain r2 f2 s2 where "relink_found E f1 tr2 d1 m s1 = Inr (r2, f2, s2)" "dar_applied r2"
      "projected f1 d1 f2"
    using relink_found_Apply assms(5) d1(3) by (metis valid_scope_def)
  then show ?thesis
    using d1 assms(6,8) same by (auto simp: resolve_and_apply_decision_def projected_def)
qed

lemma demo_edit_time: "latest_time (human_edit_times (f_audit demo_edited)) = Some (DateTime 2025 12 31 10 0 0 0)"
proof -
  have "human_edit_times (f_audit demo_edited) = [DateTime 2025 12 31 10 0 0 0]"
    by (simp add: demo_edited_def human_edit_times_def audit_entry_def jget_def parse_audit_ts_isoformat
        valid_datetime_def days_in_month_def demo_user)
  then show ?thesis by (simp add: latest_time_def)
qed

lemma demo_conflict:
  "\<exists>r s1. resolve_and_apply_decision demo_env demo_edited None None demo_ledger = Inr (r, demo_edited, s1) \<and>
     dar_conflict r"
proof -
  have a: "decision_apply_action demo_edited demo_decision (map_option l_applied_decision_version
      (tbl_get l_key (d_id demo_decision, f_id demo_edited) (s_links demo_ledger))) = Conflict"
    using demo_edited_newer
    by (simp add: decision_apply_action_def demo_decision_def created_decision_def demo_edited_def
        demo_finding_def Let_def)
  then obtain r s1 where R: "relink_found demo_env demo_edited None demo_decision demo_primary demo_ledger =
      Inr (r, demo_edited, s1)"
    using relink_found_no_projection by fastforce
  have "env_decision_ledger_enabled demo_env" by (simp add: demo_env_def)
  then show ?thesis
    using R relink_found_Inr [OF R] a demo_edited_lookup by (auto simp: resolve_and_apply_decision_def)
qed

end
