(* ===== verification/Vat_Waiver.thy ===== *)
theory Vat_Waiver
  imports Vat_Ledger
begin

text \<open>
  Waivers: the expiry part of \<open>services/decision_ledger.py\<close> (\<open>expire_decision_waivers\<close>),
  \<open>services/waiver_expiry.py\<close>, and the read side of the ledger (provenance, waiver lists, decision
  detail, export records). The records that the read side returns are JSON objects with the
  keys of the code. An attestation that is present is a JSON object; the em dash in an
  audit text is written as its three UTF-8 bytes.
\<close>

section \<open>Expiry in the ledger\<close>

definition em_dash :: string where
  "em_dash = [CHR 0xE2, CHR 0x80, CHR 0x94]"

definition expired_action :: string where
  "expired_action = ''Waiver expired '' @ em_dash @ '' auto-reopened''"

definition expired_note :: "json \<Rightarrow> json \<Rightarrow> string" where
  "expired_note waiver_ref expires_at = ''Waiver '' @ py_str waiver_ref @ '' expired '' @ py_str expires_at"

text \<open>Reopening the findings that the live links of the decision point to.\<close>

definition reopened :: "string \<Rightarrow> json \<Rightarrow> json \<Rightarrow> finding \<Rightarrow> finding" where
  "reopened ts waiver_ref expires_at f =
     f\<lparr>f_status := Open, f_previous_status := Some (status_value RiskAccepted),
       f_audit := f_audit f @ [audit_entry ts ''system'' expired_action (expired_note waiver_ref expires_at)]\<rparr>"

definition expire_link ::
  "env \<Rightarrow> json \<Rightarrow> json \<Rightarrow> nat \<Rightarrow> decision_finding_link \<Rightarrow> session \<Rightarrow> session" where
  "expire_link E waiver_ref expires_at version l s =
     (case tbl_get f_id (l_finding_id l) (s_findings s) of
        None \<Rightarrow> s
      | Some f \<Rightarrow>
          if f_status f \<noteq> RiskAccepted then s
          else let (t, s1) = utcnow E s;
                   s2 = put_finding (reopened (isoformat t @ ''Z'') waiver_ref expires_at f) s1
               in s2\<lparr>s_links := tbl_update (\<lambda>x. l_key x = l_key l)
                        (\<lambda>x. x\<lparr>l_applied_decision_version := version\<rparr>) (s_links s2)\<rparr>)"

definition expire_links ::
  "env \<Rightarrow> json \<Rightarrow> json \<Rightarrow> nat \<Rightarrow> decision_finding_link list \<Rightarrow> session \<Rightarrow> session" where
  "expire_links E waiver_ref expires_at version ls s = fold (expire_link E waiver_ref expires_at version) ls s"

definition attestation_dict :: "json option \<Rightarrow> json_object" where
  "attestation_dict c = as_dict (jsonb_get c)"

definition expired_decision :: "datetime \<Rightarrow> string \<Rightarrow> triage_decision \<Rightarrow> triage_decision" where
  "expired_decision now ts d =
     d\<lparr>d_status := status_value Open,
       d_attestation := jsonb_set (d_attestation d)
         (JObj (jset ''expiredAt'' (JStr ts) (attestation_dict (d_attestation d)))),
       d_decision_version := d_decision_version d + 1, d_updated_by := Some ''system@waiver-expiry'',
       d_updated_at := now\<rparr>"

definition expired_event :: "string \<Rightarrow> triage_decision \<Rightarrow> json \<Rightarrow> json \<Rightarrow> event_args" where
  "expired_event tid d waiver_ref expires_at =
     event_defaults\<lparr>ea_trace_id := tid, ea_event_type := ''decision.waiver_expired'', ea_actor_type := ''system'',
       ea_actor_id := Some ''system@waiver-expiry'', ea_decision_name := Some ''waiver_expiry'',
       ea_decision_reason_code := Some ''attestation_expired'', ea_decision_result := Some (status_value Open),
       ea_data := [(''decision_id'', JStr (d_id d)), (''subject_key'', JStr (d_subject_key d)),
                   (''waiver_ref'', waiver_ref), (''expires_at'', expires_at)]\<rparr>"

definition expire_one :: "env \<Rightarrow> datetime \<Rightarrow> triage_decision \<Rightarrow> session \<Rightarrow> session" where
  "expire_one E now d s =
     (let att = attestation_dict (d_attestation d);
          waiver_ref = jget_default ''waiverRef'' (JStr []) att;
          expires_at = jget_default ''expiresAt'' (JStr []) att;
          (t, s1) = utcnow E s;
          d1 = expired_decision now (isoformat t @ ''Z'') d;
          s2 = put_decision d1 s1;
          s3 = add_revision E d1 ''system@waiver-expiry'' ''waiver_expired'' now s2;
          live = filter (\<lambda>l. l_decision_id l = d_id d \<and> l_unlinked_at l = None) (s_links s3);
          s4 = expire_links E waiver_ref expires_at (d_decision_version d1) live s3;
          (tid, s5) = new_trace_id E s4
      in snd (emit_audit_event E (expired_event tid d1 waiver_ref expires_at) s5))"

definition waiver_expires_at :: "triage_decision \<Rightarrow> json" where
  "waiver_expires_at d = jget ''expiresAt'' (attestation_dict (d_attestation d))"

fun expire_all ::
  "env \<Rightarrow> datetime \<Rightarrow> string \<Rightarrow> triage_decision list \<Rightarrow> nat \<times> session \<Rightarrow> nat \<times> session" where
  "expire_all E now today [] acc = acc"
| "expire_all E now today (d # ds) (n, s) =
     (if is_waiver_expired (waiver_expires_at d) today
      then expire_all E now today ds (Suc n, expire_one E now d s)
      else expire_all E now today ds (n, s))"

definition waiver_rows :: "triage_decision list \<Rightarrow> triage_decision list" where
  "waiver_rows ds = filter (\<lambda>d. d_status d = status_value RiskAccepted \<and> d_attestation d \<noteq> None) ds"

definition expire_decision_waivers :: "env \<Rightarrow> session \<Rightarrow> nat \<times> session" where
  "expire_decision_waivers E s =
     (if \<not> env_decision_ledger_enabled E then (0, s)
      else let (t, s1) = utcnow E s; today = date_isoformat t;
               rows = waiver_rows (s_decisions s1);
               (now, s2) = utcnow E s1
           in expire_all E now today rows (0, s2))"

section \<open>waiver\_expiry.py\<close>

definition reopened_fallback :: "string \<Rightarrow> finding \<Rightarrow> finding" where
  "reopened_fallback ts f =
     f\<lparr>f_status := Open,
       f_audit := f_audit f @ [audit_entry ts ''system'' expired_action
         (expired_note (jget_default ''waiverRef'' (JStr []) (attestation_dict (f_attestation f)))
            (jget ''expiresAt'' (attestation_dict (f_attestation f))))]\<rparr>"

definition finding_expires_at :: "finding \<Rightarrow> json" where
  "finding_expires_at f = jget ''expiresAt'' (attestation_dict (f_attestation f))"

fun expire_findings :: "env \<Rightarrow> string \<Rightarrow> finding list \<Rightarrow> nat \<times> session \<Rightarrow> nat \<times> session" where
  "expire_findings E today [] acc = acc"
| "expire_findings E today (f # fs) (n, s) =
     (if is_waiver_expired (finding_expires_at f) today
      then let (t, s1) = utcnow E s
           in expire_findings E today fs (Suc n, put_finding (reopened_fallback (strftime_z t) f) s1)
      else expire_findings E today fs (n, s))"

definition enforce_waiver_expiry_on_findings :: "env \<Rightarrow> session \<Rightarrow> nat \<times> session" where
  "enforce_waiver_expiry_on_findings E s =
     (let rows = filter (\<lambda>f. f_status f = RiskAccepted \<and> f_attestation f \<noteq> None) (s_findings s);
          (t, s1) = utcnow E s
      in expire_findings E (date_isoformat t) rows (0, s1))"

definition enforce_waiver_expiry :: "env \<Rightarrow> session \<Rightarrow> nat \<times> session" where
  "enforce_waiver_expiry E s =
     (let (n, s1) = (if env_decision_ledger_enabled E then expire_decision_waivers E s else (0, s));
          (k, s2) = enforce_waiver_expiry_on_findings E s1
      in (n + k, s2))"

section \<open>No expired waiver is left\<close>

lemma set_put: "g \<in> set (s_findings (put_finding f s)) \<Longrightarrow> (g \<in> set (s_findings s) \<and> f_id g \<noteq> f_id f) \<or> g = f"
  by (auto simp: put_finding_def set_tbl_update split: if_splits)

lemma put_finding_frame [simp]:
  "s_decisions (put_finding f s) = s_decisions s" "s_links (put_finding f s) = s_links s"
  "s_clk (put_finding f s) = s_clk s" "s_uid (put_finding f s) = s_uid s"
  "s_revisions (put_finding f s) = s_revisions s" "s_subject_aliases (put_finding f s) = s_subject_aliases s"
  "map f_id (s_findings (put_finding f s)) = map f_id (s_findings s)"
  by (simp_all add: put_finding_def tbl_update_def)

text \<open>What one link and one decision change: findings are left alone or reopened.\<close>

definition only_reopens :: "session \<Rightarrow> session \<Rightarrow> bool" where
  "only_reopens s t =
     (s_decisions t = s_decisions s \<and> s_revisions t = s_revisions s \<and> s_subject_aliases t = s_subject_aliases s \<and>
      s_asset_aliases t = s_asset_aliases s \<and> s_uid s \<le> s_uid t \<and> s_clk s \<le> s_clk t \<and>
      map f_id (s_findings t) = map f_id (s_findings s) \<and>
      (\<forall>g \<in> set (s_findings t). g \<in> set (s_findings s) \<or> f_status g = Open))"

lemma only_reopens_refl [simp]: "only_reopens s s"
  by (simp add: only_reopens_def)

lemma only_reopens_trans: "only_reopens s t \<Longrightarrow> only_reopens t u \<Longrightarrow> only_reopens s u"
  by (fastforce simp: only_reopens_def)

lemma only_reopens_link: "only_reopens s (expire_link E w x v l s)"
proof (cases "tbl_get f_id (l_finding_id l) (s_findings s)")
  case None
  then show ?thesis by (simp add: expire_link_def)
next
  case (Some f)
  have "g \<in> set (s_findings s) \<or> f_status g = Open"
    if "g \<in> set (s_findings (put_finding (reopened ts w x f) (s\<lparr>s_clk := c\<rparr>)))" for g ts c
    using set_put [OF that] by (auto simp: reopened_def)
  moreover have "map f_id (s_findings (put_finding (reopened ts w x f) t)) = map f_id (s_findings t)" for ts t
    by simp
  ultimately show ?thesis
    using Some by (auto simp: expire_link_def only_reopens_def utcnow_def Let_def put_finding_def)
qed

lemma only_reopens_links: "only_reopens s (expire_links E w x v ls s)"
  unfolding expire_links_def
  by (rule fold_invariant [where Q = "\<lambda>_. True"]) (auto intro: only_reopens_trans only_reopens_link)

lemma same_ledger_reopens: "same_ledger s t \<Longrightarrow> only_reopens s t"
  by (simp add: same_ledger_def only_reopens_def)

lemma expired_decision_simps [simp]:
  "d_id (expired_decision now ts d) = d_id d" "d_status (expired_decision now ts d) = status_value Open"
  "d_key (expired_decision now ts d) = d_key d"
  "d_decision_version (expired_decision now ts d) = d_decision_version d + 1"
  "d_suppression_scope (expired_decision now ts d) = d_suppression_scope d"
  by (simp_all add: expired_decision_def d_key_def)

text \<open>The ledger tables after one decision expired.\<close>

lemma expire_one_effect:
  "\<exists>ts rid. only_reopens
     (s\<lparr>s_decisions := tbl_update (\<lambda>r. d_id r = d_id d) (\<lambda>_. expired_decision now ts d) (s_decisions s),
        s_revisions := s_revisions s @
          [\<lparr>rv_id = rid, rv_decision_id = d_id d, rv_revision = d_decision_version d + 1,
            rv_snapshot = decision_snapshot (expired_decision now ts d),
            rv_actor_id = ''system@waiver-expiry'', rv_reason = Some ''waiver_expired'', rv_created_at = now\<rparr>]\<rparr>)
     (expire_one E now d s)"
proof -
  define ts where "ts = isoformat (env_clock E (s_clk s)) @ ''Z''"
  define d1 where "d1 = expired_decision now ts d"
  define s3 where "s3 = add_revision E d1 ''system@waiver-expiry'' ''waiver_expired'' now
    (put_decision d1 (snd (utcnow E s)))"
  let ?w = "jget_default ''waiverRef'' (JStr []) (attestation_dict (d_attestation d))"
  let ?x = "jget_default ''expiresAt'' (JStr []) (attestation_dict (d_attestation d))"
  define s4 where "s4 = expire_links E ?w ?x (d_decision_version d1)
    (filter (\<lambda>l. l_decision_id l = d_id d \<and> l_unlinked_at l = None) (s_links s3)) s3"
  have o: "expire_one E now d s =
      snd (emit_audit_event E (expired_event (fst (new_trace_id E s4)) d1 ?w ?x) (snd (new_trace_id E s4)))"
    by (simp add: expire_one_def Let_def s3_def s4_def d1_def ts_def utcnow_def new_trace_id_def uuid4_hex_def)
  have "same_ledger s4 (snd (new_trace_id E s4))" by (simp add: new_trace_id_def)
  from same_ledger_reopens [OF same_ledger_trans [OF this same_ledger_emit]]
  have "only_reopens s4 (expire_one E now d s)" unfolding o .
  with only_reopens_links have s4: "only_reopens s3 (expire_one E now d s)"
    unfolding s4_def by (rule only_reopens_trans)
  define rid where "rid = fst (new_revision_id E (put_decision d1 (snd (utcnow E s))))"
  have d1: "d_id d1 = d_id d" "d_decision_version d1 = d_decision_version d + 1" by (simp_all add: d1_def)
  have s3: "s_decisions s3 = tbl_update (\<lambda>r. d_id r = d_id d) (\<lambda>_. d1) (s_decisions s)"
      "s_revisions s3 = s_revisions s @
          [\<lparr>rv_id = rid, rv_decision_id = d_id d, rv_revision = d_decision_version d + 1,
            rv_snapshot = decision_snapshot d1, rv_actor_id = ''system@waiver-expiry'',
            rv_reason = Some ''waiver_expired'', rv_created_at = now\<rparr>]"
      "s_findings s3 = s_findings s" "s_subject_aliases s3 = s_subject_aliases s"
      "s_asset_aliases s3 = s_asset_aliases s" "s_uid s \<le> s_uid s3" "s_clk s \<le> s_clk s3"
    by (simp_all add: s3_def rid_def add_revision_def new_revision_id_def uuid4_hex_def utcnow_def
        put_decision_def Let_def d1)
  have "only_reopens (s\<lparr>s_decisions := s_decisions s3, s_revisions := s_revisions s3\<rparr>) s3"
    using s3(3-7) by (simp add: only_reopens_def)
  from only_reopens_trans [OF this s4] show ?thesis unfolding s3(1,2) d1_def by blast
qed

lemma expire_all_effect:
  "s_clk s \<le> s_clk (snd (expire_all E now today ds (n, s))) \<and>
   (\<forall>g \<in> set (s_findings (snd (expire_all E now today ds (n, s)))). g \<in> set (s_findings s) \<or> f_status g = Open) \<and>
   (\<forall>e \<in> set (s_decisions (snd (expire_all E now today ds (n, s)))).
     (e \<in> set (s_decisions s) \<and> (\<forall>d \<in> set ds. is_waiver_expired (waiver_expires_at d) today \<longrightarrow> d_id e \<noteq> d_id d)) \<or>
     d_status e = status_value Open)"
proof (induction ds arbitrary: n s)
  case (Cons d ds)
  show ?case
  proof (cases "is_waiver_expired (waiver_expires_at d) today")
    case True
    let ?s = "expire_one E now d s"
    obtain ts rs where o: "only_reopens (s\<lparr>s_decisions := tbl_update (\<lambda>r. d_id r = d_id d)
        (\<lambda>_. expired_decision now ts d) (s_decisions s), s_revisions := rs\<rparr>) ?s"
      using expire_one_effect [of s d now E] by blast
    have "s_clk s \<le> s_clk ?s" "\<forall>g \<in> set (s_findings ?s). g \<in> set (s_findings s) \<or> f_status g = Open"
        "\<forall>e \<in> set (s_decisions ?s). (e \<in> set (s_decisions s) \<and> d_id e \<noteq> d_id d) \<or> d_status e = status_value Open"
      using o by (auto simp: only_reopens_def set_tbl_update split: if_splits)
    with Cons.IH [of ?s "Suc n"] True show ?thesis by (simp add: order_trans [of "s_clk s"]) blast
  next
    case False
    with Cons.IH [of s n] show ?thesis by simp
  qed
qed simp

lemma expire_findings_effect:
  "s_decisions (snd (expire_findings E today fs (n, s))) = s_decisions s \<and>
   (\<forall>g \<in> set (s_findings (snd (expire_findings E today fs (n, s)))).
     (g \<in> set (s_findings s) \<and> (\<forall>f \<in> set fs. is_waiver_expired (finding_expires_at f) today \<longrightarrow> f_id g \<noteq> f_id f)) \<or>
     f_status g = Open)"
proof (induction fs arbitrary: n s)
  case (Cons f fs)
  show ?case
  proof (cases "is_waiver_expired (finding_expires_at f) today")
    case True
    let ?s = "put_finding (reopened_fallback (strftime_z (env_clock E (s_clk s))) f) (s\<lparr>s_clk := Suc (s_clk s)\<rparr>)"
    have p: "(g \<in> set (s_findings s) \<and> f_id g \<noteq> f_id f) \<or> f_status g = Open" if "g \<in> set (s_findings ?s)" for g
      using set_put [OF that] by (auto simp: reopened_fallback_def)
    have "s_decisions ?s = s_decisions s" by simp
    with Cons.IH [of "Suc n" ?s] True p show ?thesis by (simp add: utcnow_def) blast
  next
    case False
    with Cons.IH [of n s] show ?thesis by simp
  qed
qed simp

lemma no_attestation_not_expired:
  "is_waiver_expired (jget ''expiresAt'' (attestation_dict c)) today \<Longrightarrow> c \<noteq> None"
  by (cases c) (auto simp: attestation_dict_def as_dict_def jget_def is_waiver_expired_def exp_date_str_def)

text \<open>
  C34. After a run of the waiver enforcement (within one calendar day) no finding is Risk Accepted
  with an expired waiver, whether or not the ledger knew it, and with the ledger enabled no
  stored decision is either.
\<close>

theorem no_expired_waiver_remains:
  assumes "\<forall>n. s_clk s \<le> n \<longrightarrow> date_isoformat (env_clock E n) = today"
  shows "(\<forall>f \<in> set (s_findings (snd (enforce_waiver_expiry E s))).
            f_status f = RiskAccepted \<longrightarrow> \<not> is_waiver_expired (finding_expires_at f) today) \<and>
    (env_decision_ledger_enabled E \<longrightarrow>
      (\<forall>d \<in> set (s_decisions (snd (enforce_waiver_expiry E s))).
         d_status d = status_value RiskAccepted \<longrightarrow> \<not> is_waiver_expired (waiver_expires_at d) today))"
proof -
  define s1 where "s1 = snd (if env_decision_ledger_enabled E then expire_decision_waivers E s else (0, s))"
  let ?rows = "filter (\<lambda>f. f_status f = RiskAccepted \<and> f_attestation f \<noteq> None) (s_findings s1)"
  have s1: "s_clk s \<le> s_clk s1 \<and> (env_decision_ledger_enabled E \<longrightarrow>
      (\<forall>e \<in> set (s_decisions s1). (e \<in> set (s_decisions s) \<and>
         (\<forall>d \<in> set (waiver_rows (s_decisions s)). is_waiver_expired (waiver_expires_at d) today \<longrightarrow> d_id e \<noteq> d_id d)) \<or>
       d_status e = status_value Open))"
  proof (cases "env_decision_ledger_enabled E")
    case True
    then have "s1 = snd (expire_all E (env_clock E (Suc (s_clk s))) today (waiver_rows (s_decisions s))
        (0, s\<lparr>s_clk := Suc (Suc (s_clk s))\<rparr>))"
      using assms by (simp add: s1_def expire_decision_waivers_def utcnow_def Let_def)
    then show ?thesis
      using expire_all_effect [of "s\<lparr>s_clk := Suc (Suc (s_clk s))\<rparr>" E "env_clock E (Suc (s_clk s))" today
          "waiver_rows (s_decisions s)" 0] by simp
  qed (simp add: s1_def)
  have "snd (enforce_waiver_expiry E s) = snd (expire_findings E today ?rows (0, s1\<lparr>s_clk := Suc (s_clk s1)\<rparr>))"
    using assms s1
    by (simp add: enforce_waiver_expiry_def enforce_waiver_expiry_on_findings_def case_prod_beta Let_def s1_def utcnow_def)
  then have e: "s_decisions (snd (enforce_waiver_expiry E s)) = s_decisions s1"
      "\<forall>g \<in> set (s_findings (snd (enforce_waiver_expiry E s))). (g \<in> set (s_findings s1) \<and>
         (\<forall>f \<in> set ?rows. is_waiver_expired (finding_expires_at f) today \<longrightarrow> f_id g \<noteq> f_id f)) \<or> f_status g = Open"
    using expire_findings_effect [of E today ?rows 0 "s1\<lparr>s_clk := Suc (s_clk s1)\<rparr>"] by simp_all
  have "\<not> is_waiver_expired (finding_expires_at f) today"
    if "f \<in> set (s_findings (snd (enforce_waiver_expiry E s)))" "f_status f = RiskAccepted" for f
  proof
    assume x: "is_waiver_expired (finding_expires_at f) today"
    then have "f_attestation f \<noteq> None" unfolding finding_expires_at_def by (rule no_attestation_not_expired)
    moreover have "f \<in> set (s_findings s1) \<and>
        (\<forall>g \<in> set ?rows. is_waiver_expired (finding_expires_at g) today \<longrightarrow> f_id f \<noteq> f_id g)"
      using bspec [OF e(2) that(1)] that(2) by (auto simp only: status.distinct)
    ultimately show False using x that(2) by auto
  qed
  moreover have "\<not> is_waiver_expired (waiver_expires_at d) today"
    if "env_decision_ledger_enabled E" "d \<in> set (s_decisions s1)" "d_status d = status_value RiskAccepted" for d
  proof
    assume x: "is_waiver_expired (waiver_expires_at d) today"
    then have "d_attestation d \<noteq> None" unfolding waiver_expires_at_def by (rule no_attestation_not_expired)
    moreover have "d \<in> set (s_decisions s) \<and> (\<forall>e \<in> set (waiver_rows (s_decisions s)).
        is_waiver_expired (waiver_expires_at e) today \<longrightarrow> d_id d \<noteq> d_id e)"
      using s1 that by auto
    ultimately show False using x that(3) by (auto simp: waiver_rows_def)
  qed
  ultimately show ?thesis using e(1) by auto
qed

text \<open>The recorded waiver of the examples expired at the end of 2025.\<close>

definition demo_stale :: session where
  "demo_stale = demo_ledger\<lparr>s_findings := [demo_finding\<lparr>f_attestation := Some (JObj [(''expiresAt'', JStr ''2025-12-31'')])\<rparr>],
     s_decisions := [demo_decision\<lparr>d_attestation := Some (JObj [(''expiresAt'', JStr ''2025-12-31'')])\<rparr>]\<rparr>"

theorem no_expired_waiver_remains_witness:
  "filter (\<lambda>f. f_status f = RiskAccepted \<and>
       is_waiver_expired (finding_expires_at f) (date_isoformat (DateTime 2026 1 1 0 0 0 0)))
     (s_findings (snd (enforce_waiver_expiry demo_env demo_stale))) = [] \<and>
   filter (\<lambda>d. d_status d = status_value RiskAccepted \<and>
       is_waiver_expired (waiver_expires_at d) (date_isoformat (DateTime 2026 1 1 0 0 0 0)))
     (s_decisions (snd (enforce_waiver_expiry demo_env demo_stale))) = []"
proof -
  have "\<forall>n. s_clk demo_stale \<le> n \<longrightarrow> date_isoformat (env_clock demo_env n) = date_isoformat (DateTime 2026 1 1 0 0 0 0)"
    by (simp add: demo_env_def demo_clock_def date_isoformat_def)
  moreover have "env_decision_ledger_enabled demo_env" by (simp add: demo_env_def)
  ultimately show ?thesis
    using no_expired_waiver_remains [of demo_stale demo_env] unfolding filter_empty_conv by blast
qed

section \<open>Expiry dates are compared as text\<close>

lemma less_append_same_length:
  fixes xs ys :: "string"
  assumes "length xs = length ys"
  shows "xs @ us < ys @ vs \<longleftrightarrow> xs < ys \<or> (xs = ys \<and> us < vs)"
  using assms by (induction xs ys rule: list_induct2) auto

lemma digit_char_less: "a < 10 \<Longrightarrow> b < 10 \<Longrightarrow> digit_char a < digit_char b \<longleftrightarrow> a < b"
  by (simp add: digit_char_def less_char_def)

lemma pad_less: "m < 10 ^ k \<Longrightarrow> n < 10 ^ k \<Longrightarrow> pad k m < pad k n \<longleftrightarrow> m < n"
proof (induction k arbitrary: m n)
  case (Suc k)
  have b: "m div 10 < 10 ^ k" "n div 10 < 10 ^ k"
    using Suc.prems by (simp_all add: less_mult_imp_div_less mult.commute)
  have i: "pad k (m div 10) = pad k (n div 10) \<longleftrightarrow> m div 10 = n div 10"
    using Suc.IH [OF b] Suc.IH [OF b(2,1)] by (metis less_irrefl linorder_neqE_nat)
  have "m = 10 * (m div 10) + m mod 10" "n = 10 * (n div 10) + n mod 10" "m mod 10 < 10" "n mod 10 < 10"
    by simp_all
  then have "m < n \<longleftrightarrow> m div 10 < n div 10 \<or> (m div 10 = n div 10 \<and> m mod 10 < n mod 10)"
    by (cases "m div 10" "n div 10" rule: linorder_cases) linarith+
  then show ?case
    using Suc.IH [OF b] i by (simp add: less_append_same_length digit_char_less)
qed simp

lemma pad_inject: "m < 10 ^ k \<Longrightarrow> n < 10 ^ k \<Longrightarrow> pad k m = pad k n \<longleftrightarrow> m = n"
  using pad_less [of m k n] pad_less [of n k m] by (metis less_irrefl linorder_neqE_nat)

lemma date_isoformat_less:
  assumes "valid_datetime d" and "valid_datetime t"
  shows "date_isoformat d < date_isoformat t \<longleftrightarrow>
    [dt_year d, dt_month d, dt_day d] < [dt_year t, dt_month t, dt_day t]"
proof -
  have "dt_year d < 10 ^ 4" "dt_year t < 10 ^ 4" "dt_month d < 10 ^ 2" "dt_month t < 10 ^ 2"
      "dt_day d < 10 ^ 2" "dt_day t < 10 ^ 2"
    using assms days_in_month_le [of "dt_year d" "dt_month d"] days_in_month_le [of "dt_year t" "dt_month t"]
    by (auto simp: valid_datetime_def)
  then show ?thesis
    by (simp add: date_isoformat_def less_append_same_length pad_less pad_inject del: pad.simps)
qed

text \<open>
  The text comparison of the expiry check is the calendar comparison: a waiver whose
  \<open>expiresAt\<close> is a date, or a timestamp that starts with that date, is expired exactly when its
  date is before today's. In particular it still holds on its expiry date.
\<close>

lemma waiver_expired_iff_date_before:
  assumes "valid_datetime d" and "valid_datetime t" and "rest = [] \<or> \<not> py_isspace (last rest)"
  shows "is_waiver_expired (JStr (date_isoformat d @ rest)) (date_isoformat t) \<longleftrightarrow>
    [dt_year d, dt_month d, dt_day d] < [dt_year t, dt_month t, dt_day t]"
proof -
  have p: "date_isoformat d \<noteq> []" "is_digit_char (hd (date_isoformat d))" "is_digit_char (last (date_isoformat d))"
      "length (date_isoformat d) = 10"
    using pad_ends [of 4 "dt_year d"] pad_ends [of 2 "dt_day d"]
    by (simp_all add: date_isoformat_def hd_append del: pad.simps)
  have "py_strip (date_isoformat d @ rest) = date_isoformat d @ rest"
    using p assms(3) digit_not_special [OF p(2)] digit_not_special [OF p(3)]
    by (intro py_strip_fixed) (auto simp: last_append)
  then have "exp_date_str (JStr (date_isoformat d @ rest)) = Some (date_isoformat d)"
    using p by (simp add: exp_date_str_def py_str_def Let_def)
  then show ?thesis using date_isoformat_less [OF assms(1,2)] p(1) by (simp add: is_waiver_expired_def)
qed

end
