(* ===== verification/Vat_Ledger_Read.thy ===== *)
theory Vat_Ledger_Read
  imports Vat_Waiver
begin

text \<open>
  The read side of \<open>services/decision_ledger.py\<close> and its two batch jobs: provenance, waiver lists
  and export records, the auditor's decision detail, the backfill of decisions and the nightly
  reconciliation. Commits are no-ops of the model; \<open>core/auth.tenant_filter\<close> is included
  as far as the jobs use it.
\<close>

section \<open>Provenance\<close>

definition json_or :: "json \<Rightarrow> json \<Rightarrow> json" where
  "json_or a b = (if py_truth a then a else b)"

definition decision_provenance :: "env \<Rightarrow> finding \<Rightarrow> session \<Rightarrow> json_object option" where
  "decision_provenance E f s =
     (if \<not> env_decision_ledger_enabled E then None
      else case find (\<lambda>l. l_finding_id l = f_id f \<and> l_unlinked_at l = None) (s_links s) of
             None \<Rightarrow> None
           | Some link \<Rightarrow>
               (case tbl_get d_id (l_decision_id link) (s_decisions s) of
                  None \<Rightarrow> None
                | Some d \<Rightarrow>
                    Some [(''decisionId'', JStr (d_id d)), (''subjectKey'', JStr (d_subject_key d)),
                          (''decisionVersion'', JInt (int (d_decision_version d))),
                          (''decisionLinkMethod'', JStr (l_link_method link)),
                          (''decisionRelinked'', JBool (l_link_method link \<noteq> ''primary'')),
                          (''decisionConflict'',
                           JBool (d_status d \<in> set AUTO_APPLY_DECISION_STATUSES \<and>
                                  d_status d \<noteq> status_value (f_status f)))]))"

section \<open>Waiver records\<close>

definition waiver_matches_asset :: "json_object \<Rightarrow> string \<Rightarrow> bool" where
  "waiver_matches_asset rec asset_id =
     (let needle = py_strip asset_id
      in needle = [] \<or>
         list_ex (\<lambda>k. py_strip (str_or_empty (jget k rec)) = needle) [''image'', ''component'', ''componentBase''])"

definition waiver_record_from_decision ::
  "triage_decision \<Rightarrow> finding option \<Rightarrow> string option \<Rightarrow> bool \<Rightarrow> json_object" where
  "waiver_record_from_decision d fo finding_id linked =
     (let snap = as_dict (d_identity_snapshot d); att = JObj (attestation_dict (d_attestation d))
      in case fo of
           Some f \<Rightarrow>
             [(''decisionId'', JStr (d_id d)), (''subjectKey'', JStr (d_subject_key d)),
              (''tenantId'', JStr (d_tenant_id d)), (''findingId'', JStr (f_id f)), (''linked'', JBool linked),
              (''findingType'', JStr (finding_type_value (f_finding_type f))), (''status'', JStr (d_status d)),
              (''cveId'', JStr (f_cve_id f)), (''title'', opt_json (f_title f)),
              (''severity'', JStr (severity_value (f_severity f))), (''component'', opt_json (f_component f)),
              (''image'', opt_json (f_image f)), (''ruleId'', opt_json (f_rule_id f)),
              (''controlRef'', opt_json (f_control_ref f)), (''attestation'', att),
              (''justification'', opt_json (d_justification d)),
              (''decisionVersion'', JInt (int (d_decision_version d))),
              (''updatedAt'', JStr (isoformat (d_updated_at d)))]
         | None \<Rightarrow>
             [(''decisionId'', JStr (d_id d)), (''subjectKey'', JStr (d_subject_key d)),
              (''tenantId'', JStr (d_tenant_id d)), (''findingId'', opt_json finding_id), (''linked'', JBool linked),
              (''findingType'', json_or (jget ''findingType'' snap) (JStr (d_finding_type d))),
              (''status'', JStr (d_status d)), (''cveId'', json_or (jget ''cveId'' snap) (JStr [])),
              (''title'', jget ''title'' snap), (''severity'', jget ''severity'' snap),
              (''component'', jget ''component'' snap), (''image'', jget ''image'' snap),
              (''ruleId'', jget ''ruleId'' snap), (''controlRef'', jget ''controlRef'' snap),
              (''attestation'', att), (''justification'', opt_json (d_justification d)),
              (''decisionVersion'', JInt (int (d_decision_version d))),
              (''updatedAt'', JStr (isoformat (d_updated_at d)))])"

text \<open>\<open>link_by_decision\<close>: the last live link of the decision wins.\<close>

definition live_link_of :: "session \<Rightarrow> string \<Rightarrow> decision_finding_link option" where
  "live_link_of s did = find (\<lambda>l. l_decision_id l = did \<and> l_unlinked_at l = None) (rev (s_links s))"

definition waiver_record :: "session \<Rightarrow> triage_decision \<Rightarrow> json_object" where
  "waiver_record s d =
     (let link = live_link_of s (d_id d);
          fo = (case link of None \<Rightarrow> None | Some l \<Rightarrow> tbl_get f_id (l_finding_id l) (s_findings s))
      in waiver_record_from_decision d fo
           (case link of Some l \<Rightarrow> Some (l_finding_id l) | None \<Rightarrow> d_last_finding_id d) (fo \<noteq> None))"

definition visible_waivers :: "session \<Rightarrow> string option \<Rightarrow> bool \<Rightarrow> triage_decision list" where
  "visible_waivers s tenant_id cross_tenant =
     filter (\<lambda>d. cross_tenant \<or> d_tenant_id d = normalize_tenant_id tenant_id) (waiver_rows (s_decisions s))"

definition list_waiver_decisions ::
  "env \<Rightarrow> session \<Rightarrow> string option \<Rightarrow> bool \<Rightarrow> string option \<Rightarrow> json_object list" where
  "list_waiver_decisions E s tenant_id cross_tenant asset_id =
     (if \<not> env_decision_ledger_enabled E then []
      else filter (\<lambda>r. \<not> truthy asset_id \<or> waiver_matches_asset r (or_empty asset_id))
             (map (waiver_record s) (visible_waivers s tenant_id cross_tenant)))"

section \<open>Decision detail\<close>

definition revision_record :: "triage_decision_revision \<Rightarrow> json" where
  "revision_record r =
     JObj [(''revision'', JInt (int (rv_revision r))), (''actor_id'', JStr (rv_actor_id r)),
           (''reason'', opt_json (rv_reason r)), (''snapshot'', rv_snapshot r),
           (''created_at'', JStr (isoformat (rv_created_at r)))]"

definition detail_record :: "session \<Rightarrow> triage_decision \<Rightarrow> json_object" where
  "detail_record s d =
     [(''decision_id'', JStr (d_id d)), (''tenant_id'', JStr (d_tenant_id d)),
      (''subject_key'', JStr (d_subject_key d)), (''finding_type'', JStr (d_finding_type d)),
      (''status'', JStr (d_status d)), (''decision_version'', JInt (int (d_decision_version d))),
      (''justification'', opt_json (d_justification d)),
      (''compensating_controls'', opt_json (d_compensating_controls d)),
      (''reviewer_note'', opt_json (d_reviewer_note d)), (''attestation'', jsonb_get (d_attestation d)),
      (''identity_snapshot'', d_identity_snapshot d), (''created_by'', JStr (d_created_by d)),
      (''created_at'', JStr (isoformat (d_created_at d))), (''updated_by'', opt_json (d_updated_by d)),
      (''updated_at'', JStr (isoformat (d_updated_at d))),
      (''linked_finding_ids'', JList (map (\<lambda>l. JStr (l_finding_id l))
         (filter (\<lambda>l. l_decision_id l = d_id d \<and> l_unlinked_at l = None) (s_links s)))),
      (''revisions'', JList (map revision_record
         (sort_key rv_revision (filter (\<lambda>r. rv_decision_id r = d_id d) (s_revisions s)))))]"

definition find_decision ::
  "session \<Rightarrow> string \<Rightarrow> bool \<Rightarrow> string option \<Rightarrow> string option \<Rightarrow> triage_decision option" where
  "find_decision s tenant cross_tenant subject_key decision_id =
     (let in_tenant = (\<lambda>d. cross_tenant \<or> d_tenant_id d = tenant);
          direct = (if truthy decision_id
                    then find (\<lambda>d. d_id d = or_empty decision_id \<and> in_tenant d) (s_decisions s)
                    else find (\<lambda>d. d_subject_key d = or_empty subject_key \<and> in_tenant d) (s_decisions s))
      in if direct = None \<and> truthy subject_key
         then (case tbl_get sa_key (tenant, or_empty subject_key) (s_subject_aliases s) of
                 None \<Rightarrow> None
               | Some al \<Rightarrow> find (\<lambda>d. d_subject_key d = sa_canonical_key al \<and> in_tenant d) (s_decisions s))
         else direct)"

definition get_decision_detail ::
  "env \<Rightarrow> session \<Rightarrow> string option \<Rightarrow> bool \<Rightarrow> string option \<Rightarrow> string option \<Rightarrow> json_object option" where
  "get_decision_detail E s tenant_id cross_tenant subject_key decision_id =
     (if \<not> env_decision_ledger_enabled E \<or> (\<not> truthy decision_id \<and> \<not> truthy subject_key) then None
      else map_option (detail_record s)
             (find_decision s (normalize_tenant_id tenant_id) cross_tenant subject_key decision_id))"

section \<open>Export records\<close>

definition attestation_of_row :: "json_object \<Rightarrow> json_object" where
  "attestation_of_row r = as_dict (jget ''attestation'' r)"

definition copy_keys :: "string list \<Rightarrow> json_object \<Rightarrow> json_object" where
  "copy_keys ks r = map (\<lambda>k. (k, jget k r)) ks"

definition waiver_export_record :: "json_object \<Rightarrow> json_object" where
  "waiver_export_record r =
     copy_keys [''decisionId'', ''subjectKey'', ''findingId'', ''linked'', ''cveId'', ''ruleId'', ''title'',
                ''severity'', ''component'', ''image''] r @
     copy_keys [''waiverRef'', ''approver'', ''approverTitle'', ''approvedAt'', ''expiresAt'']
       (attestation_of_row r) @
     copy_keys [''controlRef'', ''justification''] r"

definition waiver_records_for_export :: "json_object list \<Rightarrow> json_object list" where
  "waiver_records_for_export rs = map waiver_export_record rs"

definition finding_row_to_waiver :: "json_object \<Rightarrow> json_object" where
  "finding_row_to_waiver f =
     [(''decisionId'', JNull), (''subjectKey'', JNull), (''findingId'', jget ''id'' f), (''linked'', JBool True)] @
     copy_keys [''cveId'', ''ruleId'', ''title'', ''severity'', ''component'', ''image''] f @
     copy_keys [''waiverRef'', ''approver'', ''approverTitle'', ''approvedAt'', ''expiresAt'']
       (attestation_of_row f) @
     copy_keys [''controlRef'', ''justification''] f"

definition build_waiver_export_records ::
  "env \<Rightarrow> session \<Rightarrow> string option \<Rightarrow> bool \<Rightarrow> json_object list \<Rightarrow> json_object list" where
  "build_waiver_export_records E s tenant_id cross_tenant finding_rows =
     (let ledger_rows = waiver_records_for_export (list_waiver_decisions E s tenant_id cross_tenant None);
          accepted = filter (\<lambda>f. json_or (jget ''status'' f) (JStr []) = JStr ''Risk Accepted'') finding_rows;
          covered = map (\<lambda>r. py_str (jget ''findingId'' r)) (filter (\<lambda>r. py_truth (jget ''findingId'' r)) ledger_rows)
      in if ledger_rows \<noteq> []
         then ledger_rows @ map finding_row_to_waiver
                (filter (\<lambda>f. str_or_empty (jget ''id'' f) \<notin> set covered) accepted)
         else map finding_row_to_waiver accepted)"

section \<open>Batch jobs\<close>

definition tenant_filter_passes :: "string option \<Rightarrow> bool \<Rightarrow> bool" where
  "tenant_filter_passes tenant_id cross_tenant = (cross_tenant \<or> tenant_id \<noteq> None)"

definition limit_rows :: "nat \<Rightarrow> 'a list \<Rightarrow> 'a list" where
  "limit_rows n xs = (if 0 < n then take n xs else xs)"

record backfill_counts =
  bf_created :: nat
  bf_skipped :: nat
  bf_scanned :: nat

definition backfill_one :: "env \<Rightarrow> finding \<Rightarrow> backfill_counts \<times> session \<Rightarrow> backfill_counts \<times> session" where
  "backfill_one E f acc =
     (case acc of (c, s) \<Rightarrow>
        (case candidates_for_finding E (s_asset_aliases s) f None of
           [] \<Rightarrow> (c\<lparr>bf_skipped := bf_skipped c + 1\<rparr>, s)
         | primary # _ \<Rightarrow>
             if tbl_get d_key (normalize_tenant_id (f_tenant_id f), dsc_subject_key primary) (s_decisions s) \<noteq> None
             then (c\<lparr>bf_skipped := bf_skipped c + 1\<rparr>, s)
             else (case record_decision_from_finding E f ''system@backfill'' ''backfill'' None s of
                     (Some _, s1) \<Rightarrow> (c\<lparr>bf_created := bf_created c + 1\<rparr>, s1)
                   | (None, s1) \<Rightarrow> (c\<lparr>bf_skipped := bf_skipped c + 1\<rparr>, s1))))"

definition backfill_decisions_from_findings ::
  "env \<Rightarrow> string option \<Rightarrow> bool \<Rightarrow> nat \<Rightarrow> session \<Rightarrow> backfill_counts \<times> session" where
  "backfill_decisions_from_findings E tenant_id cross_tenant limit s =
     (if \<not> env_decision_ledger_enabled E then (\<lparr>bf_created = 0, bf_skipped = 0, bf_scanned = 0\<rparr>, s)
      else let fs = limit_rows limit (filter (\<lambda>f. status_value (f_status f) \<in> set RECORDABLE_STATUSES \<and>
                      tenant_filter_passes tenant_id cross_tenant) (s_findings s))
           in fold (backfill_one E) fs (\<lparr>bf_created = 0, bf_skipped = 0, bf_scanned = length fs\<rparr>, s))"

record reconcile_counts =
  rc_scanned :: nat
  rc_applied :: nat
  rc_conflicts :: nat
  rc_relinked :: nat

definition count_result :: "decision_apply_result \<Rightarrow> reconcile_counts \<Rightarrow> reconcile_counts" where
  "count_result r c =
     \<lparr>rc_scanned = rc_scanned c + 1, rc_applied = rc_applied c + (if dar_applied r then 1 else 0),
      rc_conflicts = rc_conflicts c + (if dar_conflict r then 1 else 0),
      rc_relinked = rc_relinked c + (if truthy (dar_decision_id r) then 1 else 0)\<rparr>"

fun reconcile_rows :: "env \<Rightarrow> finding list \<Rightarrow> reconcile_counts \<Rightarrow> session \<Rightarrow> py_error + (reconcile_counts \<times> session)" where
  "reconcile_rows E [] c s = Inr (c, s)"
| "reconcile_rows E (f # fs) c s =
     (case resolve_and_apply_decision E f None None s of
        Inl e \<Rightarrow> Inl e
      | Inr (r, f1, s1) \<Rightarrow> reconcile_rows E fs (count_result r c) s1)"

definition reconcile_decision_links ::
  "env \<Rightarrow> string option \<Rightarrow> bool \<Rightarrow> nat \<Rightarrow> session \<Rightarrow> py_error + (reconcile_counts \<times> session)" where
  "reconcile_decision_links E tenant_id cross_tenant limit s =
     (let zero = \<lparr>rc_scanned = 0, rc_applied = 0, rc_conflicts = 0, rc_relinked = 0\<rparr>
      in if \<not> env_decision_ledger_enabled E then Inr (zero, s)
         else reconcile_rows E (limit_rows limit (filter (\<lambda>f. tenant_filter_passes tenant_id cross_tenant) (s_findings s)))
                zero s)"

section \<open>Tenant scoping of the reads\<close>

lemma jget_simps [simp]: "jget k [] = JNull" "jget k ((k', v) # kvs) = (if k' = k then v else jget k kvs)"
  by (simp_all add: jget_def)

lemma jget_append: "k \<notin> fst ` set xs \<Longrightarrow> jget k (xs @ ys) = jget k ys"
  by (induction xs) auto

lemma find_SomeD: "find P xs = Some x \<Longrightarrow> x \<in> set xs \<and> P x"
  by (induction xs) (auto split: if_splits)

lemma waiver_record_tenant: "jget ''tenantId'' (waiver_record s d) = JStr (d_tenant_id d)"
  by (simp add: waiver_record_def waiver_record_from_decision_def Let_def split: option.splits)

text \<open>
  Without the cross-tenant right, the waiver list holds records of the caller's tenant only,
  and the decision detail never shows a decision of another tenant, whether it is asked for
  by decision id, by subject key or by an alias of the key.
\<close>

lemma ledger_reads_tenant_scoped:
  "jget ''tenantId'' ` set (list_waiver_decisions E s tenant_id False asset_id) \<subseteq>
     {JStr (normalize_tenant_id tenant_id)} \<and>
   (case get_decision_detail E s tenant_id False subject_key decision_id of
      None \<Rightarrow> True | Some r \<Rightarrow> jget ''tenant_id'' r = JStr (normalize_tenant_id tenant_id))"
proof -
  have "d_tenant_id d = normalize_tenant_id tenant_id"
    if "find_decision s (normalize_tenant_id tenant_id) False subject_key decision_id = Some d" for d
    using that by (auto simp: find_decision_def Let_def dest!: find_SomeD split: if_splits option.splits)
  then show ?thesis
    by (auto simp: list_waiver_decisions_def visible_waivers_def get_decision_detail_def detail_record_def
        waiver_record_tenant split: option.splits)
qed

section \<open>Nothing is lost in the export\<close>

lemma export_finding_id: "jget ''findingId'' (waiver_export_record r) = jget ''findingId'' r"
  and export_decision_id: "jget ''decisionId'' (waiver_export_record r) = jget ''decisionId'' r"
  by (simp_all add: waiver_export_record_def copy_keys_def)

lemma row_finding_id: "jget ''findingId'' (finding_row_to_waiver f) = jget ''id'' f"
  and row_decision_id: "jget ''decisionId'' (finding_row_to_waiver f) = JNull"
  by (simp_all add: finding_row_to_waiver_def)

lemma record_decision_id: "jget ''decisionId'' (waiver_record s d) = JStr (d_id d)"
  by (simp add: waiver_record_def waiver_record_from_decision_def Let_def split: option.splits)

text \<open>
  The waiver export loses nothing: it lists every Risk Accepted ledger decision that the caller
  may see exactly once and in order, also when its finding was deleted, and every accepted
  finding row of the input with an id is listed under that id.
\<close>

lemma waiver_export_complete:
  assumes "env_decision_ledger_enabled E"
  shows "map (jget ''decisionId'') (filter (\<lambda>r. jget ''decisionId'' r \<noteq> JNull)
      (build_waiver_export_records E s tenant_id cross_tenant rows)) =
    map (JStr \<circ> d_id) (visible_waivers s tenant_id cross_tenant) \<and>
    (\<forall>f \<in> set rows. jget ''status'' f = JStr ''Risk Accepted'' \<and> py_truth (jget ''id'' f) \<longrightarrow>
       (\<exists>r \<in> set (build_waiver_export_records E s tenant_id cross_tenant rows).
          py_str (jget ''findingId'' r) = py_str (jget ''id'' f)))"
proof -
  define ds where "ds = visible_waivers s tenant_id cross_tenant"
  define out where "out = build_waiver_export_records E s tenant_id cross_tenant rows"
  let ?led = "map (\<lambda>d. waiver_export_record (waiver_record s d)) ds"
  let ?acc = "filter (\<lambda>f. json_or (jget ''status'' f) (JStr []) = JStr ''Risk Accepted'') rows"
  define cov where "cov = map (\<lambda>r. py_str (jget ''findingId'' r)) (filter (\<lambda>r. py_truth (jget ''findingId'' r)) ?led)"
  have led: "waiver_records_for_export (list_waiver_decisions E s tenant_id cross_tenant None) = ?led"
    using assms(1) by (simp add: waiver_records_for_export_def list_waiver_decisions_def ds_def Let_def comp_def truthy_def)
  obtain extra where out: "out = ?led @ map finding_row_to_waiver extra"
      and extra: "set extra \<subseteq> set rows" "\<forall>f \<in> set ?acc. f \<in> set extra \<or> str_or_empty (jget ''id'' f) \<in> set cov"
  proof (cases "ds = []")
    case True
    then show ?thesis
      using that [of ?acc] led by (simp add: out_def build_waiver_export_records_def Let_def)
  next
    case False
    then show ?thesis
      using that [of "filter (\<lambda>f. str_or_empty (jget ''id'' f) \<notin> set cov) ?acc"] led
      by (simp add: out_def build_waiver_export_records_def Let_def cov_def)
  qed
  have "map (jget ''decisionId'') (filter (\<lambda>r. jget ''decisionId'' r \<noteq> JNull) ?led) = map (JStr \<circ> d_id) ds"
    by (induction ds) (simp_all add: export_decision_id record_decision_id)
  moreover have "filter (\<lambda>r. jget ''decisionId'' r \<noteq> JNull) (map finding_row_to_waiver extra) = []"
    by (induction extra) (simp_all add: row_decision_id)
  moreover have "\<exists>r \<in> set out. py_str (jget ''findingId'' r) = py_str (jget ''id'' f)"
    if row: "f \<in> set rows" "jget ''status'' f = JStr ''Risk Accepted''" "py_truth (jget ''id'' f)" for f
  proof -
    have "f \<in> set ?acc" using row(1,2) by (simp add: json_or_def)
    then consider "f \<in> set extra" | "py_str (jget ''id'' f) \<in> set cov"
      using extra(2) row(3) by (auto simp: str_or_empty_def)
    then show ?thesis
    proof cases
      case 1
      then have "finding_row_to_waiver f \<in> set out" by (simp add: out)
      then show ?thesis using row_finding_id by metis
    next
      case 2
      then obtain r where "r \<in> set ?led" "py_str (jget ''findingId'' r) = py_str (jget ''id'' f)"
        unfolding cov_def by force
      then show ?thesis using out by (metis Un_iff set_append)
    qed
  qed
  ultimately show ?thesis
    unfolding ds_def [symmetric] out_def [symmetric] by (auto simp: out simp del: map_map)
qed

section \<open>A skipped first link\<close>

text \<open>
  A resolution that leaves a finding alone because it already has the status of the decision
  still stores a link with applied version 0 when there was none. To the next run the
  decision therefore looks newer than what the finding reflects, and that run applies it:
  the finding's own justification, note and attestation are replaced. The nightly
  reconciliation needs two runs to settle.
\<close>

lemma skipped_first_link_applied_next:
  assumes "lookup_decision s (f_tenant_id f) (candidates_for_finding E (s_asset_aliases s) f p) = Some (d, m)"
    and "tbl_get l_key (d_id d, f_id f) (s_links s) = None"
    and "status_value (f_status f) = d_status d" and "d_status d \<in> set TERMINAL_DECISION_STATUSES"
    and "valid_scope d" and "0 < d_decision_version d"
    and "distinct (map d_id (s_decisions s))" and "env_decision_ledger_enabled E"
    and "\<forall>h n. latest_time (human_edit_times (f_audit f)) = Some h \<and> s_clk s \<le> n \<longrightarrow> h \<le> env_clock E n"
  shows "\<exists>r s1 r2 f2 s2. resolve_and_apply_decision E f tr p s = Inr (r, f, s1) \<and>
    \<not> dar_applied r \<and> \<not> dar_conflict r \<and>
    resolve_and_apply_decision E f tr2 p s1 = Inr (r2, f2, s2) \<and> dar_applied r2 \<and>
    f_justification f2 = d_justification d \<and> f_reviewer_note f2 = d_reviewer_note d"
proof -
  let ?la = "map_option l_applied_decision_version (tbl_get l_key (d_id d, f_id f) (s_links s))"
  obtain st where st: "d_status d = status_value st"
      "st \<in> {RiskAccepted, FalsePositive, Suppressed, NotApplicable, Mitigated, Duplicate}"
    using terminal_status [OF assms(4)] by blast
  have a: "decision_apply_action f d ?la = Skip"
    using assms(2,3) st by (auto simp: decision_apply_action_def Let_def)
  then obtain r s1 where R: "relink_found E f tr d m s = Inr (r, f, s1)"
    using relink_found_no_projection by fastforce
  note e = relink_found_Inr [OF R] and again = relink_again [OF assms(1) R assms(7)]
  have na: "\<not> dar_applied r" "\<not> dar_conflict r" using e a by simp_all
  obtain d1 k n where d1:
      "lookup_decision s1 (f_tenant_id f) (candidates_for_finding E (s_asset_aliases s1) f p) = Some (d1, m)"
      "d_status d1 = d_status d" "d_suppression_scope d1 = d_suppression_scope d" "d_justification d1 = d_justification d"
      "d_reviewer_note d1 = d_reviewer_note d" "d_decision_version d1 = d_decision_version d"
      "s_clk s \<le> n" "d_updated_at d1 = env_clock E n"
      "tbl_get l_key (d_id d1, f_id f) (s_links s1) = Some k" "l_applied_decision_version k = 0"
    using again na assms(2) by auto
  have "\<not> finding_has_newer_human_edit f d1"
    using assms(9) d1(7,8) by (auto simp: finding_has_newer_human_edit_def dest: leD split: option.splits)
  then have "decision_apply_action f d1 (map_option l_applied_decision_version
      (tbl_get l_key (d_id d1, f_id f) (s_links s1))) = Apply"
    using assms(4,6) d1 by (simp add: apply_action_Apply)
  then obtain r2 f2 s2 where "relink_found E f tr2 d1 m s1 = Inr (r2, f2, s2)" "dar_applied r2" "projected f d1 f2"
    using relink_found_Apply assms(5) d1(3) by (metis valid_scope_def)
  then show ?thesis
    using R na d1 assms(1,8) by (auto simp: resolve_and_apply_decision_def projected_def)
qed

text \<open>A finding that is Risk Accepted already and has no link to the decision yet.\<close>

lemma demo_accepted_lookup:
  "lookup_decision demo_ledger (f_tenant_id demo_finding)
     (candidates_for_finding demo_env (s_asset_aliases demo_ledger) demo_finding None) = Some (demo_decision, demo_primary)"
proof -
  have "candidates_for_finding demo_env (s_asset_aliases demo_ledger) demo_finding None =
      candidates_for_finding demo_env (s_asset_aliases demo_ledger) demo_open None"
    by (simp add: demo_open_def candidates_for_finding_def decision_subject_keys_for_finding_def
        canonical_asset_for_finding_def)
  then show ?thesis
    using demo_candidates
    by (auto simp: lookup_decision_def lookup_key_def demo_ledger_def demo_decision_def created_decision_def
        d_key_def demo_finding_def)
qed

end
