(* ===== verification/Vat_Ledger_Inv.thy ===== *)
theory Vat_Ledger_Inv
  imports Vat_Ledger_Read
begin

text \<open>
  The ledger as a state machine. \<open>ledger_step\<close> has one rule for every operation that writes a
  ledger table; the invariant says that decisions are unique per tenant and subject key, that the
  revision history of a decision is exactly \<open>1, \<dots>, decision_version\<close>, that every link points
  to a stored decision and never claims a version the decision has not reached, that aliases
  are unique, and that every stored status and scope is one the code can read back.
\<close>

section \<open>The invariant\<close>

text \<open>
  The assumption on \<open>uuid4\<close>: the 16 digits that an id takes from it are not repeated among
  the first \<open>N\<close> draws. Runs are bounded by \<open>N\<close> draws, for any \<open>N\<close>: sixteen digits cannot be
  distinct for ever.
\<close>

definition uuid_distinct :: "env \<Rightarrow> nat \<Rightarrow> bool" where
  "uuid_distinct E N = inj_on (\<lambda>n. take 16 (env_uuid_hex E n)) {..<N}"

definition readable :: "triage_decision \<Rightarrow> bool" where
  "readable d = (valid_scope d \<and> (\<exists>st. d_status d = status_value st))"

definition decisions_ok :: "env \<Rightarrow> nat \<Rightarrow> triage_decision list \<Rightarrow> bool" where
  "decisions_ok E u ds =
     (distinct (map d_id ds) \<and> distinct (map d_key ds) \<and>
      (\<forall>d \<in> set ds. readable d \<and> (\<exists>n < u. d_id d = ''td-'' @ take 16 (env_uuid_hex E n))))"

definition history_ok :: "triage_decision list \<Rightarrow> triage_decision_revision list \<Rightarrow> bool" where
  "history_ok ds rs =
     ((\<forall>d \<in> set ds. map rv_revision (filter (\<lambda>r. rv_decision_id r = d_id d) rs) = [1..<Suc (d_decision_version d)]) \<and>
      (\<forall>r \<in> set rs. rv_decision_id r \<in> d_id ` set ds))"

definition links_ok :: "triage_decision list \<Rightarrow> decision_finding_link list \<Rightarrow> bool" where
  "links_ok ds ls =
     (distinct (map l_key ls) \<and>
      (\<forall>l \<in> set ls. \<exists>d \<in> set ds. d_id d = l_decision_id l \<and> l_applied_decision_version l \<le> d_decision_version d))"

definition ledger_inv :: "env \<Rightarrow> nat \<Rightarrow> session \<Rightarrow> bool" where
  "ledger_inv E N s =
     (uuid_distinct E N \<and> decisions_ok E (s_uid s) (s_decisions s) \<and> history_ok (s_decisions s) (s_revisions s) \<and>
      links_ok (s_decisions s) (s_links s) \<and> distinct (map sa_key (s_subject_aliases s)))"

section \<open>Replacing, adding and linking decisions\<close>

lemma decisions_ok_mono: "decisions_ok E u ds \<Longrightarrow> u \<le> v \<Longrightarrow> decisions_ok E v ds"
  unfolding decisions_ok_def by (meson less_le_trans)

abbreviation replace_decision :: "triage_decision \<Rightarrow> triage_decision list \<Rightarrow> triage_decision list" where
  "replace_decision d ds \<equiv> tbl_update (\<lambda>r. d_id r = d_id d) (\<lambda>_. d) ds"

lemma map_replace:
  assumes "\<And>r. r \<in> set ds \<Longrightarrow> d_id r = d_id d \<Longrightarrow> f r = f d"
  shows "map f (replace_decision d ds) = map f ds"
  using assms by (induction ds) auto

lemma replace_unique:
  "decisions_ok E u ds \<Longrightarrow> d \<in> set ds \<Longrightarrow> r \<in> set ds \<Longrightarrow> d_id r = d_id d \<Longrightarrow> r = d"
  by (auto simp: decisions_ok_def distinct_map dest: inj_onD)

lemma decisions_ok_replace:
  assumes "decisions_ok E u ds" and "d \<in> set ds" and "d_id d' = d_id d" and "d_key d' = d_key d" and "readable d'"
  shows "decisions_ok E u (replace_decision d' ds)"
proof -
  have "map d_key (replace_decision d' ds) = map d_key ds"
    by (rule map_replace) (use replace_unique [OF assms(1,2)] assms(3,4) in auto)
  moreover have "map d_id (replace_decision d' ds) = map d_id ds" by (rule map_replace) auto
  moreover have "\<exists>n < u. d_id d' = ''td-'' @ take 16 (env_uuid_hex E n)"
    using assms(1,2,3) by (auto simp: decisions_ok_def)
  ultimately show ?thesis using assms(1,5) by (auto simp: decisions_ok_def set_tbl_update)
qed

lemma set_replace:
  assumes "decisions_ok E u ds" and "d \<in> set ds" and "d_id d' = d_id d"
  shows "set (replace_decision d' ds) = insert d' (set ds - {d})"
  using assms replace_unique [OF assms(1,2)] by (auto simp: set_tbl_update image_iff)

lemma history_ok_replace:
  assumes "decisions_ok E u ds" and "d \<in> set ds" and "d_id d' = d_id d" and "history_ok ds rs"
    and "d_decision_version d' = d_decision_version d"
  shows "history_ok (replace_decision d' ds) rs"
  using assms(2-5) set_replace [OF assms(1-3)] by (auto simp: history_ok_def)

lemma history_ok_bump:
  assumes "decisions_ok E u ds" and "d \<in> set ds" and "d_id d' = d_id d" and "history_ok ds rs"
    and "d_decision_version d' = d_decision_version d + 1"
    and "rv_decision_id r = d_id d" and "rv_revision r = d_decision_version d + 1"
  shows "history_ok (replace_decision d' ds) (rs @ [r])"
proof -
  have "d_id e \<noteq> d_id d" if "e \<in> set ds - {d}" for e using replace_unique [OF assms(1,2)] that by auto
  then show ?thesis
    using assms(2-7) set_replace [OF assms(1-3)] by (fastforce simp: history_ok_def)
qed

lemma links_ok_replace:
  assumes "decisions_ok E u ds" and "d \<in> set ds" and "d_id d' = d_id d" and "links_ok ds ls"
    and "d_decision_version d \<le> d_decision_version d'"
  shows "links_ok (replace_decision d' ds) ls"
  using assms(2-5) set_replace [OF assms(1-3)] by (fastforce simp: links_ok_def)

lemma links_ok_upsert:
  assumes "links_ok ds ls" and "d \<in> set ds" and "lc_key c = (d_id d, fid)"
    and "lc_applied_version c \<le> d_decision_version d"
  shows "links_ok ds (link_upsert c ls)"
proof -
  have dl: "distinct (map l_key (link_upsert c ls))"
    using assms(1) links.distinct_keys by (simp add: links_ok_def)
  have "\<exists>d \<in> set ds. d_id d = l_decision_id l \<and> l_applied_decision_version l \<le> d_decision_version d"
    if "l \<in> set (link_upsert c ls)" for l
  proof (cases "l_key l = lc_key c")
    case True
    have "l = link_merge c (tbl_get l_key (lc_key c) ls)"
      using links.row_after_upsert [OF _ that True] assms(1) by (simp add: links_ok_def)
    then have "l_applied_decision_version l = lc_applied_version c"
      by (simp add: link_merge_def split: option.splits)
    with True assms(2-4) show ?thesis by (auto simp: l_key_def)
  next
    case False
    have "tbl_get l_key (l_key l) ls = Some l"
      using tbl_get_distinct [OF dl that] links.get_other [OF False, of ls] by simp
    then have "l \<in> set ls" by (auto dest: tbl_get_Some)
    with assms(1) show ?thesis by (auto simp: links_ok_def)
  qed
  with dl show ?thesis by (auto simp: links_ok_def)
qed

text \<open>A new decision with its first revision.\<close>

lemma ok_append:
  assumes "decisions_ok E u ds" and "history_ok ds rs" and "links_ok ds ls"
    and "d_id d \<notin> d_id ` set ds" and "d_key d \<notin> d_key ` set ds" and "readable d"
    and "\<exists>n < u. d_id d = ''td-'' @ take 16 (env_uuid_hex E n)" and "d_decision_version d = 1"
    and "rv_decision_id r = d_id d" and "rv_revision r = 1"
  shows "decisions_ok E u (ds @ [d]) \<and> history_ok (ds @ [d]) (rs @ [r]) \<and> links_ok (ds @ [d]) ls"
proof -
  have "filter (\<lambda>x. rv_decision_id x = d_id d) rs = []"
    using assms(2,4) unfolding history_ok_def filter_empty_conv by metis
  then have "history_ok (ds @ [d]) (rs @ [r])"
    using assms(2,4,8-10) by (auto simp: history_ok_def image_iff)
  moreover have "decisions_ok E u (ds @ [d])" using assms(1,4-7) by (auto simp: decisions_ok_def)
  moreover have "links_ok (ds @ [d]) ls" using assms(3) by (fastforce simp: links_ok_def)
  ultimately show ?thesis by blast
qed

section \<open>Every operation keeps the invariant\<close>

lemma inv_frame:
  assumes "ledger_inv E N s" and "s_decisions t = s_decisions s" and "s_revisions t = s_revisions s"
    and "s_links t = s_links s" and "s_subject_aliases t = s_subject_aliases s" and "s_uid s \<le> s_uid t"
  shows "ledger_inv E N t"
  using assms decisions_ok_mono by (auto simp: ledger_inv_def)

lemma distinct_source_aliases:
  "distinct (map sa_key als) \<Longrightarrow> distinct (map sa_key (fold (add_source_alias tn k now) cs als))"
proof (induction cs arbitrary: als)
  case (Cons c cs)
  have "sa_key \<lparr>sa_tenant_id = tn, sa_alias_key = dsc_subject_key c, sa_canonical_key = k,
      sa_reason = ''source_issue'', sa_created_at = now\<rparr> = (tn, dsc_subject_key c)"
    by (simp add: sa_key_def)
  then have "distinct (map sa_key (add_source_alias tn k now c als))"
    using Cons.prems tbl_get_None [of sa_key "(tn, dsc_subject_key c)" als] by (simp add: add_source_alias_def)
  with Cons.IH show ?case by simp
qed simp

lemma write_decision_cases:
  assumes "write_decision E f user primary now s = (d, s')"
  obtains (old) d0 where "d0 \<in> set (s_decisions s)" "d = updated_decision f user now d0"
      "s_decisions s' = replace_decision d (s_decisions s)" "s_uid s' = s_uid s"
  | (new) "d = created_decision (''td-'' @ take 16 (env_uuid_hex E (s_uid s))) (normalize_tenant_id (f_tenant_id f))
        primary f user now"
      "d_key d \<notin> d_key ` set (s_decisions s)" "s_decisions s' = s_decisions s @ [d]" "s_uid s' = Suc (s_uid s)"
proof (cases "tbl_get d_key (normalize_tenant_id (f_tenant_id f), dsc_subject_key primary) (s_decisions s)")
  case None
  have "(normalize_tenant_id (f_tenant_id f), dsc_subject_key primary) \<notin> d_key ` set (s_decisions s)"
    using None unfolding tbl_get_None .
  moreover have "d = created_decision (''td-'' @ take 16 (env_uuid_hex E (s_uid s)))
        (normalize_tenant_id (f_tenant_id f)) primary f user now"
      "s_decisions s' = s_decisions s @ [d]" "s_uid s' = Suc (s_uid s)"
    using assms None by (auto simp: write_decision_def new_decision_id_def uuid4_hex_def Let_def)
  moreover have "d_key d = (normalize_tenant_id (f_tenant_id f), dsc_subject_key primary)"
    using calculation(2) by (simp add: d_key_def created_decision_def)
  ultimately show ?thesis by (intro new) auto
next
  case (Some d0)
  then show ?thesis
    using assms tbl_get_Some [OF Some] by (intro old [of d0]) (auto simp: write_decision_def put_decision_def Let_def)
qed

lemma readable_written:
  "readable (updated_decision f user now d)" "readable (created_decision did tn primary f user now)"
  by (auto simp: readable_def valid_scope_def updated_decision_def created_decision_def)

lemma fresh_id:
  assumes "uuid_distinct E N" and "decisions_ok E u ds" and "u < N"
  shows "''td-'' @ take 16 (env_uuid_hex E u) \<notin> d_id ` set ds"
proof
  assume "''td-'' @ take 16 (env_uuid_hex E u) \<in> d_id ` set ds"
  then obtain n where "n < u" "take 16 (env_uuid_hex E u) = take 16 (env_uuid_hex E n)"
    using assms(2) by (auto simp: decisions_ok_def)
  then show False using inj_onD [OF assms(1) [unfolded uuid_distinct_def], of u n] assms(3) by simp
qed

lemma inv_record:
  assumes "ledger_inv E N s" and "record_decision_from_finding E f user reason p s = (Some d, s')" and "s_uid s' \<le> N"
  shows "ledger_inv E N s'"
proof -
  obtain primary others now s1 s2 c r where s1: "same_ledger s s1"
      and w: "write_decision E f user primary now s1 = (d, s2)" and D: "s_decisions s' = s_decisions s2"
      and R: "s_revisions s' = s_revisions s2 @ [r]" "rv_decision_id r = d_id d" "rv_revision r = d_decision_version d"
      and L: "s_links s' = link_upsert c (s_links s2)" "lc_key c = (d_id d, f_id f)"
        "lc_applied_version c = d_decision_version d"
      and A: "s_subject_aliases s' = fold (add_source_alias (normalize_tenant_id (f_tenant_id f))
          (dsc_subject_key primary) now) others (s_subject_aliases s2)"
      and u: "s_uid s2 \<le> s_uid s'"
    using record_Some [OF assms(2)] by (metis triage_decision_revision.select_convs(2,3))
  note fr = write_decision_frame [OF w]
  have inv: "uuid_distinct E N" "decisions_ok E (s_uid s1) (s_decisions s1)" "history_ok (s_decisions s1) (s_revisions s1)"
      "links_ok (s_decisions s1) (s_links s1)" "distinct (map sa_key (s_subject_aliases s1))"
    using inv_frame [OF assms(1), of s1] s1 by (auto simp: same_ledger_def ledger_inv_def)
  have "decisions_ok E (s_uid s2) (s_decisions s2) \<and> history_ok (s_decisions s2) (s_revisions s1 @ [r]) \<and>
      links_ok (s_decisions s2) (s_links s1) \<and> d \<in> set (s_decisions s2)"
    using w
  proof (cases rule: write_decision_cases)
    case (old d0)
    have k: "d_id d = d_id d0" "d_key d = d_key d0" "d_decision_version d = d_decision_version d0 + 1" "readable d"
      using old(2) readable_written(1) by (simp_all add: updated_decision_def d_key_def)
    show ?thesis
      unfolding old(3,4)
      using decisions_ok_replace [OF inv(2) old(1) k(1,2,4)] history_ok_bump [OF inv(2) old(1) k(1) inv(3) k(3)]
        links_ok_replace [OF inv(2) old(1) k(1) inv(4)] set_replace [OF inv(2) old(1) k(1)] R k by simp
  next
    case new
    have k: "d_id d = ''td-'' @ take 16 (env_uuid_hex E (s_uid s1))" "d_decision_version d = 1" "readable d"
      using new(1) readable_written(2) by (simp_all add: created_decision_def)
    have "decisions_ok E (Suc (s_uid s1)) (s_decisions s1)" using decisions_ok_mono [OF inv(2)] by simp
    from ok_append [OF this inv(3,4), of d r]
    show ?thesis using fresh_id [OF inv(1,2)] k new R u assms(3) by (auto simp: less_Suc_eq)
  qed
  then show ?thesis
    using decisions_ok_mono [OF _ u] links_ok_upsert [of _ _ d c "f_id f"] distinct_source_aliases inv(1,5) fr D R L A
    by (auto simp: ledger_inv_def)
qed

lemma inv_resolve:
  assumes "ledger_inv E N s" and "resolve_and_apply_decision E f tr p s = Inr (r, f1, s')"
  shows "ledger_inv E N s'"
proof (cases "dar_decision_id r")
  case None
  then have "s' = s"
    using assms(2) by (auto simp: resolve_and_apply_decision_def dest!: relink_found_Inr split: if_splits option.splits)
  then show ?thesis using assms(1) by simp
next
  case (Some i)
  then obtain d m where l: "lookup_decision s (f_tenant_id f) (candidates_for_finding E (s_asset_aliases s) f p) = Some (d, m)"
      and R: "relink_found E f tr d m s = Inr (r, f1, s')"
    using resolve_Inr_applied [OF assms(2)] by blast
  have d: "d \<in> set (s_decisions s)" using lookup_candidates_Some [OF l [unfolded lookup_decision_def]] by blast
  have inv: "decisions_ok E (s_uid s) (s_decisions s)" "history_ok (s_decisions s) (s_revisions s)"
      "links_ok (s_decisions s) (s_links s)"
    using assms(1) by (simp_all add: ledger_inv_def)
  let ?a = "decision_apply_action f d (map_option l_applied_decision_version (tbl_get l_key (d_id d, f_id f) (s_links s)))"
  obtain d' c where D: "d_id d' = d_id d" "d_key d' = d_key d" "d_decision_version d' = d_decision_version d" "readable d'"
        "s_decisions s' = replace_decision d' (s_decisions s)"
      and L: "s_links s' = link_upsert c (s_links s)" "lc_key c = (d_id d, f_id f)"
        "lc_applied_version c = (if ?a = Apply then d_decision_version d
          else case tbl_get l_key (d_id d, f_id f) (s_links s) of None \<Rightarrow> 0 | Some l \<Rightarrow> l_applied_decision_version l)"
      and S: "s_revisions s' = s_revisions s" "s_subject_aliases s' = s_subject_aliases s" "s_uid s \<le> s_uid s'"
  proof -
    from relink_found_Inr [OF R] obtain t n c where
        "s_decisions s' = tbl_update (\<lambda>r. d_id r = d_id d)
          (\<lambda>_. d\<lparr>d_last_finding_id := Some (f_id f), d_last_applied_at := Some t, d_updated_at := env_clock E n\<rparr>) (s_decisions s)"
        "s_links s' = link_upsert c (s_links s)" "lc_key c = (d_id d, f_id f)"
        "lc_applied_version c = (if ?a = Apply then d_decision_version d
          else case tbl_get l_key (d_id d, f_id f) (s_links s) of None \<Rightarrow> 0 | Some l \<Rightarrow> l_applied_decision_version l)"
        "s_revisions s' = s_revisions s" "s_subject_aliases s' = s_subject_aliases s" "s_uid s \<le> s_uid s'"
      unfolding relink_writes_def by blast
    then show ?thesis
      using inv(1) d
      by (intro that [of "d\<lparr>d_last_finding_id := Some (f_id f), d_last_applied_at := Some t, d_updated_at := env_clock E n\<rparr>" c])
        (auto simp: d_key_def decisions_ok_def readable_def valid_scope_def)
  qed
  have "lc_applied_version c \<le> d_decision_version d"
  proof (cases "tbl_get l_key (d_id d, f_id f) (s_links s)")
    case (Some l)
    then have "l \<in> set (s_links s)" "l_decision_id l = d_id d" by (auto simp: l_key_def dest!: tbl_get_Some)
    then have "l_applied_decision_version l \<le> d_decision_version d"
      using inv(3) replace_unique [OF inv(1) d] by (fastforce simp: links_ok_def)
    with Some L(3) show ?thesis by simp
  qed (simp add: L(3))
  then have "links_ok (s_decisions s') (s_links s')"
    using links_ok_upsert [OF links_ok_replace [OF inv(1) d D(1) inv(3)], of d' c "f_id f"] D L
      set_replace [OF inv(1) d D(1)] by simp
  moreover have "decisions_ok E (s_uid s') (s_decisions s')" "history_ok (s_decisions s') (s_revisions s')"
    using decisions_ok_mono [OF decisions_ok_replace [OF inv(1) d D(1,2,4)] S(3)]
      history_ok_replace [OF inv(1) d D(1) inv(2) D(3)] D(5) S(1) by simp_all
  ultimately show ?thesis using assms(1) S by (simp add: ledger_inv_def)
qed

lemma links_ok_relabel:
  assumes "links_ok ds ls" and "map l_key ls' = map l_key ls"
    and "\<forall>l' \<in> set ls'. (\<exists>l \<in> set ls. l_key l' = l_key l \<and> l_applied_decision_version l' = l_applied_decision_version l) \<or>
      (\<exists>d \<in> set ds. d_id d = l_decision_id l' \<and> l_applied_decision_version l' \<le> d_decision_version d)"
  shows "links_ok ds ls'"
proof -
  have "\<exists>d \<in> set ds. d_id d = l_decision_id l' \<and> l_applied_decision_version l' \<le> d_decision_version d"
    if "l' \<in> set ls'" for l'
    using bspec [OF assms(3) that]
  proof
    assume "\<exists>l \<in> set ls. l_key l' = l_key l \<and> l_applied_decision_version l' = l_applied_decision_version l"
    then obtain l where l: "l \<in> set ls" "l_decision_id l' = l_decision_id l"
        "l_applied_decision_version l' = l_applied_decision_version l"
      by (auto simp: l_key_def)
    then show ?thesis using assms(1) by (simp add: links_ok_def)
  qed
  then show ?thesis using assms(1,2) by (simp add: links_ok_def)
qed

lemma inv_soft_unlink:
  assumes "ledger_inv E N s" and "soft_unlink_findings E fids s = (n, s')"
  shows "ledger_inv E N s' \<and> s_decisions s' = s_decisions s \<and> s_revisions s' = s_revisions s"
proof -
  let ?p = "\<lambda>l. l_finding_id l \<in> set fids \<and> l_unlinked_at l = None"
  have "links_ok (s_decisions s) (tbl_update ?p (\<lambda>l. l\<lparr>l_unlinked_at := x\<rparr>) (s_links s))" for x
  proof (rule links_ok_relabel)
    show "links_ok (s_decisions s) (s_links s)" using assms(1) by (simp add: ledger_inv_def)
    show "map l_key (tbl_update ?p (\<lambda>l. l\<lparr>l_unlinked_at := x\<rparr>) (s_links s)) = map l_key (s_links s)"
      by (simp add: tbl_update_def l_key_def)
  qed (fastforce simp: set_tbl_update l_key_def)
  then show ?thesis
    using assms by (auto simp: soft_unlink_findings_def utcnow_def ledger_inv_def Let_def split: if_splits)
qed

lemma inv_register_alias: "ledger_inv E N s \<Longrightarrow> ledger_inv E N (register_subject_alias E tid a k why s)"
  by (auto simp: register_subject_alias_def ledger_inv_def utcnow_def Let_def intro: subject_aliases.distinct_keys)

lemma inv_register_rekeyed: "ledger_inv E N s \<Longrightarrow> ledger_inv E N (snd (register_rekeyed E o1 n1 ds (k, s)))"
  by (induction ds arbitrary: k s) (auto simp: inv_register_alias split: option.splits)

lemma inv_merge: "ledger_inv E N s \<Longrightarrow> ledger_inv E N (snd (register_decision_aliases_for_asset_merge E o1 n1 s))"
  by (simp add: register_decision_aliases_for_asset_merge_def inv_register_rekeyed Let_def)

text \<open>Expiry sets the applied version of the decision's live links to the new version.\<close>

lemma expire_link_links:
  "map l_key (s_links (expire_link E w x v l s)) = map l_key (s_links s) \<and>
   (\<forall>l' \<in> set (s_links (expire_link E w x v l s)). l' \<in> set (s_links s) \<or>
      (l_key l' = l_key l \<and> l_applied_decision_version l' = v))"
  by (auto simp: expire_link_def utcnow_def put_finding_def Let_def tbl_update_def l_key_def split: option.splits)

lemma expire_links_links:
  "map l_key (s_links (expire_links E w x v ls s)) = map l_key (s_links s) \<and>
   (\<forall>l' \<in> set (s_links (expire_links E w x v ls s)). l' \<in> set (s_links s) \<or>
      (l_key l' \<in> l_key ` set ls \<and> l_applied_decision_version l' = v))"
proof (induction ls arbitrary: s)
  case (Cons l ls)
  show ?case
    using Cons.IH [of "expire_link E w x v l s"] expire_link_links [of E w x v l s]
    by (auto simp: expire_links_def)
qed (simp add: expire_links_def)

lemma expire_one_links:
  "map l_key (s_links (expire_one E now d s)) = map l_key (s_links s) \<and>
   (\<forall>l' \<in> set (s_links (expire_one E now d s)). l' \<in> set (s_links s) \<or>
      (l_decision_id l' = d_id d \<and> l_applied_decision_version l' = d_decision_version d + 1))"
proof -
  define s3 d1 where "s3 = add_revision E (expired_decision now (isoformat (env_clock E (s_clk s)) @ ''Z'') d)
      ''system@waiver-expiry'' ''waiver_expired'' now
      (put_decision (expired_decision now (isoformat (env_clock E (s_clk s)) @ ''Z'') d) (snd (utcnow E s)))"
    and "d1 = expired_decision now (isoformat (env_clock E (s_clk s)) @ ''Z'') d"
  let ?live = "filter (\<lambda>l. l_decision_id l = d_id d \<and> l_unlinked_at l = None) (s_links s3)"
  let ?w = "jget_default ''waiverRef'' (JStr []) (attestation_dict (d_attestation d))"
  let ?x = "jget_default ''expiresAt'' (JStr []) (attestation_dict (d_attestation d))"
  define s4 where "s4 = expire_links E ?w ?x (d_decision_version d + 1) ?live s3"
  have "s_links (expire_one E now d s) = s_links s4"
    using same_ledger_emit [of "snd (new_trace_id E s4)" E "expired_event (fst (new_trace_id E s4)) d1 ?w ?x"]
    by (simp add: expire_one_def Let_def s3_def s4_def d1_def utcnow_def new_trace_id_def uuid4_hex_def same_ledger_def)
  moreover have "s_links s3 = s_links s"
    by (simp add: s3_def add_revision_def new_revision_id_def uuid4_hex_def put_decision_def utcnow_def Let_def)
  ultimately show ?thesis
    using expire_links_links [of E ?w ?x "d_decision_version d + 1" ?live s3]
    by (auto simp: s4_def l_key_def)
qed

lemma inv_expire_one:
  assumes "ledger_inv E N s" and "d \<in> set (s_decisions s)"
  shows "ledger_inv E N (expire_one E now d s) \<and>
    (\<forall>e \<in> set (s_decisions s). d_id e \<noteq> d_id d \<longrightarrow> e \<in> set (s_decisions (expire_one E now d s)))"
proof -
  obtain ts rid where o: "only_reopens
     (s\<lparr>s_decisions := replace_decision (expired_decision now ts d) (s_decisions s),
        s_revisions := s_revisions s @
          [\<lparr>rv_id = rid, rv_decision_id = d_id d, rv_revision = d_decision_version d + 1,
            rv_snapshot = decision_snapshot (expired_decision now ts d),
            rv_actor_id = ''system@waiver-expiry'', rv_reason = Some ''waiver_expired'', rv_created_at = now\<rparr>]\<rparr>)
     (expire_one E now d s)"
    using expire_one_effect [of s d now E] by auto
  let ?d = "expired_decision now ts d"
  have inv: "decisions_ok E (s_uid s) (s_decisions s)" "history_ok (s_decisions s) (s_revisions s)"
      "links_ok (s_decisions s) (s_links s)"
    using assms(1) by (simp_all add: ledger_inv_def)
  have "readable d" using inv(1) assms(2) by (simp add: decisions_ok_def)
  then have "readable ?d" by (auto simp: readable_def valid_scope_def)
  then have "decisions_ok E (s_uid s) (replace_decision ?d (s_decisions s))"
    by (intro decisions_ok_replace [OF inv(1) assms(2)]) simp_all
  moreover have "history_ok (s_decisions (expire_one E now d s)) (s_revisions (expire_one E now d s))"
    using o history_ok_bump [OF inv(1) assms(2), of ?d] inv(2) by (simp add: only_reopens_def)
  moreover have "links_ok (replace_decision ?d (s_decisions s)) (s_links (expire_one E now d s))"
  proof (rule links_ok_relabel)
    show "links_ok (replace_decision ?d (s_decisions s)) (s_links s)"
      using links_ok_replace [OF inv(1) assms(2) _ inv(3), of ?d] by simp
    show "\<forall>l' \<in> set (s_links (expire_one E now d s)).
        (\<exists>l \<in> set (s_links s). l_key l' = l_key l \<and> l_applied_decision_version l' = l_applied_decision_version l) \<or>
        (\<exists>e \<in> set (replace_decision ?d (s_decisions s)).
           d_id e = l_decision_id l' \<and> l_applied_decision_version l' \<le> d_decision_version e)"
      using expire_one_links [of E now d s] set_replace [OF inv(1) assms(2), of ?d] by fastforce
  qed (use expire_one_links in blast)
  ultimately show ?thesis
    using o assms(1) decisions_ok_mono set_replace [OF inv(1) assms(2), of ?d]
    by (auto simp: ledger_inv_def only_reopens_def)
qed

lemma inv_expire_all:
  "ledger_inv E N s \<Longrightarrow> distinct (map d_id ds) \<Longrightarrow> set ds \<subseteq> set (s_decisions s) \<Longrightarrow>
     ledger_inv E N (snd (expire_all E now today ds (n, s)))"
proof (induction ds arbitrary: n s)
  case (Cons d ds)
  have "ledger_inv E N (expire_one E now d s) \<and> set ds \<subseteq> set (s_decisions (expire_one E now d s))"
  proof -
    have d: "d \<in> set (s_decisions s)" and ne: "\<forall>e \<in> set ds. d_id e \<noteq> d_id d"
      using Cons.prems(2,3) by (auto simp: image_iff)
    show ?thesis using inv_expire_one [OF Cons.prems(1) d] ne Cons.prems(3) by auto
  qed
  with Cons show ?case by simp
qed simp

lemma inv_expire:
  assumes "ledger_inv E N s"
  shows "ledger_inv E N (snd (expire_decision_waivers E s))"
proof -
  have "distinct (map d_id (waiver_rows (s_decisions s)))"
    using assms by (simp add: ledger_inv_def decisions_ok_def waiver_rows_def distinct_map_filter)
  moreover have "ledger_inv E N (s\<lparr>s_clk := c\<rparr>)" for c using inv_frame [OF assms] by simp
  moreover have "set (waiver_rows (s_decisions s)) \<subseteq> set (s_decisions s)" by (auto simp: waiver_rows_def)
  ultimately show ?thesis
    using assms inv_expire_all by (auto simp: expire_decision_waivers_def utcnow_def Let_def)
qed

lemma record_None: "record_decision_from_finding E f user reason p s = (None, s') \<Longrightarrow> s' = s"
  by (auto simp: record_decision_from_finding_def Let_def split: if_splits list.splits prod.splits)

section \<open>The step system\<close>

text \<open>
  One rule per operation of the ledger service, with the arguments of the call; the last rule
  stands for every other transaction of the application, none of which writes the four tables.
  A run may draw at most \<open>N\<close> ids.
\<close>

inductive ledger_step :: "env \<Rightarrow> nat \<Rightarrow> session \<Rightarrow> session \<Rightarrow> bool" for E N where
  step_record: "record_decision_from_finding E f user reason p s = (x, s') \<Longrightarrow> s_uid s' \<le> N \<Longrightarrow> ledger_step E N s s'"
| step_resolve: "resolve_and_apply_decision E f tr p s = Inr (r, f1, s') \<Longrightarrow> ledger_step E N s s'"
| step_unlink: "soft_unlink_findings E fids s = (n, s') \<Longrightarrow> ledger_step E N s s'"
| step_alias: "ledger_step E N s (register_subject_alias E tid a k why s)"
| step_merge: "ledger_step E N s (snd (register_decision_aliases_for_asset_merge E o1 n1 s))"
| step_expire: "ledger_step E N s (snd (expire_decision_waivers E s))"
| step_other: "s_decisions t = s_decisions s \<Longrightarrow> s_revisions t = s_revisions s \<Longrightarrow> s_links t = s_links s \<Longrightarrow>
    s_subject_aliases t = s_subject_aliases s \<Longrightarrow> s_uid s \<le> s_uid t \<Longrightarrow> ledger_step E N s t"

definition ledger_init :: "env \<Rightarrow> nat \<Rightarrow> session \<Rightarrow> bool" where
  "ledger_init E N s =
     (uuid_distinct E N \<and> s_decisions s = [] \<and> s_revisions s = [] \<and> s_links s = [] \<and> s_subject_aliases s = [])"

lemma ledger_init_inv: "ledger_init E N s \<Longrightarrow> ledger_inv E N s"
  by (simp add: ledger_init_def ledger_inv_def decisions_ok_def history_ok_def links_ok_def)

lemma ledger_step_inv:
  assumes "ledger_inv E N s" and "ledger_step E N s t"
  shows "ledger_inv E N t"
  using assms(2)
proof cases
  case (step_record f user reason p x)
  then show ?thesis
  proof (cases x)
    case None
    then show ?thesis using record_None [of E f user reason p s t] step_record(1) assms(1) by simp
  next
    case (Some d)
    then show ?thesis using inv_record [OF assms(1)] step_record by blast
  qed
next
  case (step_resolve f tr p r f1)
  then show ?thesis using inv_resolve [OF assms(1)] by blast
next
  case (step_unlink fids n)
  then show ?thesis using inv_soft_unlink [OF assms(1)] by blast
next
  case step_other
  then show ?thesis using inv_frame [OF assms(1)] by blast
qed (use assms(1) in \<open>auto intro: inv_register_alias inv_merge inv_expire\<close>)

interpretation ledger: step_system "ledger_init E N" "ledger_step E N" "ledger_inv E N" for E N
  by unfold_locales (fact ledger_init_inv, fact ledger_step_inv)

lemma projection_readable:
  assumes "readable d"
  shows "\<exists>f1 s1. apply_decision_projection E f d s = Inr (f1, s1)"
proof -
  obtain st sc where "d_status d = status_value st" "d_suppression_scope d = map_option scope_value sc"
    using assms by (auto simp: readable_def valid_scope_def)
  then show ?thesis
    by (cases sc) (simp_all add: apply_decision_projection_def truthy_def utcnow_def Let_def)
qed

lemma inv_resolve_total:
  assumes "ledger_inv E N s"
  shows "\<exists>out. resolve_and_apply_decision E f tr p s = Inr out"
proof (cases "lookup_decision s (f_tenant_id f) (candidates_for_finding E (s_asset_aliases s) f p)")
  case None
  then show ?thesis by (simp add: resolve_and_apply_decision_def)
next
  case (Some dm)
  obtain d m where dm: "dm = (d, m)" by (cases dm)
  have "d \<in> set (s_decisions s)" using lookup_candidates_Some Some dm unfolding lookup_decision_def by blast
  then have "readable d" using assms by (simp add: ledger_inv_def decisions_ok_def)
  then obtain f1 s1 where "apply_decision_projection E f d s = Inr (f1, s1)"
    using projection_readable by blast
  then show ?thesis
    using Some dm by (auto simp: resolve_and_apply_decision_def relink_found_def Let_def split: prod.splits)
qed

text \<open>
  C35: In every state the ledger can reach from empty tables, a tenant has at most one decision
  per subject key, the revision history of a decision is exactly \<open>1, \<dots>, decision_version\<close> with
  no gap and no duplicate, every link points to a stored decision and claims no version that
  the decision has not reached, and relinking never raises on a stored status or scope.
\<close>
theorem ledger_reachable_consistent:
  assumes "reach (ledger_init E N) (ledger_step E N) s"
  shows "distinct (map (\<lambda>d. (d_tenant_id d, d_subject_key d)) (s_decisions s)) \<and>
    (\<forall>d \<in> set (s_decisions s). map rv_revision (filter (\<lambda>r. rv_decision_id r = d_id d) (s_revisions s)) =
       [1..<Suc (d_decision_version d)]) \<and>
    (\<forall>l \<in> set (s_links s). \<exists>d \<in> set (s_decisions s).
       d_id d = l_decision_id l \<and> l_applied_decision_version l \<le> d_decision_version d) \<and>
    (\<forall>f tr p. \<exists>out. resolve_and_apply_decision E f tr p s = Inr out)"
proof -
  have inv: "ledger_inv E N s" using assms by (rule ledger.reach_inv)
  have "d_key = (\<lambda>d. (d_tenant_id d, d_subject_key d))" by (simp add: d_key_def fun_eq_iff)
  then show ?thesis
    using inv inv_resolve_total [OF inv] unfolding ledger_inv_def decisions_ok_def history_ok_def links_ok_def
    by (metis (no_types, lifting))
qed

lemma emit_uid: "s_uid (snd (emit_audit_event E a s)) \<le> s_uid s + 1"
  by (simp add: emit_audit_event_def store_event_def uuid4_hex_def utcnow_def Let_def case_prod_beta split: option.splits)

lemma record_uid:
  "s_uid (snd (record_decision_from_finding E f user reason p s)) \<le> s_uid s + 4"
proof -
  have w: "s_uid (snd (write_decision E f user primary now s1)) \<le> s_uid s1 + 1" for primary now s1
    by (simp add: write_decision_def put_decision_def new_decision_id_def uuid4_hex_def Let_def split: option.splits)
  have "s_uid (snd (emit_audit_event E a (t\<lparr>s_uid := Suc (s_uid t)\<rparr>))) \<le> s_uid t + 2" for a t
    using emit_uid [of E a "t\<lparr>s_uid := Suc (s_uid t)\<rparr>"] by simp
  then show ?thesis
    using w
    apply (simp add: record_decision_from_finding_def add_revision_def upsert_decision_link_def new_trace_id_def
        new_revision_id_def uuid4_hex_def utcnow_def case_prod_beta Let_def split: list.split)
    apply (intro allI impI order_trans [OF emit_uid])
    apply simp
    apply (rule order_trans [OF w])
    apply simp
    done
qed

lemma demo_uuid_distinct: "uuid_distinct demo_env 8"
proof -
  have "distinct (map (\<lambda>n. take 16 (''u'' @ nat_str n)) [0..<8])" by code_simp
  then show ?thesis
    by (simp only: uuid_distinct_def demo_env_def env.select_convs distinct_map set_upt atLeast0LessThan)
qed

theorem ledger_reachable_consistent_witness:
  "map rv_revision (filter (\<lambda>r. rv_decision_id r = d_id (the (fst demo_recorded))) (s_revisions (snd demo_recorded))) = [1]"
proof -
  have "ledger_init demo_env 8 empty_session" using demo_uuid_distinct by (simp add: ledger_init_def)
  moreover have "s_uid (snd demo_recorded) \<le> 8"
    using record_uid [of demo_env demo_finding "''alice''" "''reviewer_update''" None empty_session]
    by (simp add: demo_recorded_def)
  ultimately have "reach (ledger_init demo_env 8) (ledger_step demo_env 8) (snd demo_recorded)"
    using demo_recorded_Some by (blast intro: reach_init reach_step step_record)
  from ledger_reachable_consistent [OF this] have "\<forall>d \<in> set (s_decisions (snd demo_recorded)).
      map rv_revision (filter (\<lambda>r. rv_decision_id r = d_id d) (s_revisions (snd demo_recorded))) =
       [1..<Suc (d_decision_version d)]" by blast
  moreover have "the (fst demo_recorded) \<in> set (s_decisions (snd demo_recorded)) \<and> d_decision_version (the (fst demo_recorded)) = 1"
  proof -
    obtain primary now s1 s2 where w:
        "same_ledger empty_session s1" "write_decision demo_env demo_finding ''alice'' primary now s1 = (the (fst demo_recorded), s2)"
        "s_decisions (snd demo_recorded) = s_decisions s2"
      using record_Some [OF demo_recorded_Some] by blast
    from w(1) have "d_decision_version (fst (write_decision demo_env demo_finding ''alice'' primary now s1)) = 1"
        "fst (write_decision demo_env demo_finding ''alice'' primary now s1) \<in>
          set (s_decisions (snd (write_decision demo_env demo_finding ''alice'' primary now s1)))"
      by (simp_all add: write_decision_def same_ledger_def created_decision_def Let_def new_decision_id_def uuid4_hex_def)
    then show ?thesis by (simp add: w)
  qed
  ultimately show ?thesis by simp
qed

end
