(* ===== verification/Vat_Risk.thy ===== *)
theory Vat_Risk
  imports Vat_State
begin

text \<open>
  \<open>services/risk_scoring.py\<close>: the risk scoring document of a finding. Scanners own the sections
  \<open>source\<close>, \<open>threat\<close> and \<open>context\<close>, reviewers own \<open>environmental\<close>. \<open>None\<close> is \<open>JNull\<close>. The CVSS library is
  the argument \<open>cvss3\<close>: the environmental score of a vector in tenths, \<open>None\<close> when the library raises.
\<close>

section \<open>Merging dictionaries\<close>

text \<open>\<open>{**a, **b}\<close>\<close>

definition jmerge :: "json_object \<Rightarrow> json_object \<Rightarrow> json_object" where
  "jmerge a b = fold (\<lambda>(k, v). jset k v) b a"

text \<open>\<open>v in (None, "", {}, [])\<close>\<close>

definition blank_json :: "json \<Rightarrow> bool" where
  "blank_json v = (v \<in> set [JNull, JStr [], JObj [], JList []])"

definition drop_blank :: "json_object \<Rightarrow> json_object" where
  "drop_blank d = filter (\<lambda>(k, v). \<not> blank_json v) d"

section \<open>The operations\<close>

definition SOURCE_OWNED_SECTIONS :: "string list" where
  "SOURCE_OWNED_SECTIONS = [''source'', ''threat'', ''context'']"

definition clean_risk_scoring :: "json \<Rightarrow> json" where
  "clean_risk_scoring value =
     (if is_dict value \<and> drop_blank (as_dict value) \<noteq> [] then JObj (drop_blank (as_dict value)) else JNull)"

definition merge_section :: "json_object \<Rightarrow> string \<Rightarrow> json_object \<Rightarrow> json_object" where
  "merge_section incoming sec merged =
     (let value = jget sec incoming; existing = jget sec merged
      in if is_dict value \<and> py_truth value
         then jset sec (if is_dict existing then JObj (jmerge (as_dict existing) (as_dict value)) else value) merged
         else merged)"

definition merge_source_risk_scoring :: "json \<Rightarrow> json \<Rightarrow> json" where
  "merge_source_risk_scoring current incoming =
     (let inc = clean_risk_scoring incoming
      in if \<not> py_truth inc then clean_risk_scoring current
         else clean_risk_scoring (JObj (fold (merge_section (as_dict inc)) SOURCE_OWNED_SECTIONS (as_dict current))))"

definition environmental_score_from_vector :: "(string \<Rightarrow> nat option) \<Rightarrow> string \<Rightarrow> string option" where
  "environmental_score_from_vector cvss3 vector =
     map_option (\<lambda>n. nat_str (n div 10) @ ''.'' @ nat_str (n mod 10)) (cvss3 vector)"

definition scored_env :: "(string \<Rightarrow> nat option) \<Rightarrow> json_object \<Rightarrow> json_object" where
  "scored_env cvss3 env =
     (if \<not> py_truth (jget ''score'' env) \<and> py_truth (jget ''vector'' env)
      then (case environmental_score_from_vector cvss3 (py_str (jget ''vector'' env)) of
              None \<Rightarrow> env | Some score \<Rightarrow> jset ''score'' (JStr score) env)
      else env)"

definition next_env :: "(string \<Rightarrow> nat option) \<Rightarrow> json \<Rightarrow> json_object \<Rightarrow> string \<Rightarrow> string \<Rightarrow> json_object" where
  "next_env cvss3 existing env user timestamp =
     jset ''updatedAt'' (JStr timestamp) (jset ''updatedBy'' (JStr user) (jmerge (as_dict existing) (scored_env cvss3 env)))"

definition merge_environmental_risk_scoring ::
  "(string \<Rightarrow> nat option) \<Rightarrow> json \<Rightarrow> json \<Rightarrow> string \<Rightarrow> string \<Rightarrow> json" where
  "merge_environmental_risk_scoring cvss3 current incoming user timestamp =
     (let inc = clean_risk_scoring incoming; env = jget ''environmental'' (as_dict inc); merged = as_dict current
      in if \<not> py_truth inc \<or> \<not> is_dict env then clean_risk_scoring current
         else clean_risk_scoring
                (JObj (jset ''environmental''
                   (JObj (drop_blank (next_env cvss3 (jget ''environmental'' merged) (as_dict env) user timestamp))) merged)))"

definition score_from_risk_scoring :: "json \<Rightarrow> string option" where
  "score_from_risk_scoring value =
     (let src = jget ''source'' (as_dict value); sc = jget ''score'' (as_dict src)
      in if is_dict src \<and> sc \<notin> set [JNull, JStr []] then Some (py_str sc) else None)"

definition epss_from_risk_scoring :: "json \<Rightarrow> string option" where
  "epss_from_risk_scoring value =
     (let th = jget ''threat'' (as_dict value); e = jget ''epss'' (as_dict th)
      in if is_dict th \<and> e \<notin> set [JNull, JStr []] then Some (py_str e) else None)"

section \<open>Sections of a document\<close>

text \<open>A section as its readers see it: a blank section is no section. Python dictionaries have unique keys.\<close>

definition or_null :: "json \<Rightarrow> json" where
  "or_null v = (if blank_json v then JNull else v)"

definition risk_section :: "string \<Rightarrow> json \<Rightarrow> json" where
  "risk_section k j = or_null (jget k (as_dict j))"

definition unique_keys :: "json \<Rightarrow> bool" where
  "unique_keys j = distinct (map fst (as_dict j))"

definition merged_section :: "json \<Rightarrow> json \<Rightarrow> json" where
  "merged_section c v =
     (if is_dict v then (if is_dict c then JObj (jmerge (as_dict c) (as_dict v)) else v) else c)"

lemma blank_simps [simp]:
  "blank_json JNull" "blank_json (JObj d) \<longleftrightarrow> d = []" "or_null JNull = JNull" "or_null (or_null v) = or_null v"
  "d \<noteq> [] \<Longrightarrow> or_null (JObj d) = JObj d"
  by (simp_all add: blank_json_def or_null_def)

lemma as_dict_null [simp]: "as_dict JNull = []" "jget k [] = JNull"
  by (simp_all add: as_dict_def jget_def)

lemma not_dict_as_dict: "\<not> is_dict j \<Longrightarrow> as_dict j = []"
  by (simp add: is_dict_def as_dict_def split: json.splits)

lemma is_dict_obj: "is_dict j \<Longrightarrow> j = JObj (as_dict j)"
  by (simp add: is_dict_def as_dict_def split: json.splits)

lemma keys_jset: "set (map fst (jset k v d)) = insert k (set (map fst d))"
  by (induction k v d rule: jset.induct) auto

lemma distinct_jset: "distinct (map fst d) \<Longrightarrow> distinct (map fst (jset k v d))"
  by (induction k v d rule: jset.induct) (auto simp: keys_jset [simplified])

lemma jset_not_Nil [simp]: "jset k v d \<noteq> []"
  by (cases "(k, v, d)" rule: jset.cases) auto

lemma jset_same: "map_of d k = Some v \<Longrightarrow> jset k v d = d"
  by (induction k v d rule: jset.induct) auto

lemma map_of_jmerge: "distinct (map fst b) \<Longrightarrow> map_of (jmerge a b) = map_of a ++ map_of b"
proof (induction b arbitrary: a)
  case (Cons p b)
  obtain k v where p: "p = (k, v)" by (cases p)
  have "map_of b k = None" using Cons.prems by (simp add: p map_of_eq_None_iff)
  moreover have "map_of (jmerge a (p # b)) = (map_of a)(k \<mapsto> v) ++ map_of b"
    using Cons by (simp add: p jmerge_def map_of_jset)
  ultimately show ?case by (auto simp: p map_add_def fun_eq_iff split: option.split)
qed (simp add: jmerge_def)

lemma jmerge_absorb: "\<forall>(k, v) \<in> set b. map_of a k = Some v \<Longrightarrow> jmerge a b = a"
  by (induction b) (auto simp: jmerge_def jset_same)

lemma jmerge_idem:
  assumes "distinct (map fst b)"
  shows "jmerge (jmerge a b) b = jmerge a b"
  by (rule jmerge_absorb) (use assms in \<open>auto simp: map_of_jmerge map_add_def\<close>)

lemma jset_append: "k \<notin> fst ` set a \<Longrightarrow> jset k v a = a @ [(k, v)]"
  by (induction a) auto

lemma jmerge_disjoint:
  "distinct (map fst b) \<Longrightarrow> fst ` set a \<inter> fst ` set b = {} \<Longrightarrow> jmerge a b = a @ b"
proof (induction b arbitrary: a)
  case (Cons p b)
  then show ?case by (cases p) (auto simp: jmerge_def jset_append)
qed (simp add: jmerge_def)

lemma jmerge_Nil: "distinct (map fst b) \<Longrightarrow> jmerge [] b = b"
  using jmerge_disjoint [of b "[]"] by simp

lemma jmerge_not_Nil: "b \<noteq> [] \<Longrightarrow> jmerge a b \<noteq> []"
proof (induction b rule: rev_induct)
  case (snoc p b)
  then show ?case by (cases p) (simp add: jmerge_def)
qed simp

lemma jget_drop_blank: "distinct (map fst d) \<Longrightarrow> jget k (drop_blank d) = or_null (jget k d)"
proof (induction d)
  case (Cons p d)
  have "map_of d (fst p) = None" using Cons.prems by (simp add: map_of_eq_None_iff)
  moreover have "map_of (filter Q d) (fst p) = None" for Q
    using Cons.prems by (auto simp: map_of_eq_None_iff)
  ultimately show ?case using Cons by (cases p) (auto simp: jget_def drop_blank_def or_null_def)
qed (simp add: drop_blank_def)

lemma jget_clean: "jget k (as_dict (clean_risk_scoring j)) = jget k (drop_blank (as_dict j))"
  by (cases "drop_blank (as_dict j) = []") (auto simp: clean_risk_scoring_def not_dict_as_dict drop_blank_def)

lemma section_clean: "unique_keys j \<Longrightarrow> risk_section k (clean_risk_scoring j) = risk_section k j"
  by (simp add: risk_section_def jget_clean jget_drop_blank unique_keys_def)

lemma unique_clean: "unique_keys j \<Longrightarrow> unique_keys (clean_risk_scoring j)"
  by (simp add: unique_keys_def clean_risk_scoring_def drop_blank_def distinct_map_filter)

lemma clean_section_raw: "unique_keys j \<Longrightarrow> jget k (as_dict (clean_risk_scoring j)) = risk_section k j"
  by (simp add: risk_section_def jget_clean jget_drop_blank unique_keys_def)

lemma clean_falsy: "unique_keys j \<Longrightarrow> \<not> py_truth (clean_risk_scoring j) \<Longrightarrow> risk_section k j = JNull"
  using clean_section_raw [of j k] by (simp add: clean_risk_scoring_def split: if_splits)

section \<open>Who changes which section\<close>

lemma jget_merge_section:
  "jget k (merge_section inc sec d) =
     (if k = sec \<and> is_dict (or_null (jget sec inc))
      then (if is_dict (jget sec d) then JObj (jmerge (as_dict (jget sec d)) (as_dict (jget sec inc))) else jget sec inc)
      else jget k d)"
  by (cases "jget sec inc") (auto simp: merge_section_def Let_def jget_jset or_null_def blank_json_def)

lemma distinct_merge_section: "distinct (map fst d) \<Longrightarrow> distinct (map fst (merge_section inc sec d))"
  by (simp add: merge_section_def Let_def distinct_jset)

lemma jget_merge_sections:
  "distinct secs \<Longrightarrow> jget k (fold (merge_section inc) secs d) =
     (if k \<in> set secs then jget k (merge_section inc k d) else jget k d)"
  by (induction secs arbitrary: d) (auto simp: jget_merge_section)

lemma distinct_merge_sections: "distinct (map fst d) \<Longrightarrow> distinct (map fst (fold (merge_section inc) secs d))"
  by (induction secs arbitrary: d) (simp_all add: distinct_merge_section)

lemma merged_section_raw:
  assumes "unique_keys v" and "or_null v = v"
  shows "or_null (if is_dict v then (if is_dict c then JObj (jmerge (as_dict c) (as_dict v)) else v) else c) =
    merged_section (or_null c) v"
proof (cases "is_dict v")
  case True
  then obtain d where v: "v = JObj d" using is_dict_obj by blast
  have d: "d \<noteq> []" "distinct (map fst d)" using assms by (auto simp: v or_null_def unique_keys_def split: if_splits)
  have "jmerge x d \<noteq> []" for x using d(1) by (rule jmerge_not_Nil)
  moreover have "as_dict c = []" if "is_dict c" "blank_json c" using that by (auto simp: blank_json_def)
  ultimately show ?thesis using d by (auto simp: v merged_section_def or_null_def jmerge_Nil)
qed (simp add: merged_section_def)

text \<open>The sections of an import, one by one, are dictionaries too.\<close>

definition unique_sections :: "json \<Rightarrow> bool" where
  "unique_sections j = (unique_keys j \<and> list_all (\<lambda>(k, v). unique_keys v) (as_dict j))"

lemma unique_section: "unique_sections j \<Longrightarrow> unique_keys (risk_section k j)"
  by (auto simp: unique_sections_def risk_section_def or_null_def jget_def list_all_iff unique_keys_def
      dest!: map_of_SomeD split: option.split)

lemma section_source:
  assumes "unique_keys cur" and "unique_sections inc"
  shows "risk_section k (merge_source_risk_scoring cur inc) =
    (if k \<in> set SOURCE_OWNED_SECTIONS then merged_section (risk_section k cur) (risk_section k inc) else risk_section k cur)"
proof (cases "py_truth (clean_risk_scoring inc)")
  case False
  have "risk_section k inc = JNull" by (rule clean_falsy) (use assms False in \<open>auto simp: unique_sections_def\<close>)
  then show ?thesis using False assms(1) by (simp add: merge_source_risk_scoring_def section_clean merged_section_def)
next
  case True
  let ?i = "as_dict (clean_risk_scoring inc)" and ?v = "risk_section k inc"
  let ?m = "fold (merge_section ?i) SOURCE_OWNED_SECTIONS (as_dict cur)"
  have i: "jget k ?i = ?v" using assms by (simp add: clean_section_raw unique_sections_def)
  have "unique_keys (JObj ?m)" using assms(1) distinct_merge_sections by (simp add: unique_keys_def)
  then have "risk_section k (merge_source_risk_scoring cur inc) = or_null (jget k ?m)"
    using True section_clean [of "JObj ?m" k] by (simp add: merge_source_risk_scoring_def risk_section_def Let_def)
  also have "jget k ?m = (if k \<in> set SOURCE_OWNED_SECTIONS then jget k (merge_section ?i k (as_dict cur)) else jget k (as_dict cur))"
    by (rule jget_merge_sections) (simp add: SOURCE_OWNED_SECTIONS_def)
  finally have eq: "risk_section k (merge_source_risk_scoring cur inc) =
      or_null (if k \<in> set SOURCE_OWNED_SECTIONS then jget k (merge_section ?i k (as_dict cur)) else jget k (as_dict cur))" .
  have n: "or_null ?v = ?v" by (simp add: risk_section_def)
  have "or_null (jget k (merge_section ?i k (as_dict cur))) = merged_section (risk_section k cur) ?v"
    unfolding jget_merge_section i n
    using merged_section_raw [OF unique_section [OF assms(2)] n, of "jget k (as_dict cur)"]
    by (simp add: risk_section_def)
  then show ?thesis using eq by (simp add: risk_section_def)
qed

lemma unique_source: "unique_keys cur \<Longrightarrow> unique_keys (merge_source_risk_scoring cur inc)"
  by (auto simp: merge_source_risk_scoring_def Let_def intro!: unique_clean)
    (simp add: unique_keys_def distinct_merge_sections)

lemma section_environmental:
  assumes "unique_keys cur" and "unique_keys inc"
  shows "risk_section k (merge_environmental_risk_scoring cvss3 cur inc user ts) =
    (if k = ''environmental'' \<and> is_dict (risk_section k inc)
     then or_null (JObj (drop_blank (next_env cvss3 (risk_section k cur) (as_dict (risk_section k inc)) user ts)))
     else risk_section k cur)"
proof (cases "py_truth (clean_risk_scoring inc) \<and> is_dict (risk_section ''environmental'' inc)")
  case False
  then show ?thesis
    using assms clean_falsy [OF assms(2), of k]
    by (auto simp: merge_environmental_risk_scoring_def Let_def clean_section_raw section_clean)
next
  case True
  let ?c = "jget ''environmental'' (as_dict cur)"
  have "as_dict ?c = as_dict (or_null ?c)" by (auto simp: or_null_def blank_json_def as_dict_def)
  then have n: "next_env cvss3 ?c = next_env cvss3 (or_null ?c)" by (simp add: next_env_def fun_eq_iff)
  have u: "unique_keys (JObj (jset ''environmental'' x (as_dict cur)))" for x
    using assms(1) by (simp add: unique_keys_def distinct_jset)
  show ?thesis
    using True assms
    by (simp add: merge_environmental_risk_scoring_def Let_def clean_section_raw section_clean u n)
      (simp add: risk_section_def jget_jset)
qed

lemma unique_environmental: "unique_keys cur \<Longrightarrow> unique_keys (merge_environmental_risk_scoring cvss3 cur inc user ts)"
  by (auto simp: merge_environmental_risk_scoring_def Let_def intro!: unique_clean)
    (simp add: unique_keys_def distinct_jset)

lemma merged_section_idem: "unique_keys v \<Longrightarrow> merged_section (merged_section c v) v = merged_section c v"
  using jmerge_absorb [of "as_dict v" "as_dict v"]
  by (auto simp: merged_section_def jmerge_idem unique_keys_def dest: is_dict_obj)

text \<open>
  Scanners and reviewers do not overwrite each other. An import leaves the reviewer's environmental
  score as it is, a review leaves every section of the scanners as it is, the two commute, and
  importing the same document again changes nothing.
\<close>

lemma risk_sections_owned:
  assumes "unique_keys cur" and "unique_sections inc" and "unique_keys review"
  shows "risk_section ''environmental'' (merge_source_risk_scoring cur inc) = risk_section ''environmental'' cur \<and>
    (k = ''environmental'' \<or> risk_section k (merge_environmental_risk_scoring cvss3 cur review user ts) = risk_section k cur) \<and>
    risk_section k (merge_source_risk_scoring (merge_environmental_risk_scoring cvss3 cur review user ts) inc) =
    risk_section k (merge_environmental_risk_scoring cvss3 (merge_source_risk_scoring cur inc) review user ts) \<and>
    risk_section k (merge_source_risk_scoring (merge_source_risk_scoring cur inc) inc) =
    risk_section k (merge_source_risk_scoring cur inc)"
proof -
  have e: "''environmental'' \<notin> set SOURCE_OWNED_SECTIONS" by (simp add: SOURCE_OWNED_SECTIONS_def)
  note src = section_source [OF _ assms(2)] and env = section_environmental [OF _ assms(3)]
  note u = assms(1) unique_source [OF assms(1)] unique_environmental [OF assms(1)]
  show ?thesis using e merged_section_idem [OF unique_section [OF assms(2)]]
    by (auto simp: src [OF u(1)] src [OF u(2)] src [OF u(3)] env [OF u(1)] env [OF u(2)])
qed

definition demo_scan :: json where
  "demo_scan = JObj [(''source'', JObj [(''score'', JStr ''7.5'')]), (''environmental'', JObj [(''score'', JStr ''1.0'')])]"

definition demo_review :: json where
  "demo_review = JObj [(''environmental'', JObj [(''score'', JStr ''9.8'')])]"

end
