(* ===== verification/Vat_Ingest_Facts.thy ===== *)
theory Vat_Ingest_Facts
  imports Vat_Payload Vat_Risk
begin

text \<open>
  What an ingest derives from a payload before it looks at the database: severities and licence tiers
  (\<open>models/sbom.py\<close>, \<open>services/ingest.py\<close>), due dates (\<open>services/sla.py\<close>), the status that a vendor reports
  (\<open>services/findings_service.py\<close>) and vendor timestamps. Timestamps are in the extended format with an
  optional offset of hours and minutes; a value without an offset is local time
  when one of its last six characters is a dash (a mere date), and UTC otherwise. The conversion of local time is \<open>env_local_to_utc\<close>.
\<close>

section \<open>Calendar\<close>

definition next_day :: "datetime \<Rightarrow> datetime option" where
  "next_day t =
     (if dt_day t < days_in_month (dt_year t) (dt_month t)
      then Some (DateTime (dt_year t) (dt_month t) (dt_day t + 1) (dt_hour t) (dt_minute t) (dt_second t) (dt_micro t))
      else if dt_month t < 12
      then Some (DateTime (dt_year t) (dt_month t + 1) 1 (dt_hour t) (dt_minute t) (dt_second t) (dt_micro t))
      else if dt_year t < 9999
      then Some (DateTime (dt_year t + 1) 1 1 (dt_hour t) (dt_minute t) (dt_second t) (dt_micro t)) else None)"

definition prev_day :: "datetime \<Rightarrow> datetime option" where
  "prev_day t =
     (if 1 < dt_day t
      then Some (DateTime (dt_year t) (dt_month t) (dt_day t - 1) (dt_hour t) (dt_minute t) (dt_second t) (dt_micro t))
      else if 1 < dt_month t
      then Some (DateTime (dt_year t) (dt_month t - 1) (days_in_month (dt_year t) (dt_month t - 1)) (dt_hour t) (dt_minute t)
                   (dt_second t) (dt_micro t))
      else if 1 < dt_year t
      then Some (DateTime (dt_year t - 1) 12 31 (dt_hour t) (dt_minute t) (dt_second t) (dt_micro t)) else None)"

text \<open>\<open>t + timedelta(days=n)\<close>; \<open>None\<close> is \<open>OverflowError\<close>.\<close>

fun add_days :: "nat \<Rightarrow> datetime \<Rightarrow> datetime option" where
  "add_days 0 t = Some t"
| "add_days (Suc n) t = Option.bind (next_day t) (add_days n)"

text \<open>Subtracting a UTC offset, given in minutes, of less than a day.\<close>

definition minus_offset :: "int \<Rightarrow> datetime \<Rightarrow> datetime option" where
  "minus_offset off t =
     (let m = int (60 * dt_hour t + dt_minute t) - off;
          at = (\<lambda>d k. DateTime (dt_year d) (dt_month d) (dt_day d) (nat k div 60) (nat k mod 60) (dt_second d) (dt_micro d))
      in if m < 0 then map_option (\<lambda>d. at d (m + 1440)) (prev_day t)
         else if 1440 \<le> m then map_option (\<lambda>d. at d (m - 1440)) (next_day t)
         else Some (at t m))"

section \<open>Vendor timestamps\<close>

text \<open>\<open>fromisoformat\<close> with an offset: the naive time and the offset in minutes, if one is given.\<close>

definition parse_offset :: "string \<Rightarrow> int option" where
  "parse_offset s =
     (case s of
        [] \<Rightarrow> None
      | c # r \<Rightarrow>
          (case read_digits 2 0 r of
             None \<Rightarrow> None
           | Some (h, r2) \<Rightarrow>
               (case parse_field r2 of
                  Some (m, []) \<Rightarrow>
                    if 60 * h + m < 1440 then Some ((if c = CHR ''-'' then -1 else 1) * int (60 * h + m)) else None
                | _ \<Rightarrow> None)))"

definition fromisoformat_tz :: "string \<Rightarrow> (datetime \<times> int option) option" where
  "fromisoformat_tz s =
     (let off = dropWhile (\<lambda>c. c \<notin> set ''+-'') (drop 11 s);
          base = fromisoformat (take 11 s @ takeWhile (\<lambda>c. c \<notin> set ''+-'') (drop 11 s))
      in if off = [] then map_option (\<lambda>t. (t, None)) base
         else case (base, parse_offset off) of (Some t, Some m) \<Rightarrow> Some (t, Some m) | _ \<Rightarrow> None)"

definition py_endswith :: "string \<Rightarrow> string \<Rightarrow> bool" where
  "py_endswith s suf = (length suf \<le> length s \<and> drop (length s - length suf) s = suf)"

definition parse_iso_datetime :: "env \<Rightarrow> string option \<Rightarrow> py_error + datetime option" where
  "parse_iso_datetime E value =
     (let s = py_strip (or_empty value);
          s1 = (if py_endswith s ''Z'' then butlast s @ ''+00:00''
                else if CHR ''+'' \<notin> set s \<and> CHR ''-'' \<in> set (drop (length s - 6) s) then s
                else if CHR ''+'' \<notin> set s then s @ ''+00:00'' else s)
      in if s = [] then Inr None
         else case fromisoformat_tz s1 of
                None \<Rightarrow> Inr None
              | Some (t, None) \<Rightarrow> Inr (Some (env_local_to_utc E t))
              | Some (t, Some off) \<Rightarrow>
                  (case minus_offset off t of
                     None \<Rightarrow> Inl (OverflowError ''date value out of range'') | Some u \<Rightarrow> Inr (Some u)))"

section \<open>Licence tiers\<close>

definition LICENSE_RISK_BY_ID :: "(string \<times> string) list" where
  "LICENSE_RISK_BY_ID =
     map (\<lambda>l. (py_lower l, ''Critical'')) [''AGPL-3.0'', ''SSPL-1.0''] @
     map (\<lambda>l. (py_lower l, ''High'')) [''GPL-2.0'', ''GPL-3.0''] @
     map (\<lambda>l. (py_lower l, ''Medium'')) [''LGPL-2.1'', ''LGPL-3.0'', ''MPL-2.0'', ''CDDL-1.0''] @
     map (\<lambda>l. (py_lower l, ''Low''))
       [''MIT'', ''Apache-2.0'', ''BSD-2-Clause'', ''BSD-3-Clause'', ''ISC'', ''Unlicense'', ''CC0-1.0'']"

definition LICENSE_RISK_RANK :: "(string \<times> nat) list" where
  "LICENSE_RISK_RANK = [(''Critical'', 0), (''High'', 1), (''Medium'', 2), (''Low'', 3), (''Unknown'', 4)]"

definition risk_rank :: "string \<Rightarrow> nat" where
  "risk_rank tier = (case map_of LICENSE_RISK_RANK tier of Some n \<Rightarrow> n | None \<Rightarrow> 5)"

definition ascii_alnum :: "char \<Rightarrow> bool" where
  "ascii_alnum c =
     (let n = (of_char c :: nat) in (48 \<le> n \<and> n \<le> 57) \<or> (65 \<le> n \<and> n \<le> 90) \<or> (97 \<le> n \<and> n \<le> 122))"

definition spdx_char :: "char \<Rightarrow> bool" where
  "spdx_char c = (ascii_alnum c \<or> c \<in> set ''.+-'')"

text \<open>\<open>re.findall(r"[A-Za-z0-9][A-Za-z0-9.+-]*", s)\<close>\<close>

function spdx_findall :: "string \<Rightarrow> string list" where
  "spdx_findall [] = []"
| "spdx_findall (c # s) =
     (if ascii_alnum c then (c # takeWhile spdx_char s) # spdx_findall (dropWhile spdx_char s) else spdx_findall s)"
  by pat_completeness auto
termination by (relation "measure length") (auto simp: le_imp_less_Suc length_dropWhile_le)

definition normalize_spdx_token :: "string \<Rightarrow> string" where
  "normalize_spdx_token token =
     (let t = py_strip token;
          u = (if py_endswith t ''+'' then butlast t else t); l = py_lower u;
          v = (if py_endswith l ''-or-later'' then take (length u - 9) u
               else if py_endswith l ''-only'' then take (length u - 5) u else u)
      in if t = [] \<or> py_upper t \<in> set [''AND'', ''OR'', ''WITH''] then [] else py_strip v)"

definition iter_license_ids :: "string \<Rightarrow> string list" where
  "iter_license_ids expression =
     (let e = py_strip expression;
          tokens = filter (\<lambda>t. t \<noteq> []) (map normalize_spdx_token (spdx_findall e)); fallback = normalize_spdx_token e
      in if e = [] then [] else if tokens \<noteq> [] then tokens else if fallback \<noteq> [] then [fallback] else [])"

definition better_tier :: "string \<Rightarrow> string \<Rightarrow> string" where
  "better_tier candidate best =
     (case map_of LICENSE_RISK_BY_ID (py_lower candidate) of
        None \<Rightarrow> best | Some tier \<Rightarrow> if risk_rank tier < risk_rank best then tier else best)"

definition license_risk_tier :: "string \<Rightarrow> string" where
  "license_risk_tier license_id = fold better_tier (iter_license_ids license_id) ''Unknown''"

definition license_risk_to_model_severity :: "string \<Rightarrow> severity option" where
  "license_risk_to_model_severity risk =
     map_of [(''Critical'', Critical), (''High'', High), (''Medium'', Medium), (''Low'', Low)] (py_strip risk)"

definition license_candidate :: "string option \<Rightarrow> string" where
  "license_candidate raw =
     (let v = py_strip (or_empty raw) in if py_startswith (py_lower v) ''license:'' then py_strip (drop 8 v) else v)"

text \<open>The first candidate that is not blank decides, even when nothing follows \<open>license:\<close>.\<close>

definition license_expression_from_payload :: "vat_finding \<Rightarrow> string" where
  "license_expression_from_payload p =
     (case find (\<lambda>raw. py_strip (or_empty raw) \<noteq> []) [vf_rule_id p, Some (vf_cve_id p), vf_title p] of
        None \<Rightarrow> [] | Some raw \<Rightarrow> license_candidate raw)"

section \<open>Severity and due dates\<close>

definition SEVERITY_ORDER :: "severity list" where
  "SEVERITY_ORDER = [Critical, High, Medium, Low, Informational]"

definition severity_index :: "severity \<Rightarrow> nat" where
  "severity_index s = length (takeWhile (\<lambda>x. x \<noteq> s) SEVERITY_ORDER)"

definition max_severity :: "severity \<Rightarrow> severity \<Rightarrow> severity" where
  "max_severity a b = (if severity_index a \<le> severity_index b then a else b)"

definition SLA_DAYS :: "((finding_type \<times> severity) \<times> nat) list" where
  "SLA_DAYS =
     [((Secret, Critical), 1), ((Secret, High), 1), ((Secret, Medium), 1), ((Secret, Low), 3), ((Secret, Informational), 7),
      ((SCA, Critical), 3), ((SCA, High), 14), ((SCA, Medium), 30), ((SCA, Low), 90), ((SCA, Informational), 180),
      ((IaC, Critical), 1), ((IaC, High), 7), ((IaC, Medium), 14), ((IaC, Low), 30), ((IaC, Informational), 90),
      ((SAST, Critical), 7), ((SAST, High), 21), ((SAST, Medium), 60), ((SAST, Low), 90), ((SAST, Informational), 180),
      ((License, Critical), 14), ((License, High), 30), ((License, Medium), 30), ((License, Low), 90),
      ((License, Informational), 180)]"

definition sla_days :: "finding_type \<Rightarrow> severity \<Rightarrow> nat" where
  "sla_days ft sev = (case map_of SLA_DAYS (ft, sev) of Some n \<Rightarrow> n | None \<Rightarrow> 30)"

definition compute_sla_due :: "env \<Rightarrow> finding_type \<Rightarrow> severity \<Rightarrow> session \<Rightarrow> py_error + (string \<times> session)" where
  "compute_sla_due E ft sev s =
     (let (now, s1) = utcnow E s
      in case add_days (sla_days ft sev) now of
           None \<Rightarrow> Inl (OverflowError ''date value out of range'') | Some due \<Rightarrow> Inr (date_isoformat due, s1))"

section \<open>Reported status\<close>

definition STATUS_FROM_DISPLAY :: "(string \<times> string) list" where
  "STATUS_FROM_DISPLAY =
     [(''Synced to Tracker'', ''SyncedToTracker''), (''In Review'', ''InReview''), (''Risk Accepted'', ''RiskAccepted''),
      (''False Positive'', ''FalsePositive''), (''Not Applicable'', ''NotApplicable''), (''Open'', ''Open''),
      (''Approved'', ''Approved''), (''Rejected'', ''Rejected''), (''Suppressed'', ''Suppressed''),
      (''Ignored'', ''Suppressed''), (''Mitigated'', ''Mitigated''), (''Duplicate'', ''Duplicate''),
      (''Resolved'', ''Resolved''), (''Reopened'', ''Reopened'')]"

definition status_to_enum :: "string \<Rightarrow> py_error + status" where
  "status_to_enum s = status_of_value (case map_of STATUS_FROM_DISPLAY s of Some v \<Rightarrow> v | None \<Rightarrow> s)"

definition infer_result_state :: "vat_finding \<Rightarrow> string" where
  "infer_result_state p =
     (let explicit = py_lower (py_strip (or_empty (vf_result_state p))); st = py_lower (py_strip (or_empty (vf_status p)))
      in if explicit \<noteq> [] then explicit
         else if st \<in> set [''pass'', ''fail'', ''error'', ''unknown'', ''notapplicable'', ''notchecked''] then st
         else ''fail'')"

section \<open>Facts\<close>

lemma severity_index_inject: "severity_index a = severity_index b \<longleftrightarrow> a = b"
  by (cases a; cases b) (simp_all add: severity_index_def SEVERITY_ORDER_def)

lemma max_severity_least:
  "severity_index (max_severity a b) = min (severity_index a) (severity_index b)"
  by (simp add: max_severity_def)

lemma max_severity_laws:
  "max_severity a a = a" "max_severity a b = max_severity b a"
  "max_severity (max_severity a b) c = max_severity a (max_severity b c)"
  using severity_index_inject [of a b] by (auto simp: max_severity_def)

end
