(* ===== verification/Vat_Links.thy ===== *)
theory Vat_Links
  imports Vat_Audit
begin

text \<open>
  \<open>services/external_links_service.py\<close>: the links of a finding to issues of trackers and of vendors, a
  JSON list in the column \<open>external_links\<close>, and the lookup of a finding by such a link. A link is found by
  its kind and its adapter; a result \<open>JNull\<close> is Python's \<open>None\<close>.
\<close>

section \<open>Reading links\<close>

definition kind_link :: "string \<Rightarrow> json \<Rightarrow> bool" where
  "kind_link kind l = (is_dict l \<and> jget ''kind'' (as_dict l) = JStr kind)"

definition adapter_link :: "string \<Rightarrow> string \<Rightarrow> json \<Rightarrow> bool" where
  "adapter_link kind adapter_key l = (kind_link kind l \<and> jget ''adapter_key'' (as_dict l) = JStr adapter_key)"

definition link_field :: "string \<Rightarrow> string \<Rightarrow> string \<Rightarrow> json list \<Rightarrow> json" where
  "link_field kind adapter_key field links =
     (case find (adapter_link kind adapter_key) links of None \<Rightarrow> JNull | Some l \<Rightarrow> jget field (as_dict l))"

definition get_tracker_issue_id :: "finding \<Rightarrow> string \<Rightarrow> json" where
  "get_tracker_issue_id f adapter_key = link_field ''tracker'' adapter_key ''issue_id'' (f_external_links f)"

definition get_tracker_issue_uuid :: "finding \<Rightarrow> string \<Rightarrow> json" where
  "get_tracker_issue_uuid f adapter_key = link_field ''tracker'' adapter_key ''issue_uuid'' (f_external_links f)"

definition get_source_issue_id :: "finding \<Rightarrow> string \<Rightarrow> json" where
  "get_source_issue_id f adapter_key = link_field ''source'' adapter_key ''issue_id'' (f_external_links f)"

definition has_tracker_link :: "finding \<Rightarrow> string option \<Rightarrow> bool" where
  "has_tracker_link f adapter_key =
     list_ex (\<lambda>l. kind_link ''tracker'' l \<and>
        (case adapter_key of None \<Rightarrow> True | Some a \<Rightarrow> jget ''adapter_key'' (as_dict l) = JStr a)) (f_external_links f)"

definition get_primary_tracker_id :: "finding \<Rightarrow> string \<Rightarrow> json" where
  "get_primary_tracker_id f tracker_key = get_tracker_issue_id f tracker_key"

definition get_all_tracker_links :: "finding \<Rightarrow> json list" where
  "get_all_tracker_links f = filter (kind_link ''tracker'') (f_external_links f)"

definition get_all_source_links :: "finding \<Rightarrow> json list" where
  "get_all_source_links f = filter (kind_link ''source'') (f_external_links f)"

text \<open>The first source link with a URL that is not blank.\<close>

fun first_url :: "json list \<Rightarrow> string option" where
  "first_url [] = None"
| "first_url (l # ls) =
     (case jget ''url'' (as_dict l) of
        JStr u \<Rightarrow> if py_strip u \<noteq> [] then Some (py_strip u) else first_url ls
      | _ \<Rightarrow> first_url ls)"

definition get_source_issue_url :: "finding \<Rightarrow> string option" where
  "get_source_issue_url f = first_url (get_all_source_links f)"

section \<open>Writing links\<close>

definition drop_links :: "string \<Rightarrow> string \<Rightarrow> json list \<Rightarrow> json list" where
  "drop_links kind adapter_key links = filter (\<lambda>l. \<not> adapter_link kind adapter_key l) links"

definition remove_tracker_link :: "finding \<Rightarrow> string \<Rightarrow> bool \<times> finding" where
  "remove_tracker_link f adapter_key =
     (let links = drop_links ''tracker'' adapter_key (f_external_links f)
      in (length links < length (f_external_links f), f\<lparr>f_external_links := links\<rparr>))"

text \<open>The dictionary reads the clock twice, for \<open>created_at\<close> and for \<open>last_synced_at\<close>.\<close>

definition add_tracker_link ::
  "env \<Rightarrow> finding \<Rightarrow> string \<Rightarrow> string \<Rightarrow> string option \<Rightarrow> string list option \<Rightarrow> string option \<Rightarrow> session \<Rightarrow>
   finding \<times> session" where
  "add_tracker_link E f adapter_key issue_id url synced_fields issue_uuid s =
     (let (t1, s1) = utcnow E s; (t2, s2) = utcnow E s1;
          link = [(''adapter_key'', JStr adapter_key), (''kind'', JStr ''tracker''), (''issue_id'', JStr issue_id),
                  (''url'', opt_json url), (''created_at'', JStr (strftime_z t1)), (''last_synced_at'', JStr (strftime_z t2)),
                  (''synced_fields'', JList (map JStr (case synced_fields of None \<Rightarrow> [] | Some fs \<Rightarrow> fs)))];
          link' = (if truthy issue_uuid then jset ''issue_uuid'' (opt_json issue_uuid) link else link)
      in (f\<lparr>f_external_links := drop_links ''tracker'' adapter_key (f_external_links f) @ [JObj link']\<rparr>, s2))"

definition add_source_link ::
  "env \<Rightarrow> finding \<Rightarrow> string \<Rightarrow> string \<Rightarrow> string option \<Rightarrow> session \<Rightarrow> finding \<times> session" where
  "add_source_link E f adapter_key issue_id url s =
     (let (t, s1) = utcnow E s;
          link = [(''adapter_key'', JStr adapter_key), (''kind'', JStr ''source''), (''issue_id'', JStr issue_id),
                  (''url'', opt_json url), (''created_at'', JStr (strftime_z t))]
      in (f\<lparr>f_external_links := drop_links ''source'' adapter_key (f_external_links f) @ [JObj link]\<rparr>, s1))"

section \<open>Looking a finding up by a link\<close>

text \<open>\<open>ORDER BY key DESC LIMIT 1\<close>: a row with the greatest key, the first one among equals.\<close>

definition latest_by :: "('r \<Rightarrow> 'k::linorder) \<Rightarrow> 'r list \<Rightarrow> 'r option" where
  "latest_by key rows =
     (case rows of [] \<Rightarrow> None | r # rs \<Rightarrow> Some (fold (\<lambda>x best. if key best < key x then x else best) rs r))"

text \<open>The JSONB test \<open>external_links @> [{adapter_key, issue_id}]\<close>.\<close>

definition links_contain :: "string \<Rightarrow> string \<Rightarrow> json list \<Rightarrow> bool" where
  "links_contain adapter_key issue_id links =
     list_ex (\<lambda>l. is_dict l \<and> jget ''adapter_key'' (as_dict l) = JStr adapter_key \<and>
                  jget ''issue_id'' (as_dict l) = JStr issue_id) links"

definition find_finding_by_external_id :: "session \<Rightarrow> string \<Rightarrow> string \<Rightarrow> finding option" where
  "find_finding_by_external_id s adapter_key issue_id =
     latest_by f_created_at (filter (\<lambda>f. links_contain adapter_key issue_id (f_external_links f)) (s_findings s))"

definition is_hex_i :: "char \<Rightarrow> bool" where
  "is_hex_i c = is_hex (lower_char c)"

definition is_uuid :: "string \<Rightarrow> bool" where
  "is_uuid value =
     (let parts = split_char CHR ''-'' (py_strip value)
      in map length parts = [8, 4, 4, 4, 12] \<and> list_all (list_all is_hex_i) parts)"

text \<open>\<open>elem->>'field'\<close> compared with a text: the stored value is a string or a number.\<close>

definition json_text :: "json \<Rightarrow> string option" where
  "json_text j = (case j of JStr s \<Rightarrow> Some s | JInt i \<Rightarrow> Some (int_str i) | _ \<Rightarrow> None)"

definition linear_link :: "json \<Rightarrow> bool" where
  "linear_link l = adapter_link ''tracker'' ''linear'' l"

definition find_finding_by_linear_uuid :: "session \<Rightarrow> string \<Rightarrow> finding option" where
  "find_finding_by_linear_uuid s issue_uuid =
     latest_by f_created_at
       (filter (\<lambda>f. \<not> f_archived f \<and>
                    list_ex (\<lambda>l. linear_link l \<and> json_text (jget ''issue_uuid'' (as_dict l)) = Some issue_uuid)
                      (f_external_links f)) (s_findings s))"

definition find_finding_by_linear_issue_id_or_uuid :: "session \<Rightarrow> string \<Rightarrow> string option \<Rightarrow> finding option" where
  "find_finding_by_linear_issue_id_or_uuid s issue_id issue_uuid =
     (case (if issue_id \<noteq> [] then find_finding_by_external_id s ''linear'' issue_id else None) of
        Some f \<Rightarrow> Some f
      | None \<Rightarrow>
          (case (if truthy issue_uuid then find_finding_by_linear_uuid s (or_empty issue_uuid) else None) of
             Some f \<Rightarrow> Some f
           | None \<Rightarrow> if issue_id \<noteq> [] \<and> is_uuid issue_id then find_finding_by_linear_uuid s issue_id else None))"

fun collect_linear_ids :: "json list \<Rightarrow> json list \<Rightarrow> (json \<times> json) list \<Rightarrow> (json \<times> json) list" where
  "collect_linear_ids [] seen out = out"
| "collect_linear_ids (l # ls) seen out =
     (let i = jget ''issue_id'' (as_dict l)
      in if \<not> linear_link l \<or> \<not> py_truth i \<or> i \<in> set seen then collect_linear_ids ls seen out
         else collect_linear_ids ls (i # seen) (out @ [(i, jget ''issue_uuid'' (as_dict l))]))"

definition get_all_linear_tracker_issue_ids :: "session \<Rightarrow> (json \<times> json) list" where
  "get_all_linear_tracker_issue_ids s =
     collect_linear_ids
       (concat (map f_external_links (filter (\<lambda>f. \<not> f_archived f \<and> list_ex linear_link (f_external_links f)) (s_findings s))))
       [] []"

section \<open>One link for each adapter\<close>

lemma adapter_link_unique: "adapter_link k a l \<Longrightarrow> adapter_link k' b l \<longleftrightarrow> k' = k \<and> b = a"
  by (auto simp: adapter_link_def kind_link_def)

lemma find_drop_links:
  "find (adapter_link k' b) (drop_links k a ls) =
     (if k' = k \<and> b = a then None else find (adapter_link k' b) ls)"
  by (induction ls) (auto simp: drop_links_def adapter_link_unique)

lemma find_append: "find P (xs @ ys) = (case find P xs of None \<Rightarrow> find P ys | Some x \<Rightarrow> Some x)"
  by (induction xs) auto

text \<open>Replacing the link of one kind and adapter is the update of a map.\<close>

lemma link_field_replace:
  assumes "adapter_link k a l"
  shows "link_field k' b fld (drop_links k a ls @ [l]) =
    (if k' = k \<and> b = a then jget fld (as_dict l) else link_field k' b fld ls)"
  using assms by (auto simp: link_field_def find_append find_drop_links adapter_link_unique split: option.split)

lemma drop_links_replace:
  assumes "adapter_link k a l"
  shows "drop_links k a (drop_links k a ls @ [l]) = drop_links k a ls"
  using assms by (simp add: drop_links_def)

lemma count_replace:
  assumes "adapter_link k a l"
  shows "filter (adapter_link k a) (drop_links k a ls @ [l]) = [l]"
  using assms by (simp add: drop_links_def)

definition tracker_row :: "env \<Rightarrow> string \<Rightarrow> string \<Rightarrow> string option \<Rightarrow> string list option \<Rightarrow> string option \<Rightarrow> session \<Rightarrow> json_object" where
  "tracker_row E a i u sf uu s =
     (let link = [(''adapter_key'', JStr a), (''kind'', JStr ''tracker''), (''issue_id'', JStr i), (''url'', opt_json u),
          (''created_at'', JStr (strftime_z (env_clock E (s_clk s)))),
          (''last_synced_at'', JStr (strftime_z (env_clock E (Suc (s_clk s))))),
          (''synced_fields'', JList (map JStr (case sf of None \<Rightarrow> [] | Some fs \<Rightarrow> fs)))]
      in if truthy uu then jset ''issue_uuid'' (opt_json uu) link else link)"

lemma add_tracker_links:
  "f_external_links (fst (add_tracker_link E f a i u sf uu s)) =
     drop_links ''tracker'' a (f_external_links f) @ [JObj (tracker_row E a i u sf uu s)]"
  by (simp add: add_tracker_link_def tracker_row_def utcnow_def Let_def)

lemma tracker_row_link:
  "adapter_link ''tracker'' a (JObj (tracker_row E a i u sf uu s))"
  "jget ''issue_id'' (tracker_row E a i u sf uu s) = JStr i"
  "jget ''issue_uuid'' (tracker_row E a i u sf uu s) = (if truthy uu then opt_json uu else JNull)"
  "jget ''adapter_key'' (tracker_row E a i u sf uu s) = JStr a"
  by (simp_all add: adapter_link_def kind_link_def tracker_row_def Let_def jget_def map_of_jset)

lemma add_source_links:
  "\<exists>l. f_external_links (fst (add_source_link E f a i u s)) = drop_links ''source'' a (f_external_links f) @ [JObj l] \<and>
     adapter_link ''source'' a (JObj l) \<and> jget ''issue_id'' l = JStr i \<and> jget ''adapter_key'' l = JStr a"
  by (simp add: add_source_link_def utcnow_def Let_def adapter_link_def kind_link_def jget_def)

lemma latest_fold:
  "fold (\<lambda>x best. if key best < (key x :: 'k::linorder) then x else best) rs r \<in> insert r (set rs) \<and>
   (\<forall>x \<in> insert r (set rs). key x \<le> key (fold (\<lambda>x best. if key best < key x then x else best) rs r))"
proof (induction rs arbitrary: r)
  case (Cons x rs)
  show ?case using Cons.IH [of "if key r < key x then x else r"] by (auto split: if_splits)
qed simp

lemma latest_by_properties:
  "latest_by key rows = None \<longleftrightarrow> rows = []"
  "latest_by key rows = Some r \<Longrightarrow> r \<in> set rows \<and> (\<forall>x \<in> set rows. key x \<le> key r)"
  using latest_fold [of key "tl rows" "hd rows"] by (cases rows; auto simp: latest_by_def)+

lemma put_finding_get:
  assumes "f_id f \<in> f_id ` set (s_findings s)"
  shows "f \<in> set (s_findings (put_finding f s))"
  using assms by (auto simp: put_finding_def set_tbl_update image_iff)

lemma find_external_complete:
  assumes "f \<in> set (s_findings s)" and "links_contain a i (f_external_links f)"
  shows "\<exists>g. find_finding_by_external_id s a i = Some g \<and> g \<in> set (s_findings s) \<and>
    links_contain a i (f_external_links g) \<and> f_created_at f \<le> f_created_at g"
proof -
  let ?rows = "filter (\<lambda>f. links_contain a i (f_external_links f)) (s_findings s)"
  have f: "f \<in> set ?rows" using assms by simp
  then have "?rows \<noteq> []" by (metis empty_iff list.set(1))
  then obtain g where g: "latest_by f_created_at ?rows = Some g" using latest_by_properties(1) by blast
  show ?thesis using latest_by_properties(2) [OF g] f g by (auto simp: find_finding_by_external_id_def)
qed

text \<open>
  C39. Linking a finding to an issue of a tracker and storing it is a round trip: the finding then has
  exactly one link of that adapter, which carries the given id and UUID; the links to
  other trackers and to vendors are unchanged; the lookup by adapter and issue id returns a finding
  with such a link that is at least as recent; and removing the link reports success and leaves exactly the
  links of other adapters.
\<close>

theorem tracker_link_roundtrip:
  fixes E f a i u sf uu s
  defines "f' \<equiv> fst (add_tracker_link E f a i u sf uu s)"
  assumes "f_id f \<in> f_id ` set (s_findings s)"
  shows "get_tracker_issue_id f' b = (if b = a then JStr i else get_tracker_issue_id f b) \<and>
    get_tracker_issue_uuid f' a = (if truthy uu then opt_json uu else JNull) \<and>
    get_source_issue_id f' b = get_source_issue_id f b \<and>
    length (filter (adapter_link ''tracker'' a) (f_external_links f')) = 1 \<and>
    (\<exists>g. find_finding_by_external_id (put_finding f' s) a i = Some g \<and>
       links_contain a i (f_external_links g) \<and> f_created_at f \<le> f_created_at g) \<and>
    remove_tracker_link f' a = (True, f\<lparr>f_external_links := drop_links ''tracker'' a (f_external_links f)\<rparr>)"
proof -
  let ?l = "tracker_row E a i u sf uu s"
  have l: "f_external_links f' = drop_links ''tracker'' a (f_external_links f) @ [JObj ?l]"
    unfolding f'_def by (rule add_tracker_links)
  have f': "f_id f' = f_id f" "f_created_at f' = f_created_at f" "f'\<lparr>f_external_links := x\<rparr> = f\<lparr>f_external_links := x\<rparr>" for x
    unfolding f'_def by (simp_all add: add_tracker_link_def utcnow_def Let_def)
  have "f' \<in> set (s_findings (put_finding f' s))" using assms(2) f' by (intro put_finding_get) simp
  moreover have "links_contain a i (f_external_links f')" by (simp add: l links_contain_def tracker_row_link)
  ultimately have look: "\<exists>g. find_finding_by_external_id (put_finding f' s) a i = Some g \<and>
       links_contain a i (f_external_links g) \<and> f_created_at f \<le> f_created_at g"
    using find_external_complete f'(2) by metis
  have fld: "link_field k b fld (f_external_links f') = (if k = ''tracker'' \<and> b = a then jget fld ?l else link_field k b fld (f_external_links f))" for k b fld
    unfolding l by (simp add: link_field_replace tracker_row_link)
  have rem: "remove_tracker_link f' a = (True, f\<lparr>f_external_links := drop_links ''tracker'' a (f_external_links f)\<rparr>)"
    by (simp add: remove_tracker_link_def l f' drop_links_replace tracker_row_link)
  have one: "length (filter (adapter_link ''tracker'' a) (f_external_links f')) = 1"
    unfolding l count_replace [OF tracker_row_link(1)] by simp
  show ?thesis using look rem one
    by (simp add: get_tracker_issue_id_def get_tracker_issue_uuid_def get_source_issue_id_def fld tracker_row_link)
qed

text \<open>The demo finding is linked to a Linear issue.\<close>

definition demo_linked :: finding where
  "demo_linked = fst (add_tracker_link demo_env demo_finding ''linear'' ''ENG-1'' None None None (empty_session\<lparr>s_findings := [demo_finding]\<rparr>))"

theorem tracker_link_roundtrip_witness:
  "get_tracker_issue_id demo_linked ''linear'' = JStr ''ENG-1'' \<and>
   fst (remove_tracker_link demo_linked ''linear'')"
  using tracker_link_roundtrip [of demo_finding "empty_session\<lparr>s_findings := [demo_finding]\<rparr>" demo_env "''linear''" "''ENG-1''" None None None "''linear''"]
  unfolding demo_linked_def by simp

end
