(* ===== verification/Vat_Edges.thy ===== *)
theory Vat_Edges
  imports Vat_Audit
begin

text \<open>
  \<open>services/correlation_edges.py\<close>: undirected, reversible correlation edges between findings. An
  edge is stored once per unordered pair; uncorrelating deactivates it and keeps the row. The
  branch for mocked sessions belongs to the test suite and is left out.
\<close>

section \<open>Pairs and identifiers\<close>

definition normalize_pair :: "string \<Rightarrow> string \<Rightarrow> py_error + (string \<times> string)" where
  "normalize_pair left right =
     (let a = py_strip left; b = py_strip right
      in if a = [] \<or> b = [] then Inl (ValueError ''both finding ids are required'')
         else if a = b then Inl (ValueError ''finding ids must differ'')
         else if a < b then Inr (a, b) else Inr (b, a))"

definition edge_id :: "env \<Rightarrow> string \<Rightarrow> string \<Rightarrow> string" where
  "edge_id E a b = env_sha256 E (a @ ''|'' @ b)"

definition e_key :: "correlation_edge \<Rightarrow> string \<times> string" where
  "e_key e = (e_finding_id_a e, e_finding_id_b e)"

text \<open>\<open>operation_id or uuid.uuid4().hex\<close>\<close>

definition operation_or_new :: "env \<Rightarrow> string option \<Rightarrow> session \<Rightarrow> string \<times> session" where
  "operation_or_new E op s = (if truthy op then (or_empty op, s) else uuid4_hex E s)"

section \<open>INSERT ... ON CONFLICT DO UPDATE\<close>

record edge_cmd =
  ec_id :: string
  ec_a :: string
  ec_b :: string
  ec_edge_type :: string
  ec_confidence :: string
  ec_evidence :: json_object
  ec_operation_id :: string
  ec_created_by :: "string option"
  ec_now :: datetime
  ec_created_at :: datetime

definition ec_key :: "edge_cmd \<Rightarrow> string \<times> string" where
  "ec_key c = (ec_a c, ec_b c)"

definition edge_merge :: "edge_cmd \<Rightarrow> correlation_edge option \<Rightarrow> correlation_edge" where
  "edge_merge c old =
     (case old of
        None \<Rightarrow>
          \<lparr>e_id = ec_id c, e_finding_id_a = ec_a c, e_finding_id_b = ec_b c, e_edge_type = ec_edge_type c,
           e_confidence = ec_confidence c, e_evidence = JObj (ec_evidence c), e_active = True,
           e_operation_id = Some (ec_operation_id c), e_created_by = ec_created_by c,
           e_created_at = ec_created_at c, e_updated_at = ec_now c, e_removed_by = None,
           e_removed_at = None, e_remove_reason = None\<rparr>
      | Some e \<Rightarrow>
          e\<lparr>e_edge_type := ec_edge_type c, e_confidence := ec_confidence c, e_evidence := JObj (ec_evidence c),
            e_active := True, e_operation_id := Some (ec_operation_id c), e_removed_by := None,
            e_removed_at := None, e_remove_reason := None, e_updated_at := ec_now c\<rparr>)"

abbreviation edge_upsert :: "edge_cmd \<Rightarrow> correlation_edge list \<Rightarrow> correlation_edge list" where
  "edge_upsert \<equiv> tbl_upsert e_key ec_key edge_merge"

interpretation edges: upsert_table e_key ec_key edge_merge edge_upsert
  by (rule upsert_tableI) (auto simp: e_key_def ec_key_def edge_merge_def)

text \<open>The keyword arguments of \<open>upsert_edge\<close>.\<close>

record edge_args =
  ua_left :: string
  ua_right :: string
  ua_edge_type :: string
  ua_confidence :: string
  ua_evidence :: json_object
  ua_created_by :: "string option"
  ua_operation_id :: "string option"
  ua_trace_id :: "string option"
  ua_source_id :: "string option"
  ua_parser_id :: "string option"

definition upserted_event :: "string \<Rightarrow> edge_args \<Rightarrow> string \<Rightarrow> string \<Rightarrow> string \<Rightarrow> event_args" where
  "upserted_event tid u a b op =
     event_defaults\<lparr>ea_trace_id := tid, ea_event_type := ''correlation.edge.upserted'',
       ea_actor_type := (if ua_created_by u = Some ''system'' then ''system'' else ''user''),
       ea_actor_id := (if truthy (ua_created_by u) \<and> ua_created_by u \<noteq> Some ''system'' then ua_created_by u else None),
       ea_source_id := ua_source_id u, ea_parser_id := ua_parser_id u, ea_finding_id := Some a,
       ea_decision_name := Some ''correlation_edge'', ea_decision_reason_code := Some (ua_edge_type u),
       ea_decision_confidence := Some (ua_confidence u), ea_decision_result := Some ''active'',
       ea_data := [(''finding_id_a'', JStr a), (''finding_id_b'', JStr b), (''operation_id'', JStr op)]\<rparr>"

text \<open>
  The conflict target is the pair; a new row whose digest id is already taken by another pair
  violates the primary key. \<open>created_at\<close> is a column default, a second reading of the clock. The
  row is read back by id, and by pair when the id differs.
\<close>

definition upsert_edge :: "env \<Rightarrow> edge_args \<Rightarrow> session \<Rightarrow> py_error + (correlation_edge \<times> session)" where
  "upsert_edge E u s =
     (case normalize_pair (ua_left u) (ua_right u) of
        Inl e \<Rightarrow> Inl e
      | Inr (a, b) \<Rightarrow>
          (let (op, s1) = operation_or_new E (ua_operation_id u) s;
               (now, s2) = utcnow E s1;
               (created, s3) = utcnow E s2;
               c = \<lparr>ec_id = edge_id E a b, ec_a = a, ec_b = b, ec_edge_type = ua_edge_type u,
                    ec_confidence = ua_confidence u, ec_evidence = ua_evidence u, ec_operation_id = op,
                    ec_created_by = ua_created_by u, ec_now = now, ec_created_at = created\<rparr>
           in if tbl_get e_key (a, b) (s_edges s3) = None \<and> tbl_get e_id (edge_id E a b) (s_edges s3) \<noteq> None
              then Inl (IntegrityError ''correlation_edges_pkey'')
              else let s4 = s3\<lparr>s_edges := edge_upsert c (s_edges s3)\<rparr>;
                       row = (case tbl_get e_id (edge_id E a b) (s_edges s4) of
                                Some r \<Rightarrow> r
                              | None \<Rightarrow> edge_merge c (tbl_get e_key (a, b) (s_edges s3)));
                       (tid, s5) = trace_or_new E (ua_trace_id u) s4
                   in Inr (row, snd (emit_audit_event E (upserted_event tid u a b op) s5))))"

section \<open>Deactivating and restoring\<close>

text \<open>A row mutated through the session: found by primary key, written back in place.\<close>

definition put_edge :: "correlation_edge \<Rightarrow> session \<Rightarrow> session" where
  "put_edge e s = s\<lparr>s_edges := tbl_update (\<lambda>r. e_id r = e_id e) (\<lambda>_. e) (s_edges s)\<rparr>"

definition edge_event :: "string \<Rightarrow> string \<Rightarrow> string \<Rightarrow> string \<Rightarrow> string \<Rightarrow> string \<Rightarrow> json_object \<Rightarrow> event_args" where
  "edge_event tid event_type actor reason result a data =
     event_defaults\<lparr>ea_trace_id := tid, ea_event_type := event_type, ea_actor_type := ''user'',
       ea_actor_id := Some actor, ea_finding_id := Some a, ea_decision_name := Some ''correlation_edge'',
       ea_decision_reason_code := Some reason, ea_decision_confidence := Some ''explicit'',
       ea_decision_result := Some result, ea_data := data\<rparr>"

definition deactivate_edge ::
  "env \<Rightarrow> string \<Rightarrow> string \<Rightarrow> string \<Rightarrow> string \<Rightarrow> string option \<Rightarrow> string option \<Rightarrow> session \<Rightarrow>
   py_error + (correlation_edge option \<times> session)" where
  "deactivate_edge E left right removed_by remove_reason operation_id trace_id s =
     (case normalize_pair left right of
        Inl e \<Rightarrow> Inl e
      | Inr (a, b) \<Rightarrow>
          (case tbl_get e_id (edge_id E a b) (s_edges s) of
             None \<Rightarrow> Inr (None, s)
           | Some row \<Rightarrow>
               (let (t1, s1) = utcnow E s;
                    (op, s2) = operation_or_new E operation_id s1;
                    (t2, s3) = utcnow E s2;
                    row1 = row\<lparr>e_active := False, e_removed_by := Some removed_by,
                             e_remove_reason := Some (take 256 remove_reason), e_removed_at := Some t1,
                             e_operation_id := Some op, e_updated_at := t2\<rparr>;
                    (tid, s4) = trace_or_new E trace_id (put_edge row1 s3)
                in Inr (Some row1, snd (emit_audit_event E
                     (edge_event tid ''correlation.edge.deactivated'' removed_by ''manual_uncorrelate'' ''inactive'' a
                        [(''finding_id_a'', JStr a), (''finding_id_b'', JStr b),
                         (''remove_reason'', JStr (take 256 remove_reason)), (''operation_id'', JStr op)]) s4)))))"

definition reactivate_edge ::
  "env \<Rightarrow> string \<Rightarrow> string \<Rightarrow> string \<Rightarrow> string option \<Rightarrow> string option \<Rightarrow> session \<Rightarrow>
   py_error + (correlation_edge option \<times> session)" where
  "reactivate_edge E left right reactivated_by operation_id trace_id s =
     (case normalize_pair left right of
        Inl e \<Rightarrow> Inl e
      | Inr (a, b) \<Rightarrow>
          (case tbl_get e_id (edge_id E a b) (s_edges s) of
             None \<Rightarrow> Inr (None, s)
           | Some row \<Rightarrow>
               (let (op, s1) = operation_or_new E operation_id s;
                    (t, s2) = utcnow E s1;
                    row1 = row\<lparr>e_active := True, e_removed_by := None, e_removed_at := None,
                             e_remove_reason := None, e_operation_id := Some op, e_updated_at := t\<rparr>;
                    (tid, s3) = trace_or_new E trace_id (put_edge row1 s2)
                in Inr (Some row1, snd (emit_audit_event E
                     (edge_event tid ''correlation.edge.reactivated'' reactivated_by ''manual_restore'' ''active'' a
                        [(''finding_id_a'', JStr a), (''finding_id_b'', JStr b), (''operation_id'', JStr op)]) s3)))))"

section \<open>Queries\<close>

text \<open>\<open>ORDER BY key DESC\<close>; rows with equal keys keep the order of insertion.\<close>

definition order_by_desc :: "('r \<Rightarrow> 'k :: linorder) \<Rightarrow> 'r list \<Rightarrow> 'r list" where
  "order_by_desc key rows = rev (sort_key key (rev rows))"

definition touches :: "string \<Rightarrow> correlation_edge \<Rightarrow> bool" where
  "touches fid e = (e_finding_id_a e = fid \<or> e_finding_id_b e = fid)"

definition list_active_edges_for_finding :: "session \<Rightarrow> string \<Rightarrow> correlation_edge list" where
  "list_active_edges_for_finding s finding_id =
     (let fid = py_strip finding_id
      in if fid = [] then []
         else order_by_desc e_created_at (filter (\<lambda>e. e_active e \<and> touches fid e) (s_edges s)))"

definition list_edges_for_finding :: "session \<Rightarrow> string \<Rightarrow> bool \<Rightarrow> correlation_edge list" where
  "list_edges_for_finding s finding_id include_inactive =
     (let fid = py_strip finding_id
      in if fid = [] then []
         else order_by_desc e_updated_at
                (filter (\<lambda>e. touches fid e \<and> (include_inactive \<or> e_active e)) (s_edges s)))"

definition list_edges_by_operation_id :: "session \<Rightarrow> string \<Rightarrow> correlation_edge list" where
  "list_edges_by_operation_id s operation_id =
     (let op = py_strip operation_id
      in if op = [] then [] else order_by_desc e_updated_at (filter (\<lambda>e. e_operation_id e = Some op) (s_edges s)))"

section \<open>The edge table as a graph\<close>

text \<open>
  A failed call is rolled back. \<open>F\<close> is the set of finding ids in use; the digest keeps their pairs
  apart.
\<close>

definition after :: "py_error + ('r \<times> session) \<Rightarrow> session \<Rightarrow> session" where
  "after r s = (case r of Inl _ \<Rightarrow> s | Inr (_, s') \<Rightarrow> s')"

definition edge_ok :: "env \<Rightarrow> string set \<Rightarrow> correlation_edge \<Rightarrow> bool" where
  "edge_ok E F e =
     (e_finding_id_a e < e_finding_id_b e \<and> e_finding_id_a e \<in> F \<and> e_finding_id_b e \<in> F \<and>
      e_id e = edge_id E (e_finding_id_a e) (e_finding_id_b e))"

definition ids_ok :: "env \<Rightarrow> string set \<Rightarrow> bool" where
  "ids_ok E F = (inj_on (\<lambda>(a, b). edge_id E a b) (F \<times> F) \<and> (\<forall>a \<in> F. a \<noteq> [] \<and> py_strip a = a))"

definition edges_ok :: "env \<Rightarrow> string set \<Rightarrow> session \<Rightarrow> bool" where
  "edges_ok E F s = (ids_ok E F \<and> distinct (map e_key (s_edges s)) \<and> (\<forall>e \<in> set (s_edges s). edge_ok E F e))"

definition edge_pair :: "correlation_edge \<Rightarrow> string set" where
  "edge_pair e = {e_finding_id_a e, e_finding_id_b e}"

definition stored_pairs :: "session \<Rightarrow> string set set" where
  "stored_pairs s = edge_pair ` set (s_edges s)"

definition active_pairs :: "session \<Rightarrow> string set set" where
  "active_pairs s = edge_pair ` {e \<in> set (s_edges s). e_active e}"

text \<open>What an edge says about its pair, apart from its activity.\<close>

definition edge_core :: "correlation_edge \<Rightarrow> string set \<times> string \<times> string \<times> json \<times> string option \<times> datetime" where
  "edge_core e = (edge_pair e, e_edge_type e, e_confidence e, e_evidence e, e_created_by e, e_created_at e)"

definition valid_ids :: "string set \<Rightarrow> string \<Rightarrow> string \<Rightarrow> bool" where
  "valid_ids F x y = (x \<in> F \<and> y \<in> F \<and> x \<noteq> y)"

lemma normalize_pair_commute: "normalize_pair x y = normalize_pair y x"
  by (auto simp: normalize_pair_def Let_def)

lemma normalize_pair_valid:
  assumes "ids_ok E F" and "valid_ids F x y"
  obtains a b where "normalize_pair x y = Inr (a, b)" "a < b" "a \<in> F" "b \<in> F" "{a, b} = {x, y}"
proof (cases "x < y")
  case True
  then show ?thesis using that [of x y] assms by (auto simp: normalize_pair_def ids_ok_def valid_ids_def)
next
  case False
  then show ?thesis using that [of y x] assms
    by (auto simp: normalize_pair_def ids_ok_def valid_ids_def insert_commute)
qed

lemma e_key_iff_pair:
  assumes "edge_ok E F e" and "a < b"
  shows "e_key e = (a, b) \<longleftrightarrow> edge_pair e = {a, b}"
  using assms by (auto simp: edge_ok_def e_key_def edge_pair_def doubleton_eq_iff)

text \<open>Looking an edge up by digest is looking it up by pair.\<close>

lemma get_by_id:
  assumes "edges_ok E F s" and "a \<in> F" and "b \<in> F"
  shows "tbl_get e_id (edge_id E a b) (s_edges s) = tbl_get e_key (a, b) (s_edges s)"
proof -
  have "e_id e = edge_id E a b \<longleftrightarrow> e_key e = (a, b)" if "e \<in> set (s_edges s)" for e
  proof -
    have e: "edge_ok E F e" and inj: "inj_on (\<lambda>(a, b). edge_id E a b) (F \<times> F)"
      using assms(1) that by (auto simp: edges_ok_def ids_ok_def)
    show ?thesis
      using inj_onD [OF inj, of "(e_finding_id_a e, e_finding_id_b e)" "(a, b)"] e assms(2,3)
      by (auto simp: edge_ok_def e_key_def)
  qed
  then show ?thesis by (induction "s_edges s") (auto simp: tbl_get_def intro: find_cong)
qed

lemma emit_edges [simp]: "s_edges (snd (emit_audit_event E a s)) = s_edges s"
  by (simp add: emit_audit_event_def store_event_def uuid4_hex_def utcnow_def Let_def split: option.splits)

lemma trace_edges [simp]: "s_edges (snd (trace_or_new E tr s)) = s_edges s"
  by (simp add: trace_or_new_def new_trace_id_def uuid4_hex_def)

lemma operation_edges [simp]: "s_edges (snd (operation_or_new E op s)) = s_edges s"
  by (simp add: operation_or_new_def uuid4_hex_def)

lemma edge_merge_simps [simp]:
  "e_active (edge_merge c old)"
  "e_finding_id_a (edge_merge c old) = (case old of None \<Rightarrow> ec_a c | Some e \<Rightarrow> e_finding_id_a e)"
  "e_finding_id_b (edge_merge c old) = (case old of None \<Rightarrow> ec_b c | Some e \<Rightarrow> e_finding_id_b e)"
  "e_id (edge_merge c old) = (case old of None \<Rightarrow> ec_id c | Some e \<Rightarrow> e_id e)"
  by (simp_all add: edge_merge_def split: option.splits)

lemma edges_ok_cong: "s_edges t = s_edges s \<Longrightarrow> edges_ok E F t = edges_ok E F s"
  by (simp add: edges_ok_def)

lemma edges_ok_upsert:
  assumes "edges_ok E F s" and "a \<in> F" "b \<in> F" "a < b" and "ec_key c = (a, b)" and "ec_id c = edge_id E a b"
    and "s_edges t = edge_upsert c (s_edges s)"
  shows "edges_ok E F t \<and> stored_pairs t = insert {a, b} (stored_pairs s) \<and>
    active_pairs t = insert {a, b} (active_pairs s)"
proof -
  let ?old = "tbl_get e_key (a, b) (s_edges s)"
  let ?new = "edge_merge c ?old"
  have d: "distinct (map e_key (s_edges s))" and all: "\<forall>e \<in> set (s_edges s). edge_ok E F e" and F: "ids_ok E F"
    using assms(1) by (auto simp: edges_ok_def)
  have S: "set (s_edges t) = insert ?new {e \<in> set (s_edges s). e_key e \<noteq> (a, b)}"
    using edges.set_upsert [OF d, of c] assms(5,7) by simp
  have new: "edge_ok E F ?new" "edge_pair ?new = {a, b}"
    using assms(2-6) all by (auto simp: edge_ok_def edge_pair_def ec_key_def e_key_def dest!: tbl_get_Some split: option.splits)
  have "edge_pair e = {a, b} \<longleftrightarrow> e_key e = (a, b)" if "e \<in> set (s_edges s)" for e
    using e_key_iff_pair [OF bspec [OF all that] assms(4)] by simp
  then have S': "set (s_edges t) = insert ?new {e \<in> set (s_edges s). edge_pair e \<noteq> {a, b}}" using S by blast
  have "stored_pairs t = insert {a, b} (edge_pair ` {e \<in> set (s_edges s). edge_pair e \<noteq> {a, b}})"
    by (simp add: stored_pairs_def S' new(2))
  also have "\<dots> = insert {a, b} (stored_pairs s)" by (auto simp: stored_pairs_def)
  finally have st: "stored_pairs t = insert {a, b} (stored_pairs s)" .
  have "{e \<in> set (s_edges t). e_active e} = insert ?new {e \<in> set (s_edges s). edge_pair e \<noteq> {a, b} \<and> e_active e}"
    by (auto simp: S')
  then have "active_pairs t = insert {a, b} (edge_pair ` {e \<in> set (s_edges s). edge_pair e \<noteq> {a, b} \<and> e_active e})"
    by (simp add: active_pairs_def new(2))
  also have "\<dots> = insert {a, b} (active_pairs s)" by (auto simp: active_pairs_def)
  finally have ac: "active_pairs t = insert {a, b} (active_pairs s)" .
  show ?thesis
    using S' new(1) all F edges.distinct_keys [OF d, of c] assms(7) st ac by (auto simp: edges_ok_def)
qed

lemma upsert_edge_effect:
  assumes "edges_ok E F s" and "valid_ids F (ua_left u) (ua_right u)"
  shows "\<exists>e t. upsert_edge E u s = Inr (e, t) \<and> edges_ok E F t \<and> e \<in> set (s_edges t) \<and>
    e_active e \<and> edge_pair e = {ua_left u, ua_right u} \<and> e_edge_type e = ua_edge_type u \<and> e_confidence e = ua_confidence u \<and>
    stored_pairs t = insert {ua_left u, ua_right u} (stored_pairs s) \<and>
    active_pairs t = insert {ua_left u, ua_right u} (active_pairs s)"
proof -
  have F: "ids_ok E F" using assms(1) by (simp add: edges_ok_def)
  obtain a b where p: "normalize_pair (ua_left u) (ua_right u) = Inr (a, b)" "a < b" "a \<in> F" "b \<in> F"
      "{a, b} = {ua_left u, ua_right u}"
    using normalize_pair_valid [OF F assms(2)] .
  obtain op s1 where o: "operation_or_new E (ua_operation_id u) s = (op, s1)" by fastforce
  define s3 where "s3 = s1\<lparr>s_clk := Suc (Suc (s_clk s1))\<rparr>"
  define c where "c = \<lparr>ec_id = edge_id E a b, ec_a = a, ec_b = b, ec_edge_type = ua_edge_type u,
      ec_confidence = ua_confidence u, ec_evidence = ua_evidence u, ec_operation_id = op,
      ec_created_by = ua_created_by u, ec_now = env_clock E (s_clk s1), ec_created_at = env_clock E (Suc (s_clk s1))\<rparr>"
  define s4 where "s4 = s3\<lparr>s_edges := edge_upsert c (s_edges s3)\<rparr>"
  have s3: "s_edges s3 = s_edges s" using operation_edges [of E "ua_operation_id u" s] o by (simp add: s3_def)
  have k: "ec_key c = (a, b)" "ec_id c = edge_id E a b" by (simp_all add: c_def ec_key_def)
  have s4: "s_edges s4 = edge_upsert c (s_edges s)" by (simp add: s4_def s3)
  have ok4: "edges_ok E F s4 \<and> stored_pairs s4 = insert {a, b} (stored_pairs s) \<and>
      active_pairs s4 = insert {a, b} (active_pairs s)"
    using edges_ok_upsert [OF assms(1) p(3,4,2) k s4] .
  have new: "tbl_get e_id (edge_id E a b) (s_edges s4) = Some (edge_merge c (tbl_get e_key (a, b) (s_edges s)))"
    using get_by_id [OF conjunct1 [OF ok4] p(3,4)] edges.get_same [of c "s_edges s"] k(1) s4 by simp
  have same: "tbl_get e_id (edge_id E a b) (s_edges s) = tbl_get e_key (a, b) (s_edges s)"
    using get_by_id [OF assms(1) p(3,4)] .
  have "upsert_edge E u s = (if tbl_get e_key (a, b) (s_edges s3) = None \<and> tbl_get e_id (edge_id E a b) (s_edges s3) \<noteq> None
      then Inl (IntegrityError ''correlation_edges_pkey'')
      else Inr (case tbl_get e_id (edge_id E a b) (s_edges s4) of Some r \<Rightarrow> r
            | None \<Rightarrow> edge_merge c (tbl_get e_key (a, b) (s_edges s3)),
          snd (emit_audit_event E (upserted_event (fst (trace_or_new E (ua_trace_id u) s4)) u a b op)
            (snd (trace_or_new E (ua_trace_id u) s4)))))"
    unfolding upsert_edge_def p(1) sum.case prod.case o utcnow_def Let_def s4_def s3_def c_def case_prod_beta
    by (simp cong: option.case_cong)
  then have "\<exists>t. upsert_edge E u s = Inr (edge_merge c (tbl_get e_key (a, b) (s_edges s)), t) \<and> s_edges t = s_edges s4"
    using new same s3 by (cases "tbl_get e_key (a, b) (s_edges s)") simp_all
  then obtain t where t: "upsert_edge E u s = Inr (edge_merge c (tbl_get e_key (a, b) (s_edges s)), t)"
      "s_edges t = s_edges s4" by blast
  have "edge_merge c (tbl_get e_key (a, b) (s_edges s)) \<in> set (s_edges t)"
    using tbl_get_Some [OF new] t(2) by simp
  moreover have "edge_pair (edge_merge c (tbl_get e_key (a, b) (s_edges s))) = {a, b}"
    using k by (auto simp: edge_pair_def ec_key_def e_key_def dest!: tbl_get_Some split: option.splits)
  moreover have "e_edge_type (edge_merge c x) = ua_edge_type u \<and> e_confidence (edge_merge c x) = ua_confidence u" for x
    by (simp add: edge_merge_def c_def split: option.splits)
  ultimately show ?thesis
    using t ok4 edges_ok_cong [OF t(2)] p(5) by (auto simp: stored_pairs_def active_pairs_def)
qed

text \<open>Writing one edge back: the pairs stay, the pair itself is active or not.\<close>

lemma edges_ok_put:
  assumes "edges_ok E F s" and "tbl_get e_key (a, b) (s_edges s) = Some e"
    and "e_id e' = e_id e" and "e_key e' = e_key e" and "s_edges t = s_edges (put_edge e' s)"
    and "edge_core e' = edge_core e"
  shows "edges_ok E F t \<and> map edge_core (s_edges t) = map edge_core (s_edges s) \<and> stored_pairs t = stored_pairs s \<and>
    active_pairs t = (if e_active e' then insert {a, b} (active_pairs s) else active_pairs s - {{a, b}})"
proof -
  have e: "e \<in> set (s_edges s)" "e_key e = (a, b)" using tbl_get_Some [OF assms(2)] by auto
  have all: "\<forall>e \<in> set (s_edges s). edge_ok E F e" and d: "distinct (map e_key (s_edges s))" and F: "ids_ok E F"
    using assms(1) by (auto simp: edges_ok_def)
  have ab: "a < b" "a \<in> F" "b \<in> F" using bspec [OF all e(1)] e(2) by (auto simp: edge_ok_def e_key_def)
  have pair: "edge_pair x = {a, b} \<longleftrightarrow> x = e" if "x \<in> set (s_edges s)" for x
  proof -
    have "inj_on e_key (set (s_edges s))" using d by (simp add: distinct_map)
    then show ?thesis
      using e_key_iff_pair [OF bspec [OF all that] ab(1)] e that inj_on_eq_iff [of e_key "set (s_edges s)" x e] by auto
  qed
  have id: "e_id x = e_id e \<longleftrightarrow> e_key x = e_key e" if "x \<in> set (s_edges s)" for x
  proof -
    have "edge_ok E F x" "edge_ok E F e" and inj: "inj_on (\<lambda>(a, b). edge_id E a b) (F \<times> F)"
      using all that e(1) F by (auto simp: ids_ok_def)
    then show ?thesis
      using inj_onD [OF inj, of "(e_finding_id_a x, e_finding_id_b x)" "(e_finding_id_a e, e_finding_id_b e)"]
      by (auto simp: edge_ok_def e_key_def)
  qed
  have T: "s_edges t = tbl_update (\<lambda>x. e_key x = e_key e) (\<lambda>_. e') (s_edges s)"
    using assms(3,5) id by (simp add: put_edge_def tbl_update_def)
  have S: "set (s_edges t) = insert e' (set (s_edges s) - {e})"
    unfolding T by (rule set_tbl_replace [OF d e(1)])
  have dt: "distinct (map e_key (s_edges t))"
    using map_key_upsert_update [of e_key "e_key e" "\<lambda>_. e'" "s_edges s"] assms(4) d unfolding T by simp
  have p': "edge_ok E F e'" "edge_pair e' = {a, b}" "edge_pair e = {a, b}"
    using bspec [OF all e(1)] e assms(3,4) by (auto simp: edge_ok_def e_key_def edge_pair_def)
  have S': "set (s_edges t) = insert e' {x \<in> set (s_edges s). edge_pair x \<noteq> {a, b}}" using S pair by blast
  have "stored_pairs t = insert {a, b} (edge_pair ` {x \<in> set (s_edges s). edge_pair x \<noteq> {a, b}})"
    by (simp add: stored_pairs_def S' p'(2))
  also have "\<dots> = stored_pairs s" using e(1) p'(3) by (auto simp: stored_pairs_def)
  finally have st: "stored_pairs t = stored_pairs s" .
  have "{x \<in> set (s_edges t). e_active x} =
      (if e_active e' then {e'} else {}) \<union> {x \<in> set (s_edges s). edge_pair x \<noteq> {a, b} \<and> e_active x}"
    by (auto simp: S')
  then have "active_pairs t = (if e_active e' then {{a, b}} else {}) \<union>
      edge_pair ` {x \<in> set (s_edges s). edge_pair x \<noteq> {a, b} \<and> e_active x}"
    by (simp add: active_pairs_def p'(2))
  also have "\<dots> = (if e_active e' then insert {a, b} (active_pairs s) else active_pairs s - {{a, b}})"
    by (auto simp: active_pairs_def)
  finally have ac: "active_pairs t = (if e_active e' then insert {a, b} (active_pairs s) else active_pairs s - {{a, b}})" .
  have "edge_core x = edge_core e'" if "x \<in> set (s_edges s)" "e_key x = e_key e" for x
    using that pair [OF that(1)] e_key_iff_pair [OF bspec [OF all that(1)] ab(1)] e(2) assms(6) by simp
  then have "map edge_core (s_edges t) = map edge_core (s_edges s)" unfolding T tbl_update_def by simp
  then show ?thesis
    using S' p'(1) all F dt st ac by (simp add: edges_ok_def)
qed

lemma get_pair_None:
  assumes "edges_ok E F s" and "a < b"
  shows "tbl_get e_key (a, b) (s_edges s) = None \<longleftrightarrow> {a, b} \<notin> stored_pairs s"
proof -
  have "e_key e = (a, b) \<longleftrightarrow> edge_pair e = {a, b}" if "e \<in> set (s_edges s)" for e
    using e_key_iff_pair [OF _ assms(2)] assms(1) that unfolding edges_ok_def by blast
  then show ?thesis unfolding tbl_get_None stored_pairs_def image_iff by (metis (no_types))
qed

lemma active_stored_pairs: "active_pairs s \<subseteq> stored_pairs s"
  by (auto simp: active_pairs_def stored_pairs_def)

lemma put_edges_cong: "s_edges t = s_edges s \<Longrightarrow> s_edges (put_edge e t) = s_edges (put_edge e s)"
  by (simp add: put_edge_def)

lemma deactivate_edge_effect:
  assumes "edges_ok E F s" and "valid_ids F x y"
  shows "\<exists>r t. deactivate_edge E x y who why op tr s = Inr (r, t) \<and> edges_ok E F t \<and>
    (r = None \<longleftrightarrow> {x, y} \<notin> stored_pairs s) \<and> stored_pairs t = stored_pairs s \<and>
    map edge_core (s_edges t) = map edge_core (s_edges s) \<and>
    active_pairs t = active_pairs s - {{x, y}}"
proof -
  have F: "ids_ok E F" using assms(1) by (simp add: edges_ok_def)
  obtain a b where p: "normalize_pair x y = Inr (a, b)" "a < b" "a \<in> F" "b \<in> F" "{a, b} = {x, y}"
    using normalize_pair_valid [OF F assms(2)] .
  note same = get_by_id [OF assms(1) p(3,4)]
  show ?thesis
  proof (cases "tbl_get e_key (a, b) (s_edges s)")
    case None
    then have "{x, y} \<notin> stored_pairs s" using get_pair_None [OF assms(1) p(2)] p(5) by simp
    then show ?thesis
      using None same p(1) assms(1) active_stored_pairs [of s] by (auto simp: deactivate_edge_def)
  next
    case (Some e)
    obtain e' t where "deactivate_edge E x y who why op tr s = Inr (Some e', t)" "e_id e' = e_id e"
        "e_key e' = e_key e" "\<not> e_active e'" "s_edges t = s_edges (put_edge e' s)"
        "edge_core e' = edge_core e"
      using Some same p(1)
      by (simp add: deactivate_edge_def case_prod_beta Let_def e_key_def edge_core_def edge_pair_def utcnow_def put_edge_def)
    then show ?thesis
      using edges_ok_put [OF assms(1) Some, of e' t] get_pair_None [OF assms(1) p(2)] Some p(5) by auto
  qed
qed

lemma reactivate_edge_effect:
  assumes "edges_ok E F s" and "valid_ids F x y"
  shows "\<exists>r t. reactivate_edge E x y who op tr s = Inr (r, t) \<and> edges_ok E F t \<and>
    (r = None \<longleftrightarrow> {x, y} \<notin> stored_pairs s) \<and> stored_pairs t = stored_pairs s \<and>
    map edge_core (s_edges t) = map edge_core (s_edges s) \<and>
    active_pairs t = (if {x, y} \<in> stored_pairs s then insert {x, y} (active_pairs s) else active_pairs s)"
proof -
  have F: "ids_ok E F" using assms(1) by (simp add: edges_ok_def)
  obtain a b where p: "normalize_pair x y = Inr (a, b)" "a < b" "a \<in> F" "b \<in> F" "{a, b} = {x, y}"
    using normalize_pair_valid [OF F assms(2)] .
  note same = get_by_id [OF assms(1) p(3,4)]
  show ?thesis
  proof (cases "tbl_get e_key (a, b) (s_edges s)")
    case None
    then show ?thesis
      using get_pair_None [OF assms(1) p(2)] same p(1,5) assms(1) by (auto simp: reactivate_edge_def)
  next
    case (Some e)
    obtain e' t where "reactivate_edge E x y who op tr s = Inr (Some e', t)" "e_id e' = e_id e"
        "e_key e' = e_key e" "e_active e'" "s_edges t = s_edges (put_edge e' s)"
        "edge_core e' = edge_core e"
      using Some same p(1)
      by (simp add: reactivate_edge_def case_prod_beta Let_def e_key_def edge_core_def edge_pair_def utcnow_def put_edge_def)
    then show ?thesis
      using edges_ok_put [OF assms(1) Some, of e' t] get_pair_None [OF assms(1) p(2)] Some p(5) by auto
  qed
qed

lemma after_eq: "\<exists>r t. f = Inr (r, t) \<and> P r t \<Longrightarrow> \<exists>r. P r (after f s)"
  by (auto simp: after_def)

interpretation edge_graph: link_graph "edges_ok E F" "valid_ids F" stored_pairs active_pairs
    "\<lambda>x y s. after (upsert_edge E (u\<lparr>ua_left := x, ua_right := y\<rparr>) s) s"
    "\<lambda>x y s. after (deactivate_edge E x y who why op tr s) s"
    "\<lambda>x y s. after (reactivate_edge E x y who2 op2 tr2 s) s"
  for E F u who why op tr who2 op2 tr2
proof
  fix s x y
  show "active_pairs s \<subseteq> stored_pairs s" by (rule active_stored_pairs)
  assume ok: "edges_ok E F s" and v: "valid_ids F x y"
  let ?u = "u\<lparr>ua_left := x, ua_right := y\<rparr>"
  show "edges_ok E F (after (upsert_edge E ?u s) s) \<and>
      stored_pairs (after (upsert_edge E ?u s) s) = insert {x, y} (stored_pairs s) \<and>
      active_pairs (after (upsert_edge E ?u s) s) = insert {x, y} (active_pairs s)"
    using after_eq [OF upsert_edge_effect [OF ok, of ?u], of s] v by auto
  show "edges_ok E F (after (deactivate_edge E x y who why op tr s) s) \<and>
      stored_pairs (after (deactivate_edge E x y who why op tr s) s) = stored_pairs s \<and>
      active_pairs (after (deactivate_edge E x y who why op tr s) s) = active_pairs s - {{x, y}}"
    using after_eq [OF deactivate_edge_effect [OF ok v, of who why op tr], of s] by blast
  show "edges_ok E F (after (reactivate_edge E x y who2 op2 tr2 s) s) \<and>
      stored_pairs (after (reactivate_edge E x y who2 op2 tr2 s) s) = stored_pairs s \<and>
      active_pairs (after (reactivate_edge E x y who2 op2 tr2 s) s) =
        (if {x, y} \<in> stored_pairs s then insert {x, y} (active_pairs s) else active_pairs s)"
    using after_eq [OF reactivate_edge_effect [OF ok v, of who2 op2 tr2], of s] by blast
qed

section \<open>Properties of the edge service\<close>

lemma neighbours:
  assumes "edges_ok E F s" and "x \<in> F"
  shows "edge_pair ` set (list_active_edges_for_finding s x) = {p \<in> active_pairs s. x \<in> p}"
  using assms
  by (auto simp: list_active_edges_for_finding_def order_by_desc_def touches_def active_pairs_def edge_pair_def
      edges_ok_def ids_ok_def Let_def)

text \<open>
  C36. The edge table implements an undirected graph: creating an edge adds the unordered pair
  whatever the order of the arguments and whether or not it was there before, uncorrelating
  removes exactly that pair, restoring adds it back exactly when the pair was ever correlated, and
  the active edges listed for a finding are its neighbours.
\<close>

theorem edge_table_refines_graph:
  assumes "edges_ok E F s" and "valid_ids F x y"
  shows "active_pairs (after (upsert_edge E (u\<lparr>ua_left := x, ua_right := y\<rparr>) s) s) = insert {x, y} (active_pairs s) \<and>
    active_pairs (after (deactivate_edge E x y who why op tr s) s) = active_pairs s - {{x, y}} \<and>
    active_pairs (after (reactivate_edge E x y who op tr s) s) =
      (if {x, y} \<in> stored_pairs s then insert {x, y} (active_pairs s) else active_pairs s) \<and>
    edge_pair ` set (list_active_edges_for_finding s x) = {p \<in> active_pairs s. x \<in> p}"
proof -
  have "x \<in> F" using assms(2) by (simp add: valid_ids_def)
  then show ?thesis
    by (intro conjI neighbours [OF assms(1)] conjunct2 [OF conjunct2 [OF edge_graph.link [OF assms]]]
        conjunct2 [OF conjunct2 [OF edge_graph.unlink [OF assms]]]
        conjunct2 [OF conjunct2 [OF edge_graph.restore [OF assms]]])
qed

definition demo_ids :: "string set" where
  "demo_ids = {''F-1'', ''F-2'', ''F-3''}"

definition demo_edge_args :: edge_args where
  "demo_edge_args = \<lparr>ua_left = ''F-2'', ua_right = ''F-1'', ua_edge_type = ''same_correlation_key'',
     ua_confidence = ''high'', ua_evidence = [], ua_created_by = Some ''system'', ua_operation_id = Some ''op'',
     ua_trace_id = Some ''t'', ua_source_id = None, ua_parser_id = None\<rparr>"

lemma demo_ids_ok: "ids_ok demo_env demo_ids"
  by (auto simp: ids_ok_def demo_ids_def demo_env_def edge_id_def inj_on_def py_strip_fixed py_isspace_def)

lemma demo_edges_ok: "edges_ok demo_env demo_ids empty_session" "valid_ids demo_ids ''F-2'' ''F-1''"
  using demo_ids_ok by (simp_all add: edges_ok_def valid_ids_def demo_ids_def)

theorem edge_table_refines_graph_witness:
  "active_pairs (after (upsert_edge demo_env (demo_edge_args\<lparr>ua_left := ''F-2'', ua_right := ''F-1''\<rparr>) empty_session)
     empty_session) = {{''F-1'', ''F-2''}}"
  using edge_table_refines_graph [OF demo_edges_ok, of demo_edge_args]
  by (auto simp: active_pairs_def)

text \<open>
  Uncorrelating is reversible: deactivating an active edge succeeds and takes the pair out of
  the graph, reactivating it, with the ids in either order, succeeds and gives the same graph back, and
  type, confidence, evidence, creator and creation time of every edge are as before.
\<close>

lemma uncorrelate_restore_roundtrip:
  assumes "edges_ok E F s" and "valid_ids F x y" and "{x, y} \<in> active_pairs s"
  shows "\<exists>r t r' t'. deactivate_edge E x y who why op tr s = Inr (Some r, t) \<and> {x, y} \<notin> active_pairs t \<and>
    reactivate_edge E y x who2 op2 tr2 t = Inr (Some r', t') \<and> active_pairs t' = active_pairs s \<and>
    map edge_core (s_edges t') = map edge_core (s_edges s)"
proof -
  have st: "{x, y} \<in> stored_pairs s" using assms(3) active_stored_pairs by blast
  obtain r t where t: "deactivate_edge E x y who why op tr s = Inr (Some r, t)" "edges_ok E F t"
      "stored_pairs t = stored_pairs s" "map edge_core (s_edges t) = map edge_core (s_edges s)"
      "active_pairs t = active_pairs s - {{x, y}}"
    using deactivate_edge_effect [OF assms(1,2), of who why op tr] st by auto
  have v: "valid_ids F y x" using assms(2) by (auto simp: valid_ids_def)
  have yx: "{y, x} = {x, y}" by (rule insert_commute)
  obtain r' t' where "reactivate_edge E y x who2 op2 tr2 t = Inr (Some r', t')"
      "map edge_core (s_edges t') = map edge_core (s_edges t)" "active_pairs t' = insert {x, y} (active_pairs t)"
    using reactivate_edge_effect [OF t(2) v, of who2 op2 tr2] st t(3) unfolding yx by auto
  then show ?thesis using t assms(3) by auto
qed

definition demo_linked :: session where
  "demo_linked = after (upsert_edge demo_env demo_edge_args empty_session) empty_session"

lemma demo_linked_ok: "edges_ok demo_env demo_ids demo_linked" "{''F-2'', ''F-1''} \<in> active_pairs demo_linked"
proof -
  have "edges_ok demo_env demo_ids demo_linked \<and> {''F-2'', ''F-1''} \<in> active_pairs demo_linked"
    using edge_graph.link [OF demo_edges_ok, of demo_edge_args] by (simp add: demo_linked_def demo_edge_args_def)
  then show "edges_ok demo_env demo_ids demo_linked" "{''F-2'', ''F-1''} \<in> active_pairs demo_linked" by auto
qed

text \<open>
  Creating an edge fails exactly when an id is blank or both ids are the same after trimming, always
  with a \<open>ValueError\<close>, and then nothing is stored; a repeated pair is never a constraint violation.
\<close>

lemma upsert_edge_rejects:
  assumes "edges_ok E F s" and "py_strip (ua_left u) \<in> insert [] F" and "py_strip (ua_right u) \<in> insert [] F"
  shows "case upsert_edge E u s of
      Inl e \<Rightarrow> (\<exists>m. e = ValueError m) \<and>
        (py_strip (ua_left u) = [] \<or> py_strip (ua_right u) = [] \<or> py_strip (ua_left u) = py_strip (ua_right u))
    | Inr (row, t) \<Rightarrow> row \<in> set (s_edges t) \<and> edge_pair row = {py_strip (ua_left u), py_strip (ua_right u)} \<and>
        py_strip (ua_left u) \<noteq> [] \<and> py_strip (ua_right u) \<noteq> [] \<and> py_strip (ua_left u) \<noteq> py_strip (ua_right u)"
proof -
  let ?l = "py_strip (ua_left u)" and ?r = "py_strip (ua_right u)"
  let ?u = "u\<lparr>ua_left := ?l, ua_right := ?r\<rparr>"
  show ?thesis
  proof (cases "?l = [] \<or> ?r = [] \<or> ?l = ?r")
    case True
    then show ?thesis by (auto simp: upsert_edge_def normalize_pair_def Let_def)
  next
    case False
    have "normalize_pair ?l ?r = normalize_pair (ua_left u) (ua_right u)" by (simp add: normalize_pair_def)
    then have "upsert_edge E u s = upsert_edge E ?u s"
      by (cases "normalize_pair (ua_left u) (ua_right u)") (simp_all add: upsert_edge_def upserted_event_def case_prod_beta Let_def cong: option.case_cong)
    moreover have "valid_ids F (ua_left ?u) (ua_right ?u)" using assms(2,3) False by (simp add: valid_ids_def)
    ultimately show ?thesis using upsert_edge_effect [OF assms(1), of ?u] False by auto
  qed
qed

end
