(* ===== verification/Vat_Scoring.thy ===== *)
theory Vat_Scoring
  imports Vat_Edges
begin

text \<open>
  \<open>services/finding_identifiers.py\<close>, \<open>services/crosswalks.py\<close> and
  \<open>services/correlation_scoring.py\<close>: the identifier facts of a finding, the crosswalk between
  identifier namespaces, and the score of a pair of findings. Scores are kept in hundredths
  (\<open>JFloat 85\<close> is \<open>0.85\<close>); the sums that the code forms from \<open>0.80\<close> and \<open>0.10\<close> lie on the same side
  of both thresholds in binary floating point.
\<close>

section \<open>finding\_identifiers.py\<close>

text \<open>\<open>_norm\<close> of a string attribute, and of a JSON value (crosswalks).\<close>

definition norm_value :: "string option \<Rightarrow> string" where
  "norm_value v = py_lower (py_strip (or_empty v))"

definition norm_json :: "json \<Rightarrow> string" where
  "norm_json v = py_lower (py_strip (str_or_empty v))"

definition named_values :: "(string \<times> string option \<times> 'c) list \<Rightarrow> (string \<times> string \<times> 'c) list" where
  "named_values xs =
     map (\<lambda>(ns, v, c). (ns, norm_value v, c)) (filter (\<lambda>(ns, v, c). norm_value v \<noteq> []) xs)"

definition extract_identifier_facts :: "finding \<Rightarrow> (string \<times> string \<times> string) list" where
  "extract_identifier_facts f =
     named_values
       [(''cve_id'', Some (f_cve_id f), ''high''), (''rule_id'', f_rule_id f, ''medium''),
        (''stable_rule_key'', f_stable_rule_key f, ''high''),
        (''benchmark_family'', f_benchmark_family f, ''medium''), (''control_ref'', f_control_ref f, ''medium''),
        (''ecosystem'', f_ecosystem f, ''medium'')]"

definition fi_key :: "finding_identifier \<Rightarrow> string \<times> string \<times> string \<times> string" where
  "fi_key r = (fi_finding_id r, fi_namespace r, fi_value r, fi_source r)"

definition identifier_merge :: "finding_identifier \<Rightarrow> finding_identifier option \<Rightarrow> finding_identifier" where
  "identifier_merge c old =
     (case old of None \<Rightarrow> c | Some r \<Rightarrow> r\<lparr>fi_confidence := fi_confidence c\<rparr>)"

abbreviation identifier_upsert :: "finding_identifier \<Rightarrow> finding_identifier list \<Rightarrow> finding_identifier list" where
  "identifier_upsert \<equiv> tbl_upsert fi_key fi_key identifier_merge"

interpretation identifiers: upsert_table fi_key fi_key identifier_merge identifier_upsert
  by (rule upsert_tableI) (auto simp: fi_key_def identifier_merge_def)

definition upsert_identifier_facts_for_finding :: "finding \<Rightarrow> string \<Rightarrow> session \<Rightarrow> session" where
  "upsert_identifier_facts_for_finding f source s =
     (let fid = norm_value (Some (f_id f))
      in if fid = [] then s
         else s\<lparr>s_identifiers :=
           fold (\<lambda>(ns, v, conf). identifier_upsert
                   \<lparr>fi_finding_id = fid, fi_namespace = ns, fi_value = v, fi_confidence = conf, fi_source = source\<rparr>)
             (extract_identifier_facts f) (s_identifiers s)\<rparr>)"

definition list_identifier_facts_for_finding :: "session \<Rightarrow> string \<Rightarrow> (string \<times> string) list" where
  "list_identifier_facts_for_finding s finding_id =
     (let fid = norm_value (Some finding_id)
      in if fid = [] then []
         else map (\<lambda>r. (fi_namespace r, fi_value r)) (filter (\<lambda>r. fi_finding_id r = fid) (s_identifiers s)))"

section \<open>crosswalks.py\<close>

definition checksum :: "env \<Rightarrow> string \<Rightarrow> string \<Rightarrow> json_object list \<Rightarrow> string" where
  "checksum E source source_version entries =
     env_sha256 E (source @ ''|'' @ source_version @ ''|'' @ py_repr (JList (map JObj entries)))"

type_synonym crosswalk_key = "string \<times> string \<times> string \<times> string \<times> string \<times> string"

definition cw_key :: "crosswalk_entry \<Rightarrow> crosswalk_key" where
  "cw_key r = (cw_from_namespace r, cw_from_value r, cw_to_namespace r, cw_to_value r, cw_source r, cw_source_version r)"

record crosswalk_cmd =
  wc_key :: crosswalk_key
  wc_id :: nat
  wc_run_id :: string
  wc_entry :: json_object
  wc_t1 :: datetime
  wc_t2 :: datetime
  wc_t3 :: datetime

definition entry_active :: "json_object \<Rightarrow> bool" where
  "entry_active e = py_truth (jget_default ''active'' (JBool True) e)"

text \<open>\<open>a or b\<close> on JSON values.\<close>

definition json_else :: "json \<Rightarrow> json \<Rightarrow> json" where
  "json_else a b = (if py_truth a then a else b)"

definition crosswalk_merge :: "crosswalk_cmd \<Rightarrow> crosswalk_entry option \<Rightarrow> crosswalk_entry" where
  "crosswalk_merge c old =
     (let e = wc_entry c
      in case old of
           None \<Rightarrow>
             (case wc_key c of (fns, fv, tns, tv, src, ver) \<Rightarrow>
               \<lparr>cw_id = wc_id c, cw_run_id = Some (wc_run_id c), cw_source = src, cw_source_version = ver,
                cw_from_namespace = fns, cw_from_value = fv, cw_to_namespace = tns, cw_to_value = tv,
                cw_confidence = norm_json (json_else (jget ''confidence'' e) (JStr ''medium'')),
                cw_score = jget ''score'' e, cw_active = entry_active e,
                cw_metadata = json_else (jget ''metadata'' e) (JObj []), cw_last_verified_at = Some (wc_t1 c),
                cw_disabled_at = None, cw_disabled_reason = None, cw_updated_at = wc_t2 c\<rparr>)
         | Some r \<Rightarrow>
             r\<lparr>cw_run_id := Some (wc_run_id c),
               cw_confidence := norm_json (json_else (jget ''confidence'' e) (JStr (cw_confidence r))),
               cw_score := (if jget ''score'' e \<noteq> JNull then jget ''score'' e else cw_score r),
               cw_active := entry_active e,
               cw_metadata := json_else (jget ''metadata'' e) (json_else (cw_metadata r) (JObj [])),
               cw_last_verified_at := Some (wc_t1 c),
               cw_disabled_at := (if entry_active e then None else Some (wc_t2 c)),
               cw_disabled_reason := (if entry_active e then None else Some ''inactive from ingest''),
               cw_updated_at := wc_t3 c\<rparr>)"

abbreviation crosswalk_upsert :: "crosswalk_cmd \<Rightarrow> crosswalk_entry list \<Rightarrow> crosswalk_entry list" where
  "crosswalk_upsert \<equiv> tbl_upsert cw_key wc_key crosswalk_merge"

interpretation crosswalk_table: upsert_table cw_key wc_key crosswalk_merge crosswalk_upsert
  by (rule upsert_tableI) (auto simp: cw_key_def crosswalk_merge_def Let_def split: prod.splits)

record run_counts =
  rc_inserted :: nat
  rc_updated :: nat
  rc_rejected :: nat

text \<open>The key of an entry, unless one of its four fields is blank.\<close>

definition entry_key :: "string \<Rightarrow> string \<Rightarrow> json_object \<Rightarrow> crosswalk_key option" where
  "entry_key source source_version e =
     (let fns = norm_json (jget ''from_namespace'' e); fv = norm_json (jget ''from_value'' e);
          tns = norm_json (jget ''to_namespace'' e); tv = norm_json (jget ''to_value'' e)
      in if fns = [] \<or> fv = [] \<or> tns = [] \<or> tv = [] then None
         else Some (fns, fv, tns, tv, source, source_version))"

text \<open>One entry: rejected, inserted or updated. A reading of the clock that a branch does not need is dropped.\<close>

definition ingest_entry ::
  "env \<Rightarrow> string \<Rightarrow> string \<Rightarrow> string \<Rightarrow> json_object \<Rightarrow> run_counts \<times> session \<Rightarrow> run_counts \<times> session" where
  "ingest_entry E run_id source source_version e acc =
     (case acc of (n, s) \<Rightarrow>
        (case entry_key source source_version e of
           None \<Rightarrow> (n\<lparr>rc_rejected := rc_rejected n + 1\<rparr>, s)
         | Some key \<Rightarrow>
             (let (t1, s1) = utcnow E s; (t2, s2) = utcnow E s1; (t3, s3) = utcnow E s2;
                  c = \<lparr>wc_key = key, wc_id = Suc (length (s_crosswalks s)), wc_run_id = run_id, wc_entry = e,
                       wc_t1 = t1, wc_t2 = t2, wc_t3 = t3\<rparr>
              in (if tbl_get cw_key key (s_crosswalks s) = None then n\<lparr>rc_inserted := rc_inserted n + 1\<rparr>
                  else n\<lparr>rc_updated := rc_updated n + 1\<rparr>,
                  s3\<lparr>s_crosswalks := crosswalk_upsert c (s_crosswalks s)\<rparr>))))"

definition run_stats :: "run_counts \<Rightarrow> json" where
  "run_stats n = JObj [(''inserted'', JInt (int (rc_inserted n))), (''updated'', JInt (int (rc_updated n))),
     (''rejected'', JInt (int (rc_rejected n)))]"

definition ingest_crosswalk_entries ::
  "env \<Rightarrow> string \<Rightarrow> string \<Rightarrow> json_object list \<Rightarrow> string option \<Rightarrow> string option \<Rightarrow> session \<Rightarrow> crosswalk_run \<times> session" where
  "ingest_crosswalk_entries E source source_version entries created_by trace_id s =
     (let (run_id, s1) = uuid4_hex E s;
          (started, s2) = utcnow E s1;
          run = \<lparr>cr_id = run_id, cr_source = source, cr_source_version = source_version, cr_status = ''running'',
                 cr_trace_id = trace_id, cr_input_checksum = checksum E source source_version entries,
                 cr_stats = JObj [], cr_created_by = created_by, cr_started_at = started, cr_completed_at = None\<rparr>;
          (n, s3) = fold (ingest_entry E run_id source source_version) entries
                      (\<lparr>rc_inserted = 0, rc_updated = 0, rc_rejected = 0\<rparr>,
                       s2\<lparr>s_crosswalk_runs := s_crosswalk_runs s2 @ [run]\<rparr>);
          (done_at, s4) = utcnow E s3;
          run1 = run\<lparr>cr_status := ''completed'', cr_completed_at := Some done_at, cr_stats := run_stats n\<rparr>
      in (run1, s4\<lparr>s_crosswalk_runs := tbl_update (\<lambda>r. cr_id r = run_id) (\<lambda>_. run1) (s_crosswalk_runs s4)\<rparr>))"

definition resolve_crosswalk_values :: "session \<Rightarrow> string \<Rightarrow> string \<Rightarrow> string option \<Rightarrow> crosswalk_entry list" where
  "resolve_crosswalk_values s from_namespace from_value to_namespace =
     (let fns = norm_value (Some from_namespace); fval = norm_value (Some from_value)
      in if fns = [] \<or> fval = [] then []
         else order_by_desc cw_updated_at (order_by_desc cw_id
                (filter (\<lambda>r. cw_active r \<and> cw_from_namespace r = fns \<and> cw_from_value r = fval \<and>
                             (truthy to_namespace \<longrightarrow> cw_to_namespace r = norm_value to_namespace)) (s_crosswalks s))))"

definition norm_pair :: "string \<times> string \<Rightarrow> string \<times> string" where
  "norm_pair p = (norm_value (Some (fst p)), norm_value (Some (snd p)))"

definition bridge :: "string \<Rightarrow> string \<Rightarrow> string \<Rightarrow> string \<Rightarrow> crosswalk_entry \<Rightarrow> json" where
  "bridge fns fval tns tval r =
     JObj [(''from_namespace'', JStr fns), (''from_value'', JStr fval), (''to_namespace'', JStr tns),
           (''to_value'', JStr tval), (''source'', JStr (cw_source r)),
           (''source_version'', JStr (cw_source_version r)), (''confidence'', JStr (cw_confidence r))]"

definition known_values :: "(string \<times> string) list \<Rightarrow> (string \<times> string) set" where
  "known_values ps = norm_pair ` set (filter (\<lambda>p. norm_value (Some (snd p)) \<noteq> []) ps)"

definition forward_matches :: "session \<Rightarrow> (string \<times> string) set \<Rightarrow> string \<times> string \<Rightarrow> json list" where
  "forward_matches s targets p =
     (let (fns, fval) = norm_pair p
      in if fns = [] \<or> fval = [] then []
         else map (\<lambda>r. bridge fns fval (norm_value (Some (cw_to_namespace r))) (norm_value (Some (cw_to_value r))) r)
                (filter (\<lambda>r. norm_pair (cw_to_namespace r, cw_to_value r) \<in> targets)
                   (resolve_crosswalk_values s fns fval None)))"

definition backward_matches :: "session \<Rightarrow> (string \<times> string) set \<Rightarrow> string \<times> string \<Rightarrow> json list" where
  "backward_matches s targets p =
     (let (fns, fval) = norm_pair p
      in if fns = [] \<or> fval = [] then []
         else map (\<lambda>r. bridge (cw_from_namespace r) (cw_from_value r) (cw_to_namespace r) (cw_to_value r) r)
                (filter (\<lambda>r. cw_active r \<and> cw_from_namespace r = fns \<and> cw_from_value r = fval \<and>
                             (cw_to_namespace r, cw_to_value r) \<in> targets) (s_crosswalks s)))"

definition identifiers_crosswalk_match ::
  "session \<Rightarrow> (string \<times> string) list \<Rightarrow> (string \<times> string) list \<Rightarrow> json list" where
  "identifiers_crosswalk_match s left right =
     (if left = [] \<or> right = [] then []
      else let matches = concat (map (forward_matches s (known_values right)) left)
           in if matches \<noteq> [] then matches
              else if known_values left = {} then []
              else concat (map (backward_matches s (known_values left)) right))"

section \<open>correlation\_scoring.py\<close>

definition HIGH_THRESHOLD :: int where
  "HIGH_THRESHOLD = 85"

definition MEDIUM_THRESHOLD :: int where
  "MEDIUM_THRESHOLD = 60"

definition asset_identity :: "finding \<Rightarrow> string" where
  "asset_identity f =
     (let img = norm_value (f_image f); branch = norm_value (f_branch f)
      in if img \<noteq> [] \<or> branch \<noteq> [] then img @ ''|'' @ branch else norm_value (f_component f))"

definition inline_identifiers :: "finding \<Rightarrow> (string \<times> string) list" where
  "inline_identifiers f =
     map (\<lambda>(ns, v, _). (ns, v)) (named_values
       [(''cve_id'', Some (f_cve_id f), ()), (''rule_id'', f_rule_id f, ()),
        (''stable_rule_key'', f_stable_rule_key f, ()), (''benchmark_family'', f_benchmark_family f, ()),
        (''control_ref'', f_control_ref f, ())])"

text \<open>\<open>list(merged.keys())\<close>: the first occurrence of every pair.\<close>

definition dict_keys :: "'a list \<Rightarrow> 'a list" where
  "dict_keys xs = rev (remdups (rev xs))"

definition identifiers_with_facts :: "session \<Rightarrow> finding \<Rightarrow> (string \<times> string) list" where
  "identifiers_with_facts s f =
     (let inline = inline_identifiers f; fid = norm_value (Some (f_id f));
          facts = list_identifier_facts_for_finding s fid
      in if fid = [] \<or> facts = [] then inline else dict_keys (inline @ facts))"

record score_result =
  sr_score :: int
  sr_tier :: string
  sr_reasons :: "string list"
  sr_evidence :: json_object

definition both_equal :: "string \<Rightarrow> string \<Rightarrow> bool" where
  "both_equal a b = (a \<noteq> [] \<and> b \<noteq> [] \<and> a = b)"

definition rule_of :: "finding \<Rightarrow> string" where
  "rule_of f = (if norm_value (f_stable_rule_key f) \<noteq> [] then norm_value (f_stable_rule_key f) else norm_value (f_rule_id f))"

definition tier_of :: "int \<Rightarrow> string" where
  "tier_of score = (if HIGH_THRESHOLD \<le> score then ''high'' else if MEDIUM_THRESHOLD \<le> score then ''medium'' else ''low'')"

text \<open>
  \<open>shared_pairs\<close> is listed in the order of the left identifiers; the code lists a set, in no
  particular order.
\<close>

definition shared_pairs :: "(string \<times> string) list \<Rightarrow> (string \<times> string) list \<Rightarrow> (string \<times> string) list" where
  "shared_pairs left right = filter (\<lambda>p. p \<in> set right) (dict_keys left)"

text \<open>The weights of the matching facts, capped at 1.\<close>

definition pair_score :: "bool \<Rightarrow> bool \<Rightarrow> bool \<Rightarrow> bool \<Rightarrow> bool \<Rightarrow> int" where
  "pair_score key_match same_cve same_rule has_shared has_bridge =
     min 100 ((if key_match then 80 else 0) + (if same_cve then 10 else 0) + (if same_rule then 10 else 0) +
       (if has_shared then 10 else 0) + (if has_bridge then 10 else 0))"

definition score_matched :: "session \<Rightarrow> finding \<Rightarrow> finding \<Rightarrow> string list \<Rightarrow> json_object \<Rightarrow> score_result" where
  "score_matched s left right reasons evidence =
     (let key_match = both_equal (norm_value (f_correlation_key left)) (norm_value (f_correlation_key right));
          same_cve = both_equal (norm_value (Some (f_cve_id left))) (norm_value (Some (f_cve_id right)));
          same_rule = both_equal (rule_of left) (rule_of right);
          left_ids = identifiers_with_facts s left; right_ids = identifiers_with_facts s right;
          shared = shared_pairs left_ids right_ids;
          bridges = identifiers_crosswalk_match s left_ids right_ids;
          score = pair_score key_match same_cve same_rule (shared \<noteq> []) (bridges \<noteq> [])
      in \<lparr>sr_score = score, sr_tier = tier_of score,
          sr_reasons = reasons @ (if key_match then [''same_correlation_key''] else []) @
            (if same_cve then [''same_cve''] else []) @ (if same_rule then [''same_rule''] else []) @
            (if shared \<noteq> [] then [''shared_identifier_fact''] else []) @
            (if bridges \<noteq> [] then [''crosswalk_bridge''] else []),
          sr_evidence = evidence @
            (if shared \<noteq> [] then [(''shared_identifier_facts'',
               JList (map (\<lambda>(ns, v). JList [JStr ns, JStr v]) (take 10 shared)))] else []) @
            (if bridges \<noteq> [] then [(''crosswalk_matches'', JList (take 10 bridges))] else []) @
            [(''score'', JFloat score)]\<rparr>)"

definition score_finding_pair :: "session \<Rightarrow> finding \<Rightarrow> finding \<Rightarrow> score_result" where
  "score_finding_pair s left right =
     (let la = asset_identity left; ra = asset_identity right;
          low = (\<lambda>why. \<lparr>sr_score = 0, sr_tier = ''low'', sr_reasons = [why], sr_evidence = []\<rparr>)
      in if la \<noteq> [] \<and> ra \<noteq> []
         then (if la \<noteq> ra then low ''asset_mismatch''
               else score_matched s left right [''asset_match''] [(''asset_identity'', JStr la)])
         else if both_equal (norm_value (f_correlation_key left)) (norm_value (f_correlation_key right))
         then score_matched s left right [''asset_missing_but_key_match''] []
         else low ''asset_missing'')"

section \<open>The score of a pair\<close>

definition same_key :: "finding \<Rightarrow> finding \<Rightarrow> bool" where
  "same_key l r = both_equal (norm_value (f_correlation_key l)) (norm_value (f_correlation_key r))"

definition asset_mismatch :: "finding \<Rightarrow> finding \<Rightarrow> bool" where
  "asset_mismatch l r = (asset_identity l \<noteq> [] \<and> asset_identity r \<noteq> [] \<and> asset_identity l \<noteq> asset_identity r)"

lemma pair_score_tiers:
  "0 \<le> pair_score k c u h b \<and> pair_score k c u h b \<le> 100 \<and>
   (tier_of (pair_score k c u h b) \<in> {''high'', ''medium''} \<longleftrightarrow> k) \<and>
   (tier_of (pair_score k c u h b) = ''high'' \<longleftrightarrow> k \<and> (c \<or> u \<or> h \<or> b))"
  by (cases k; cases c; cases u; cases h; cases b)
    (simp_all add: pair_score_def tier_of_def HIGH_THRESHOLD_def MEDIUM_THRESHOLD_def)

lemma shared_pairs_Nil: "shared_pairs xs ys = [] \<longleftrightarrow> set xs \<inter> set ys = {}"
  by (auto simp: shared_pairs_def dict_keys_def filter_empty_conv)

lemma score_low:
  assumes "asset_mismatch l r \<or> (\<not> (asset_identity l \<noteq> [] \<and> asset_identity r \<noteq> []) \<and> \<not> same_key l r)"
  shows "sr_score (score_finding_pair s l r) = 0" "sr_tier (score_finding_pair s l r) = ''low''"
  using assms by (auto simp: score_finding_pair_def asset_mismatch_def same_key_def Let_def)

lemma score_gated:
  assumes "\<not> (asset_mismatch l r \<or> (\<not> (asset_identity l \<noteq> [] \<and> asset_identity r \<noteq> []) \<and> \<not> same_key l r))"
    and "p = pair_score (same_key l r) (both_equal (norm_value (Some (f_cve_id l))) (norm_value (Some (f_cve_id r))))
      (both_equal (rule_of l) (rule_of r))
      (set (identifiers_with_facts s l) \<inter> set (identifiers_with_facts s r) \<noteq> {})
      (identifiers_crosswalk_match s (identifiers_with_facts s l) (identifiers_with_facts s r) \<noteq> [])"
  shows "sr_score (score_finding_pair s l r) = p" "sr_tier (score_finding_pair s l r) = tier_of p"
proof -
  have "\<exists>w e. score_finding_pair s l r = score_matched s l r w e"
    using assms(1) by (cases "asset_identity l = []"; cases "asset_identity r = []")
      (auto simp: score_finding_pair_def asset_mismatch_def same_key_def Let_def)
  then obtain w e where "score_finding_pair s l r = score_matched s l r w e" by blast
  moreover have "sr_score (score_matched s l r w e) = p" "sr_tier (score_matched s l r w e) = tier_of p"
    unfolding assms(2) by (simp_all add: score_matched_def same_key_def Let_def shared_pairs_Nil)
  ultimately show "sr_score (score_finding_pair s l r) = p" "sr_tier (score_finding_pair s l r) = tier_of p" by simp_all
qed

lemma score_gate:
  "sr_tier (score_finding_pair s l r) \<in> {''high'', ''medium''} \<longleftrightarrow> same_key l r \<and> \<not> asset_mismatch l r"
proof (cases "asset_mismatch l r \<or> (\<not> (asset_identity l \<noteq> [] \<and> asset_identity r \<noteq> []) \<and> \<not> same_key l r)")
  case True
  then show ?thesis using score_low(2) [OF True, of s] by auto
next
  case False
  then show ?thesis unfolding score_gated(2) [OF False refl] using pair_score_tiers by blast
qed

text \<open>
  C37. A score lies between 0 and 1. Without the same correlation key, or with two different
  assets, no combination of matching facts reaches the linking threshold; with the same key on
  matching (or missing) assets the pair is always linked, and the link is of high confidence exactly
  when at least one further fact agrees.
\<close>

theorem score_bounds_and_gate:
  "0 \<le> sr_score (score_finding_pair s l r) \<and> sr_score (score_finding_pair s l r) \<le> 100 \<and>
   (sr_tier (score_finding_pair s l r) \<in> {''high'', ''medium''} \<longleftrightarrow> same_key l r \<and> \<not> asset_mismatch l r) \<and>
   (sr_tier (score_finding_pair s l r) = ''high'' \<longleftrightarrow>
      same_key l r \<and> \<not> asset_mismatch l r \<and>
      (both_equal (norm_value (Some (f_cve_id l))) (norm_value (Some (f_cve_id r))) \<or>
       both_equal (rule_of l) (rule_of r) \<or>
       set (identifiers_with_facts s l) \<inter> set (identifiers_with_facts s r) \<noteq> {} \<or>
       identifiers_crosswalk_match s (identifiers_with_facts s l) (identifiers_with_facts s r) \<noteq> []))"
proof (cases "asset_mismatch l r \<or> (\<not> (asset_identity l \<noteq> [] \<and> asset_identity r \<noteq> []) \<and> \<not> same_key l r)")
  case True
  then show ?thesis using score_low [OF True, of s] by auto
next
  case False
  let ?k = "same_key l r" and ?c = "both_equal (norm_value (Some (f_cve_id l))) (norm_value (Some (f_cve_id r)))"
    and ?u = "both_equal (rule_of l) (rule_of r)"
    and ?h = "set (identifiers_with_facts s l) \<inter> set (identifiers_with_facts s r) \<noteq> {}"
    and ?b = "identifiers_crosswalk_match s (identifiers_with_facts s l) (identifiers_with_facts s r) \<noteq> []"
  have "\<not> asset_mismatch l r" using False by blast
  then show ?thesis unfolding score_gated [OF False refl] using pair_score_tiers [of ?k ?c ?u ?h ?b] by blast
qed

section \<open>The crosswalk table\<close>

text \<open>Stored crosswalk rows are normalised and unique.\<close>

definition normed :: "string \<Rightarrow> bool" where
  "normed v = (v \<noteq> [] \<and> norm_value (Some v) = v)"

definition crosswalk_row_ok :: "crosswalk_entry \<Rightarrow> bool" where
  "crosswalk_row_ok r =
     (normed (cw_from_namespace r) \<and> normed (cw_from_value r) \<and> normed (cw_to_namespace r) \<and> normed (cw_to_value r))"

definition crosswalks_ok :: "session \<Rightarrow> bool" where
  "crosswalks_ok s = (distinct (map cw_key (s_crosswalks s)) \<and> (\<forall>r \<in> set (s_crosswalks s). crosswalk_row_ok r))"

definition crosswalk_edge :: "session \<Rightarrow> string \<times> string \<Rightarrow> string \<times> string \<Rightarrow> bool" where
  "crosswalk_edge s p q =
     (\<exists>r \<in> set (s_crosswalks s). cw_active r \<and> (cw_from_namespace r, cw_from_value r) = p \<and>
        (cw_to_namespace r, cw_to_value r) = q)"

lemma norm_value_idem [simp]: "norm_value (Some (norm_value v)) = norm_value v"
  by (simp add: norm_value_def lower_strip)

lemma set_order_by_desc [simp]: "set (order_by_desc k xs) = set xs"
  by (simp add: order_by_desc_def)

lemma forward_matches_iff:
  assumes "crosswalks_ok s"
  shows "forward_matches s T p \<noteq> [] \<longleftrightarrow> (\<exists>q \<in> T. crosswalk_edge s (norm_pair p) q)"
proof -
  obtain fns fval where p: "norm_pair p = (fns, fval)" by fastforce
  then have "norm_value (Some fns) = fns" "norm_value (Some fval) = fval" by (auto simp: norm_pair_def)
  then show ?thesis
    using assms p
    by (auto simp: forward_matches_def resolve_crosswalk_values_def crosswalk_edge_def crosswalks_ok_def
        crosswalk_row_ok_def normed_def norm_pair_def truthy_def filter_empty_conv Let_def)
qed

lemma backward_matches_iff:
  assumes "crosswalks_ok s"
  shows "backward_matches s T p \<noteq> [] \<longleftrightarrow> (\<exists>q \<in> T. crosswalk_edge s (norm_pair p) q)"
  using assms
  by (auto simp: backward_matches_def crosswalk_edge_def crosswalks_ok_def crosswalk_row_ok_def normed_def
      norm_pair_def filter_empty_conv Let_def)

lemma known_values_iff:
  assumes "crosswalks_ok s"
  shows "(\<exists>q \<in> known_values ps. crosswalk_edge s p q) \<longleftrightarrow> (\<exists>q \<in> norm_pair ` set ps. crosswalk_edge s p q)"
proof
  assume "\<exists>q \<in> norm_pair ` set ps. crosswalk_edge s p q"
  then obtain q where q: "q \<in> set ps" "crosswalk_edge s p (norm_pair q)" by blast
  then have "norm_value (Some (snd q)) \<noteq> []"
    using assms by (auto simp: crosswalk_edge_def crosswalks_ok_def crosswalk_row_ok_def normed_def norm_pair_def)
  with q(1) have "norm_pair q \<in> known_values ps" by (simp add: known_values_def)
  with q(2) show "\<exists>q \<in> known_values ps. crosswalk_edge s p q" by blast
qed (auto simp: known_values_def)

text \<open>With normalised rows a bridge is found exactly when a row leads from one side to the other.\<close>

lemma crosswalk_match_iff:
  assumes "crosswalks_ok s"
  shows "identifiers_crosswalk_match s l r \<noteq> [] \<longleftrightarrow>
    (\<exists>p \<in> norm_pair ` set l. \<exists>q \<in> norm_pair ` set r. crosswalk_edge s p q \<or> crosswalk_edge s q p)"
proof -
  have f: "concat (map (forward_matches s (known_values r)) l) \<noteq> [] \<longleftrightarrow>
      (\<exists>p \<in> norm_pair ` set l. \<exists>q \<in> norm_pair ` set r. crosswalk_edge s p q)"
    using forward_matches_iff [OF assms] known_values_iff [OF assms] by simp
  have b: "concat (map (backward_matches s (known_values l)) r) \<noteq> [] \<longleftrightarrow>
      (\<exists>q \<in> norm_pair ` set r. \<exists>p \<in> norm_pair ` set l. crosswalk_edge s q p)"
    using backward_matches_iff [OF assms] known_values_iff [OF assms] by simp
  have e: "concat (map (backward_matches s (known_values l)) r) = []" if "known_values l = {}"
    using that backward_matches_iff [OF assms, of "{}"] by simp
  show ?thesis
  proof (cases "l = [] \<or> r = []")
    case True
    then show ?thesis by (auto simp: identifiers_crosswalk_match_def)
  next
    case False
    then have "identifiers_crosswalk_match s l r \<noteq> [] \<longleftrightarrow>
        concat (map (forward_matches s (known_values r)) l) \<noteq> [] \<or>
        concat (map (backward_matches s (known_values l)) r) \<noteq> []"
      using e by (auto simp: identifiers_crosswalk_match_def Let_def)
    then show ?thesis unfolding f b by blast
  qed
qed

text \<open>
  Scoring is symmetric: on a normalised crosswalk table, which finding is taken as the canonical
  one changes neither the score nor the tier.
\<close>

lemma score_symmetric:
  assumes "crosswalks_ok s"
  shows "sr_score (score_finding_pair s l r) = sr_score (score_finding_pair s r l) \<and>
    sr_tier (score_finding_pair s l r) = sr_tier (score_finding_pair s r l)"
proof -
  have b: "both_equal x y = both_equal y x" for x y by (auto simp: both_equal_def)
  have m: "(identifiers_crosswalk_match s x y = []) = (identifiers_crosswalk_match s y x = [])" for x y
    using crosswalk_match_iff [OF assms, of x y] crosswalk_match_iff [OF assms, of y x] by blast
  have sc: "sr_score (score_matched s l r w e) = sr_score (score_matched s r l w' e')" for w e w' e'
    using b [of "rule_of l" "rule_of r"] b [of "norm_value (Some (f_cve_id l))" "norm_value (Some (f_cve_id r))"]
      b [of "norm_value (f_correlation_key l)" "norm_value (f_correlation_key r)"]
      m [of "identifiers_with_facts s l" "identifiers_with_facts s r"]
    by (simp add: score_matched_def Let_def shared_pairs_Nil Int_commute)
  have "sr_tier (score_finding_pair s x y) = tier_of (sr_score (score_finding_pair s x y))" for x y
    by (auto simp: score_finding_pair_def score_matched_def tier_of_def MEDIUM_THRESHOLD_def HIGH_THRESHOLD_def Let_def)
  moreover have "sr_score (score_finding_pair s l r) = sr_score (score_finding_pair s r l)"
    using b [of "norm_value (f_correlation_key l)" "norm_value (f_correlation_key r)"]
    by (auto simp: score_finding_pair_def Let_def intro: sc)
  ultimately show ?thesis by simp
qed

section \<open>Ingesting a crosswalk\<close>

lemma norm_json_normed: "norm_json j \<noteq> [] \<Longrightarrow> normed (norm_json j)"
  by (simp add: normed_def norm_json_def norm_value_def lower_strip)

lemma entry_key_ok:
  assumes "entry_key src ver e = Some k" and "cw_key r = k"
  shows "crosswalk_row_ok r"
proof -
  have "cw_from_namespace r = norm_json (jget ''from_namespace'' e)" "cw_from_value r = norm_json (jget ''from_value'' e)"
      "cw_to_namespace r = norm_json (jget ''to_namespace'' e)" "cw_to_value r = norm_json (jget ''to_value'' e)"
      "cw_from_namespace r \<noteq> []" "cw_from_value r \<noteq> []" "cw_to_namespace r \<noteq> []" "cw_to_value r \<noteq> []"
    using assms by (auto simp: entry_key_def cw_key_def Let_def split: if_splits)
  then show ?thesis by (simp add: crosswalk_row_ok_def norm_json_normed)
qed

definition counts_step :: "run_counts \<Rightarrow> run_counts \<Rightarrow> bool \<Rightarrow> nat \<Rightarrow> bool" where
  "counts_step n m rejected added =
     (rc_inserted m = rc_inserted n + added \<and> rc_rejected m = rc_rejected n + of_bool rejected \<and>
      rc_inserted m + rc_updated m + rc_rejected m = rc_inserted n + rc_updated n + rc_rejected n + 1)"

lemma ingest_entry_effect:
  assumes "crosswalks_ok s" and "ingest_entry E rid src ver e (n, s) = (m, t)"
  shows "crosswalks_ok t \<and>
    cw_key ` set (s_crosswalks t) = cw_key ` set (s_crosswalks s) \<union> set_option (entry_key src ver e) \<and>
    length (s_crosswalks s) \<le> length (s_crosswalks t) \<and>
    counts_step n m (entry_key src ver e = None) (length (s_crosswalks t) - length (s_crosswalks s)) \<and>
    s_crosswalk_runs t = s_crosswalk_runs s"
proof (cases "entry_key src ver e")
  case None
  then show ?thesis using assms by (auto simp: ingest_entry_def counts_step_def)
next
  case (Some k)
  obtain c where c: "wc_key c = k" "s_crosswalks t = crosswalk_upsert c (s_crosswalks s)"
      "s_crosswalk_runs t = s_crosswalk_runs s"
      "m = (if tbl_get cw_key k (s_crosswalks s) = None then n\<lparr>rc_inserted := rc_inserted n + 1\<rparr>
            else n\<lparr>rc_updated := rc_updated n + 1\<rparr>)"
    using assms(2) Some
    by (intro that [of "\<lparr>wc_key = k, wc_id = Suc (length (s_crosswalks s)), wc_run_id = rid, wc_entry = e,
        wc_t1 = env_clock E (s_clk s), wc_t2 = env_clock E (Suc (s_clk s)), wc_t3 = env_clock E (Suc (Suc (s_clk s)))\<rparr>"])
      (auto simp: ingest_entry_def utcnow_def Let_def)
  have d: "distinct (map cw_key (s_crosswalks s))" and ok: "\<forall>r \<in> set (s_crosswalks s). crosswalk_row_ok r"
    using assms(1) by (auto simp: crosswalks_ok_def)
  have "crosswalk_row_ok r" if "r \<in> set (s_crosswalks t)" for r
    using crosswalk_table.set_upsert [OF d, of c] that c(1,2) ok entry_key_ok [OF Some]
      tbl_get_Some [OF crosswalk_table.get_same [of c "s_crosswalks s"]] by auto
  moreover have "length (s_crosswalks t) =
      length (s_crosswalks s) + of_bool (tbl_get cw_key k (s_crosswalks s) = None)"
    using c(1,2) by (simp add: tbl_upsert_def split: option.splits)
  ultimately show ?thesis
    using crosswalk_table.distinct_keys [OF d, of c] crosswalk_table.keys_upsert [of c "s_crosswalks s"] c Some
    by (auto simp: crosswalks_ok_def counts_step_def)
qed

lemma ingest_entries_effect:
  assumes "crosswalks_ok s" and "fold (ingest_entry E rid src ver) es (n, s) = (m, t)"
  shows "crosswalks_ok t \<and>
    cw_key ` set (s_crosswalks t) = cw_key ` set (s_crosswalks s) \<union> (\<Union>e \<in> set es. set_option (entry_key src ver e)) \<and>
    length (s_crosswalks t) + rc_inserted n = length (s_crosswalks s) + rc_inserted m \<and>
    rc_rejected m = rc_rejected n + length (filter (\<lambda>e. entry_key src ver e = None) es) \<and>
    rc_inserted m + rc_updated m + rc_rejected m = rc_inserted n + rc_updated n + rc_rejected n + length es"
  using assms
proof (induction es arbitrary: n s)
  case (Cons e es)
  obtain n1 s1 where 1: "ingest_entry E rid src ver e (n, s) = (n1, s1)" by fastforce
  note x = ingest_entry_effect [OF Cons.prems(1) 1]
  have "fold (ingest_entry E rid src ver) es (n1, s1) = (m, t)" using Cons.prems(2) 1 by simp
  from Cons.IH [OF _ this] x show ?case by (auto simp: counts_step_def)
qed simp

lemma ingest_run_effect:
  assumes "crosswalks_ok s" and "ingest_crosswalk_entries E src ver es who tr s = (run, s')"
  shows "\<exists>m. cr_stats run = run_stats m \<and> crosswalks_ok s' \<and>
    cw_key ` set (s_crosswalks s') = cw_key ` set (s_crosswalks s) \<union> (\<Union>e \<in> set es. set_option (entry_key src ver e)) \<and>
    length (s_crosswalks s') = length (s_crosswalks s) + rc_inserted m \<and>
    rc_rejected m = length (filter (\<lambda>e. entry_key src ver e = None) es) \<and>
    rc_inserted m + rc_updated m + rc_rejected m = length es"
proof -
  obtain rid x m t where f: "fold (ingest_entry E rid src ver) es (\<lparr>rc_inserted = 0, rc_updated = 0, rc_rejected = 0\<rparr>, x) = (m, t)"
      and x: "s_crosswalks x = s_crosswalks s" and r: "cr_stats run = run_stats m" and s': "s_crosswalks s' = s_crosswalks t"
    using assms(2)
    by (auto simp: ingest_crosswalk_entries_def uuid4_hex_def utcnow_def Let_def split: prod.splits)
  have "crosswalks_ok x" using assms(1) x by (simp add: crosswalks_ok_def)
  from ingest_entries_effect [OF this f] show ?thesis
    using x r s' by (intro exI [of _ m]) (simp add: crosswalks_ok_def)
qed

text \<open>
  A crosswalk run accounts for every entry (inserted, updated or rejected, and rejected exactly when a
  field is blank), leaves the table normalised and free of duplicates, holding the old mappings and
  the valid new ones, and running the same entries again inserts nothing.
\<close>

lemma crosswalk_ingest_accounted:
  assumes "crosswalks_ok s" and "ingest_crosswalk_entries E src ver es by1 tr s = (run, s')"
    and "ingest_crosswalk_entries E src ver es by2 tr2 s' = (run2, s'')"
  shows "\<exists>n n2. cr_stats run = run_stats n \<and> rc_inserted n + rc_updated n + rc_rejected n = length es \<and>
    rc_rejected n = length (filter (\<lambda>e. entry_key src ver e = None) es) \<and> crosswalks_ok s' \<and>
    cw_key ` set (s_crosswalks s') =
      cw_key ` set (s_crosswalks s) \<union> (\<Union>e \<in> set es. set_option (entry_key src ver e)) \<and>
    cr_stats run2 = run_stats n2 \<and> rc_inserted n2 = 0 \<and> rc_rejected n2 = rc_rejected n"
proof -
  obtain n t where n: "crosswalks_ok s'" "cr_stats run = run_stats n"
      "cw_key ` set (s_crosswalks s') = cw_key ` set (s_crosswalks s) \<union> (\<Union>e \<in> set es. set_option (entry_key src ver e))"
      "rc_rejected n = length (filter (\<lambda>e. entry_key src ver e = None) es)"
      "rc_inserted n + rc_updated n + rc_rejected n = length es"
    using ingest_run_effect [OF assms(1,2)] by blast
  obtain n2 where n2: "crosswalks_ok s''" "cr_stats run2 = run_stats n2"
      "cw_key ` set (s_crosswalks s'') = cw_key ` set (s_crosswalks s') \<union> (\<Union>e \<in> set es. set_option (entry_key src ver e))"
      "rc_rejected n2 = length (filter (\<lambda>e. entry_key src ver e = None) es)"
      "length (s_crosswalks s'') = length (s_crosswalks s') + rc_inserted n2"
    using ingest_run_effect [OF n(1) assms(3)] by blast
  have len: "length (s_crosswalks x) = card (cw_key ` set (s_crosswalks x))" if "crosswalks_ok x" for x
    using that distinct_card [of "map cw_key (s_crosswalks x)"] by (simp add: crosswalks_ok_def)
  have "cw_key ` set (s_crosswalks s'') = cw_key ` set (s_crosswalks s')"
    unfolding n2(3) n(3) Un_assoc Un_absorb ..
  then have "length (s_crosswalks s'') = length (s_crosswalks s')"
    unfolding len [OF n2(1)] len [OF n(1)] by (rule arg_cong)
  then have 0: "rc_inserted n2 = 0" using n2(5) by linarith
  have r: "rc_rejected n2 = rc_rejected n" using n(4) n2(4) by simp
  show ?thesis by (intro exI [of _ n] exI [of _ n2] conjI n n2 0 r)
qed

definition demo_entries :: "json_object list" where
  "demo_entries =
     [[(''from_namespace'', JStr ''cve_id''), (''from_value'', JStr ''CVE-2024-1''), (''to_namespace'', JStr ''rule_id''),
       (''to_value'', JStr ''R1'')], [(''from_namespace'', JStr '' '')]]"

definition demo_bridged :: session where
  "demo_bridged = snd (ingest_crosswalk_entries demo_env ''nvd'' ''1'' demo_entries None None empty_session)"

lemma demo_bridged_ok: "crosswalks_ok demo_bridged"
proof -
  have "crosswalks_ok empty_session" by (simp add: crosswalks_ok_def)
  from ingest_run_effect [OF this, of demo_env "''nvd''" "''1''" demo_entries None None]
  show ?thesis by (metis demo_bridged_def prod.collapse)
qed

text \<open>Two findings with one correlation key, one asset and one CVE.\<close>

definition demo_keyed :: finding where
  "demo_keyed = demo_finding\<lparr>f_correlation_key := Some ''k1''\<rparr>"

theorem score_bounds_and_gate_witness:
  "sr_score (score_finding_pair empty_session demo_keyed demo_keyed) \<le> 100 \<and>
   sr_tier (score_finding_pair empty_session demo_keyed demo_keyed) = ''high'' \<and>
   \<not> sr_tier (score_finding_pair empty_session demo_keyed demo_finding) \<in> {''high'', ''medium''}"
proof -
  have "same_key demo_keyed demo_keyed" "\<not> asset_mismatch demo_keyed demo_keyed" "\<not> same_key demo_keyed demo_finding"
    "both_equal (norm_value (Some (f_cve_id demo_keyed))) (norm_value (Some (f_cve_id demo_keyed)))" by code_simp+
  then show ?thesis
    using score_bounds_and_gate [of empty_session demo_keyed demo_keyed] score_bounds_and_gate [of empty_session demo_keyed demo_finding]
    by blast
qed

end
