(* ===== verification/Vat_Linking.thy ===== *)
theory Vat_Linking
  imports Vat_Scoring
begin

text \<open>
  \<open>services/correlation_linking.py\<close>: after an ingest the findings with the same correlation key and
  tenant form a cluster; every member that passes the score gate is linked to the oldest one. The
  service sets \<open>correlated_to\<close> and the edges and changes nothing else. Row locks have no effect on
  a single session.
\<close>

section \<open>The cluster\<close>

definition select_correlation_cluster :: "session \<Rightarrow> string \<Rightarrow> string option \<Rightarrow> finding list" where
  "select_correlation_cluster s correlation_key tenant_id =
     sort_key f_created_at (sort_key f_id
       (filter (\<lambda>r. f_correlation_key r = Some correlation_key \<and> coalesced_tenant_equals (f_tenant_id r) tenant_id)
          (s_findings s)))"

section \<open>Events\<close>

definition link_event ::
  "string \<Rightarrow> string option \<Rightarrow> string option \<Rightarrow> string \<Rightarrow> string \<Rightarrow> string \<Rightarrow> string \<Rightarrow> string \<Rightarrow> json_object \<Rightarrow> event_args" where
  "link_event tid source_id parser_id event_type fid reason confidence result data =
     event_defaults\<lparr>ea_trace_id := tid, ea_event_type := event_type, ea_actor_type := ''system'',
       ea_source_id := source_id, ea_parser_id := parser_id, ea_finding_id := Some fid,
       ea_decision_name := Some ''correlation_link'', ea_decision_reason_code := Some reason,
       ea_decision_confidence := Some confidence, ea_decision_result := Some result, ea_data := data\<rparr>"

abbreviation skip_event ::
  "string \<Rightarrow> string option \<Rightarrow> string option \<Rightarrow> string \<Rightarrow> string \<Rightarrow> string \<Rightarrow> json_object \<Rightarrow> event_args" where
  "skip_event tid src p fid reason confidence data \<equiv>
     link_event tid src p ''dedup.correlation.skipped'' fid reason confidence ''skipped'' data"

section \<open>Linking the members\<close>

text \<open>What happened to a member: its id, whether it was linked, and its score.\<close>

type_synonym link_outcome = "string \<times> bool \<times> int"

definition link_edge_args ::
  "string \<Rightarrow> string option \<Rightarrow> string option \<Rightarrow> string \<Rightarrow> string \<Rightarrow> string \<Rightarrow> score_result \<Rightarrow> edge_args" where
  "link_edge_args tid source_id parser_id key cid rid d =
     \<lparr>ua_left = cid, ua_right = rid, ua_edge_type = ''same_correlation_key'', ua_confidence = sr_tier d,
      ua_evidence = [(''correlation_key'', JStr key), (''score'', JFloat (sr_score d)),
        (''reasons'', JList (map JStr (sr_reasons d))),
        (''crosswalk_matches'', jget_default ''crosswalk_matches'' (JList []) (sr_evidence d))],
      ua_created_by = Some ''system'', ua_operation_id = None, ua_trace_id = Some tid,
      ua_source_id = source_id, ua_parser_id = parser_id\<rparr>"

definition set_correlated :: "string \<Rightarrow> finding \<Rightarrow> session \<Rightarrow> session" where
  "set_correlated cid row s =
     (if f_correlated_to row \<noteq> Some cid then put_finding (row\<lparr>f_correlated_to := Some cid\<rparr>) s else s)"

fun link_rows ::
  "env \<Rightarrow> string \<Rightarrow> string option \<Rightarrow> string option \<Rightarrow> string \<Rightarrow> finding \<Rightarrow> finding list \<Rightarrow>
   link_outcome list \<times> session \<Rightarrow> py_error + (link_outcome list \<times> session)" where
  "link_rows E tid src p key canonical [] acc = Inr acc"
| "link_rows E tid src p key canonical (row # rows) (out, s) =
     (let d = score_finding_pair s canonical row
      in if sr_tier d \<in> {''high'', ''medium''}
         then case upsert_edge E (link_edge_args tid src p key (f_id canonical) (f_id row) d)
                     (set_correlated (f_id canonical) row s) of
                Inl e \<Rightarrow> Inl e
              | Inr (_, s1) \<Rightarrow> link_rows E tid src p key canonical rows (out @ [(f_id row, True, sr_score d)], s1)
         else link_rows E tid src p key canonical rows (out @ [(f_id row, False, sr_score d)], s))"

text \<open>The closing event, about the ingested finding only.\<close>

definition outcome_event ::
  "string \<Rightarrow> string option \<Rightarrow> string option \<Rightarrow> string \<Rightarrow> string \<Rightarrow> finding \<Rightarrow> link_outcome list \<Rightarrow> event_args" where
  "outcome_event tid src p key cid f out =
     (if f_id f = cid
      then skip_event tid src p (f_id f) ''cluster_root'' ''high''
             [(''finding_id'', JStr (f_id f)), (''canonical_finding_id'', JStr cid), (''correlation_key'', JStr key)]
      else case map_of out (f_id f) of
             Some (False, score) \<Rightarrow>
               skip_event tid src p (f_id f) ''score_below_policy''
                 (let conf = py_lower (py_strip (or_empty (f_correlation_confidence f))) in if conf = [] then ''low'' else conf)
                 [(''canonical_finding_id'', JStr cid), (''correlation_key'', JStr key), (''score'', JFloat score)]
           | other \<Rightarrow>
               link_event tid src p ''dedup.correlation.linked'' (f_id f) ''same_correlation_key''
                 (case other of Some (_, score) \<Rightarrow> if score < 85 then ''medium'' else ''high'' | None \<Rightarrow> ''high'') ''linked''
                 [(''canonical_finding_id'', JStr cid), (''correlation_key'', JStr key),
                  (''score'', case other of Some (_, score) \<Rightarrow> JFloat score | None \<Rightarrow> JNull)])"

definition apply_correlation_linking ::
  "env \<Rightarrow> finding \<Rightarrow> string option \<Rightarrow> string option \<Rightarrow> string option \<Rightarrow> session \<Rightarrow> py_error + session" where
  "apply_correlation_linking E f trace_id source_id parser_id s =
     (let (tid, s1) = trace_or_new E trace_id s; key = or_empty (f_correlation_key f);
          emit = (\<lambda>a t. snd (emit_audit_event E a t))
      in if key = []
         then Inr (emit (skip_event tid source_id parser_id (f_id f) ''no_correlation_key'' ''high''
                     [(''finding_id'', JStr (f_id f))]) s1)
         else let cluster = select_correlation_cluster s1 key (f_tenant_id f)
              in if f_id f \<notin> f_id ` set cluster
                 then Inr (emit (skip_event tid source_id parser_id (f_id f) ''cluster_membership_mismatch'' ''high''
                            [(''finding_id'', JStr (f_id f)), (''correlation_key'', JStr key),
                             (''cluster_size'', JInt (int (length cluster)))]) s1)
                 else if length cluster \<le> 1
                 then Inr (emit (skip_event tid source_id parser_id (f_id f) ''no_peer'' ''high''
                            [(''finding_id'', JStr (f_id f)), (''correlation_key'', JStr key)]) s1)
                 else case link_rows E tid source_id parser_id key (hd cluster) (tl cluster) ([], s1) of
                        Inl e \<Rightarrow> Inl e
                      | Inr (out, s2) \<Rightarrow> Inr (emit (outcome_event tid source_id parser_id key (f_id (hd cluster)) f out) s2))"

section \<open>Linking is complete and changes nothing else\<close>

definition linked_to :: "finding \<Rightarrow> finding list \<Rightarrow> finding \<Rightarrow> finding" where
  "linked_to c rows r = (if r \<in> set rows \<and> \<not> asset_mismatch c r then r\<lparr>f_correlated_to := Some (f_id c)\<rparr> else r)"

definition linked_pairs :: "finding \<Rightarrow> finding list \<Rightarrow> string set set" where
  "linked_pairs c rows = (\<lambda>r. {f_id c, f_id r}) ` {r \<in> set rows. \<not> asset_mismatch c r}"

lemma emit_frame [simp]:
  "s_findings (snd (emit_audit_event E a s)) = s_findings s"
  "s_identifiers (snd (emit_audit_event E a s)) = s_identifiers s"
  "s_crosswalks (snd (emit_audit_event E a s)) = s_crosswalks s"
  by (simp_all add: emit_audit_event_def store_event_def uuid4_hex_def utcnow_def Let_def split: option.splits)

lemma trace_frame [simp]: "s_findings (snd (trace_or_new E tr s)) = s_findings s"
  by (simp add: trace_or_new_def new_trace_id_def uuid4_hex_def)

lemma upsert_edge_findings:
  assumes "upsert_edge E u s = Inr (e, t)"
  shows "s_findings t = s_findings s"
proof -
  have "s_findings (snd (operation_or_new E op s)) = s_findings s" for op
    by (simp add: operation_or_new_def uuid4_hex_def)
  then show ?thesis
    using assms by (auto simp: upsert_edge_def utcnow_def case_prod_beta Let_def split: sum.splits if_splits)
qed

lemma edges_set_correlated [simp]: "s_edges (set_correlated c r s) = s_edges s"
  by (simp add: set_correlated_def put_finding_def)

lemma findings_set_correlated:
  assumes "distinct (map f_id (s_findings s))" and "r \<in> set (s_findings s)"
  shows "s_findings (set_correlated c r s) =
    map (\<lambda>x. if x = r then r\<lparr>f_correlated_to := Some c\<rparr> else x) (s_findings s)"
proof -
  have "f_id x = f_id r \<longleftrightarrow> x = r" if "x \<in> set (s_findings s)" for x
    using inj_on_eq_iff [of f_id "set (s_findings s)" x r] assms that by (auto simp: distinct_map)
  then show ?thesis
    by (auto simp: set_correlated_def put_finding_def tbl_update_def map_idI)
qed

lemma link_rows_effect:
  assumes "edges_ok E F s" and "f_id c \<in> F" and "f_id ` set rows \<subseteq> F - {f_id c}" and "distinct (map f_id rows)"
    and "\<forall>r \<in> set rows. same_key c r" and "distinct (map f_id (s_findings s))" and "set rows \<subseteq> set (s_findings s)"
  shows "\<exists>out' t. link_rows E tid src p key c rows (out, s) = Inr (out', t) \<and> edges_ok E F t \<and>
    active_pairs t = active_pairs s \<union> linked_pairs c rows \<and> s_findings t = map (linked_to c rows) (s_findings s)"
  using assms
proof (induction rows arbitrary: out s)
  case Nil
  then show ?case by (auto simp: linked_pairs_def linked_to_def map_idI)
next
  case (Cons r rows)
  let ?d = "score_finding_pair s c r"
  have r: "f_id r \<in> F" "f_id r \<noteq> f_id c" "r \<in> set (s_findings s)" "same_key c r" "r \<notin> set rows"
    using Cons.prems(3-5,7) by auto
  show ?case
  proof (cases "asset_mismatch c r")
    case True
    then have "sr_tier ?d \<notin> {''high'', ''medium''}" using score_gate by blast
    then have "link_rows E tid src p key c (r # rows) (out, s) =
        link_rows E tid src p key c rows (out @ [(f_id r, False, sr_score ?d)], s)" by (simp add: Let_def)
    moreover have "linked_pairs c (r # rows) = linked_pairs c rows" "linked_to c (r # rows) = linked_to c rows"
      using True by (auto simp: linked_pairs_def linked_to_def fun_eq_iff)
    ultimately show ?thesis
      using Cons.IH [OF Cons.prems(1,2), of "out @ [(f_id r, False, sr_score ?d)]"] Cons.prems by simp
  next
    case False
    let ?u = "link_edge_args tid src p key (f_id c) (f_id r) ?d"
    let ?s = "set_correlated (f_id c) r s"
    have ok: "edges_ok E F ?s" using Cons.prems(1) by (simp add: edges_ok_def)
    have "valid_ids F (ua_left ?u) (ua_right ?u)"
      using Cons.prems(2) r by (simp add: valid_ids_def link_edge_args_def)
    from upsert_edge_effect [OF ok this] obtain e s1 where
        u: "upsert_edge E ?u ?s = Inr (e, s1)" "edges_ok E F s1"
          "active_pairs s1 = insert {f_id c, f_id r} (active_pairs s)"
      by (auto simp: link_edge_args_def active_pairs_def)
    have f1: "s_findings s1 = map (\<lambda>x. if x = r then r\<lparr>f_correlated_to := Some (f_id c)\<rparr> else x) (s_findings s)"
      using upsert_edge_findings [OF u(1)] findings_set_correlated [OF Cons.prems(6) r(3)] by simp
    have ids: "map f_id (s_findings s1) = map f_id (s_findings s)" by (auto simp: f1)
    have sub: "set rows \<subseteq> set (s_findings s1)" using Cons.prems(7) r(5) by (auto simp: f1 image_iff)
    have "sr_tier ?d \<in> {''high'', ''medium''}" using score_gate False r(4) by blast
    then have "link_rows E tid src p key c (r # rows) (out, s) =
        link_rows E tid src p key c rows (out @ [(f_id r, True, sr_score ?d)], s1)"
      using u(1) by (simp add: Let_def)
    moreover obtain out' t where t: "link_rows E tid src p key c rows (out @ [(f_id r, True, sr_score ?d)], s1) = Inr (out', t)"
        "edges_ok E F t" "active_pairs t = active_pairs s1 \<union> linked_pairs c rows"
        "s_findings t = map (linked_to c rows) (s_findings s1)"
      using Cons.IH [OF u(2) Cons.prems(2), of "out @ [(f_id r, True, sr_score ?d)]"] Cons.prems ids sub by auto
    moreover have "insert {f_id c, f_id r} (linked_pairs c rows) = linked_pairs c (r # rows)"
      using False by (auto simp: linked_pairs_def)
    moreover have "map (linked_to c rows) (s_findings s1) = map (linked_to c (r # rows)) (s_findings s)"
    proof -
      define r' where "r' = r\<lparr>f_correlated_to := Some (f_id c)\<rparr>"
      have "f_id r' \<notin> f_id ` set rows" using Cons.prems(4) by (simp add: r'_def)
      then have "r' \<notin> set rows" by blast
      then have "linked_to c rows r' = r'" by (simp only: linked_to_def if_False simp_thms)
      moreover have "linked_to c (r # rows) x = (if x = r then r' else linked_to c rows x)" for x
        using False r(5) by (simp add: linked_to_def r'_def)
      ultimately show ?thesis by (simp add: f1 r'_def [symmetric])
    qed
    ultimately show ?thesis using u(3) by auto
  qed
qed

lemma cluster_sorted: "sorted (map f_created_at (select_correlation_cluster s k tn))"
  by (simp add: select_correlation_cluster_def)

lemma set_cluster:
  "set (select_correlation_cluster s k tn) =
     {r \<in> set (s_findings s). f_correlation_key r = Some k \<and> coalesced_tenant_equals (f_tenant_id r) tn}"
  by (auto simp: select_correlation_cluster_def)

lemma distinct_cluster: "distinct (map f_id (s_findings s)) \<Longrightarrow> distinct (map f_id (select_correlation_cluster s k tn))"
proof -
  assume "distinct (map f_id (s_findings s))"
  then have "distinct (s_findings s)" "inj_on f_id (set (s_findings s))" by (auto simp: distinct_map)
  moreover have "distinct (select_correlation_cluster s k tn)"
    using calculation(1) by (simp add: select_correlation_cluster_def)
  ultimately show ?thesis using set_cluster [of s k tn] by (auto simp: distinct_map intro: inj_on_subset)
qed

text \<open>
  C38. Linking after an ingest: for a stored finding with a (not blank) correlation key whose cluster has
  a peer, the call succeeds, the root is an oldest member, every other member on a matching
  asset is correlated to the root and joined to it by an active edge, and no other finding, no other
  column and no other edge changes.
\<close>

theorem cluster_linked_to_oldest:
  assumes "edges_ok E F s" and "f_id ` set (s_findings s) \<subseteq> F" and "distinct (map f_id (s_findings s))"
    and "f_correlation_key f = Some key" and "norm_value (Some key) \<noteq> []"
    and "select_correlation_cluster s key (f_tenant_id f) = c # rows" and "rows \<noteq> []" and "f \<in> set (c # rows)"
  shows "(\<forall>r \<in> set rows. f_created_at c \<le> f_created_at r) \<and>
    (\<exists>t. apply_correlation_linking E f tr src p s = Inr t \<and> edges_ok E F t \<and>
      s_findings t = map (linked_to c rows) (s_findings s) \<and>
      active_pairs t = active_pairs s \<union> linked_pairs c rows)"
proof -
  obtain tid s1 where tr: "trace_or_new E tr s = (tid, s1)" by fastforce
  have s1: "s_findings s1 = s_findings s" "s_edges s1 = s_edges s"
    using trace_frame [of E tr s] trace_edges [of E tr s] tr by simp_all
  have cl: "select_correlation_cluster s1 key (f_tenant_id f) = c # rows"
    using assms(6) s1 by (simp add: select_correlation_cluster_def)
  have sub: "set (c # rows) \<subseteq> set (s_findings s)" and k: "\<forall>r \<in> set (c # rows). f_correlation_key r = Some key"
    using set_cluster [of s key "f_tenant_id f"] assms(6) by auto
  have d: "distinct (map f_id (c # rows))" using distinct_cluster [OF assms(3)] assms(6) by metis
  have key: "\<forall>r \<in> set rows. same_key c r" using k assms(5) by (simp add: same_key_def both_equal_def)
  have "f_id ` set (c # rows) \<subseteq> F" using assms(2) sub by blast
  then have ids: "f_id c \<in> F" "f_id ` set rows \<subseteq> F - {f_id c}" using d by (simp_all add: subset_Diff_insert)
  have ok1: "edges_ok E F s1" and ac1: "active_pairs s1 = active_pairs s"
    using assms(1) s1(2) by (simp_all add: edges_ok_def active_pairs_def)
  obtain out t where t: "link_rows E tid src p key c rows ([], s1) = Inr (out, t)" "edges_ok E F t"
      "active_pairs t = active_pairs s \<union> linked_pairs c rows" "s_findings t = map (linked_to c rows) (s_findings s)"
    using link_rows_effect [OF ok1 ids _ key, of tid src p "key" "[]"] assms(3) s1(1) sub d ac1 by auto
  let ?t = "snd (emit_audit_event E (outcome_event tid src p key (f_id c) f out) t)"
  have "key \<noteq> []" using assms(5) by (auto simp: norm_value_def)
  moreover have "f_id f \<in> f_id ` set (c # rows)" using assms(8) by (rule imageI)
  ultimately have "apply_correlation_linking E f tr src p s = Inr ?t"
    using tr cl t(1) assms(4,7) by (simp add: apply_correlation_linking_def Let_def)
  moreover have "\<forall>r \<in> set rows. f_created_at c \<le> f_created_at r"
    using cluster_sorted [of s key "f_tenant_id f"] assms(6) by simp
  moreover have "edges_ok E F ?t" "active_pairs ?t = active_pairs t" using t(2) by (simp_all add: edges_ok_def active_pairs_def)
  ultimately show ?thesis using t(3,4) by simp
qed

definition demo_pair :: "finding list" where
  "demo_pair =
     [demo_finding\<lparr>f_correlation_key := Some ''k''\<rparr>,
      demo_finding\<lparr>f_id := ''F-2'', f_source := Some ''grype'', f_correlation_key := Some ''k'',
        f_created_at := DateTime 2026 1 2 0 0 0 0\<rparr>]"

theorem cluster_linked_to_oldest_witness:
  "\<exists>t. apply_correlation_linking demo_env (demo_pair ! 1) None None None (empty_session\<lparr>s_findings := demo_pair\<rparr>) = Inr t \<and>
     f_correlated_to (s_findings t ! 1) = Some ''F-1'' \<and> active_pairs t = {{''F-1'', ''F-2''}}"
proof -
  let ?s = "empty_session\<lparr>s_findings := demo_pair\<rparr>"
  have ok: "edges_ok demo_env demo_ids ?s" using demo_ids_ok by (simp add: edges_ok_def)
  have c: "select_correlation_cluster ?s ''k'' (f_tenant_id (demo_pair ! 1)) = [demo_pair ! 0, demo_pair ! 1]"
    by (simp add: select_correlation_cluster_def demo_pair_def demo_finding_def coalesced_tenant_equals_def
        normalize_tenant_id_def less_eq_datetime_def dt_key_def)
  have a: "\<not> asset_mismatch (demo_pair ! 0) (demo_pair ! 1)"
    by (simp add: asset_mismatch_def asset_identity_def demo_pair_def Let_def)
  have k: "norm_value (Some ''k'') \<noteq> []" by code_simp
  have "\<exists>t. apply_correlation_linking demo_env (demo_pair ! 1) None None None ?s = Inr t \<and> edges_ok demo_env demo_ids t \<and>
      s_findings t = map (linked_to (demo_pair ! 0) [demo_pair ! 1]) demo_pair \<and>
      active_pairs t = active_pairs ?s \<union> linked_pairs (demo_pair ! 0) [demo_pair ! 1]"
    using cluster_linked_to_oldest [OF ok _ _ _ k c, of None None None]
    by (simp add: demo_pair_def demo_finding_def demo_ids_def)
  then show ?thesis using a by (auto simp: linked_to_def linked_pairs_def demo_pair_def demo_finding_def active_pairs_def)
qed

end
