(* ===== verification/Vat_Observations.thy ===== *)
theory Vat_Observations
  imports Vat_Asset
begin

text \<open>
  \<open>services/container_asset_observations.py\<close> (and the grouping key of
  \<open>services/assets_service.py\<close> that it uses): the tags under which a container asset was observed,
  the digest conflicts of pinned tags, and their migration when two assets are merged.
\<close>

section \<open>Grouping keys (assets\_service.py)\<close>

definition container_image_group_key :: "string \<Rightarrow> string \<Rightarrow> string" where
  "container_image_group_key path_aliases ref =
     (let img = py_strip ref
      in if img = [] then img
         else if py_startswith (py_lower img) ''k8s/'' then img
         else if infer_asset_kind img [] \<in> set [''container'', ''repo'']
         then canonical_container_key path_aliases img
         else img)"

definition is_container_image_asset :: "string \<Rightarrow> bool" where
  "is_container_image_asset ref =
     (let s = py_strip ref; first = takeWhile (\<lambda>c. c \<noteq> CHR ''/'') s
      in s \<noteq> [] \<and>
         (py_in ''/images/'' s \<or> py_in ''/operators/'' s \<or> py_startswith (py_lower s) ''docker.io/'' \<or>
          py_startswith s ''containers/'' \<or> py_startswith s ''operators/'' \<or>
          CHR ''.'' \<in> set first \<or> CHR '':'' \<in> set first \<or> first \<in> set [''localhost'', ''docker.io'']))"

definition canonical_observation_asset_id :: "string \<Rightarrow> string \<Rightarrow> string" where
  "canonical_observation_asset_id path_aliases ref =
     (let s = py_strip ref
      in if s = [] \<or> \<not> is_container_image_asset s then s else container_image_group_key path_aliases s)"

section \<open>Pinned and floating tags\<close>

definition FLOATING_TAGS :: "string list" where
  "FLOATING_TAGS =
     [''latest'', ''develop'', ''main'', ''master'', ''stable'', ''edge'', ''nightly'', ''dev'', ''prod'',
      ''production'', ''staging'', ''canary'', ''head'', ''rolling'', ''release'', ''snapshot'']"

text \<open>The regular expression \<open>_IMMUTABLE_TAG_RE\<close>, one predicate per alternative.\<close>

definition one_line :: "string \<Rightarrow> bool" where
  "one_line s = (CHR 10 \<notin> set s)"

definition semver_tag :: "string \<Rightarrow> bool" where
  "semver_tag t =
     (let u = (if py_startswith t ''v'' then tl t else t);
          a = takeWhile py_isdigit u; r1 = dropWhile py_isdigit u;
          b = takeWhile py_isdigit (tl r1); r2 = dropWhile py_isdigit (tl r1)
      in a \<noteq> [] \<and> py_startswith r1 ''.'' \<and> b \<noteq> [] \<and>
         (r2 = [] \<or> (hd r2 \<in> set ''.-+'' \<and> one_line (tl r2))))"

definition immutable_tag :: "string \<Rightarrow> bool" where
  "immutable_tag t =
     (semver_tag t \<or>
      (py_startswith t ''sha-'' \<and> 7 \<le> length (drop 4 t) \<and> list_all is_hex (drop 4 t)) \<or>
      (12 \<le> length t \<and> list_all is_hex t) \<or>
      (8 \<le> length t \<and> list_all py_isdigit (take 8 t) \<and> one_line (drop 8 t)))"

definition is_mutable_tag :: "string \<Rightarrow> bool" where
  "is_mutable_tag tag =
     (let t = py_lower (py_strip tag) in t = [] \<or> t \<in> set FLOATING_TAGS \<or> \<not> immutable_tag t)"

definition runtime_vantage :: "string option \<Rightarrow> bool" where
  "runtime_vantage source = py_startswith (py_lower (py_strip (or_empty source))) ''node-''"

section \<open>Digest conflicts\<close>

definition dc_key :: "asset_digest_conflict \<Rightarrow> string \<times> string" where
  "dc_key r = (dc_asset_id r, dc_tag r)"

text \<open>The digests that runtime sources report for a tag: the stored findings and the new report.\<close>

definition runtime_digests ::
  "finding list \<Rightarrow> string \<Rightarrow> string \<Rightarrow> string option \<Rightarrow> string \<Rightarrow> (string \<times> string) list" where
  "runtime_digests fs asset_id tag source digest =
     map (\<lambda>f. (or_empty (f_source f), py_strip (or_empty (f_image_digest f))))
       (filter (\<lambda>f. f_image f = Some asset_id \<and> f_tag f = Some tag \<and> f_image_digest f \<noteq> None \<and>
                    runtime_vantage (f_source f) \<and> py_strip (or_empty (f_image_digest f)) \<noteq> []) fs) @
     (if runtime_vantage source then [(or_empty source, digest)] else [])"

definition conflicting_digests :: "(string \<times> string) list \<Rightarrow> string list" where
  "conflicting_digests rs =
     sort (remdups (concat (map (\<lambda>src. let ds = remdups (map snd (filter (\<lambda>r. fst r = src) rs))
                                      in if 2 \<le> length ds then ds else []) (remdups (map fst rs)))))"

record conflict_cmd =
  kc_key :: "string \<times> string"
  kc_digests :: "string list"
  kc_now :: datetime

definition conflict_merge :: "conflict_cmd \<Rightarrow> asset_digest_conflict option \<Rightarrow> asset_digest_conflict" where
  "conflict_merge c old =
     (case old of
        None \<Rightarrow> \<lparr>dc_asset_id = fst (kc_key c), dc_tag = snd (kc_key c), dc_status = ''open'', dc_digests = kc_digests c,
                 dc_acknowledged_by = None, dc_acknowledged_at = None, dc_first_seen_at = kc_now c,
                 dc_last_seen_at = kc_now c\<rparr>
      | Some r \<Rightarrow>
          (let previous = filter (\<lambda>d. d \<noteq> []) (map py_strip (dc_digests r));
               r1 = r\<lparr>dc_digests := kc_digests c, dc_last_seen_at := kc_now c\<rparr>
           in if set (kc_digests c) - set previous \<noteq> {}
              then r1\<lparr>dc_status := ''open'', dc_acknowledged_at := None, dc_acknowledged_by := None\<rparr> else r1))"

abbreviation conflict_upsert :: "conflict_cmd \<Rightarrow> asset_digest_conflict list \<Rightarrow> asset_digest_conflict list" where
  "conflict_upsert \<equiv> tbl_upsert dc_key kc_key conflict_merge"

interpretation conflicts: upsert_table dc_key kc_key conflict_merge conflict_upsert
  by (rule upsert_tableI) (auto simp: dc_key_def conflict_merge_def Let_def prod_eq_iff)

definition drop_conflict :: "string \<Rightarrow> string \<Rightarrow> asset_digest_conflict list \<Rightarrow> asset_digest_conflict list" where
  "drop_conflict asset_id tag rows = filter (\<lambda>r. dc_key r \<noteq> (asset_id, tag)) rows"

definition upsert_digest_conflict ::
  "string \<Rightarrow> string \<Rightarrow> string \<Rightarrow> string option \<Rightarrow> datetime \<Rightarrow> session \<Rightarrow> session" where
  "upsert_digest_conflict asset_id tag digest source now s =
     (let conflicting = conflicting_digests (runtime_digests (s_findings s) asset_id tag source digest)
      in if is_mutable_tag tag \<or> conflicting = []
         then s\<lparr>s_digest_conflicts := drop_conflict asset_id tag (s_digest_conflicts s)\<rparr>
         else s\<lparr>s_digest_conflicts :=
                 conflict_upsert \<lparr>kc_key = (asset_id, tag), kc_digests = conflicting, kc_now = now\<rparr>
                   (s_digest_conflicts s)\<rparr>)"

section \<open>Observed tags\<close>

definition ot_key :: "asset_observed_tag \<Rightarrow> string \<times> string" where
  "ot_key r = (ot_asset_id r, ot_tag r)"

record tag_cmd =
  tc_key :: "string \<times> string"
  tc_session :: "string option"
  tc_digest :: "string option"
  tc_now :: datetime

definition new_tag_row :: "tag_cmd \<Rightarrow> asset_observed_tag" where
  "new_tag_row c =
     \<lparr>ot_asset_id = fst (tc_key c), ot_tag = snd (tc_key c), ot_observation_count = 1,
      ot_last_scan_session_id = tc_session c, ot_last_digest = tc_digest c, ot_first_seen_at = tc_now c,
      ot_last_seen_at = tc_now c\<rparr>"

definition observe_merge :: "tag_cmd \<Rightarrow> asset_observed_tag option \<Rightarrow> asset_observed_tag" where
  "observe_merge c old =
     (case old of
        None \<Rightarrow> new_tag_row c
      | Some r \<Rightarrow>
          (let r1 = r\<lparr>ot_last_seen_at := tc_now c, ot_last_digest := py_or (tc_digest c) (ot_last_digest r)\<rparr>
           in if truthy (tc_session c)
              then (if ot_last_scan_session_id r \<noteq> tc_session c
                    then r1\<lparr>ot_observation_count := ot_observation_count r + 1, ot_last_scan_session_id := tc_session c\<rparr>
                    else r1)
              else r1\<lparr>ot_observation_count := ot_observation_count r + 1\<rparr>))"

definition ensure_merge :: "tag_cmd \<Rightarrow> asset_observed_tag option \<Rightarrow> asset_observed_tag" where
  "ensure_merge c old = (case old of None \<Rightarrow> new_tag_row c | Some r \<Rightarrow> r\<lparr>ot_last_seen_at := tc_now c\<rparr>)"

abbreviation observe_upsert :: "tag_cmd \<Rightarrow> asset_observed_tag list \<Rightarrow> asset_observed_tag list" where
  "observe_upsert \<equiv> tbl_upsert ot_key tc_key observe_merge"

abbreviation ensure_upsert :: "tag_cmd \<Rightarrow> asset_observed_tag list \<Rightarrow> asset_observed_tag list" where
  "ensure_upsert \<equiv> tbl_upsert ot_key tc_key ensure_merge"

interpretation observed: upsert_table ot_key tc_key observe_merge observe_upsert
  by (rule upsert_tableI) (auto simp: ot_key_def observe_merge_def new_tag_row_def Let_def prod_eq_iff)

interpretation ensured: upsert_table ot_key tc_key ensure_merge ensure_upsert
  by (rule upsert_tableI) (auto simp: ot_key_def ensure_merge_def new_tag_row_def prod_eq_iff)

definition record_container_asset_observation ::
  "env \<Rightarrow> vat_finding \<Rightarrow> string option \<Rightarrow> string option \<Rightarrow> session \<Rightarrow> session" where
  "record_container_asset_observation E payload scan_session_id source s =
     (let asset_id = canonical_observation_asset_id (env_container_asset_path_aliases E) (or_empty (vf_image payload));
          tag = clean_value (vf_tag payload)
      in if asset_id = [] \<or> tag = [] \<or> \<not> is_container_image_asset asset_id then s
         else let digest = effective_image_digest (vf_image_digest payload) (vf_image payload);
                  (now, s1) = utcnow E s;
                  c = \<lparr>tc_key = (asset_id, tag), tc_session = scan_session_id, tc_digest = digest, tc_now = now\<rparr>;
                  s2 = s1\<lparr>s_observed_tags := observe_upsert c (s_observed_tags s1)\<rparr>
              in if truthy digest then upsert_digest_conflict asset_id tag (or_empty digest) source now s2 else s2)"

definition ensure_container_tags_observed :: "env \<Rightarrow> string \<Rightarrow> string list \<Rightarrow> session \<Rightarrow> session" where
  "ensure_container_tags_observed E asset_ref tags s =
     (let asset_id = canonical_observation_asset_id (env_container_asset_path_aliases E) asset_ref
      in if asset_id = [] \<or> \<not> is_container_image_asset asset_id then s
         else let (now, s1) = utcnow E s
              in s1\<lparr>s_observed_tags :=
                   fold (\<lambda>tag. ensure_upsert \<lparr>tc_key = (asset_id, tag), tc_session = None, tc_digest = None, tc_now = now\<rparr>)
                     (filter (\<lambda>tag. tag \<noteq> []) (map py_strip tags)) (s_observed_tags s1)\<rparr>)"

text \<open>
  The module imports \<open>effective_image_digest\<close> only, so the reference to \<open>normalize_image_digest\<close> in
  the third statement of this function raises before anything is read or written.
\<close>

definition upsert_digest_from_external_scan ::
  "env \<Rightarrow> string \<Rightarrow> string \<Rightarrow> string \<Rightarrow> session \<Rightarrow> py_error + session" where
  "upsert_digest_from_external_scan E asset_ref tag digest s =
     (let asset_id = canonical_observation_asset_id (env_container_asset_path_aliases E) asset_ref; t = py_strip tag
      in Inl (NameError ''name 'normalize_image_digest' is not defined''))"

section \<open>Moving observations to a merge target\<close>

definition merged_tag_row :: "asset_observed_tag \<Rightarrow> asset_observed_tag \<Rightarrow> asset_observed_tag" where
  "merged_tag_row e r =
     (let rd = clean_value (ot_last_digest r); ed = clean_value (ot_last_digest e);
          newer = (ot_last_seen_at e \<le> ot_last_seen_at r)
      in e\<lparr>ot_observation_count := ot_observation_count e + ot_observation_count r,
           ot_first_seen_at := min (ot_first_seen_at e) (ot_first_seen_at r),
           ot_last_seen_at := max (ot_last_seen_at e) (ot_last_seen_at r),
           ot_last_digest := (if newer then (if rd \<noteq> [] then ot_last_digest r else ot_last_digest e)
                              else if rd \<noteq> [] \<and> ed = [] then ot_last_digest r else ot_last_digest e),
           ot_last_scan_session_id :=
             (if truthy (ot_last_scan_session_id r) \<and> (\<not> truthy (ot_last_scan_session_id e) \<or> newer)
              then ot_last_scan_session_id r else ot_last_scan_session_id e)\<rparr>)"

definition move_tag_row :: "string \<Rightarrow> asset_observed_tag \<Rightarrow> nat \<times> nat \<times> asset_observed_tag list \<Rightarrow>
    nat \<times> nat \<times> asset_observed_tag list" where
  "move_tag_row = tbl_move ot_asset_id ot_tag (\<lambda>a r. r\<lparr>ot_asset_id := a\<rparr>) merged_tag_row"

definition merged_conflict_row :: "asset_digest_conflict \<Rightarrow> asset_digest_conflict \<Rightarrow> asset_digest_conflict" where
  "merged_conflict_row e r =
     (let ds = (\<lambda>x. filter (\<lambda>d. d \<noteq> []) (map py_strip (dc_digests x)));
          merged = sort (remdups (ds e @ ds r));
          e1 = e\<lparr>dc_digests := merged, dc_first_seen_at := min (dc_first_seen_at e) (dc_first_seen_at r),
                 dc_last_seen_at := max (dc_last_seen_at e) (dc_last_seen_at r)\<rparr>
      in if 2 \<le> length merged
         then e1\<lparr>dc_status := ''open'', dc_acknowledged_at := None, dc_acknowledged_by := None\<rparr> else e1)"

definition move_conflict_row :: "string \<Rightarrow> asset_digest_conflict \<Rightarrow> nat \<times> nat \<times> asset_digest_conflict list \<Rightarrow>
    nat \<times> nat \<times> asset_digest_conflict list" where
  "move_conflict_row = tbl_move dc_asset_id dc_tag (\<lambda>a r. r\<lparr>dc_asset_id := a\<rparr>) merged_conflict_row"

definition migrate_observations_for_asset_merge ::
  "string \<Rightarrow> string \<Rightarrow> session \<Rightarrow> (nat \<times> nat \<times> nat \<times> nat) \<times> session" where
  "migrate_observations_for_asset_merge source_asset_id canonical_target s =
     (let src = py_strip source_asset_id; tgt = py_strip canonical_target
      in if src = [] \<or> tgt = [] \<or> src = tgt then ((0, 0, 0, 0), s)
         else let (moved, merged, tags) =
                    fold (move_tag_row tgt) (filter (\<lambda>r. ot_asset_id r = src) (s_observed_tags s)) (0, 0, s_observed_tags s);
                  (cmoved, cmerged, cs) =
                    fold (move_conflict_row tgt) (filter (\<lambda>r. dc_asset_id r = src) (s_digest_conflicts s))
                      (0, 0, s_digest_conflicts s)
              in ((moved, merged, cmoved, cmerged), s\<lparr>s_observed_tags := tags, s_digest_conflicts := cs\<rparr>))"

section \<open>A conflict is one runtime source with two digests\<close>

definition conflict_set :: "(string \<times> string) list \<Rightarrow> string set" where
  "conflict_set rs = {d. \<exists>src d'. (src, d) \<in> set rs \<and> (src, d') \<in> set rs \<and> d' \<noteq> d}"

lemma two_distinct: "2 \<le> length (remdups xs) \<longleftrightarrow> (\<exists>x \<in> set xs. \<exists>y \<in> set xs. x \<noteq> y)"
  using card_le_Suc0_iff_eq [of "set xs"] by (auto simp: length_remdups_card_conv)

lemma set_conflicting: "set (conflicting_digests rs) = conflict_set rs"
proof -
  have "d \<in> set (conflicting_digests rs) \<longleftrightarrow>
      (\<exists>src. (src, d) \<in> set rs \<and> (\<exists>x y. (src, x) \<in> set rs \<and> (src, y) \<in> set rs \<and> x \<noteq> y))" for d
    unfolding conflicting_digests_def two_distinct Let_def by (force split: if_splits)
  then show ?thesis unfolding conflict_set_def by blast
qed

lemma conflicting_sorted: "sorted (conflicting_digests rs)" "distinct (conflicting_digests rs)"
  by (simp_all add: conflicting_digests_def)

lemma get_drop_conflict: "tbl_get dc_key k (drop_conflict a t rows) = (if k = (a, t) then None else tbl_get dc_key k rows)"
  by (induction rows) (auto simp: drop_conflict_def)

text \<open>
  After a digest was reported for a tag, the table has a conflict for it exactly when the tag is
  pinned and one runtime source alone reported two different digests; the conflict lists exactly
  the digests of such sources, sorted and without repetition, an acknowledgement survives only if no new
  digest appeared, and the conflicts of all other tags are untouched.
\<close>

lemma digest_conflict_iff:
  "(case tbl_get dc_key (a, t) (s_digest_conflicts (upsert_digest_conflict a t d src now s)) of
      None \<Rightarrow> is_mutable_tag t \<or> conflict_set (runtime_digests (s_findings s) a t src d) = {}
    | Some r \<Rightarrow> \<not> is_mutable_tag t \<and> sorted (dc_digests r) \<and> distinct (dc_digests r) \<and> dc_digests r \<noteq> [] \<and>
        set (dc_digests r) = conflict_set (runtime_digests (s_findings s) a t src d) \<and>
        (dc_status r = ''open'' \<or>
         (\<exists>old. tbl_get dc_key (a, t) (s_digest_conflicts s) = Some old \<and> dc_status r = dc_status old \<and>
            set (dc_digests r) \<subseteq> py_strip ` set (dc_digests old)))) \<and>
   (k = (a, t) \<or> tbl_get dc_key k (s_digest_conflicts (upsert_digest_conflict a t d src now s)) =
      tbl_get dc_key k (s_digest_conflicts s))"
proof -
  define cs where "cs = conflicting_digests (runtime_digests (s_findings s) a t src d)"
  have cs: "set cs = conflict_set (runtime_digests (s_findings s) a t src d)" "sorted cs" "distinct cs"
    by (simp_all add: cs_def set_conflicting conflicting_sorted)
  show ?thesis
  proof (cases "is_mutable_tag t \<or> cs = []")
    case True
    then have "s_digest_conflicts (upsert_digest_conflict a t d src now s) = drop_conflict a t (s_digest_conflicts s)"
      by (auto simp: upsert_digest_conflict_def cs_def Let_def)
    then show ?thesis using True cs(1) by (auto simp: get_drop_conflict)
  next
    case False
    define c where "c = \<lparr>kc_key = (a, t), kc_digests = cs, kc_now = now\<rparr>"
    define old where "old = tbl_get dc_key (a, t) (s_digest_conflicts s)"
    have u: "s_digest_conflicts (upsert_digest_conflict a t d src now s) = conflict_upsert c (s_digest_conflicts s)"
      using False by (simp add: upsert_digest_conflict_def cs_def c_def Let_def)
    have g: "tbl_get dc_key (a, t) (conflict_upsert c (s_digest_conflicts s)) = Some (conflict_merge c old)"
      using conflicts.get_same [of c "s_digest_conflicts s"] by (simp add: c_def old_def)
    have o: "tbl_get dc_key k (conflict_upsert c (s_digest_conflicts s)) = tbl_get dc_key k (s_digest_conflicts s)"
      if "k \<noteq> (a, t)" using conflicts.get_other [of k c] that by (simp add: c_def)
    have m: "dc_digests (conflict_merge c old) = cs"
      by (simp add: conflict_merge_def c_def Let_def split: option.split)
    have "dc_status (conflict_merge c old) = ''open'' \<or>
        (\<exists>r. old = Some r \<and> dc_status (conflict_merge c old) = dc_status r \<and> set cs \<subseteq> py_strip ` set (dc_digests r))"
      by (auto simp: conflict_merge_def c_def Let_def split: option.split)
    then show ?thesis using False cs u g o m by (auto simp: old_def)
  qed
qed

section \<open>The migration loses no observation\<close>

interpretation moved_tags: weighted_rows ot_asset_id ot_tag "\<lambda>a r. r\<lparr>ot_asset_id := a\<rparr>" merged_tag_row ot_observation_count
  by unfold_locales (simp_all add: merged_tag_row_def Let_def)

interpretation moved_conflicts: movable_rows dc_asset_id dc_tag "\<lambda>a r. r\<lparr>dc_asset_id := a\<rparr>" merged_conflict_row
  by unfold_locales (simp_all add: merged_conflict_row_def Let_def)

lemma ot_key_eq: "ot_key = (\<lambda>r. (ot_asset_id r, ot_tag r))"
  by (simp add: ot_key_def fun_eq_iff)

lemma dc_key_eq: "dc_key = (\<lambda>r. (dc_asset_id r, dc_tag r))"
  by (simp add: dc_key_def fun_eq_iff)

lemma migrate_folds:
  assumes "migrate_observations_for_asset_merge src tgt s = ((m, n, cm, cn), s')"
    and "py_strip src \<noteq> []" and "py_strip tgt \<noteq> []" and "py_strip src \<noteq> py_strip tgt"
  shows "fold (move_tag_row (py_strip tgt)) (filter (\<lambda>r. ot_asset_id r = py_strip src) (s_observed_tags s))
           (0, 0, s_observed_tags s) = (m, n, s_observed_tags s')"
    and "fold (move_conflict_row (py_strip tgt)) (filter (\<lambda>r. dc_asset_id r = py_strip src) (s_digest_conflicts s))
           (0, 0, s_digest_conflicts s) = (cm, cn, s_digest_conflicts s')"
    and "s' = s\<lparr>s_observed_tags := s_observed_tags s', s_digest_conflicts := s_digest_conflicts s'\<rparr>"
  using assms by (auto simp: migrate_observations_for_asset_merge_def Let_def split: prod.splits)

definition tag_after_move :: "string \<Rightarrow> asset_observed_tag option \<Rightarrow> asset_observed_tag option \<Rightarrow> asset_observed_tag option" where
  "tag_after_move tgt old row =
     (case row of
        None \<Rightarrow> old
      | Some r \<Rightarrow> Some (case old of None \<Rightarrow> r\<lparr>ot_asset_id := tgt\<rparr> | Some e \<Rightarrow> merged_tag_row e r))"

lemma moved_tags_arrived: "moved_tags.arrived = tag_after_move"
  by (simp add: fun_eq_iff moved_tags.arrived_def tag_after_move_def)

text \<open>
  C40. Merging an asset into another moves every observed tag and every digest conflict: nothing is left
  at the source, a tag that only the source had is handed over, a tag that both had is merged, no other asset
  changes, each row of the source is counted as moved or merged, the pairs stay
  unique, and the number of recorded observations is the same as before.
\<close>

theorem migration_preserves_observations:
  assumes "distinct (map ot_key (s_observed_tags s))" and "distinct (map dc_key (s_digest_conflicts s))"
    and "py_strip src = src" and "py_strip tgt = tgt" and "src \<noteq> []" and "tgt \<noteq> []" and "src \<noteq> tgt"
    and "migrate_observations_for_asset_merge src tgt s = ((m, n, cm, cn), s')"
  shows "tbl_get ot_key (a, g) (s_observed_tags s') =
      (if a = src then None
       else if a = tgt then tag_after_move tgt (tbl_get ot_key (tgt, g) (s_observed_tags s)) (tbl_get ot_key (src, g) (s_observed_tags s))
       else tbl_get ot_key (a, g) (s_observed_tags s)) \<and>
    (tbl_get dc_key (a, g) (s_digest_conflicts s') = None \<longleftrightarrow>
      (if a = src then True
       else if a = tgt then tbl_get dc_key (tgt, g) (s_digest_conflicts s) = None \<and> tbl_get dc_key (src, g) (s_digest_conflicts s) = None
       else tbl_get dc_key (a, g) (s_digest_conflicts s) = None)) \<and>
    m + n = length (filter (\<lambda>r. ot_asset_id r = src) (s_observed_tags s)) \<and>
    cm + cn = length (filter (\<lambda>r. dc_asset_id r = src) (s_digest_conflicts s)) \<and>
    distinct (map ot_key (s_observed_tags s')) \<and> distinct (map dc_key (s_digest_conflicts s')) \<and>
    sum_list (map ot_observation_count (s_observed_tags s')) = sum_list (map ot_observation_count (s_observed_tags s)) \<and>
    s_findings s' = s_findings s"
proof -
  note folds = migrate_folds [OF assms(8), unfolded assms(3,4), OF assms(5,6,7)]
  note tags = moved_tags.move_owner [OF assms(1)[unfolded ot_key_eq] assms(7) folds(1)[unfolded move_tag_row_def],
      folded ot_key_eq, unfolded moved_tags_arrived, of a g]
  note weight = moved_tags.move_owner_weight [OF assms(1)[unfolded ot_key_eq] assms(7) folds(1)[unfolded move_tag_row_def]]
  note conf = moved_conflicts.move_owner [OF assms(2)[unfolded dc_key_eq] assms(7) folds(2)[unfolded move_conflict_row_def],
      folded dc_key_eq, of a g]
  have "s_findings s' = s_findings s" by (subst folds(3)) simp
  then show ?thesis using tags weight conf
    by (auto simp: moved_conflicts.arrived_def split: option.splits if_splits)
qed

text \<open>The merge of \<open>docker.io/a/x\<close>, seen under two tags, into \<open>docker.io/a/y\<close>, which has one of them.\<close>

definition demo_tag :: "string \<Rightarrow> string \<Rightarrow> nat \<Rightarrow> asset_observed_tag" where
  "demo_tag a g n = new_tag_row \<lparr>tc_key = (a, g), tc_session = None, tc_digest = None, tc_now = DateTime 2026 1 1 0 0 0 0\<rparr>
     \<lparr>ot_observation_count := n\<rparr>"

definition demo_observed :: session where
  "demo_observed = empty_session
     \<lparr>s_observed_tags := [demo_tag ''docker.io/a/x'' ''1.0'' 2, demo_tag ''docker.io/a/y'' ''1.0'' 3, demo_tag ''docker.io/a/x'' ''1.1'' 4]\<rparr>"

theorem migration_preserves_observations_witness:
  "(let s' = snd (migrate_observations_for_asset_merge ''docker.io/a/x'' ''docker.io/a/y'' demo_observed)
    in map_option ot_observation_count (tbl_get ot_key (''docker.io/a/y'', ''1.0'') (s_observed_tags s')) = Some 5 \<and>
       sum_list (map ot_observation_count (s_observed_tags s')) = 9)"
proof -
  let ?s' = "snd (migrate_observations_for_asset_merge ''docker.io/a/x'' ''docker.io/a/y'' demo_observed)"
  obtain m n cm cn where r:
    "migrate_observations_for_asset_merge ''docker.io/a/x'' ''docker.io/a/y'' demo_observed = ((m, n, cm, cn), ?s')"
    by (metis prod.collapse)
  have d: "distinct (map ot_key (s_observed_tags demo_observed))" "distinct (map dc_key (s_digest_conflicts demo_observed))"
    by code_simp+
  have k: "py_strip ''docker.io/a/x'' = ''docker.io/a/x''" "py_strip ''docker.io/a/y'' = ''docker.io/a/y''" by code_simp+
  note f = migration_preserves_observations [OF d k _ _ _ r, of "''docker.io/a/y''" "''1.0''"]
  have "map_option ot_observation_count (tag_after_move ''docker.io/a/y''
      (tbl_get ot_key (''docker.io/a/y'', ''1.0'') (s_observed_tags demo_observed))
      (tbl_get ot_key (''docker.io/a/x'', ''1.0'') (s_observed_tags demo_observed))) = Some 5"
    "sum_list (map ot_observation_count (s_observed_tags demo_observed)) = 9" by code_simp+
  then show ?thesis using f by (simp add: Let_def)
qed

text \<open>The refresh of a digest from an SBOM export never writes anything.\<close>

lemma external_digest_never_recorded:
  "\<exists>msg. upsert_digest_from_external_scan E a g d s = Inl (NameError msg)"
  by (simp add: upsert_digest_from_external_scan_def Let_def)

end
