(* ===== verification/Vat_Ingest.thy ===== *)
theory Vat_Ingest
  imports Vat_Ingest_Facts Vat_Links Vat_Linking Vat_Ledger Vat_Observations
begin

text \<open>
  \<open>services/ingest.py\<close>: one finding of a report becomes a stored finding. The fingerprint decides
  whether the finding is new; a known finding is merged. Modelled is the call with
  \<open>auto_sync_to_tracker=False\<close>, which bulk imports use; \<open>commit\<close> decides only where the transaction
  ends. The creation time of a new row is read when the row is added. An exception leaves no trace, because
  the caller rolls the transaction back.
\<close>

section \<open>Arguments and derived values\<close>

record ingest_args =
  ia_source_name :: string
  ia_tenant_id :: "string option"
  ia_aikido_source_id :: "string option"
  ia_trace_id :: "string option"
  ia_parser_id :: "string option"
  ia_scan_session_id :: "string option"
  ia_scanner_version :: "string option"
  ia_raw_evidence_ref :: "string option"
  ia_force_tag_override :: bool
  ia_cluster_id :: "string option"

text \<open>\<open>parsers.PARSER_IDENTITY_POLICY\<close>: whether a parser requires an explicit asset; no descriptor sets it.\<close>

definition PARSER_IDENTITY_POLICY :: "(string \<times> bool) list" where
  "PARSER_IDENTITY_POLICY =
     map (\<lambda>pid. (pid, False))
       [''sarif'', ''canonical'', ''trivy'', ''snyk'', ''semgrep'', ''gitleaks'', ''npm_audit'', ''pip_audit'', ''grype'',
        ''cyclonedx'', ''openscap'', ''openscap_oval'']"

record ingest_values =
  iv_payload :: vat_finding
  iv_tenant :: string
  iv_component_base :: "string option"
  iv_image_digest :: "string option"
  iv_license_expression :: "string option"
  iv_corr_key :: string
  iv_corr_conf :: string
  iv_fp :: string
  iv_severity :: severity
  iv_title :: string
  iv_risk_scoring :: json
  iv_cvss :: "string option"
  iv_epss :: "string option"

definition payload_component :: "vat_finding \<Rightarrow> string" where
  "payload_component p = or_empty (py_or (vf_component p) (vf_component_base p))"

definition corr_license :: "vat_finding \<Rightarrow> string option" where
  "corr_license p =
     (if vf_finding_type p = License
      then (let e = or_empty (py_or (vf_license_expression p) (Some (license_expression_from_payload p)))
            in if e = [] then None else Some e)
      else None)"

definition ingest_correlation_key ::
  "env \<Rightarrow> asset_alias list \<Rightarrow> string option \<Rightarrow> vat_finding \<Rightarrow> string \<times> string" where
  "ingest_correlation_key E aliases parser_id p =
     correlation_key_for_payload
       \<lparr>ck_finding_type = finding_type_value (vf_finding_type p),
        ck_image = correlation_asset_image_for_ingest E aliases (Some (or_empty (vf_image p))) parser_id,
        ck_branch = or_empty (vf_branch p), ck_tag = or_empty (vf_tag p), ck_cve_id = vf_cve_id p,
        ck_component = payload_component p, ck_ecosystem = vf_ecosystem p, ck_rule_id = vf_rule_id p,
        ck_file_path = vf_file_path p,
        ck_sast_partial_fingerprint_hash =
          (if vf_partial_fingerprints p \<noteq> [] \<and> vf_finding_type p \<in> set [SAST, IaC, Secret]
           then fst (resolve_partial_fingerprints (env_sha256 E) (vf_partial_fingerprints p)) else None),
        ck_image_digest = effective_image_digest (vf_image_digest p) (vf_image p),
        ck_include_digest = env_correlation_include_digest E, ck_benchmark_family = vf_benchmark_family p,
        ck_license_expression = corr_license p\<rparr>"

definition ingest_severity :: "vat_finding \<Rightarrow> severity" where
  "ingest_severity p =
     (if vf_finding_type p = License
      then (case license_risk_to_model_severity (license_risk_tier (license_expression_from_payload p)) of
              Some s \<Rightarrow> s | None \<Rightarrow> vf_severity p)
      else vf_severity p)"

definition derive_values :: "env \<Rightarrow> asset_alias list \<Rightarrow> ingest_args \<Rightarrow> vat_finding \<Rightarrow> py_error + ingest_values" where
  "derive_values E aliases a payload =
     (let requires_explicit = (map_of PARSER_IDENTITY_POLICY (or_empty (ia_parser_id a)) = Some True)
      in case resolve_asset_for_payload (env_container_asset_path_aliases E) payload
                (or_empty (py_or (ia_parser_id a) (Some ''unknown''))) (ia_source_name a) None False requires_explicit of
           Inl e \<Rightarrow> Inl e
         | Inr (p, _) \<Rightarrow>
             (let (key, conf) = ingest_correlation_key E aliases (ia_parser_id a) p;
                  risk = clean_risk_scoring (vf_risk_scoring p)
              in Inr \<lparr>iv_payload = p, iv_tenant = normalize_tenant_id (ia_tenant_id a),
                      iv_component_base =
                        (if truthy (vf_component_base p) then vf_component_base p
                         else if payload_component p \<noteq> [] then Some (component_base (payload_component p)) else None),
                      iv_image_digest = effective_image_digest (vf_image_digest p) (vf_image p),
                      iv_license_expression = corr_license p, iv_corr_key = key, iv_corr_conf = conf,
                      iv_fp = compute_ingest_fingerprint (env_sha256 E) p (ia_source_name a),
                      iv_severity = ingest_severity p, iv_title = or_empty (py_or (vf_title p) (Some (vf_cve_id p))),
                      iv_risk_scoring = risk, iv_cvss = py_or (vf_cvss p) (score_from_risk_scoring risk),
                      iv_epss = py_or (vf_epss p) (epss_from_risk_scoring risk)\<rparr>))"

definition now_z :: "env \<Rightarrow> session \<Rightarrow> string \<times> session" where
  "now_z E s = (let (t, s1) = utcnow E s in (strftime_z t, s1))"

definition import_entry :: "string \<Rightarrow> string \<Rightarrow> json \<Rightarrow> json" where
  "import_entry ts action note =
     JObj [(''ts'', JStr ts), (''user'', JStr ''system''), (''action'', JStr action), (''note'', note)]"

section \<open>Finding the row of a payload\<close>

definition asset_differs :: "vat_finding \<Rightarrow> finding \<Rightarrow> bool" where
  "asset_differs p f =
     (let incoming = py_strip (or_empty (py_or (vf_image p) (vf_component p)));
          existing = py_strip (or_empty (py_or (f_image f) (f_component f)))
      in incoming \<noteq> [] \<and> existing \<noteq> [] \<and> incoming \<noteq> existing)"

text \<open>By fingerprint; otherwise by the vendor's issue id, and then the fingerprint is migrated.\<close>

definition find_existing :: "env \<Rightarrow> ingest_args \<Rightarrow> ingest_values \<Rightarrow> session \<Rightarrow> finding option \<times> session" where
  "find_existing E a v s =
     (case tbl_get f_fingerprint_id (iv_fp v) (s_findings s) of
        Some f \<Rightarrow> (Some f, s)
      | None \<Rightarrow>
          (let sid = py_strip (or_empty (vf_source_issue_id (iv_payload v)))
           in if sid = [] then (None, s)
              else case find_finding_by_external_id s (ia_source_name a) sid of
                     None \<Rightarrow> (None, s)
                   | Some f \<Rightarrow>
                       if asset_differs (iv_payload v) f then (None, s)
                       else if f_fingerprint_id f = iv_fp v then (Some f, s)
                       else let (ts, s1) = now_z E s
                            in (Some (f\<lparr>f_fingerprint_id := iv_fp v,
                                       f_audit := f_audit f @ [import_entry ts ''Fingerprint migrated'' (JStr ''1:1 source mapping'')]\<rparr>), s1)))"

section \<open>Merging into a stored finding\<close>

definition is_aikido_entry :: "json \<Rightarrow> bool" where
  "is_aikido_entry e = (is_dict e \<and> py_lower (py_strip (str_or_empty (jget ''name'' (as_dict e)))) = ''aikido'')"

definition merged_sources :: "string \<Rightarrow> json \<Rightarrow> json list \<Rightarrow> json list" where
  "merged_sources source_name entry sources =
     (let kept = (if source_name \<noteq> [] \<and> source_name \<noteq> ''Aikido'' then filter (\<lambda>e. \<not> is_aikido_entry e) sources else sources)
      in if list_ex (\<lambda>e. is_dict e \<and> jget ''name'' (as_dict e) = JStr source_name) kept then kept else kept @ [entry])"

definition fill :: "string option \<Rightarrow> string option \<Rightarrow> string option" where
  "fill new old = (if truthy new \<and> \<not> truthy old then new else old)"

definition blank_url :: "string option \<Rightarrow> string option" where
  "blank_url u = (if py_strip (or_empty u) \<noteq> [] then u else None)"

text \<open>Source, clusters, links and the audit entry.\<close>

definition merge_provenance :: "env \<Rightarrow> ingest_args \<Rightarrow> ingest_values \<Rightarrow> json \<Rightarrow> finding \<Rightarrow> session \<Rightarrow> finding \<times> session" where
  "merge_provenance E a v entry f s =
     (let p = iv_payload v; src = ia_source_name a;
          f1 = f\<lparr>f_sources := merged_sources src entry (f_sources f),
                 f_observed_clusters :=
                   (if truthy (ia_cluster_id a) \<and> or_empty (ia_cluster_id a) \<notin> set (f_observed_clusters f)
                    then f_observed_clusters f @ [or_empty (ia_cluster_id a)] else f_observed_clusters f),
                 f_source := (if src \<noteq> [] \<and> src \<noteq> ''Aikido'' then Some src else f_source f)\<rparr>;
          (f2, s2) = (if truthy (vf_source_issue_id p)
                      then add_source_link E f1 src (or_empty (vf_source_issue_id p)) (blank_url (vf_source_issue_url p)) s
                      else (f1, s));
          (ts, s3) = now_z E s2
      in (f2\<lparr>f_source_issue_group_id := fill (vf_source_issue_group_id p) (f_source_issue_group_id f2),
             f_aikido_source_id := fill (ia_aikido_source_id a) (f_aikido_source_id f2),
             f_audit := f_audit f2 @ [import_entry ts ''Deduplication merge'' (JStr (''Re-import from '' @ src))],
             f_tenant_id := Some (normalize_tenant_id (py_or (f_tenant_id f2) (Some (iv_tenant v))))\<rparr>, s3))"

text \<open>Attributes that a stored finding lacks.\<close>

definition merge_backfill :: "ingest_args \<Rightarrow> ingest_values \<Rightarrow> datetime option \<Rightarrow> datetime option \<Rightarrow> finding \<Rightarrow> finding" where
  "merge_backfill a v fd cd f =
     (let p = iv_payload v; new_key = (iv_corr_key v \<noteq> [] \<and> \<not> truthy (f_correlation_key f))
      in f\<lparr>f_image := fill (vf_image p) (f_image f), f_component := fill (vf_component p) (f_component f),
           f_branch := fill (vf_branch p) (f_branch f),
           f_tag := (if truthy (vf_tag p) \<and> (ia_force_tag_override a \<or> \<not> truthy (f_tag f)) then vf_tag p else f_tag f),
           f_image_digest := fill (iv_image_digest v) (f_image_digest f),
           f_source_file_url := fill (vf_source_file_url p) (f_source_file_url f),
           f_file_path := fill (vf_file_path p) (f_file_path f),
           f_line := (if f_line f = None then vf_line p else f_line f),
           f_snippet_masked := fill (vf_snippet_masked p) (f_snippet_masked f),
           f_correlation_key := (if new_key then Some (iv_corr_key v) else f_correlation_key f),
           f_correlation_confidence := (if new_key then Some (iv_corr_conf v) else f_correlation_confidence f),
           f_stable_rule_key := fill (vf_stable_rule_key p) (f_stable_rule_key f),
           f_benchmark_id := fill (vf_benchmark_id p) (f_benchmark_id f),
           f_benchmark_family := fill (vf_benchmark_family p) (f_benchmark_family f),
           f_profile_scope := fill (vf_profile_scope p) (f_profile_scope f),
           f_content_version := fill (vf_content_version p) (f_content_version f),
           f_risk_scoring := (if py_truth (iv_risk_scoring v)
                              then merge_source_risk_scoring (f_risk_scoring f) (iv_risk_scoring v) else f_risk_scoring f),
           f_cvss := fill (iv_cvss v) (f_cvss f), f_epss := fill (iv_epss v) (f_epss f),
           f_needs_family_classification := (vf_needs_family_classification p \<or> f_needs_family_classification f),
           f_rule_id := fill (vf_rule_id p) (f_rule_id f), f_cwe_id := fill (vf_cwe_id p) (f_cwe_id f),
           f_ecosystem := fill (vf_ecosystem p) (f_ecosystem f), f_secret_type := fill (vf_secret_type p) (f_secret_type f),
           f_resource := fill (vf_resource p) (f_resource f),
           f_first_detected_at := (if f_first_detected_at f = None then fd else f_first_detected_at f),
           f_closed_at := (if f_closed_at f = None then cd else f_closed_at f),
           f_title := (if truthy (vf_title p) \<and> (\<not> truthy (f_title f) \<or> f_title f = Some (f_cve_id f))
                       then vf_title p else f_title f),
           f_description := (if vf_description p \<noteq> [] \<and> py_strip (or_empty (f_description f)) = []
                             then Some (vf_description p) else f_description f)\<rparr>)"

definition merge_severity :: "env \<Rightarrow> ingest_values \<Rightarrow> finding \<Rightarrow> session \<Rightarrow> py_error + (finding \<times> session)" where
  "merge_severity E v f s =
     (let new_sev = max_severity (f_severity f) (iv_severity v)
      in if new_sev = f_severity f then Inr (f, s)
         else case compute_sla_due E (vf_finding_type (iv_payload v)) new_sev s of
                Inl e \<Rightarrow> Inl e
              | Inr (due, s1) \<Rightarrow> Inr (f\<lparr>f_severity := new_sev, f_sla_due := Some due\<rparr>, s1))"

text \<open>The status: synchronised when the vendor closed the issue, a regression when a resolved issue is reported open.\<close>

definition merge_status :: "env \<Rightarrow> ingest_values \<Rightarrow> datetime option \<Rightarrow> finding \<Rightarrow> session \<Rightarrow> finding \<times> session" where
  "merge_status E v cd f s =
     (let ps = or_empty (vf_status (iv_payload v))
      in if ps \<noteq> [] \<and> ps \<notin> set [''Open'', ''Reopened'']
         then (case status_to_enum ps of
                 Inl _ \<Rightarrow> (f, s)
               | Inr st \<Rightarrow>
                   if st \<in> set [Resolved, Suppressed, FalsePositive, NotApplicable]
                   then let (ts, s1) = now_z E s
                        in (f\<lparr>f_status := st, f_closed_at := (case cd of None \<Rightarrow> f_closed_at f | Some t \<Rightarrow> Some t),
                              f_audit := f_audit f @ [import_entry ts ''Status synced from source'' (JStr ps)]\<rparr>, s1)
                   else (f, s))
         else if f_status f = Resolved
         then let (ts, s1) = now_z E s
              in (f\<lparr>f_status := Reopened, f_closed_at := None, f_regression_of := f_regression_of f @ [f_id f],
                    f_regression_count := f_regression_count f + 1,
                    f_audit := f_audit f @ [import_entry ts ''Regression detected''
                      (JStr ''Scanner re-detected previously resolved finding'')]\<rparr>, s1)
         else (f, s))"

definition merge_existing ::
  "env \<Rightarrow> ingest_args \<Rightarrow> ingest_values \<Rightarrow> json \<Rightarrow> finding \<Rightarrow> session \<Rightarrow> py_error + (finding \<times> session)" where
  "merge_existing E a v entry f s =
     (let (f1, s1) = merge_provenance E a v entry f s
      in case parse_iso_datetime E (vf_first_detected_at (iv_payload v)) of
           Inl e \<Rightarrow> Inl e
         | Inr fd \<Rightarrow>
             (case parse_iso_datetime E (vf_closed_at (iv_payload v)) of
                Inl e \<Rightarrow> Inl e
              | Inr cd \<Rightarrow>
                  (case merge_severity E v (merge_backfill a v fd cd f1) s1 of
                     Inl e \<Rightarrow> Inl e
                   | Inr (f2, s2) \<Rightarrow> Inr (merge_status E v cd f2 s2))))"

section \<open>A new finding\<close>

definition initial_status :: "vat_finding \<Rightarrow> status" where
  "initial_status p =
     (let ps = or_empty (vf_status p)
      in if ps \<noteq> [] \<and> ps \<notin> set [''Open'', ''Reopened'']
         then (case status_to_enum ps of Inl _ \<Rightarrow> Open | Inr st \<Rightarrow> st) else Open)"

definition initial_links :: "ingest_args \<Rightarrow> vat_finding \<Rightarrow> string \<Rightarrow> json list" where
  "initial_links a p ts =
     [JObj [(''adapter_key'', JStr (ia_source_name a)), (''kind'', JStr ''source''),
            (''issue_id'', JStr (or_empty (vf_source_issue_id p))), (''url'', opt_json (blank_url (vf_source_issue_url p))),
            (''created_at'', JStr ts)]]"

definition new_finding ::
  "ingest_args \<Rightarrow> ingest_values \<Rightarrow> json \<Rightarrow> json \<Rightarrow> string \<Rightarrow> json list \<Rightarrow> datetime option \<Rightarrow> datetime option \<Rightarrow> datetime \<Rightarrow> finding" where
  "new_finding a v source_entry history_entry sla_due links fd cd created_at =
     (let p = iv_payload v; src = ia_source_name a
      in \<lparr>f_id = ''f-'' @ take 16 (iv_fp v), f_finding_type = vf_finding_type p, f_fingerprint_id = iv_fp v,
          f_cve_id = vf_cve_id p, f_severity = iv_severity v, f_status = initial_status p, f_previous_status = None,
          f_component_base = iv_component_base v,
          f_component = (if truthy (vf_component p) then vf_component p else None),
          f_image = vf_image p, f_branch = vf_branch p, f_tag = vf_tag p, f_image_digest = iv_image_digest v,
          f_title = Some (iv_title v), f_description = Some (vf_description p), f_file_path = vf_file_path p,
          f_line = vf_line p, f_rule_id = vf_rule_id p, f_cwe_id = vf_cwe_id p, f_ecosystem = vf_ecosystem p,
          f_license_expression = iv_license_expression v, f_stable_rule_key = vf_stable_rule_key p,
          f_benchmark_id = vf_benchmark_id p, f_benchmark_family = vf_benchmark_family p,
          f_profile_scope = vf_profile_scope p, f_source = Some src, f_owner = vf_owner p, f_control_ref = None,
          f_sla_due = Some sla_due, f_justification = None, f_compensating_controls = None, f_reviewer_note = None,
          f_sources = [source_entry], f_suppression_scope = None, f_attestation = None, f_regression_of = [],
          f_regression_count = 0, f_audit = [history_entry], f_archived = False, f_archived_at = None,
          f_archived_reason = None, f_tenant_id = Some (iv_tenant v), f_external_links = links,
          f_correlation_key = Some (iv_corr_key v), f_correlation_confidence = Some (iv_corr_conf v), f_correlated_to = None,
          f_created_at = created_at, f_source_file_url = vf_source_file_url p, f_snippet_masked = vf_snippet_masked p,
          f_secret_type = vf_secret_type p, f_resource = vf_resource p, f_content_version = vf_content_version p,
          f_needs_family_classification = vf_needs_family_classification p, f_team = vf_team p, f_cvss = iv_cvss v,
          f_epss = iv_epss v, f_risk_scoring = iv_risk_scoring v,
          f_observed_clusters = (if truthy (ia_cluster_id a) then [or_empty (ia_cluster_id a)] else []),
          f_source_issue_group_id = vf_source_issue_group_id p,
          f_aikido_source_id = (if src = ''Aikido'' then ia_aikido_source_id a else None),
          f_first_detected_at = fd, f_closed_at = cd, f_sync_status = None, f_sync_failed_at = None,
          f_sync_last_error = None\<rparr>)"

text \<open>A row with the primary key or the fingerprint of another row is refused by the database.\<close>

definition insert_finding :: "finding \<Rightarrow> session \<Rightarrow> py_error + session" where
  "insert_finding f s =
     (if f_id f \<in> f_id ` set (s_findings s) \<or> f_fingerprint_id f \<in> f_fingerprint_id ` set (s_findings s)
      then Inl (IntegrityError ''duplicate key value violates unique constraint'')
      else Inr (s\<lparr>s_findings := s_findings s @ [f]\<rparr>))"

definition create_finding ::
  "env \<Rightarrow> ingest_args \<Rightarrow> ingest_values \<Rightarrow> json \<Rightarrow> json \<Rightarrow> session \<Rightarrow> py_error + (finding \<times> session)" where
  "create_finding E a v source_entry history_entry s =
     (case compute_sla_due E (vf_finding_type (iv_payload v)) (iv_severity v) s of
        Inl e \<Rightarrow> Inl e
      | Inr (due, s1) \<Rightarrow>
          (let (links, s2) = (if truthy (vf_source_issue_id (iv_payload v))
                              then (let (ts, t) = now_z E s1 in (initial_links a (iv_payload v) ts, t)) else ([], s1))
           in case parse_iso_datetime E (vf_first_detected_at (iv_payload v)) of
                Inl e \<Rightarrow> Inl e
              | Inr fd \<Rightarrow>
                  (case parse_iso_datetime E (vf_closed_at (iv_payload v)) of
                     Inl e \<Rightarrow> Inl e
                   | Inr cd \<Rightarrow>
                       (let (created_at, s3) = utcnow E s2; f = new_finding a v source_entry history_entry due links fd cd created_at
                        in case insert_finding f s3 of Inl e \<Rightarrow> Inl e | Inr s4 \<Rightarrow> Inr (f, s4)))))"

section \<open>Observations\<close>

definition observed_tags_of :: "vat_finding \<Rightarrow> string list \<Rightarrow> string list" where
  "observed_tags_of p observed =
     (let tags = rev (remdups (rev (filter (\<lambda>t. t \<noteq> []) (map py_strip observed)))); ptag = py_strip (or_empty (vf_tag p))
      in if ptag \<noteq> [] \<and> ptag \<notin> set tags then ptag # tags else tags)"

definition record_container_asset_observations ::
  "env \<Rightarrow> vat_finding \<Rightarrow> string option \<Rightarrow> string option \<Rightarrow> session \<Rightarrow> session" where
  "record_container_asset_observations E p scan_session_id source s =
     (case vf_observed_container_tags p of
        None \<Rightarrow> record_container_asset_observation E p scan_session_id source s
      | Some observed \<Rightarrow>
          fold (\<lambda>t. record_container_asset_observation E (p\<lparr>vf_tag := Some t\<rparr>) scan_session_id source)
            (observed_tags_of p observed) s)"

definition ob_key :: "finding_observation \<Rightarrow> string \<times> string \<times> string" where
  "ob_key r = (ob_finding_id r, ob_scan_session_id r, ob_source_name r)"

definition observation_merge :: "finding_observation \<Rightarrow> finding_observation option \<Rightarrow> finding_observation" where
  "observation_merge c old = c"

abbreviation observation_upsert :: "finding_observation \<Rightarrow> finding_observation list \<Rightarrow> finding_observation list" where
  "observation_upsert \<equiv> tbl_upsert ob_key ob_key observation_merge"

interpretation finding_observations: upsert_table ob_key ob_key observation_merge observation_upsert
  by (rule upsert_tableI) (auto simp: observation_merge_def)

definition upsert_observation :: "ingest_args \<Rightarrow> vat_finding \<Rightarrow> string \<Rightarrow> session \<Rightarrow> session" where
  "upsert_observation a p finding_id s =
     (if \<not> truthy (ia_scan_session_id a) then s
      else s\<lparr>s_observations := observation_upsert
               \<lparr>ob_finding_id = finding_id, ob_scan_session_id = or_empty (ia_scan_session_id a),
                ob_source_name = ia_source_name a, ob_cluster_id = ia_cluster_id a,
                ob_scanner_version = ia_scanner_version a, ob_content_version = vf_content_version p,
                ob_benchmark_id = vf_benchmark_id p, ob_benchmark_family = vf_benchmark_family p,
                ob_profile_scope = vf_profile_scope p, ob_stable_rule_key = vf_stable_rule_key p,
                ob_result_state = infer_result_state p, ob_raw_evidence_ref = ia_raw_evidence_ref a\<rparr> (s_observations s)\<rparr>)"

section \<open>The ingest\<close>

text \<open>What follows a merge and an insertion alike: observations, identifier facts, correlation, decision ledger.\<close>

definition ingest_tail ::
  "env \<Rightarrow> ingest_args \<Rightarrow> vat_finding \<Rightarrow> finding \<Rightarrow> session \<Rightarrow> py_error + (finding \<times> session)" where
  "ingest_tail E a p f s =
     (let src = ia_source_name a;
          s1 = record_container_asset_observations E p (ia_scan_session_id a) (Some src) s;
          s2 = upsert_observation a p (f_id f) s1;
          s3 = upsert_identifier_facts_for_finding f src s2
      in case (if env_correlation_linking_enabled E
               then apply_correlation_linking E f (ia_trace_id a) (Some src) (ia_parser_id a) s3 else Inr s3) of
           Inl e \<Rightarrow> Inl e
         | Inr s4 \<Rightarrow>
             (let f4 = (case tbl_get f_id (f_id f) (s_findings s4) of None \<Rightarrow> f | Some r \<Rightarrow> r)
              in if env_decision_ledger_enabled E
                 then (case resolve_and_apply_decision E f4 (ia_trace_id a) (ia_parser_id a) s4 of
                         Inl e \<Rightarrow> Inl e | Inr (_, f5, s5) \<Rightarrow> Inr (f5, s5))
                 else Inr (f4, s4)))"

definition ingest_finding ::
  "env \<Rightarrow> ingest_args \<Rightarrow> vat_finding \<Rightarrow> session \<Rightarrow> py_error + (finding \<times> bool \<times> session)" where
  "ingest_finding E a payload s =
     (case derive_values E (s_asset_aliases s) a payload of
        Inl e \<Rightarrow> Inl e
      | Inr v \<Rightarrow>
          (let (t1, s1) = now_z E s; (t2, s2) = now_z E s1;
               source_entry = JObj [(''name'', JStr (ia_source_name a)), (''importedAt'', JStr t1)];
               history_entry = import_entry t2 (''Imported from '' @ ia_source_name a @ '' scan'') JNull
           in case find_existing E a v s2 of
                (Some f, s3) \<Rightarrow>
                  (case merge_existing E a v source_entry f s3 of
                     Inl e \<Rightarrow> Inl e
                   | Inr (f1, s4) \<Rightarrow>
                       (case ingest_tail E a (iv_payload v) f1 (put_finding f1 s4) of
                          Inl e \<Rightarrow> Inl e | Inr (f2, s5) \<Rightarrow> Inr (f2, False, s5)))
              | (None, s3) \<Rightarrow>
                  (case create_finding E a v source_entry history_entry s3 of
                     Inl e \<Rightarrow> Inl e
                   | Inr (f1, s4) \<Rightarrow>
                       (case ingest_tail E a (iv_payload v) f1 s4 of
                          Inl e \<Rightarrow> Inl e | Inr (f2, s5) \<Rightarrow> Inr (f2, True, s5)))))"

end
