(* ===== verification/Vat_Ingest_Props.thy ===== *)
theory Vat_Ingest_Props
  imports Vat_Ingest
begin

text \<open>
  What an ingest guarantees: ids and fingerprints stay unique, a repeated report is merged into the row it
  created, and a merge keeps what reviewers wrote.
\<close>

section \<open>The identity of the stored findings\<close>

definition ident :: "session \<Rightarrow> (string \<times> string) list" where
  "ident s = map (\<lambda>r. (f_id r, f_fingerprint_id r)) (s_findings s)"

definition findings_unique :: "session \<Rightarrow> bool" where
  "findings_unique s = (distinct (map f_id (s_findings s)) \<and> distinct (map f_fingerprint_id (s_findings s)))"

lemma ident_parts: "map fst (ident s) = map f_id (s_findings s)" "map snd (ident s) = map f_fingerprint_id (s_findings s)"
  by (simp_all add: ident_def)

lemma unique_ident: "findings_unique s \<longleftrightarrow> distinct (map fst (ident s)) \<and> distinct (map snd (ident s))"
  by (simp add: findings_unique_def ident_parts)

lemma ident_put:
  assumes "distinct (map f_id (s_findings s))" and "(f_id f, fp) \<in> set (ident s)"
  shows "ident (put_finding f s) = map (\<lambda>(i, x). if i = f_id f then (i, f_fingerprint_id f) else (i, x)) (ident s)"
  by (auto simp: ident_def put_finding_def tbl_update_def)

lemma ident_put_same:
  assumes "distinct (map f_id (s_findings s))" and "(f_id f, f_fingerprint_id f) \<in> set (ident s)"
  shows "ident (put_finding f s) = ident s"
proof -
  have "distinct (map fst (ident s))" using assms(1) by (simp add: ident_parts)
  then have "snd q = f_fingerprint_id f" if "q \<in> set (ident s)" "fst q = f_id f" for q
    using that assms(2) by (metis eq_key_imp_eq_value prod.collapse)
  then show ?thesis unfolding ident_put [OF assms] by (intro map_idI) auto
qed

lemma ident_cong: "s_findings s = s_findings t \<Longrightarrow> ident s = ident t"
  by (simp add: ident_def)

section \<open>Steps that keep the findings\<close>

lemma findings_clock [simp]: "s_findings (snd (utcnow E s)) = s_findings s" "s_findings (snd (now_z E s)) = s_findings s"
  by (simp_all add: utcnow_def now_z_def)

lemma findings_conflict [simp]: "s_findings (upsert_digest_conflict a t d src now s) = s_findings s"
  by (simp add: upsert_digest_conflict_def Let_def)

lemma findings_observe [simp]: "s_findings (record_container_asset_observation E p sid src s) = s_findings s"
  by (simp add: record_container_asset_observation_def utcnow_def Let_def)

lemma findings_observe_all [simp]: "s_findings (record_container_asset_observations E p sid src s) = s_findings s"
proof -
  have "s_findings (fold (\<lambda>t. record_container_asset_observation E (p\<lparr>vf_tag := Some t\<rparr>) sid src) ts s) = s_findings s" for ts
    by (induction ts arbitrary: s) auto
  then show ?thesis by (simp add: record_container_asset_observations_def split: option.split)
qed

lemma findings_upserts [simp]:
  "s_findings (upsert_observation a p fid s) = s_findings s"
  "s_findings (upsert_identifier_facts_for_finding f src s) = s_findings s"
  by (simp_all add: upsert_observation_def upsert_identifier_facts_for_finding_def Let_def)

section \<open>Linking and relinking keep identities\<close>

lemma ident_link_rows:
  assumes "link_rows E tid src p key c rows (out, s) = Inr (out', t)"
    and "distinct (map f_id (s_findings s))" and "\<forall>r \<in> set rows. (f_id r, f_fingerprint_id r) \<in> set (ident s)"
  shows "ident t = ident s"
  using assms
proof (induction rows arbitrary: out s)
  case (Cons r rows)
  let ?s = "set_correlated (f_id c) r s"
  have "(f_id (r\<lparr>f_correlated_to := x\<rparr>), f_fingerprint_id (r\<lparr>f_correlated_to := x\<rparr>)) \<in> set (ident s)" for x
    using Cons.prems(3) by simp
  from ident_put_same [OF Cons.prems(2) this] have i: "ident ?s = ident s" by (simp add: set_correlated_def)
  have ids: "distinct (map f_id (s_findings x))" if "ident x = ident s" for x
    using that Cons.prems(2) by (metis ident_parts(1))
  show ?case
  proof (cases "sr_tier (score_finding_pair s c r) \<in> {''high'', ''medium''}")
    case True
    then obtain e s1 where u: "upsert_edge E (link_edge_args tid src p key (f_id c) (f_id r) (score_finding_pair s c r)) ?s = Inr (e, s1)"
        and l: "link_rows E tid src p key c rows (out @ [(f_id r, True, sr_score (score_finding_pair s c r))], s1) = Inr (out', t)"
      using Cons.prems(1) by (auto simp: Let_def split: sum.splits prod.splits)
    have "ident s1 = ident s" using upsert_edge_findings [OF u] i ident_cong by metis
    then show ?thesis using Cons.IH [OF l] ids Cons.prems(3) by simp
  next
    case False
    then show ?thesis using Cons.IH [of _ s] Cons.prems by (auto simp: Let_def)
  qed
qed simp

lemma ident_linking:
  assumes "apply_correlation_linking E f tr src p s = Inr t" and "distinct (map f_id (s_findings s))"
  shows "ident t = ident s"
proof -
  obtain tid s1 where tr: "trace_or_new E tr s = (tid, s1)" by fastforce
  have s1: "s_findings s1 = s_findings s" using trace_frame [of E tr s] tr by simp
  let ?cl = "select_correlation_cluster s1 (or_empty (f_correlation_key f)) (f_tenant_id f)"
  consider (emit) a where "t = snd (emit_audit_event E a s1)"
    | (link) a out s2 where "t = snd (emit_audit_event E a s2)"
        "link_rows E tid src p (or_empty (f_correlation_key f)) (hd ?cl) (tl ?cl) ([], s1) = Inr (out, s2)"
    using assms(1) tr by (auto simp: apply_correlation_linking_def Let_def split: if_splits sum.splits prod.splits)
  then show ?thesis
  proof cases
    case emit
    then show ?thesis using s1 by (intro ident_cong) simp
  next
    case link
    have "set (tl ?cl) \<subseteq> set ?cl" by (cases ?cl) auto
    then have "set (tl ?cl) \<subseteq> set (s_findings s1)" using set_cluster [of s1] by auto
    then have "\<forall>r \<in> set (tl ?cl). (f_id r, f_fingerprint_id r) \<in> set (ident s1)" by (auto simp: ident_def)
    then have "ident s2 = ident s1" using ident_link_rows [OF link(2)] assms(2) s1 by simp
    then show ?thesis using link(1) s1 ident_cong emit_frame(1) by metis
  qed
qed

lemma projection_fingerprint: "apply_decision_projection E f d s = Inr (f1, s1) \<Longrightarrow> f_fingerprint_id f1 = f_fingerprint_id f"
  by (auto simp: apply_decision_projection_def utcnow_def split: sum.splits)

lemma relink_fingerprint:
  "relink_found E f tr d m s = Inr (r, f1, s') \<Longrightarrow> f_fingerprint_id f1 = f_fingerprint_id f"
  by (auto simp: relink_found_def Let_def dest: projection_fingerprint split: sum.splits prod.splits if_splits)

lemma resolve_identity:
  assumes "resolve_and_apply_decision E f tr p s = Inr (r, f1, s1)" and "distinct (map f_id (s_findings s))" and "f \<in> set (s_findings s)"
  shows "ident s1 = ident s \<and> f_id f1 = f_id f \<and> f_fingerprint_id f1 = f_fingerprint_id f \<and> f1 \<in> set (s_findings s1)"
proof (cases "f1 = f \<and> s1 = s")
  case False
  then obtain d m where r: "relink_found E f tr d m s = Inr (r, f1, s1)"
    using assms(1) by (auto simp: resolve_and_apply_decision_def split: if_splits option.splits prod.splits)
  have w: "s_findings s1 = tbl_update (\<lambda>r. f_id r = f_id f) (\<lambda>_. f1) (s_findings s)" "same_identity f f1"
    using relink_found_Inr [OF r] by (simp_all add: relink_writes_def)
  have i: "f_id f1 = f_id f" "f_fingerprint_id f1 = f_fingerprint_id f"
    using w(2) relink_fingerprint [OF r] by (simp_all add: same_identity_def)
  have "s_findings s1 = s_findings (put_finding f1 s)" using w(1) i(1) by (simp add: put_finding_def)
  moreover have "(f_id f1, f_fingerprint_id f1) \<in> set (ident s)" using assms(3) i by (auto simp: ident_def)
  moreover have "f1 \<in> set (s_findings (put_finding f1 s))" using assms(3) i by (intro put_finding_get) auto
  ultimately show ?thesis using ident_put_same [OF assms(2)] ident_cong i by metis
qed (use assms in auto)

lemma tail_identity:
  assumes "ingest_tail E a p f s = Inr (f', s')" and "distinct (map f_id (s_findings s))" and "f \<in> set (s_findings s)"
  shows "ident s' = ident s \<and> f_id f' = f_id f \<and> f_fingerprint_id f' = f_fingerprint_id f \<and> f' \<in> set (s_findings s')"
proof -
  define s3 where "s3 = upsert_identifier_facts_for_finding f (ia_source_name a) (upsert_observation a p (f_id f)
    (record_container_asset_observations E p (ia_scan_session_id a) (Some (ia_source_name a)) s))"
  have s3: "s_findings s3 = s_findings s" by (simp add: s3_def)
  define X where "X = (if env_correlation_linking_enabled E
      then apply_correlation_linking E f (ia_trace_id a) (Some (ia_source_name a)) (ia_parser_id a) s3 else Inr s3)"
  define rest where "rest = (\<lambda>s4. let f4 = (case tbl_get f_id (f_id f) (s_findings s4) of None \<Rightarrow> f | Some r \<Rightarrow> r)
      in if env_decision_ledger_enabled E
         then (case resolve_and_apply_decision E f4 (ia_trace_id a) (ia_parser_id a) s4 of
                 Inl e \<Rightarrow> Inl e | Inr (_, f5, s5) \<Rightarrow> Inr (f5, s5))
         else Inr (f4, s4))"
  have "(case X of Inl e \<Rightarrow> Inl e | Inr s4 \<Rightarrow> rest s4) = Inr (f', s')"
    using assms(1) unfolding ingest_tail_def X_def rest_def s3_def Let_def .
  then obtain s4 where s4: "X = Inr s4" and r4: "rest s4 = Inr (f', s')" by (cases X) auto
  have i4: "ident s4 = ident s"
    using s4 ident_linking [of E f _ _ _ s3 s4] s3 assms(2) ident_cong [of s3 s] by (auto simp: X_def split: if_splits)
  have d4: "distinct (map f_id (s_findings s4))" using i4 assms(2) by (metis ident_parts(1))
  have "(f_id f, f_fingerprint_id f) \<in> set (ident s4)" using assms(3) i4 by (auto simp: ident_def)
  then obtain f4 where f4: "f4 \<in> set (s_findings s4)" "f_id f4 = f_id f" "f_fingerprint_id f4 = f_fingerprint_id f"
    by (auto simp: ident_def)
  then have g: "tbl_get f_id (f_id f) (s_findings s4) = Some f4" using tbl_get_distinct [OF d4 f4(1)] by simp
  show ?thesis
  proof (cases "env_decision_ledger_enabled E")
    case True
    then obtain r where "resolve_and_apply_decision E f4 (ia_trace_id a) (ia_parser_id a) s4 = Inr (r, f', s')"
      using r4 g by (auto simp: rest_def Let_def split: sum.splits prod.splits)
    from resolve_identity [OF this d4 f4(1)] show ?thesis using i4 f4 by simp
  next
    case False
    then show ?thesis using r4 g i4 f4 by (simp add: rest_def)
  qed
qed

section \<open>What a merge keeps\<close>

text \<open>The columns that identify a finding or hold a reviewer's work.\<close>

definition reviewed where
  "reviewed f =
     ((f_id f, f_fingerprint_id f, f_finding_type f, f_cve_id f, f_created_at f, f_correlated_to f),
      (f_previous_status f, f_justification f, f_compensating_controls f, f_reviewer_note f, f_suppression_scope f,
       f_attestation f), (f_owner f, f_team f, f_control_ref f), (f_archived f, f_archived_at f, f_archived_reason f))"

definition closing_report :: "vat_finding \<Rightarrow> status option" where
  "closing_report p =
     (let ps = or_empty (vf_status p)
      in if ps = [] \<or> ps \<in> set [''Open'', ''Reopened''] then None
         else case status_to_enum ps of
                Inl _ \<Rightarrow> None
              | Inr st \<Rightarrow> if st \<in> set [Resolved, Suppressed, FalsePositive, NotApplicable] then Some st else None)"

definition open_report :: "vat_finding \<Rightarrow> bool" where
  "open_report p = (or_empty (vf_status p) \<in> set [[], ''Open'', ''Reopened''])"

definition status_after :: "vat_finding \<Rightarrow> status \<Rightarrow> status" where
  "status_after p st =
     (case closing_report p of
        Some c \<Rightarrow> c | None \<Rightarrow> if open_report p \<and> st = Resolved then Reopened else st)"

definition audit_grows :: "finding \<Rightarrow> finding \<Rightarrow> bool" where
  "audit_grows f f' = (take (length (f_audit f)) (f_audit f') = f_audit f)"

lemma audit_growsI: "f_audit f' = f_audit f @ es \<Longrightarrow> audit_grows f f'"
  by (simp add: audit_grows_def)

lemma audit_grows_trans: "audit_grows f g \<Longrightarrow> audit_grows g h \<Longrightarrow> audit_grows f h"
  unfolding audit_grows_def by (metis take_take min_absorb1 length_take min.cobounded2 min.commute min_def)

lemma add_source_link_keeps:
  "reviewed (fst (add_source_link E f k i u s)) = reviewed f"
  "f_audit (fst (add_source_link E f k i u s)) = f_audit f" "f_severity (fst (add_source_link E f k i u s)) = f_severity f"
  "f_status (fst (add_source_link E f k i u s)) = f_status f" "f_sla_due (fst (add_source_link E f k i u s)) = f_sla_due f"
  "f_image (fst (add_source_link E f k i u s)) = f_image f" "f_component (fst (add_source_link E f k i u s)) = f_component f"
  "f_tenant_id (fst (add_source_link E f k i u s)) = f_tenant_id f"
  "f_risk_scoring (fst (add_source_link E f k i u s)) = f_risk_scoring f"
  "f_regression_count (fst (add_source_link E f k i u s)) = f_regression_count f"
  "s_findings (snd (add_source_link E f k i u s)) = s_findings s"
  by (simp_all add: add_source_link_def reviewed_def utcnow_def Let_def)

lemma provenance_keeps:
  assumes "merge_provenance E a v entry f s = (f1, s1)"
  shows "reviewed f1 = reviewed f" "audit_grows f f1" "f_severity f1 = f_severity f" "f_status f1 = f_status f"
    "f_sla_due f1 = f_sla_due f" "f_image f1 = f_image f" "f_component f1 = f_component f"
    "f_tenant_id f1 = Some (normalize_tenant_id (py_or (f_tenant_id f) (Some (iv_tenant v))))"
    "f_risk_scoring f1 = f_risk_scoring f" "f_regression_count f1 = f_regression_count f" "s_findings s1 = s_findings s"
proof -
  define g where "g = f\<lparr>f_sources := merged_sources (ia_source_name a) entry (f_sources f),
      f_observed_clusters := (if truthy (ia_cluster_id a) \<and> or_empty (ia_cluster_id a) \<notin> set (f_observed_clusters f)
        then f_observed_clusters f @ [or_empty (ia_cluster_id a)] else f_observed_clusters f),
      f_source := (if ia_source_name a \<noteq> [] \<and> ia_source_name a \<noteq> ''Aikido'' then Some (ia_source_name a) else f_source f)\<rparr>"
  define h where "h = (if truthy (vf_source_issue_id (iv_payload v))
      then add_source_link E g (ia_source_name a) (or_empty (vf_source_issue_id (iv_payload v)))
             (blank_url (vf_source_issue_url (iv_payload v))) s else (g, s))"
  have g: "reviewed g = reviewed f" "f_audit g = f_audit f" "f_severity g = f_severity f" "f_status g = f_status f"
    "f_sla_due g = f_sla_due f" "f_image g = f_image f" "f_component g = f_component f" "f_tenant_id g = f_tenant_id f"
    "f_risk_scoring g = f_risk_scoring f" "f_regression_count g = f_regression_count f"
    by (simp_all add: g_def reviewed_def)
  have h: "reviewed (fst h) = reviewed f" "f_audit (fst h) = f_audit f" "f_severity (fst h) = f_severity f"
    "f_status (fst h) = f_status f" "f_sla_due (fst h) = f_sla_due f" "f_image (fst h) = f_image f"
    "f_component (fst h) = f_component f" "f_tenant_id (fst h) = f_tenant_id f" "f_risk_scoring (fst h) = f_risk_scoring f"
    "f_regression_count (fst h) = f_regression_count f" "s_findings (snd h) = s_findings s"
    using g by (simp_all add: h_def add_source_link_keeps)
  define e where "e = import_entry (fst (now_z E (snd h))) ''Deduplication merge'' (JStr (''Re-import from '' @ ia_source_name a))"
  define f3 where "f3 = fst h\<lparr>f_source_issue_group_id := fill (vf_source_issue_group_id (iv_payload v)) (f_source_issue_group_id (fst h)),
             f_aikido_source_id := fill (ia_aikido_source_id a) (f_aikido_source_id (fst h)),
             f_audit := f_audit (fst h) @ [e],
             f_tenant_id := Some (normalize_tenant_id (py_or (f_tenant_id (fst h)) (Some (iv_tenant v))))\<rparr>"
  have "merge_provenance E a v entry f s = (f3, snd (now_z E (snd h)))"
    unfolding merge_provenance_def Let_def case_prod_beta f3_def e_def h_def g_def by (rule refl)
  then have f1: "f1 = f3" and s1: "s1 = snd (now_z E (snd h))" using assms by simp_all
  show "reviewed f1 = reviewed f" "f_severity f1 = f_severity f" "f_status f1 = f_status f"
    "f_sla_due f1 = f_sla_due f" "f_image f1 = f_image f" "f_component f1 = f_component f"
    "f_tenant_id f1 = Some (normalize_tenant_id (py_or (f_tenant_id f) (Some (iv_tenant v))))"
    "f_risk_scoring f1 = f_risk_scoring f" "f_regression_count f1 = f_regression_count f" "s_findings s1 = s_findings s"
    using h by (simp_all add: f1 f3_def s1 reviewed_def)
  show "audit_grows f f1" by (rule audit_growsI [of _ _ "[e]"]) (simp add: f1 f3_def h)
qed

lemma fill_keeps: "truthy old \<Longrightarrow> fill new old = old"
  by (simp add: fill_def)

lemma backfill_keeps:
  "reviewed (merge_backfill a v fd cd f) = reviewed f" "f_audit (merge_backfill a v fd cd f) = f_audit f"
  "f_severity (merge_backfill a v fd cd f) = f_severity f" "f_status (merge_backfill a v fd cd f) = f_status f"
  "f_sla_due (merge_backfill a v fd cd f) = f_sla_due f" "f_tenant_id (merge_backfill a v fd cd f) = f_tenant_id f"
  "f_regression_count (merge_backfill a v fd cd f) = f_regression_count f"
  "f_image (merge_backfill a v fd cd f) = fill (vf_image (iv_payload v)) (f_image f)"
  "f_component (merge_backfill a v fd cd f) = fill (vf_component (iv_payload v)) (f_component f)"
  "f_risk_scoring (merge_backfill a v fd cd f) =
     (if py_truth (iv_risk_scoring v) then merge_source_risk_scoring (f_risk_scoring f) (iv_risk_scoring v) else f_risk_scoring f)"
  by (simp_all add: merge_backfill_def reviewed_def Let_def)

lemma severity_keeps:
  assumes "merge_severity E v f s = Inr (f1, s1)"
  shows "reviewed f1 = reviewed f" "f_audit f1 = f_audit f" "f_status f1 = f_status f"
    "f_severity f1 = max_severity (f_severity f) (iv_severity v)" "f_severity f1 = f_severity f \<Longrightarrow> f_sla_due f1 = f_sla_due f"
    "f_image f1 = f_image f" "f_component f1 = f_component f" "f_tenant_id f1 = f_tenant_id f"
    "f_risk_scoring f1 = f_risk_scoring f" "f_regression_count f1 = f_regression_count f" "s_findings s1 = s_findings s"
  using assms by (auto simp: merge_severity_def compute_sla_due_def utcnow_def reviewed_def Let_def split: if_splits sum.splits option.splits)

lemma status_keeps:
  assumes "merge_status E v cd f s = (f1, s1)"
  shows "reviewed f1 = reviewed f" "audit_grows f f1" "f_status f1 = status_after (iv_payload v) (f_status f)"
    "f_severity f1 = f_severity f" "f_sla_due f1 = f_sla_due f"
    "f_image f1 = f_image f" "f_component f1 = f_component f" "f_tenant_id f1 = f_tenant_id f"
    "f_risk_scoring f1 = f_risk_scoring f"
    "f_regression_count f1 = f_regression_count f + (if open_report (iv_payload v) \<and> f_status f = Resolved then 1 else 0)"
    "s_findings s1 = s_findings s"
  using assms
  by (auto simp: merge_status_def status_after_def closing_report_def open_report_def reviewed_def audit_grows_def now_z_def utcnow_def
      Let_def split: if_splits sum.splits)

lemma merge_existing_steps:
  assumes "merge_existing E a v entry f s = Inr (f', s')"
  obtains f1 s1 fd cd f2 s2 where "merge_provenance E a v entry f s = (f1, s1)"
    "merge_severity E v (merge_backfill a v fd cd f1) s1 = Inr (f2, s2)" "merge_status E v cd f2 s2 = (f', s')"
proof -
  obtain f1 s1 where p: "merge_provenance E a v entry f s = (f1, s1)" by fastforce
  obtain fd where d1: "parse_iso_datetime E (vf_first_detected_at (iv_payload v)) = Inr fd"
    using assms p by (auto simp: merge_existing_def split: sum.splits)
  obtain cd where d2: "parse_iso_datetime E (vf_closed_at (iv_payload v)) = Inr cd"
    using assms p d1 by (auto simp: merge_existing_def split: sum.splits)
  obtain f2 s2 where m: "merge_severity E v (merge_backfill a v fd cd f1) s1 = Inr (f2, s2)"
    using assms p d1 d2 by (auto simp: merge_existing_def split: sum.splits)
  have "merge_status E v cd f2 s2 = (f', s')" using assms p d1 d2 m by (simp add: merge_existing_def)
  with p m that show thesis by blast
qed

text \<open>
  C3. A re-import never destroys a review. Merging a report into a stored finding keeps its identity,
  creation time, decision columns, owner, archive state and, of the risk scoring document, the
  reviewer's environmental section; the audit history only grows; the severity becomes the more severe of
  both and the due date moves only with it; the finding stays with its tenant; a known image or component
  is not replaced; and the status changes only when the vendor reports the issue closed, or, as a
  counted regression, when a resolved finding is reported open again.
\<close>

theorem merge_keeps_review:
  assumes "merge_existing E a v entry f s = Inr (f', s')"
  shows "reviewed f' = reviewed f \<and> audit_grows f f' \<and>
    severity_index (f_severity f') = min (severity_index (f_severity f)) (severity_index (iv_severity v)) \<and>
    (f_severity f' = f_severity f \<longrightarrow> f_sla_due f' = f_sla_due f) \<and>
    (truthy (f_tenant_id f) \<longrightarrow> f_tenant_id f' = Some (normalize_tenant_id (f_tenant_id f))) \<and>
    (truthy (f_image f) \<longrightarrow> f_image f' = f_image f) \<and> (truthy (f_component f) \<longrightarrow> f_component f' = f_component f) \<and>
    (unique_keys (f_risk_scoring f) \<and> unique_sections (iv_risk_scoring v) \<longrightarrow>
       risk_section ''environmental'' (f_risk_scoring f') = risk_section ''environmental'' (f_risk_scoring f)) \<and>
    f_status f' = status_after (iv_payload v) (f_status f) \<and>
    f_regression_count f' = f_regression_count f + (if open_report (iv_payload v) \<and> f_status f = Resolved then 1 else 0) \<and>
    s_findings s' = s_findings s"
proof -
  from assms obtain f1 s1 fd cd f2 s2 where m: "merge_provenance E a v entry f s = (f1, s1)"
      "merge_severity E v (merge_backfill a v fd cd f1) s1 = Inr (f2, s2)" "merge_status E v cd f2 s2 = (f', s')"
    by (rule merge_existing_steps)
  note k = provenance_keeps [OF m(1)] severity_keeps [OF m(2)] status_keeps [OF m(3)] backfill_keeps
  have "audit_grows f1 f'" using k(24) by (simp add: audit_grows_def k(13) backfill_keeps)
  with k(2) have aud: "audit_grows f f'" by (rule audit_grows_trans)
  have env: "risk_section ''environmental'' (merge_source_risk_scoring j (iv_risk_scoring v)) = risk_section ''environmental'' j"
    if "unique_keys j" "unique_sections (iv_risk_scoring v)" for j
    using section_source [OF that, of "''environmental''"] by (simp add: SOURCE_OWNED_SECTIONS_def)
  show ?thesis
    using aud k env by (auto simp: max_severity_least fill_keeps py_or_def)
qed

section \<open>Identity of the ingested finding\<close>

lemma find_existing_None:
  "find_existing E a v s = (None, s1) \<Longrightarrow> s_findings s1 = s_findings s"
  by (auto simp: find_existing_def Let_def case_prod_beta split: option.splits if_splits)

lemma find_existing_Some:
  assumes "find_existing E a v s = (Some f, s1)"
  shows "s_findings s1 = s_findings s \<and> f_fingerprint_id f = iv_fp v \<and>
    (\<exists>g \<in> set (s_findings s). f_id g = f_id f \<and>
       (f_fingerprint_id g = iv_fp v \<or> iv_fp v \<notin> f_fingerprint_id ` set (s_findings s)))"
proof (cases "tbl_get f_fingerprint_id (iv_fp v) (s_findings s)")
  case (Some g)
  then show ?thesis using assms tbl_get_Some [OF Some] by (auto simp: find_existing_def)
next
  case None
  then have no: "iv_fp v \<notin> f_fingerprint_id ` set (s_findings s)" by (simp only: tbl_get_None) simp
  obtain g where g: "find_finding_by_external_id s (ia_source_name a) (py_strip (or_empty (vf_source_issue_id (iv_payload v)))) = Some g"
    and f: "f_id f = f_id g" "f_fingerprint_id f = iv_fp v" "s_findings s1 = s_findings s"
    using assms None by (auto simp: find_existing_def Let_def case_prod_beta split: option.splits if_splits)
  have "g \<in> set (s_findings s)"
    using latest_by_properties(2) g unfolding find_finding_by_external_id_def by fastforce
  then show ?thesis using f no by auto
qed

lemma create_identity:
  assumes "create_finding E a v x y s = Inr (f, s1)"
  shows "s_findings s1 = s_findings s @ [f] \<and> f_fingerprint_id f = iv_fp v \<and>
    f_id f \<notin> f_id ` set (s_findings s) \<and> iv_fp v \<notin> f_fingerprint_id ` set (s_findings s)"
proof -
  obtain due t1 where d: "compute_sla_due E (vf_finding_type (iv_payload v)) (iv_severity v) s = Inr (due, t1)"
    using assms by (auto simp: create_finding_def split: sum.splits)
  have t1: "s_findings t1 = s_findings s" using d by (auto simp: compute_sla_due_def utcnow_def split: option.splits)
  obtain links t2 where l: "(if truthy (vf_source_issue_id (iv_payload v))
      then (let (ts, t) = now_z E t1 in (initial_links a (iv_payload v) ts, t)) else ([], t1)) = (links, t2)"
    by fastforce
  have t2: "s_findings t2 = s_findings s" using l t1 by (auto simp: now_z_def utcnow_def split: if_splits)
  obtain fd where d1: "parse_iso_datetime E (vf_first_detected_at (iv_payload v)) = Inr fd"
    using assms d l by (auto simp: create_finding_def split: sum.splits)
  obtain cd where d2: "parse_iso_datetime E (vf_closed_at (iv_payload v)) = Inr cd"
    using assms d l d1 by (auto simp: create_finding_def split: sum.splits)
  define g where "g = new_finding a v x y due links fd cd (env_clock E (s_clk t2))"
  have "(case insert_finding g (snd (utcnow E t2)) of Inl e \<Rightarrow> Inl e | Inr s4 \<Rightarrow> Inr (g, s4)) = Inr (f, s1)"
    using assms d l d1 d2 unfolding g_def by (simp add: create_finding_def utcnow_def Let_def)
  then have i: "insert_finding f (snd (utcnow E t2)) = Inr s1" "f = g" by (auto split: sum.splits)
  have "f_fingerprint_id f = iv_fp v" by (simp add: i(2) g_def new_finding_def Let_def)
  then show ?thesis using i(1) t2 by (auto simp: insert_finding_def split: if_splits)
qed

text \<open>The two ways an ingest succeeds.\<close>

lemma ingest_cases:
  assumes "ingest_finding E a p s = Inr (f, created, s')" and "derive_values E (s_asset_aliases s) a p = Inr v"
  obtains (merged) entry g s3 g1 s4 where "\<not> created" "s_findings s3 = s_findings s" "f_fingerprint_id g = iv_fp v"
      "\<exists>h \<in> set (s_findings s). f_id h = f_id g \<and>
         (f_fingerprint_id h = iv_fp v \<or> iv_fp v \<notin> f_fingerprint_id ` set (s_findings s))"
      "merge_existing E a v entry g s3 = Inr (g1, s4)" "ingest_tail E a (iv_payload v) g1 (put_finding g1 s4) = Inr (f, s')"
  | (created) x y s3 g1 s4 where "created" "s_findings s3 = s_findings s"
      "create_finding E a v x y s3 = Inr (g1, s4)" "ingest_tail E a (iv_payload v) g1 s4 = Inr (f, s')"
proof -
  obtain t1 s1 where n1: "now_z E s = (t1, s1)" by fastforce
  obtain t2 s2 where n2: "now_z E s1 = (t2, s2)" by fastforce
  have s2: "s_findings s2 = s_findings s" using findings_clock(2) [of E s] findings_clock(2) [of E s1] n1 n2 by simp
  let ?x = "JObj [(''name'', JStr (ia_source_name a)), (''importedAt'', JStr t1)]"
  let ?y = "import_entry t2 (''Imported from '' @ ia_source_name a @ '' scan'') JNull"
  obtain r s3 where r: "find_existing E a v s2 = (r, s3)" by fastforce
  show thesis
  proof (cases r)
    case None
    have "(case create_finding E a v ?x ?y s3 of Inl e \<Rightarrow> Inl e
        | Inr (f1, s4) \<Rightarrow> (case ingest_tail E a (iv_payload v) f1 s4 of
            Inl e \<Rightarrow> Inl e | Inr (f2, s5) \<Rightarrow> Inr (f2, True, s5))) = Inr (f, created, s')"
      using assms n1 n2 r None by (simp add: ingest_finding_def Let_def)
    then obtain g1 s4 where "create_finding E a v ?x ?y s3 = Inr (g1, s4)" "ingest_tail E a (iv_payload v) g1 s4 = Inr (f, s')" "created"
      by (auto split: sum.splits)
    moreover have "s_findings s3 = s_findings s" using find_existing_None r None s2 by simp
    ultimately show thesis using that(2) by blast
  next
    case (Some g)
    have "(case merge_existing E a v ?x g s3 of Inl e \<Rightarrow> Inl e
        | Inr (f1, s4) \<Rightarrow> (case ingest_tail E a (iv_payload v) f1 (put_finding f1 s4) of
            Inl e \<Rightarrow> Inl e | Inr (f2, s5) \<Rightarrow> Inr (f2, False, s5))) = Inr (f, created, s')"
      using assms n1 n2 r Some by (simp add: ingest_finding_def Let_def)
    then obtain g1 s4 where m: "merge_existing E a v ?x g s3 = Inr (g1, s4)"
        "ingest_tail E a (iv_payload v) g1 (put_finding g1 s4) = Inr (f, s')" "\<not> created"
      by (auto split: sum.splits)
    note e = find_existing_Some [OF r [unfolded Some], unfolded s2]
    show thesis by (rule that(1) [OF m(3) _ _ _ m(1,2)]) (use e in simp_all)
  qed
qed

lemma merged_identity:
  assumes "merge_existing E a v entry g s = Inr (g1, s1)"
  shows "f_id g1 = f_id g \<and> f_fingerprint_id g1 = f_fingerprint_id g \<and> s_findings s1 = s_findings s"
proof -
  from assms obtain f1 t1 fd cd f2 t2 where m: "merge_provenance E a v entry g s = (f1, t1)"
      "merge_severity E v (merge_backfill a v fd cd f1) t1 = Inr (f2, t2)" "merge_status E v cd f2 t2 = (g1, s1)"
    by (rule merge_existing_steps)
  have "reviewed g1 = reviewed g"
    using provenance_keeps(1) [OF m(1)] severity_keeps(1) [OF m(2)] status_keeps(1) [OF m(3)] by (simp add: backfill_keeps)
  then show ?thesis
    using provenance_keeps(11) [OF m(1)] severity_keeps(11) [OF m(2)] status_keeps(11) [OF m(3)] by (simp add: reviewed_def)
qed

definition others :: "string \<Rightarrow> session \<Rightarrow> (string \<times> string) list" where
  "others i s = filter (\<lambda>q. fst q \<noteq> i) (ident s)"

lemma filter_relabel:
  "filter (\<lambda>q. fst q \<noteq> i) (map (\<lambda>(j, x). if j = i then (j, y) else (j, x)) qs) = filter (\<lambda>q. fst q \<noteq> i) qs"
  by (induction qs) (auto split: if_splits)

lemma distinct_relabel:
  assumes "distinct (map fst qs)" and "distinct (map snd qs)" and "y \<notin> snd ` set qs"
  shows "distinct (map snd (map (\<lambda>(j, x). if j = i then (j, y) else (j, x)) qs))"
  using assms
proof (induction qs)
  case (Cons q qs)
  let ?r = "\<lambda>(j, x). if j = i then (j, y) else (j, x)"
  obtain j x where q: "q = (j, x)" by (cases q)
  have IH: "distinct (map snd (map ?r qs))" by (rule Cons.IH) (use Cons.prems in auto)
  have "snd (?r q) \<notin> set (map snd (map ?r qs))"
  proof (cases "j = i")
    case True
    have "?r p = p" if "p \<in> set qs" for p
    proof -
      have "fst p \<in> fst ` set qs" using that by (rule imageI)
      then have "fst p \<noteq> i" using Cons.prems(1) True by (auto simp: q)
      then show ?thesis by (simp add: case_prod_beta)
    qed
    then have "map ?r qs = qs" by (rule map_idI)
    then show ?thesis using True Cons.prems(3) by (simp add: q)
  next
    case False
    have "set (map snd (map ?r qs)) \<subseteq> insert y (snd ` set qs)" by (auto split: if_splits)
    moreover have "x \<notin> snd ` set qs" "x \<noteq> y" using Cons.prems(2,3) by (auto simp: q)
    ultimately show ?thesis using False by (auto simp: q)
  qed
  then show ?case using IH by simp
qed simp

lemma put_identity:
  assumes "findings_unique s" and "f_id g \<in> f_id ` set (s_findings s)"
    and "(f_id g, f_fingerprint_id g) \<in> set (ident s) \<or> f_fingerprint_id g \<notin> f_fingerprint_id ` set (s_findings s)"
  shows "findings_unique (put_finding g s) \<and> map f_id (s_findings (put_finding g s)) = map f_id (s_findings s) \<and>
    others (f_id g) (put_finding g s) = others (f_id g) s"
proof -
  obtain fp where fp: "(f_id g, fp) \<in> set (ident s)" using assms(2) by (auto simp: ident_def)
  have d: "distinct (map f_id (s_findings s))" "distinct (map snd (ident s))"
    using assms(1) by (auto simp: findings_unique_def ident_parts)
  note i = ident_put [OF d(1) fp]
  have ids: "map f_id (s_findings (put_finding g s)) = map f_id (s_findings s)"
    by (auto simp: put_finding_def tbl_update_def)
  have oth: "others (f_id g) (put_finding g s) = others (f_id g) s"
    unfolding others_def i by (rule filter_relabel)
  have "distinct (map snd (ident (put_finding g s)))"
  proof (cases "(f_id g, f_fingerprint_id g) \<in> set (ident s)")
    case True
    then show ?thesis using ident_put_same [OF d(1)] d(2) by simp
  next
    case False
    then have new: "f_fingerprint_id g \<notin> snd ` set (ident s)" using assms(3) by (auto simp: ident_def)
    have "map fst (ident s) = map f_id (s_findings s)" by (rule ident_parts)
    then have "distinct (map fst (ident s))" using d(1) by simp
    then show ?thesis unfolding i by (rule distinct_relabel [OF _ d(2) new])
  qed
  then show ?thesis using ids oth d(1) by (simp add: unique_ident ident_parts)
qed

lemma ident_unique: "ident t = ident s \<Longrightarrow> findings_unique t = findings_unique s"
  "ident t = ident s \<Longrightarrow> map f_id (s_findings t) = map f_id (s_findings s)"
  "ident t = ident s \<Longrightarrow> others i t = others i s"
  by (simp_all add: unique_ident others_def ident_parts [symmetric])

lemma ingest_identity:
  assumes "findings_unique s" and "ingest_finding E a p s = Inr (f, created, s')"
    and "derive_values E (s_asset_aliases s) a p = Inr v"
  shows "findings_unique s' \<and> f \<in> set (s_findings s') \<and> f_fingerprint_id f = iv_fp v \<and>
    map f_id (s_findings s') = map f_id (s_findings s) @ (if created then [f_id f] else []) \<and>
    (created \<longleftrightarrow> f_id f \<notin> f_id ` set (s_findings s)) \<and>
    (created \<longrightarrow> iv_fp v \<notin> f_fingerprint_id ` set (s_findings s)) \<and> others (f_id f) s' = others (f_id f) s"
  using assms(2,3)
proof (cases rule: ingest_cases)
  case (merged entry g s3 g1 s4)
  have m: "f_id g1 = f_id g" "f_fingerprint_id g1 = iv_fp v" "s_findings s4 = s_findings s"
    using merged_identity [OF merged(5)] merged(2,3) by simp_all
  have u4: "findings_unique s4" using assms(1) m(3) by (simp add: findings_unique_def)
  have in4: "f_id g1 \<in> f_id ` set (s_findings s4)" using merged(4) m by (metis imageI)
  have fp4: "(f_id g1, f_fingerprint_id g1) \<in> set (ident s4) \<or> f_fingerprint_id g1 \<notin> f_fingerprint_id ` set (s_findings s4)"
  proof -
    obtain h where h: "h \<in> set (s_findings s)" "f_id h = f_id g"
        "f_fingerprint_id h = iv_fp v \<or> iv_fp v \<notin> f_fingerprint_id ` set (s_findings s)" using merged(4) by blast
    have "(f_id h, f_fingerprint_id h) \<in> set (ident s4)" using h(1) m(3) by (simp add: ident_def)
    then show ?thesis using h m by metis
  qed
  note put = put_identity [OF u4 in4 fp4]
  have "g1 \<in> set (s_findings (put_finding g1 s4))" using in4 by (rule put_finding_get)
  moreover have "distinct (map f_id (s_findings (put_finding g1 s4)))" using put unfolding findings_unique_def by blast
  ultimately have t: "ident s' = ident (put_finding g1 s4)" "f_id f = f_id g1" "f_fingerprint_id f = f_fingerprint_id g1" "f \<in> set (s_findings s')"
    using tail_identity [OF merged(6)] by simp_all
  have "others (f_id f) s4 = others (f_id f) s" by (simp add: others_def ident_def m(3))
  then show ?thesis using put t m merged(1) in4 ident_unique [OF t(1)] by simp
next
  case (created x y s3 g1 s4)
  have c: "s_findings s4 = s_findings s @ [g1]" "f_fingerprint_id g1 = iv_fp v" "f_id g1 \<notin> f_id ` set (s_findings s)"
      "iv_fp v \<notin> f_fingerprint_id ` set (s_findings s)"
    using create_identity [OF created(3)] created(2) by simp_all
  have u4: "findings_unique s4" using assms(1) c by (simp add: findings_unique_def)
  then have t: "ident s' = ident s4" "f_id f = f_id g1" "f_fingerprint_id f = f_fingerprint_id g1" "f \<in> set (s_findings s')"
    using tail_identity [OF created(4)] c(1) by (simp_all add: findings_unique_def)
  have "others (f_id f) s4 = others (f_id f) s" by (simp add: others_def ident_def c(1) t(2))
  then show ?thesis using c t u4 created(1) ident_unique [OF t(1)] by simp
qed

text \<open>
  C1. Deduplication. When an ingest returns, the returned finding is stored under the fingerprint of the
  payload, ids and fingerprints are still unique, at most one row was added, exactly one when
  \<open>created\<close> is reported, in which case neither its id nor its fingerprint was known before; and no other finding
  changed its id or its fingerprint.
\<close>

theorem ingest_dedup:
  assumes "findings_unique s" and "ingest_finding E a p s = Inr (f, created, s')"
    and "derive_values E (s_asset_aliases s) a p = Inr v"
  shows "findings_unique s' \<and> f \<in> set (s_findings s') \<and> f_fingerprint_id f = iv_fp v \<and>
    length (s_findings s') = length (s_findings s) + (if created then 1 else 0) \<and>
    (created \<longleftrightarrow> f_id f \<notin> f_id ` set (s_findings s)) \<and>
    (created \<longrightarrow> iv_fp v \<notin> f_fingerprint_id ` set (s_findings s)) \<and>
    filter (\<lambda>q. fst q \<noteq> f_id f) (map (\<lambda>r. (f_id r, f_fingerprint_id r)) (s_findings s')) =
    filter (\<lambda>q. fst q \<noteq> f_id f) (map (\<lambda>r. (f_id r, f_fingerprint_id r)) (s_findings s))"
proof -
  note i = ingest_identity [OF assms]
  have "length (s_findings s') = length (map f_id (s_findings s'))" by simp
  then have "length (s_findings s') = length (s_findings s) + (if created then 1 else 0)" using i by simp
  then show ?thesis using i by (simp add: others_def ident_def)
qed

text \<open>
  C2. Re-import. A second report with the same fingerprint, whatever its other fields, its source options and
  its tenant, is merged into the row of the first: nothing is created, the id is the same and
  the number of findings does not change.
\<close>

theorem reimport_merges:
  assumes "findings_unique s" and "ingest_finding E a p s = Inr (f, created, s')"
    and "derive_values E (s_asset_aliases s) a p = Inr v"
    and "ingest_finding E b q s' = Inr (g, again, s'')" and "derive_values E (s_asset_aliases s') b q = Inr w"
    and "iv_fp w = iv_fp v"
  shows "\<not> again \<and> f_id g = f_id f \<and> length (s_findings s'') = length (s_findings s')"
proof -
  note i = ingest_identity [OF assms(1-3)]
  then have u: "findings_unique s'" by blast
  note j = ingest_identity [OF u assms(4,5)]
  have known: "iv_fp w \<in> f_fingerprint_id ` set (s_findings s')" using i assms(6) by (metis imageI)
  then have no: "\<not> again" using j by blast
  have len: "length (map f_id (s_findings s'')) = length (map f_id (s_findings s'))" using j no by simp
  have "f_id g = f_id f"
  proof (rule ccontr)
    assume ne: "f_id g \<noteq> f_id f"
    have "(f_id f, iv_fp v) \<in> set (others (f_id g) s')" using i ne by (auto simp: others_def ident_def)
    then have "(f_id f, iv_fp v) \<in> set (others (f_id g) s'')" using j by simp
    then have "(f_id f, iv_fp v) \<in> set (ident s'')" unfolding others_def by simp
    then obtain h where h: "h \<in> set (s_findings s'')" "f_id h = f_id f" "f_fingerprint_id h = iv_fp v" by (auto simp: ident_def)
    have "inj_on f_fingerprint_id (set (s_findings s''))" using j by (simp add: findings_unique_def distinct_map)
    then have "h = g" using h j assms(6) by (metis inj_onD)
    then show False using ne h(2) by simp
  qed
  then show ?thesis using no len by simp
qed

text \<open>A small clock, no linking and no ledger: the environment of the examples of an ingest.\<close>

definition demo_import_env :: env where
  "demo_import_env = demo_env\<lparr>env_clock := (\<lambda>n. DateTime 1 1 1 0 0 0 n), env_decision_ledger_enabled := False,
     env_correlation_linking_enabled := False\<rparr>"

definition demo_args :: ingest_args where
  "demo_args = \<lparr>ia_source_name = ''trivy'', ia_tenant_id = None, ia_aikido_source_id = None, ia_trace_id = None,
     ia_parser_id = Some ''trivy'', ia_scan_session_id = None, ia_scanner_version = None, ia_raw_evidence_ref = None,
     ia_force_tag_override = False, ia_cluster_id = None\<rparr>"

definition demo_report :: vat_finding where
  "demo_report = demo_payload\<lparr>vf_image := None, vf_tag := None, vf_source_issue_id := None\<rparr>"

definition demo_again :: vat_finding where
  "demo_again = demo_report\<lparr>vf_severity := Low\<rparr>"

definition demo_other_args :: ingest_args where
  "demo_other_args = demo_args\<lparr>ia_tenant_id := Some ''acme''\<rparr>"

lemma demo_imports:
  "case (derive_values demo_import_env [] demo_args demo_report, ingest_finding demo_import_env demo_args demo_report empty_session) of
     (Inr v, Inr (f, c, s')) \<Rightarrow> c \<and>
       (case (derive_values demo_import_env (s_asset_aliases s') demo_other_args demo_again,
              ingest_finding demo_import_env demo_other_args demo_again s') of
          (Inr w, Inr (g, d, s'')) \<Rightarrow> iv_fp w = iv_fp v | _ \<Rightarrow> False)
   | _ \<Rightarrow> False"
  by code_simp

lemma demo_imports_obtain:
  obtains v f s' w g d s'' where "derive_values demo_import_env [] demo_args demo_report = Inr v"
    "ingest_finding demo_import_env demo_args demo_report empty_session = Inr (f, True, s')"
    "derive_values demo_import_env (s_asset_aliases s') demo_other_args demo_again = Inr w"
    "ingest_finding demo_import_env demo_other_args demo_again s' = Inr (g, d, s'')" "iv_fp w = iv_fp v"
proof -
  obtain v where v: "derive_values demo_import_env [] demo_args demo_report = Inr v"
    using demo_imports by (auto split: sum.splits)
  obtain f c s' where i: "ingest_finding demo_import_env demo_args demo_report empty_session = Inr (f, c, s')"
    using demo_imports v by (auto split: sum.splits)
  obtain w where w: "derive_values demo_import_env (s_asset_aliases s') demo_other_args demo_again = Inr w"
    using demo_imports v i by (auto split: sum.splits)
  obtain g d s'' where j: "ingest_finding demo_import_env demo_other_args demo_again s' = Inr (g, d, s'')"
    using demo_imports v i w by (auto split: sum.splits)
  have "c" "iv_fp w = iv_fp v" using demo_imports v i w j by simp_all
  then show thesis using that v i w j by simp
qed

lemma demo_empty_unique: "findings_unique empty_session"
  by (simp add: findings_unique_def empty_session_def)

theorem ingest_dedup_witness:
  "\<exists>f s'. ingest_finding demo_import_env demo_args demo_report empty_session = Inr (f, True, s') \<and>
     findings_unique s' \<and> length (s_findings s') = 1"
proof -
  obtain v f s' where d: "derive_values demo_import_env [] demo_args demo_report = Inr v"
    and i: "ingest_finding demo_import_env demo_args demo_report empty_session = Inr (f, True, s')"
    using demo_imports_obtain by metis
  have "derive_values demo_import_env (s_asset_aliases empty_session) demo_args demo_report = Inr v"
    using d by (simp add: empty_session_def)
  from ingest_dedup [OF demo_empty_unique i this] i show ?thesis by (simp add: empty_session_def)
qed

theorem reimport_merges_witness:
  "\<exists>f s' g s''. ingest_finding demo_import_env demo_args demo_report empty_session = Inr (f, True, s') \<and>
     ingest_finding demo_import_env demo_other_args demo_again s' = Inr (g, False, s'') \<and> f_id g = f_id f"
proof -
  obtain v f s' w g d s'' where d: "derive_values demo_import_env [] demo_args demo_report = Inr v"
    "ingest_finding demo_import_env demo_args demo_report empty_session = Inr (f, True, s')"
    "derive_values demo_import_env (s_asset_aliases s') demo_other_args demo_again = Inr w"
    "ingest_finding demo_import_env demo_other_args demo_again s' = Inr (g, d, s'')" "iv_fp w = iv_fp v"
    by (rule demo_imports_obtain)
  have "derive_values demo_import_env (s_asset_aliases empty_session) demo_args demo_report = Inr v"
    using d by (simp add: empty_session_def)
  from reimport_merges [OF demo_empty_unique d(2) this d(4,3,5)] show ?thesis using d(2,4) by auto
qed

theorem merge_keeps_review_witness:
  "\<exists>v f' s'. merge_existing demo_import_env demo_args v JNull demo_finding empty_session = Inr (f', s') \<and>
     f_justification f' = Some ''mitigated by WAF'' \<and> f_status f' = RiskAccepted"
proof -
  have "case derive_values demo_import_env [] demo_args demo_report of
      Inr v \<Rightarrow> (case merge_existing demo_import_env demo_args v JNull demo_finding empty_session of
                Inr (f', s') \<Rightarrow> status_after (iv_payload v) RiskAccepted = RiskAccepted | Inl _ \<Rightarrow> False)
    | Inl _ \<Rightarrow> False" by code_simp
  then obtain v f' s' where m: "merge_existing demo_import_env demo_args v JNull demo_finding empty_session = Inr (f', s')"
    and st: "status_after (iv_payload v) RiskAccepted = RiskAccepted"
    by (auto split: sum.splits)
  have "f_status demo_finding = RiskAccepted" "f_justification demo_finding = Some ''mitigated by WAF''"
    by (simp_all add: demo_finding_def)
  then show ?thesis using merge_keeps_review [OF m] m st by (auto simp: reviewed_def)
qed

end
