(* ===== verification/Vat_Asset_Merge.thy ===== *)
theory Vat_Asset_Merge
  imports Vat_Ledger_Read Vat_Linking Vat_Observations
begin

text \<open>
  Merging one asset into another and undoing it: the writing half of \<open>services/asset_aliases.py\<close>, the
  matching rules of \<open>services/assets_service.py\<close> and the handlers \<open>group_asset_into_target\<close> and
  \<open>unmerge_asset_alias\<close> of \<open>api/assets.py\<close>. The caller is an administrator with the tenant scope
  \<open>ctx\<close> and the mail address \<open>actor\<close>.
\<close>

section \<open>asset\_aliases.py: writing\<close>

text \<open>
  A new alias reads the clock for both of its timestamps, an UPDATE reads it for \<open>updated_at\<close>; assigning
  equal values is no UPDATE.
\<close>

definition upsert_asset_alias ::
  "env \<Rightarrow> string \<Rightarrow> string \<Rightarrow> string option \<Rightarrow> session \<Rightarrow> py_error + session" where
  "upsert_asset_alias E source_asset_id canonical_asset_id created_by s =
     (let src = clean_asset_id source_asset_id; canonical = clean_asset_id canonical_asset_id
      in if src = [] \<or> canonical = [] then Inl (ValueError ''source_asset_id and canonical_asset_id are required'')
         else if src = canonical then Inl (ValueError ''source_asset_id cannot equal canonical_asset_id'')
         else case tbl_get aa_source_asset_id src (s_asset_aliases s) of
                Some row \<Rightarrow>
                  (let changed = (aa_canonical_asset_id row \<noteq> canonical);
                       row1 = row\<lparr>aa_canonical_asset_id := canonical,
                                 aa_created_by := (if truthy created_by then created_by else aa_created_by row)\<rparr>;
                       (row2, s1) = (if row1 = row then (row, s) else (let (t, s1) = utcnow E s in (row1\<lparr>aa_updated_at := t\<rparr>, s1)));
                       s2 = s1\<lparr>s_asset_aliases := tbl_update (\<lambda>r. aa_source_asset_id r = src) (\<lambda>_. row2) (s_asset_aliases s1)\<rparr>
                   in Inr (if changed then snd (register_decision_aliases_for_asset_merge E src canonical s2) else s2))
              | None \<Rightarrow>
                  (let (t1, s1) = utcnow E s; (t2, s2) = utcnow E s1;
                       row = \<lparr>aa_source_asset_id = src, aa_canonical_asset_id = canonical, aa_created_by = created_by,
                              aa_created_at = t1, aa_updated_at = t2\<rparr>
                   in Inr (snd (register_decision_aliases_for_asset_merge E src canonical
                        (s2\<lparr>s_asset_aliases := s_asset_aliases s2 @ [row]\<rparr>)))))"

fun repoint_rows :: "env \<Rightarrow> string \<Rightarrow> string \<Rightarrow> asset_alias list \<Rightarrow> session \<Rightarrow> nat \<times> asset_alias list \<times> session" where
  "repoint_rows E old new [] s = (0, [], s)"
| "repoint_rows E old new (row # rows) s =
     (if aa_canonical_asset_id row = old \<and> aa_source_asset_id row \<noteq> new
      then (let (t, s1) = utcnow E s; (n, rows', s2) = repoint_rows E old new rows s1
            in (Suc n, row\<lparr>aa_canonical_asset_id := new, aa_updated_at := t\<rparr> # rows', s2))
      else (let (n, rows', s2) = repoint_rows E old new rows s in (n, row # rows', s2)))"

definition repoint_aliases :: "env \<Rightarrow> string \<Rightarrow> string \<Rightarrow> session \<Rightarrow> nat \<times> session" where
  "repoint_aliases E old_canonical_id new_canonical_id s =
     (let old = clean_asset_id old_canonical_id; new = clean_asset_id new_canonical_id
      in if old = [] \<or> new = [] \<or> old = new then (0, s)
         else let (n, rows, s1) = repoint_rows E old new (s_asset_aliases s) s
              in (n, s1\<lparr>s_asset_aliases := rows\<rparr>))"

definition record_merge_event ::
  "env \<Rightarrow> string \<Rightarrow> string \<Rightarrow> string \<Rightarrow> json_object \<Rightarrow> json_object \<Rightarrow> string option \<Rightarrow> session \<Rightarrow> session" where
  "record_merge_event E src tgt finding_id prev_values next_values created_by s =
     (let (t, s1) = utcnow E s
      in s1\<lparr>s_merge_events := s_merge_events s1 @
           [\<lparr>me_id = Suc (length (s_merge_events s1)), me_source_asset_id = clean_asset_id src,
             me_target_asset_id = clean_asset_id tgt, me_finding_id = finding_id, me_prev_values = JObj prev_values,
             me_next_values = JObj next_values, me_created_by = created_by, me_created_at = t, me_reverted_at = None\<rparr>]\<rparr>)"

section \<open>Which findings belong to the source\<close>

definition container_merge_group_key :: "string \<Rightarrow> string \<Rightarrow> string option" where
  "container_merge_group_key path_aliases source_asset_id =
     (let src = py_strip source_asset_id
      in if src = [] \<or> infer_asset_kind src [] \<noteq> ''container'' then None
         else Some (container_image_group_key path_aliases src))"

definition merge_candidate_image_like_prefixes :: "string \<Rightarrow> string \<Rightarrow> string list" where
  "merge_candidate_image_like_prefixes path_aliases source_asset_id =
     (let s = py_strip source_asset_id
      in if s = [] then []
         else if infer_asset_kind s [] \<noteq> ''container'' then [s]
         else let c = canonical_asset_key (normalize_container_ref (Some s)); k = apply_container_asset_path_aliases path_aliases c
              in rev (sort_key length (remdups (filter (\<lambda>x. x \<noteq> [])
                   ([s, k, c] @ (if py_startswith (py_lower k) ''docker.io/'' then [drop 10 k] else []))))))"

definition finding_value_matches_merge_source :: "string \<Rightarrow> string option \<Rightarrow> string \<Rightarrow> string option \<Rightarrow> bool" where
  "finding_value_matches_merge_source path_aliases field_value source_asset_id source_container_key =
     (let val = py_strip (or_empty field_value); src = py_strip source_asset_id
      in val \<noteq> [] \<and> src \<noteq> [] \<and>
         (val = src \<or>
          (case source_container_key of
             None \<Rightarrow> False
           | Some k \<Rightarrow> infer_asset_kind val [] = ''container'' \<and> container_image_group_key path_aliases val = k)))"

text \<open>\<open>column ILIKE escaped_prefix || '%'\<close>: a prefix test that ignores case; NULL matches nothing.\<close>

definition ilike_prefix :: "string \<Rightarrow> string option \<Rightarrow> bool" where
  "ilike_prefix prefix column = (case column of None \<Rightarrow> False | Some v \<Rightarrow> py_startswith (py_lower v) (py_lower prefix))"

definition merge_query :: "string \<Rightarrow> string \<Rightarrow> string option \<Rightarrow> finding \<Rightarrow> bool" where
  "merge_query path_aliases src key f =
     (f_image f = Some src \<or> f_component f = Some src \<or>
      (truthy key \<and>
       list_ex (\<lambda>p. ilike_prefix p (f_image f) \<or> ilike_prefix p (f_component f))
         (merge_candidate_image_like_prefixes path_aliases src)))"

definition merge_rows :: "string \<Rightarrow> string \<Rightarrow> string option \<Rightarrow> user_context \<Rightarrow> finding list \<Rightarrow> finding list" where
  "merge_rows path_aliases src key ctx fs =
     filter (\<lambda>f. merge_query path_aliases src key f \<and> tenant_filter_passes (ctx_tenant_id ctx) (ctx_cross_tenant ctx) \<and>
        (finding_value_matches_merge_source path_aliases (f_image f) src key \<or>
         finding_value_matches_merge_source path_aliases (f_component f) src key \<or>
         finding_value_matches_merge_source path_aliases (f_tag f) src key)) fs"

section \<open>Moving the findings\<close>

definition append_finding_audit :: "env \<Rightarrow> string option \<Rightarrow> string \<Rightarrow> string \<Rightarrow> finding \<Rightarrow> session \<Rightarrow> finding \<times> session" where
  "append_finding_audit E actor action note f s =
     (let (t, s1) = utcnow E s
      in (f\<lparr>f_audit := f_audit f @
            [audit_entry (strftime_z t) (or_empty (py_or actor (Some ''system''))) action note]\<rparr>, s1))"

text \<open>A moved finding with the values before and after.\<close>

record moved =
  mv_finding :: finding
  mv_prev :: json_object
  mv_next :: json_object

definition reassigned :: "bool \<Rightarrow> bool \<Rightarrow> string \<Rightarrow> finding \<Rightarrow> moved" where
  "reassigned img cmp tgt f =
     \<lparr>mv_finding = f\<lparr>f_image := (if img then Some tgt else f_image f),
                     f_component := (if cmp then Some tgt else f_component f)\<rparr>,
      mv_prev = (if img then [(''image'', opt_json (f_image f))] else []) @
                (if cmp then [(''component'', opt_json (f_component f))] else []),
      mv_next = (if img then [(''image'', JStr tgt)] else []) @ (if cmp then [(''component'', JStr tgt)] else [])\<rparr>"

fun reassign_rows ::
  "env \<Rightarrow> string option \<Rightarrow> string \<Rightarrow> string \<Rightarrow> string option \<Rightarrow> finding list \<Rightarrow> session \<Rightarrow> moved list \<times> session" where
  "reassign_rows E actor src tgt key [] s = ([], s)"
| "reassign_rows E actor src tgt key (f # fs) s =
     (let img = finding_value_matches_merge_source (env_container_asset_path_aliases E) (f_image f) src key;
          cmp = finding_value_matches_merge_source (env_container_asset_path_aliases E) (f_component f) src key
      in if \<not> img \<and> \<not> cmp then reassign_rows E actor src tgt key fs s
         else let m = reassigned img cmp tgt f;
                  (f1, s1) = append_finding_audit E actor ''Asset merge reassigned finding'' (src @ '' -> '' @ tgt) (mv_finding m) s;
                  (ms, s2) = reassign_rows E actor src tgt key fs (put_finding f1 s1)
              in (m\<lparr>mv_finding := f1\<rparr> # ms, s2))"

section \<open>Consolidating duplicates\<close>

definition merge_tag :: "string \<Rightarrow> string \<Rightarrow> finding \<Rightarrow> string" where
  "merge_tag src tgt f =
     (let raw = py_lower (py_strip (or_empty (f_tag f)))
      in if raw \<in> set [py_lower (py_strip src), py_lower (py_strip tgt)] then [] else raw)"

definition norm_col :: "string option \<Rightarrow> string" where
  "norm_col v = py_lower (py_strip (or_empty v))"

definition merge_peers :: "string \<Rightarrow> string \<Rightarrow> finding list \<Rightarrow> finding \<Rightarrow> finding list" where
  "merge_peers src tgt candidates f =
     filter (\<lambda>r. f_id r \<noteq> f_id f \<and> f_finding_type r = f_finding_type f \<and> norm_col (f_image r) = norm_col (f_image f) \<and>
        norm_col (f_branch r) = norm_col (f_branch f) \<and> merge_tag src tgt r = merge_tag src tgt f \<and>
        norm_col (f_component_base r) = norm_col (f_component_base f)) candidates"

definition merge_canonical :: "string list \<Rightarrow> finding list \<Rightarrow> finding" where
  "merge_canonical moved_ids peers =
     hd (sort_key (\<lambda>r. if f_id r \<in> set moved_ids then 1 else 0 :: nat) (sort_key f_created_at (sort_key f_id peers)))"

definition set_default :: "string \<Rightarrow> json \<Rightarrow> json_object \<Rightarrow> json_object" where
  "set_default k v d = (if map_of d k = None then jset k v d else d)"

definition consolidated :: "string \<Rightarrow> moved \<Rightarrow> moved" where
  "consolidated cid m =
     (let f = mv_finding m;
          m1 = (if f_correlated_to f \<noteq> Some cid
                then \<lparr>mv_finding = f\<lparr>f_correlated_to := Some cid\<rparr>,
                      mv_prev = set_default ''correlated_to'' (opt_json (f_correlated_to f)) (mv_prev m),
                      mv_next = jset ''correlated_to'' (JStr cid) (mv_next m)\<rparr> else m)
      in if f_status f \<noteq> Duplicate
         then \<lparr>mv_finding = mv_finding m1\<lparr>f_status := Duplicate\<rparr>,
               mv_prev = set_default ''status'' (JStr (status_value (f_status f))) (mv_prev m1),
               mv_next = jset ''status'' (JStr (status_value Duplicate)) (mv_next m1)\<rparr> else m1)"

fun consolidate_rows ::
  "env \<Rightarrow> string option \<Rightarrow> string \<Rightarrow> string \<Rightarrow> string list \<Rightarrow> finding list \<Rightarrow> moved list \<Rightarrow> session \<Rightarrow> nat \<times> moved list \<times> session" where
  "consolidate_rows E actor src tgt ids candidates [] s = (0, [], s)"
| "consolidate_rows E actor src tgt ids candidates (m # ms) s =
     (let peers = merge_peers src tgt candidates (mv_finding m)
      in if peers = []
         then (let (n, ms', s2) = consolidate_rows E actor src tgt ids candidates ms s in (n, m # ms', s2))
         else let cid = f_id (merge_canonical ids peers); m1 = consolidated cid m;
                  (f1, s1) = append_finding_audit E actor ''Asset merge consolidated duplicate''
                               (''Canonical finding: '' @ cid) (mv_finding m1) s;
                  (n, ms', s2) = consolidate_rows E actor src tgt ids candidates ms (put_finding f1 s1)
              in (Suc n, m1\<lparr>mv_finding := f1\<rparr> # ms', s2))"

section \<open>The merge handler\<close>

definition new_target_asset :: "asset option \<Rightarrow> string \<Rightarrow> asset" where
  "new_target_asset source_asset tgt =
     \<lparr>as_id = tgt, as_name = tgt,
      as_type = (case source_asset of Some a \<Rightarrow> as_type a
                 | None \<Rightarrow> if infer_asset_kind tgt [] = ''container'' then ''container'' else ''package''),
      as_source = (case source_asset of Some a \<Rightarrow> as_source a | None \<Rightarrow> ''manual-grouping''),
      as_branch = (case source_asset of Some a \<Rightarrow> as_branch a | None \<Rightarrow> None),
      as_tag = (case source_asset of Some a \<Rightarrow> as_tag a | None \<Rightarrow> None)\<rparr>"

definition move_findings ::
  "env \<Rightarrow> user_context \<Rightarrow> string option \<Rightarrow> string \<Rightarrow> string \<Rightarrow> session \<Rightarrow> nat \<times> moved list \<times> session" where
  "move_findings E ctx actor src tgt s =
     (let pa = env_container_asset_path_aliases E; key = container_merge_group_key pa src;
          (ms, s1) = reassign_rows E actor src tgt key (merge_rows pa src key ctx (s_findings s)) s;
          candidates = filter (\<lambda>r. (f_image r = Some tgt \<or> f_tag r = Some tgt \<or> f_component r = Some tgt) \<and>
                                   tenant_filter_passes (ctx_tenant_id ctx) (ctx_cross_tenant ctx)) (s_findings s1);
          (n, ms2, s2) = consolidate_rows E actor src tgt (map (f_id \<circ> mv_finding) ms) candidates ms s1
      in (n, ms2,
          fold (\<lambda>m. record_merge_event E src tgt (f_id (mv_finding m)) (mv_prev m) (mv_next m) actor) ms2 s2))"

fun link_moved :: "env \<Rightarrow> string \<Rightarrow> moved list \<Rightarrow> session \<Rightarrow> py_error + session" where
  "link_moved E tid [] s = Inr s"
| "link_moved E tid (m # ms) s =
     (case apply_correlation_linking E (mv_finding m) (Some tid) (Some ''asset_group'') (Some ''manual_asset_merge'') s of
        Inl e \<Rightarrow> Inl e | Inr s1 \<Rightarrow> link_moved E tid ms s1)"

record group_result =
  gr_target :: string
  gr_findings_updated :: nat
  gr_findings_merged :: nat
  gr_repointed_aliases :: nat
  gr_migration :: "nat \<times> nat \<times> nat \<times> nat"
  gr_created_target_asset :: bool
  gr_deleted_source_asset :: bool

definition group_assets :: "string \<Rightarrow> string \<Rightarrow> session \<Rightarrow> session" where
  "group_assets src tgt s =
     (let source_asset = tbl_get as_id src (s_assets s)
      in s\<lparr>s_assets := filter (\<lambda>a. as_id a \<noteq> src)
             (if tbl_get as_id tgt (s_assets s) = None then s_assets s @ [new_target_asset source_asset tgt] else s_assets s)\<rparr>)"

definition group_asset_into_target ::
  "env \<Rightarrow> user_context \<Rightarrow> string option \<Rightarrow> string \<Rightarrow> string \<Rightarrow> bool \<Rightarrow> session \<Rightarrow> py_error + (group_result \<times> session)" where
  "group_asset_into_target E ctx actor asset_id target_asset_id reassign s =
     (let src = py_strip asset_id; requested = py_strip target_asset_id;
          resolved = resolve_canonical_asset_id (s_asset_aliases s) requested;
          tgt = (if resolved = [] then requested else resolved)
      in if src = [] \<or> requested = [] then Inl (HTTPException 422 ''source and target asset ids are required'')
         else if src = tgt then Inl (HTTPException 400 ''source asset id must differ from target asset id'')
         else case upsert_asset_alias E src tgt actor s of
                Inl e \<Rightarrow> Inl e
              | Inr s1 \<Rightarrow>
                  (let (repointed, s2) = repoint_aliases E src tgt s1;
                       (migration, s3) = migrate_observations_for_asset_merge src tgt s2;
                       (merged, ms, s4) = (if reassign then move_findings E ctx actor src tgt s3 else (0, [], s3));
                       s5 = group_assets src tgt s4;
                       linked = (if reassign \<and> ms \<noteq> [] \<and> env_correlation_linking_enabled E
                                 then (let (u, s6) = uuid4_hex E s5 in link_moved E (''asset-merge-'' @ u) ms s6)
                                 else Inr s5)
                   in case linked of
                        Inl e \<Rightarrow> Inl e
                      | Inr s7 \<Rightarrow>
                          Inr (\<lparr>gr_target = tgt, gr_findings_updated = length ms, gr_findings_merged = merged,
                                gr_repointed_aliases = repointed, gr_migration = migration,
                                gr_created_target_asset = (tbl_get as_id tgt (s_assets s4) = None),
                                gr_deleted_source_asset = (tbl_get as_id src (s_assets s4) \<noteq> None)\<rparr>, s7)))"

section \<open>The unmerge handler\<close>

text \<open>The text of a column as the handler compares it.\<close>

definition column_text :: "string \<Rightarrow> finding \<Rightarrow> string" where
  "column_text field f =
     py_strip (if field = ''image'' then or_empty (f_image f) else if field = ''component'' then or_empty (f_component f)
               else if field = ''tag'' then or_empty (f_tag f) else if field = ''correlated_to'' then or_empty (f_correlated_to f)
               else status_value (f_status f))"

definition json_column :: "json \<Rightarrow> string option" where
  "json_column j = (if j = JNull then None else Some (py_str j))"

text \<open>\<open>setattr(finding, field, prev)\<close>; a status that is no member is refused by the column type.\<close>

definition set_column :: "string \<Rightarrow> json \<Rightarrow> finding \<Rightarrow> py_error + finding" where
  "set_column field v f =
     (if field = ''image'' then Inr (f\<lparr>f_image := json_column v\<rparr>)
      else if field = ''component'' then Inr (f\<lparr>f_component := json_column v\<rparr>)
      else if field = ''tag'' then Inr (f\<lparr>f_tag := json_column v\<rparr>)
      else if field = ''correlated_to'' then Inr (f\<lparr>f_correlated_to := json_column v\<rparr>)
      else case status_of_value (py_str v) of Inl e \<Rightarrow> Inl e | Inr st \<Rightarrow> Inr (f\<lparr>f_status := st\<rparr>))"

fun restore_fields :: "json_object \<Rightarrow> json_object \<Rightarrow> string list \<Rightarrow> bool \<times> finding \<Rightarrow> py_error + (bool \<times> finding)" where
  "restore_fields prev next [] acc = Inr acc"
| "restore_fields prev next (k # ks) (changed, f) =
     (case (map_of prev k, map_of next k) of
        (Some p, Some n) \<Rightarrow>
          if column_text k f = (if n = JNull then [] else py_strip (py_str n))
          then (case set_column k p f of Inl e \<Rightarrow> Inl e | Inr f1 \<Rightarrow> restore_fields prev next ks (True, f1))
          else restore_fields prev next ks (changed, f)
      | _ \<Rightarrow> restore_fields prev next ks (changed, f))"

definition RESTORED_FIELDS :: "string list" where
  "RESTORED_FIELDS = [''image'', ''component'', ''tag'', ''correlated_to'', ''status'']"

definition revert_event :: "datetime \<Rightarrow> nat \<Rightarrow> session \<Rightarrow> session" where
  "revert_event t i s =
     s\<lparr>s_merge_events := tbl_update (\<lambda>e. me_id e = i)
        (\<lambda>e. e\<lparr>me_reverted_at := (case me_reverted_at e of None \<Rightarrow> Some t | Some u \<Rightarrow> Some u)\<rparr>) (s_merge_events s)\<rparr>"

fun undo_events ::
  "env \<Rightarrow> user_context \<Rightarrow> string option \<Rightarrow> string \<Rightarrow> datetime \<Rightarrow> asset_merge_event list \<Rightarrow> nat \<times> session \<Rightarrow> py_error + (nat \<times> session)" where
  "undo_events E ctx actor note t [] acc = Inr acc"
| "undo_events E ctx actor note t (ev # evs) (n, s) =
     (case tbl_get f_id (me_finding_id ev) (s_findings s) of
        None \<Rightarrow> undo_events E ctx actor note t evs (n, revert_event t (me_id ev) s)
      | Some f \<Rightarrow>
          if ctx_tenant_id ctx \<noteq> None \<and> \<not> row_tenant_visible (f_tenant_id f) ctx
          then undo_events E ctx actor note t evs (n, s)
          else (case restore_fields (as_dict (me_prev_values ev)) (as_dict (me_next_values ev)) RESTORED_FIELDS (False, f) of
                  Inl e \<Rightarrow> Inl e
                | Inr (changed, f1) \<Rightarrow>
                    (let (n1, s1) = (if changed
                                     then (let (f2, s1) = append_finding_audit E actor ''Asset unmerge restored finding fields'' note f1 s
                                           in (Suc n, put_finding f2 s1))
                                     else (n, s))
                     in undo_events E ctx actor note t evs (n1, revert_event t (me_id ev) s1))))"

definition restored_asset :: "asset option \<Rightarrow> string \<Rightarrow> asset" where
  "restored_asset target_asset src =
     \<lparr>as_id = src, as_name = src, as_type = (case target_asset of Some a \<Rightarrow> as_type a | None \<Rightarrow> ''package''),
      as_source = (case target_asset of Some a \<Rightarrow> as_source a | None \<Rightarrow> ''manual-unmerge''), as_branch = None, as_tag = None\<rparr>"

definition unmerge_asset_alias ::
  "env \<Rightarrow> user_context \<Rightarrow> string option \<Rightarrow> string \<Rightarrow> string \<Rightarrow> session \<Rightarrow> py_error + (nat \<times> session)" where
  "unmerge_asset_alias E ctx actor asset_id source_asset_id s =
     (let canonical = py_strip asset_id; src = py_strip source_asset_id
      in if canonical = [] \<or> src = [] then Inl (HTTPException 422 ''canonical and source asset ids are required'')
         else if src = canonical then Inl (HTTPException 400 ''source and canonical ids must differ'')
         else case tbl_get aa_source_asset_id src (s_asset_aliases s) of
                None \<Rightarrow> Inl (HTTPException 404 ''Alias not found for canonical asset'')
              | Some al \<Rightarrow>
                  if aa_canonical_asset_id al \<noteq> canonical then Inl (HTTPException 404 ''Alias not found for canonical asset'')
                  else let evs = sort_key me_id (filter (\<lambda>e. me_source_asset_id e = src \<and> me_target_asset_id e = canonical \<and>
                                   me_reverted_at e = None) (s_merge_events s))
                       in (case undo_events E ctx actor (canonical @ '' -> '' @ src) (aa_updated_at al) evs (0, s) of
                             Inl e \<Rightarrow> Inl e
                           | Inr (n, s1) \<Rightarrow>
                               (let s2 = s1\<lparr>s_asset_aliases := filter (\<lambda>r. aa_source_asset_id r \<noteq> src) (s_asset_aliases s1)\<rparr>;
                                    s3 = (if tbl_get as_id src (s_assets s2) = None
                                          then s2\<lparr>s_assets := s_assets s2 @ [restored_asset (tbl_get as_id canonical (s_assets s2)) src]\<rparr>
                                          else s2)
                                in Inr (n, s3))))"

definition list_asset_aliases :: "session \<Rightarrow> string \<Rightarrow> asset_alias list" where
  "list_asset_aliases s asset_id =
     sort_key aa_source_asset_id (filter (\<lambda>r. aa_canonical_asset_id r = py_strip asset_id) (s_asset_aliases s))"

section \<open>Frame rules\<close>

text \<open>Steps that change neither the aliases nor the findings nor the merge events.\<close>

definition merge_frame :: "session \<Rightarrow> session \<Rightarrow> bool" where
  "merge_frame s t = (s_asset_aliases t = s_asset_aliases s \<and> s_findings t = s_findings s \<and> s_merge_events t = s_merge_events s)"

lemma merge_frame_refl [simp]: "merge_frame s s"
  by (simp add: merge_frame_def)

lemma merge_frame_trans: "merge_frame s t \<Longrightarrow> merge_frame t u \<Longrightarrow> merge_frame s u"
  by (simp add: merge_frame_def)

lemma merge_frame_clock [simp]: "merge_frame s (snd (utcnow E s))" "merge_frame s (snd (uuid4_hex E s))"
  by (simp_all add: merge_frame_def utcnow_def uuid4_hex_def)

lemma merge_frame_register_alias: "merge_frame s (register_subject_alias E tn a c r s)"
  by (simp add: register_subject_alias_def merge_frame_def utcnow_def Let_def case_prod_beta)

lemma merge_frame_rekeyed: "merge_frame s (snd (register_rekeyed E old new ds (n, s)))"
proof (induction ds arbitrary: n s)
  case (Cons d ds)
  let ?a = "\<lambda>k. register_subject_alias E (Some (d_tenant_id d)) k (d_subject_key d) ''asset_merge'' s"
  have "merge_frame s (snd (register_rekeyed E old new ds (m, ?a k)))" for m k
    by (rule merge_frame_trans [OF merge_frame_register_alias Cons])
  then show ?case using Cons [of s n] by (simp split: option.split)
qed simp

lemma merge_frame_register: "merge_frame s (snd (register_decision_aliases_for_asset_merge E old new s))"
  by (simp add: register_decision_aliases_for_asset_merge_def Let_def merge_frame_rekeyed)

lemma merge_frame_migrate:
  "merge_frame s (snd (migrate_observations_for_asset_merge src tgt s))"
  by (simp add: migrate_observations_for_asset_merge_def merge_frame_def Let_def case_prod_beta)

lemma merge_frame_group_assets: "merge_frame s (group_assets src tgt s)"
  by (simp add: group_assets_def merge_frame_def Let_def)

section \<open>The alias table as a map\<close>

definition alias_target :: "asset_alias list \<Rightarrow> string \<Rightarrow> string option" where
  "alias_target A x = map_option aa_canonical_asset_id (tbl_get aa_source_asset_id x A)"

lemma alias_target_append:
  "alias_target (A @ [r]) x =
     (case alias_target A x of Some d \<Rightarrow> Some d | None \<Rightarrow> if aa_source_asset_id r = x then Some (aa_canonical_asset_id r) else None)"
  by (simp add: alias_target_def tbl_get_append split: option.split)

lemma alias_target_update:
  assumes "aa_source_asset_id row = src"
  shows "alias_target (tbl_update (\<lambda>r. aa_source_asset_id r = src) (\<lambda>_. row) A) x =
    (if x = src then (if alias_target A src = None then None else Some (aa_canonical_asset_id row)) else alias_target A x)"
  using assms by (induction A) (auto simp: alias_target_def)

lemma upsert_alias_effect:
  assumes "upsert_asset_alias E src tgt actor s = Inr s1" and "py_strip src = src" and "py_strip tgt = tgt"
  shows "alias_target (s_asset_aliases s1) = (alias_target (s_asset_aliases s))(src \<mapsto> tgt)"
    and "s_findings s1 = s_findings s" and "s_merge_events s1 = s_merge_events s"
proof -
  let ?reg = "register_decision_aliases_for_asset_merge E src tgt"
  have c: "clean_asset_id src = src" "clean_asset_id tgt = tgt" using assms(2,3) by (simp_all add: clean_asset_id_def)
  have "\<exists>A t. merge_frame t s1 \<and> s_asset_aliases t = A \<and> s_findings t = s_findings s \<and> s_merge_events t = s_merge_events s \<and>
      alias_target A = (alias_target (s_asset_aliases s))(src \<mapsto> tgt)"
  proof (cases "tbl_get aa_source_asset_id src (s_asset_aliases s)")
    case None
    define row where "row = \<lparr>aa_source_asset_id = src, aa_canonical_asset_id = tgt, aa_created_by = actor,
      aa_created_at = env_clock E (s_clk s), aa_updated_at = env_clock E (Suc (s_clk s))\<rparr>"
    define t where "t = s\<lparr>s_clk := Suc (Suc (s_clk s)), s_asset_aliases := s_asset_aliases s @ [row]\<rparr>"
    have "s1 = snd (?reg t)"
      using assms(1) None c by (auto simp: upsert_asset_alias_def utcnow_def t_def row_def Let_def split: if_splits)
    moreover have "alias_target (s_asset_aliases s) src = None" using None by (simp add: alias_target_def)
    then have "alias_target (s_asset_aliases s @ [row]) = (alias_target (s_asset_aliases s))(src \<mapsto> tgt)"
      by (auto simp: fun_eq_iff alias_target_append row_def split: option.split)
    ultimately show ?thesis using merge_frame_register by (intro exI [of _ "s_asset_aliases t"] exI [of _ t]) (simp add: t_def)
  next
    case (Some row)
    define row1 where "row1 = row\<lparr>aa_canonical_asset_id := tgt, aa_created_by := (if truthy actor then actor else aa_created_by row)\<rparr>"
    define q where "q = (if row1 = row then (row, s) else (row1\<lparr>aa_updated_at := env_clock E (s_clk s)\<rparr>, s\<lparr>s_clk := Suc (s_clk s)\<rparr>))"
    define t where "t = (snd q)\<lparr>s_asset_aliases := tbl_update (\<lambda>r. aa_source_asset_id r = src) (\<lambda>_. fst q) (s_asset_aliases (snd q))\<rparr>"
    have "s1 = (if aa_canonical_asset_id row \<noteq> tgt then snd (?reg t) else t)"
      using assms(1) Some c unfolding t_def q_def row1_def
      by (simp add: upsert_asset_alias_def utcnow_def Let_def case_prod_beta split: if_splits)
    then have fr: "merge_frame t s1" using merge_frame_register by simp
    have row: "aa_source_asset_id row = src" using tbl_get_Some [OF Some] by simp
    have r1: "aa_source_asset_id row1 = src" "aa_canonical_asset_id row1 = tgt" using row by (simp_all add: row1_def)
    have q: "aa_source_asset_id (fst q) = src" "aa_canonical_asset_id (fst q) = tgt" "s_asset_aliases (snd q) = s_asset_aliases s"
      "s_findings (snd q) = s_findings s" "s_merge_events (snd q) = s_merge_events s"
      using row r1 by (cases "row1 = row"; simp add: q_def)+
    have "alias_target (s_asset_aliases s) src \<noteq> None" using Some by (simp add: alias_target_def)
    then have "alias_target (s_asset_aliases t) = (alias_target (s_asset_aliases s))(src \<mapsto> tgt)"
      using alias_target_update [OF q(1)] by (auto simp: t_def q fun_eq_iff)
    then show ?thesis using fr q by (intro exI [of _ "s_asset_aliases t"] exI [of _ t]) (simp add: t_def)
  qed
  then show "alias_target (s_asset_aliases s1) = (alias_target (s_asset_aliases s))(src \<mapsto> tgt)"
    "s_findings s1 = s_findings s" "s_merge_events s1 = s_merge_events s"
    by (auto simp: merge_frame_def)
qed

lemma repoint_rows_effect:
  "repoint_rows E old new A s = (n, A', s') \<Longrightarrow>
     alias_target A' x = map_option (\<lambda>d. if d = old \<and> x \<noteq> new then new else d) (alias_target A x) \<and>
     merge_frame s s'"
proof (induction A arbitrary: s n A' s')
  case (Cons r A)
  obtain n1 A1 s1 where 1: "repoint_rows E old new A (snd (utcnow E s)) = (n1, A1, s1)" by (metis prod_cases3)
  obtain n2 A2 s2 where 2: "repoint_rows E old new A s = (n2, A2, s2)" by (metis prod_cases3)
  show ?case
    using Cons.prems Cons.IH [OF 1] Cons.IH [OF 2] 1 2 merge_frame_trans [OF merge_frame_clock(1) [of s E]]
    by (auto simp: alias_target_def utcnow_def split: if_splits)
qed (simp add: alias_target_def)

lemma repoint_aliases_effect:
  assumes "repoint_aliases E src tgt s = (n, s1)" and "py_strip src = src" and "py_strip tgt = tgt"
    and "src \<noteq> []" and "tgt \<noteq> []" and "src \<noteq> tgt"
  shows "alias_target (s_asset_aliases s1) x = map_option (\<lambda>d. if d = src \<and> x \<noteq> tgt then tgt else d) (alias_target (s_asset_aliases s) x)"
    and "s_findings s1 = s_findings s" and "s_merge_events s1 = s_merge_events s"
proof -
  obtain A t where r: "repoint_rows E src tgt (s_asset_aliases s) s = (n, A, t)" and s1: "s1 = t\<lparr>s_asset_aliases := A\<rparr>"
    using assms by (auto simp: repoint_aliases_def clean_asset_id_def Let_def split: prod.splits)
  note e = repoint_rows_effect [OF r]
  show "alias_target (s_asset_aliases s1) x = map_option (\<lambda>d. if d = src \<and> x \<noteq> tgt then tgt else d) (alias_target (s_asset_aliases s) x)"
    "s_findings s1 = s_findings s" "s_merge_events s1 = s_merge_events s"
    using e [of x] e by (auto simp: s1 merge_frame_def)
qed
section \<open>Merging redirects the resolution\<close>

text \<open>Every alias leads to an asset that has no alias of its own.\<close>

definition alias_flat :: "asset_alias list \<Rightarrow> bool" where
  "alias_flat A = (\<forall>x d. alias_target A x = Some d \<longrightarrow> d \<noteq> [] \<and> py_strip d = d \<and> alias_target A d = None)"

lemma alias_next_target:
  "alias_next A x = (case alias_target A x of None \<Rightarrow> None
     | Some d \<Rightarrow> if py_strip d = [] \<or> py_strip d = x then None else Some (py_strip d))"
  by (simp add: alias_next_def alias_target_def clean_asset_id_def Let_def split: option.split)

lemma resolve_flat:
  assumes "alias_flat A"
  shows "resolve_canonical_asset_id A x = (case alias_target A (py_strip x) of None \<Rightarrow> py_strip x | Some d \<Rightarrow> if py_strip x = [] then [] else d)"
proof (cases "py_strip x = []")
  case True
  then show ?thesis by (simp add: resolve_canonical_asset_id_def clean_asset_id_def split: option.split)
next
  case False
  have end_path: "alias_path A y 0 y" if "alias_target A y = None" for y
    using that by (intro alias_path.path_end) (simp add: alias_next_target)
  have "\<exists>n. n \<le> 1 \<and> alias_path A (py_strip x) n (case alias_target A (py_strip x) of None \<Rightarrow> py_strip x | Some d \<Rightarrow> d)"
  proof (cases "alias_target A (py_strip x)")
    case None
    then show ?thesis using end_path [OF None] by auto
  next
    case (Some d)
    then have d: "d \<noteq> []" "py_strip d = d" "alias_target A d = None" using assms by (auto simp: alias_flat_def)
    then have "alias_next A (py_strip x) = Some d" using Some by (auto simp: alias_next_target)
    then have "alias_path A (py_strip x) (Suc 0) d" using end_path [OF d(3)] by (rule alias_path.path_hop)
    then show ?thesis using Some by auto
  qed
  then obtain n where n: "n \<le> 1" "alias_path A (py_strip x) n (case alias_target A (py_strip x) of None \<Rightarrow> py_strip x | Some d \<Rightarrow> d)"
    by blast
  have "resolve_chain MAX_DEPTH A [] (py_strip x) = (case alias_target A (py_strip x) of None \<Rightarrow> py_strip x | Some d \<Rightarrow> d)"
    by (rule resolve_chain_path [OF n(2)]) (use n(1) False in \<open>simp_all add: MAX_DEPTH_def\<close>)
  then show ?thesis using False by (simp add: resolve_canonical_asset_id_def clean_asset_id_def split: option.split)
qed

lemma aliases_emit [simp]: "s_asset_aliases (snd (emit_audit_event E a s)) = s_asset_aliases s"
  by (simp add: emit_audit_event_def store_event_def uuid4_hex_def utcnow_def Let_def split: option.splits)

lemma aliases_trace [simp]: "s_asset_aliases (snd (trace_or_new E tr s)) = s_asset_aliases s"
  by (simp add: trace_or_new_def new_trace_id_def uuid4_hex_def)

lemma aliases_put [simp]: "s_asset_aliases (put_finding f s) = s_asset_aliases s"
  by (simp add: put_finding_def)

lemma aliases_upsert_edge: "upsert_edge E u s = Inr (e, t) \<Longrightarrow> s_asset_aliases t = s_asset_aliases s"
  by (auto simp: upsert_edge_def operation_or_new_def uuid4_hex_def utcnow_def case_prod_beta Let_def split: sum.splits if_splits)

lemma aliases_link_rows: "link_rows E tid src p key c rows (out, s) = Inr (out', t) \<Longrightarrow> s_asset_aliases t = s_asset_aliases s"
proof (induction rows arbitrary: out s)
  case (Cons r rows)
  have sc: "s_asset_aliases (set_correlated i r s) = s_asset_aliases s" for i by (simp add: set_correlated_def)
  show ?case using Cons by (auto simp: Let_def sc dest!: aliases_upsert_edge split: if_splits sum.splits prod.splits)
qed simp

lemma aliases_linking: "apply_correlation_linking E f tr src p s = Inr t \<Longrightarrow> s_asset_aliases t = s_asset_aliases s"
proof -
  assume a: "apply_correlation_linking E f tr src p s = Inr t"
  obtain tid s1 where tr: "trace_or_new E tr s = (tid, s1)" by fastforce
  have s1: "s_asset_aliases s1 = s_asset_aliases s" using aliases_trace [of E tr s] tr by simp
  show ?thesis using a tr s1
    by (auto simp: apply_correlation_linking_def Let_def dest!: aliases_link_rows split: if_splits sum.splits prod.splits)
qed

lemma aliases_link_moved: "link_moved E tid ms s = Inr t \<Longrightarrow> s_asset_aliases t = s_asset_aliases s"
  by (induction ms arbitrary: s) (auto dest: aliases_linking split: sum.splits)

lemma audit_step:
  "append_finding_audit E actor act note f s = (f1, s1) \<Longrightarrow>
     merge_frame s s1 \<and> (\<exists>a. f1 = f\<lparr>f_audit := a\<rparr>)"
  by (auto simp: append_finding_audit_def merge_frame_def utcnow_def)

lemma aliases_reassign: "s_asset_aliases (snd (reassign_rows E actor src tgt key rows s)) = s_asset_aliases s"
  by (induction rows arbitrary: s) (simp_all add: Let_def case_prod_beta append_finding_audit_def utcnow_def)

lemma aliases_consolidate: "s_asset_aliases (snd (snd (consolidate_rows E actor src tgt ids cs ms s))) = s_asset_aliases s"
  by (induction ms arbitrary: s) (simp_all add: Let_def case_prod_beta append_finding_audit_def utcnow_def)

lemma aliases_move: "s_asset_aliases (snd (snd (move_findings E ctx actor src tgt s))) = s_asset_aliases s"
proof -
  have ev: "s_asset_aliases (fold (\<lambda>m. record_merge_event E src tgt (f_id (mv_finding m)) (mv_prev m) (mv_next m) actor) ms t) =
      s_asset_aliases t" for ms t
    by (induction ms arbitrary: t) (simp_all add: record_merge_event_def utcnow_def Let_def)
  show ?thesis by (simp add: move_findings_def Let_def case_prod_beta ev aliases_consolidate aliases_reassign)
qed

text \<open>The steps of a successful merge.\<close>

lemma group_steps:
  assumes "group_asset_into_target E ctx actor asset_id target reassign s = Inr (g, s')"
  obtains src tgt s1 n s2 mig s3 k ms s4 where "src = py_strip asset_id" "src \<noteq> []" "src \<noteq> tgt" "tgt = gr_target g"
    "py_strip target \<noteq> []"
    "tgt = (if resolve_canonical_asset_id (s_asset_aliases s) (py_strip target) = [] then py_strip target
       else resolve_canonical_asset_id (s_asset_aliases s) (py_strip target))"
    "upsert_asset_alias E src tgt actor s = Inr s1" "repoint_aliases E src tgt s1 = (n, s2)"
    "migrate_observations_for_asset_merge src tgt s2 = (mig, s3)"
    "(if reassign then move_findings E ctx actor src tgt s3 else (0, [], s3)) = (k, ms, s4)"
    "(if reassign \<and> ms \<noteq> [] \<and> env_correlation_linking_enabled E
      then (let (u, s6) = uuid4_hex E (group_assets src tgt s4) in link_moved E (''asset-merge-'' @ u) ms s6)
      else Inr (group_assets src tgt s4)) = Inr s'"
proof -
  define src where "src = py_strip asset_id"
  define tgt where "tgt = (if resolve_canonical_asset_id (s_asset_aliases s) (py_strip target) = [] then py_strip target
       else resolve_canonical_asset_id (s_asset_aliases s) (py_strip target))"
  have ne: "src \<noteq> []" "src \<noteq> tgt" "py_strip target \<noteq> []"
    using assms by (auto simp: group_asset_into_target_def src_def tgt_def Let_def split: if_splits)
  obtain s1 where u: "upsert_asset_alias E src tgt actor s = Inr s1"
    using assms ne by (cases "upsert_asset_alias E src tgt actor s")
      (simp_all add: group_asset_into_target_def src_def [symmetric] tgt_def [symmetric] Let_def)
  obtain n s2 where r: "repoint_aliases E src tgt s1 = (n, s2)" by fastforce
  obtain mig s3 where m: "migrate_observations_for_asset_merge src tgt s2 = (mig, s3)" by fastforce
  obtain k ms s4 where f: "(if reassign then move_findings E ctx actor src tgt s3 else (0, [], s3)) = (k, ms, s4)"
    by (metis prod_cases3)
  define L where "L = (if reassign \<and> ms \<noteq> [] \<and> env_correlation_linking_enabled E
      then (let (u, s6) = uuid4_hex E (group_assets src tgt s4) in link_moved E (''asset-merge-'' @ u) ms s6)
      else Inr (group_assets src tgt s4))"
  have eq: "(case L of Inl e \<Rightarrow> Inl e | Inr s7 \<Rightarrow>
      Inr (\<lparr>gr_target = tgt, gr_findings_updated = length ms, gr_findings_merged = k,
            gr_repointed_aliases = n, gr_migration = mig,
            gr_created_target_asset = (tbl_get as_id tgt (s_assets s4) = None),
            gr_deleted_source_asset = (tbl_get as_id src (s_assets s4) \<noteq> None)\<rparr>, s7)) = Inr (g, s')"
    using assms by (simp only: group_asset_into_target_def Let_def src_def [symmetric] tgt_def [symmetric] L_def u r m f ne
      prod.case sum.case if_False simp_thms)
  then have "L = Inr s'" "tgt = gr_target g" by (cases L; auto)+
  then show thesis using that [OF src_def ne(1,2) _ ne(3) tgt_def u r m f] unfolding L_def by blast
qed

lemma strip_strip_resolve:
  assumes "alias_flat A"
  shows "py_strip (resolve_canonical_asset_id A x) = resolve_canonical_asset_id A x"
  using assms by (auto simp: resolve_flat alias_flat_def split: option.split)

lemma group_alias_targets:
  assumes "group_asset_into_target E ctx actor asset_id target reassign s = Inr (g, s')" and "alias_flat (s_asset_aliases s)"
  shows "py_strip (gr_target g) = gr_target g \<and> gr_target g \<noteq> [] \<and> gr_target g \<noteq> py_strip asset_id \<and>
    alias_target (s_asset_aliases s) (gr_target g) = None \<and>
    alias_target (s_asset_aliases s') x =
      (if x = py_strip asset_id then Some (gr_target g)
       else map_option (\<lambda>d. if d = py_strip asset_id then gr_target g else d) (alias_target (s_asset_aliases s) x))"
  using assms(1)
proof (rule group_steps)
  fix src tgt s1 n s2 mig s3 k ms s4
  assume src: "src = py_strip asset_id" "src \<noteq> []" "src \<noteq> tgt" "tgt = gr_target g" and t: "py_strip target \<noteq> []"
    "tgt = (if resolve_canonical_asset_id (s_asset_aliases s) (py_strip target) = [] then py_strip target
       else resolve_canonical_asset_id (s_asset_aliases s) (py_strip target))"
    and u: "upsert_asset_alias E src tgt actor s = Inr s1" "repoint_aliases E src tgt s1 = (n, s2)"
      "migrate_observations_for_asset_merge src tgt s2 = (mig, s3)"
    and f: "(if reassign then move_findings E ctx actor src tgt s3 else (0, [], s3)) = (k, ms, s4)"
    and l: "(if reassign \<and> ms \<noteq> [] \<and> env_correlation_linking_enabled E
      then (let (u, s6) = uuid4_hex E (group_assets src tgt s4) in link_moved E (''asset-merge-'' @ u) ms s6)
      else Inr (group_assets src tgt s4)) = Inr s'"
  have tgt: "tgt \<noteq> []" "py_strip tgt = tgt" "alias_target (s_asset_aliases s) tgt = None"
    using t assms(2) by (auto simp: resolve_flat alias_flat_def split: option.splits if_splits)
  have st: "py_strip src = src" by (simp add: src(1))
  note e1 = upsert_alias_effect(1) [OF u(1) st tgt(2)] and e2 = repoint_aliases_effect(1) [OF u(2) st tgt(2) src(2) tgt(1) src(3)]
  have a3: "s_asset_aliases s3 = s_asset_aliases s2" using merge_frame_migrate [of s2 src tgt] u(3) by (simp add: merge_frame_def)
  have a4: "s_asset_aliases s4 = s_asset_aliases s3" using f aliases_move [of E ctx actor src tgt s3] by (auto split: if_splits)
  have a5: "s_asset_aliases s' = s_asset_aliases s4"
    using l merge_frame_group_assets [of s4 src tgt]
    by (auto simp: merge_frame_def uuid4_hex_def dest!: aliases_link_moved split: if_splits)
  have "alias_target (s_asset_aliases s') x =
      (if x = src then Some tgt else map_option (\<lambda>d. if d = src then tgt else d) (alias_target (s_asset_aliases s) x))"
  proof (cases "x = src")
    case True
    then show ?thesis using src(3) by (simp add: a5 a4 a3 e2 e1)
  next
    case False
    then show ?thesis using tgt(3) by (cases "x = tgt"; simp add: a5 a4 a3 e2 e1)
  qed
  then show ?thesis using tgt src(2,3) unfolding src(1,4) by auto
qed

lemma alias_flat_group:
  assumes "alias_flat (s_asset_aliases s)"
    and "group_asset_into_target E ctx actor asset_id target reassign s = Inr (g, s')"
  shows "alias_flat (s_asset_aliases s')"
  unfolding alias_flat_def
proof (intro allI impI)
  fix y d
  note t = group_alias_targets [OF assms(2,1)]
  have old: "d \<noteq> [] \<and> py_strip d = d \<and> alias_target (s_asset_aliases s) d = None"
    if "alias_target (s_asset_aliases s) y = Some d" using assms(1) that by (auto simp: alias_flat_def)
  assume "alias_target (s_asset_aliases s') y = Some d"
  then have "d = gr_target g \<or> alias_target (s_asset_aliases s) y = Some d \<and> d \<noteq> py_strip asset_id"
    using t [of y] by (auto split: if_splits)
  then have "d \<noteq> [] \<and> py_strip d = d \<and> alias_target (s_asset_aliases s) d = None \<and> d \<noteq> py_strip asset_id"
    using t [of d] old by auto
  then show "d \<noteq> [] \<and> py_strip d = d \<and> alias_target (s_asset_aliases s') d = None" using t [of d] by simp
qed


text \<open>A small clock and no linking: the environment of the examples of a merge.\<close>

definition demo_merge_env :: env where
  "demo_merge_env = demo_env\<lparr>env_clock := (\<lambda>n. DateTime 1 1 1 0 0 0 n), env_decision_ledger_enabled := False,
     env_correlation_linking_enabled := False\<rparr>"

definition demo_admin :: user_context where
  "demo_admin = \<lparr>ctx_tenant_id = None, ctx_cross_tenant = True\<rparr>"

definition demo_merge_session :: session where
  "demo_merge_session = empty_session\<lparr>
     s_asset_aliases := [\<lparr>aa_source_asset_id = ''b'', aa_canonical_asset_id = ''a'', aa_created_by = None,
                          aa_created_at = DateTime 1 1 1 0 0 0 0, aa_updated_at = DateTime 1 1 1 0 0 0 0\<rparr>],
     s_findings := [demo_finding\<lparr>f_image := Some ''a''\<rparr>, demo_finding\<lparr>f_id := ''f2'', f_image := Some ''c'', f_status := Open\<rparr>]\<rparr>"

lemma demo_merge_runs:
  "case group_asset_into_target demo_merge_env demo_admin (Some ''ann'') ''a'' ''c'' True demo_merge_session of
     Inl _ \<Rightarrow> False
   | Inr (g, s') \<Rightarrow> gr_target g = ''c'' \<and> gr_findings_updated g = 1 \<and> gr_findings_merged g = 1"
  by code_simp

lemma demo_merge_flat: "alias_flat (s_asset_aliases demo_merge_session)"
proof -
  have "py_strip ''a'' = ''a''" by code_simp
  then show ?thesis by (simp add: alias_flat_def alias_target_def demo_merge_session_def)
qed


end
