(* ===== verification/Vat_Asset_Unmerge.thy ===== *)
theory Vat_Asset_Unmerge
  imports Vat_Asset_Merge
begin

text \<open>
  Undoing a merge: the journal that \<open>group_asset_into_target\<close> writes remembers enough of every moved
  finding for \<open>unmerge_asset_alias\<close> (both of \<open>api/assets.py\<close>) to restore it. The proof follows the
  stages of the two handlers: what a moved finding remembers, the table while findings are moved, the
  journal, and the undo loop.
\<close>

section \<open>What a moved finding remembers\<close>

abbreviation finding_of :: "session \<Rightarrow> string \<Rightarrow> finding option" where
  "finding_of s i \<equiv> tbl_get f_id i (s_findings s)"

text \<open>Up to an extended audit trail.\<close>

definition audit_extends :: "finding \<Rightarrow> finding \<Rightarrow> bool" where
  "audit_extends f f' = (\<exists>entries. f' = f\<lparr>f_audit := f_audit f @ entries\<rparr>)"

lemma audit_extends_append [simp]: "audit_extends f (f\<lparr>f_audit := f_audit f @ es\<rparr>)"
  by (auto simp: audit_extends_def)

text \<open>Restoring the remembered values of \<open>m\<close> gives \<open>f\<close> back.\<close>

definition remembers :: "finding \<Rightarrow> moved \<Rightarrow> bool" where
  "remembers f m =
     (f_id (mv_finding m) = f_id f \<and> f_tenant_id (mv_finding m) = f_tenant_id f \<and>
      (\<exists>b f'. restore_fields (mv_prev m) (mv_next m) RESTORED_FIELDS (False, mv_finding m) = Inr (b, f') \<and> audit_extends f f'))"

lemma json_column_opt [simp]: "json_column (opt_json x) = x" "json_column (JStr v) = Some v" "json_column JNull = None"
  by (simp_all add: json_column_def opt_json_def py_str_def split: option.split)

lemma py_str_JStr [simp]: "py_str (JStr v) = v"
  by (simp add: py_str_def)

lemma column_text_simps [simp]:
  "column_text ''image'' f = py_strip (or_empty (f_image f))"
  "column_text ''component'' f = py_strip (or_empty (f_component f))"
  "column_text ''tag'' f = py_strip (or_empty (f_tag f))"
  "column_text ''correlated_to'' f = py_strip (or_empty (f_correlated_to f))"
  "column_text ''status'' f = py_strip (status_value (f_status f))"
  by (simp_all add: column_text_def)

lemma set_column_simps [simp]:
  "set_column ''image'' v f = Inr (f\<lparr>f_image := json_column v\<rparr>)"
  "set_column ''component'' v f = Inr (f\<lparr>f_component := json_column v\<rparr>)"
  "set_column ''correlated_to'' v f = Inr (f\<lparr>f_correlated_to := json_column v\<rparr>)"
  "set_column ''status'' (JStr (status_value st)) f = Inr (f\<lparr>f_status := st\<rparr>)"
  by (simp_all add: set_column_def)

lemma or_empty_Some [simp]: "or_empty (Some v) = v"
  by (simp add: or_empty_def)

lemma reassigned_remembers:
  "remembers f ((reassigned img cmp tgt f)\<lparr>mv_finding := (mv_finding (reassigned img cmp tgt f))\<lparr>f_audit := f_audit f @ es\<rparr>\<rparr>)"
  unfolding remembers_def
  by (cases img; cases cmp; simp add: reassigned_def RESTORED_FIELDS_def) blast+

lemma consolidated_remembers:
  assumes "m = (reassigned img cmp tgt f)\<lparr>mv_finding := (mv_finding (reassigned img cmp tgt f))\<lparr>f_audit := f_audit f @ es\<rparr>\<rparr>"
  shows "remembers f ((consolidated cid m)\<lparr>mv_finding := (mv_finding (consolidated cid m))\<lparr>f_audit := f_audit (mv_finding (consolidated cid m)) @ es'\<rparr>\<rparr>)"
  unfolding remembers_def
  by (cases img; cases cmp; cases "f_correlated_to f = Some cid"; cases "f_status f = Duplicate";
      simp add: assms reassigned_def consolidated_def Let_def set_default_def RESTORED_FIELDS_def) blast+

section \<open>The table while findings are moved\<close>

lemma finding_of_put:
  assumes "f_id g = f_id f" and "finding_of s (f_id f) = Some f"
  shows "finding_of (put_finding g s) = (finding_of s)(f_id f \<mapsto> g)"
  using assms by (auto simp: fun_eq_iff put_finding_def tbl_get_upsert_update)

lemma ids_put: "map f_id (s_findings (put_finding g s)) = map f_id (s_findings s)"
  by (auto simp: put_finding_def tbl_update_def)

lemma events_put [simp]: "s_merge_events (put_finding g s) = s_merge_events s"
  by (simp add: put_finding_def)

definition moved_map :: "moved list \<Rightarrow> string \<Rightarrow> finding option" where
  "moved_map ms = map_of (map (\<lambda>m. (f_id (mv_finding m), mv_finding m)) ms)"

lemma moved_map_simps [simp]:
  "moved_map [] = Map.empty" "moved_map (m # ms) = (moved_map ms)(f_id (mv_finding m) \<mapsto> mv_finding m)"
  by (simp_all add: moved_map_def)

lemma moved_map_None: "i \<notin> set (map (f_id \<circ> mv_finding) ms) \<Longrightarrow> moved_map ms i = None"
  by (induction ms) auto

lemma moved_map_Some: "distinct (map (f_id \<circ> mv_finding) ms) \<Longrightarrow> m \<in> set ms \<Longrightarrow> moved_map ms (f_id (mv_finding m)) = Some (mv_finding m)"
  by (induction ms) (auto simp: image_iff)

text \<open>
  A step that moves findings: it keeps the ids of the table and the merge events, and the findings it
  reports are the current rows of the table.
\<close>

definition moves :: "session \<Rightarrow> moved list \<Rightarrow> session \<Rightarrow> bool" where
  "moves s ms t =
     (map f_id (s_findings t) = map f_id (s_findings s) \<and> s_merge_events t = s_merge_events s \<and>
      distinct (map (f_id \<circ> mv_finding) ms) \<and> finding_of t = finding_of s ++ moved_map ms)"

lemma moves_Nil [simp]: "moves s [] s"
  by (simp add: moves_def)

lemma moves_Cons:
  assumes "merge_frame s s1" and "f_id (mv_finding m) = f_id f" and "finding_of s (f_id f) = Some f"
    and "moves (put_finding (mv_finding m) s1) ms t" and "f_id f \<notin> set (map (f_id \<circ> mv_finding) ms)"
  shows "moves s (m # ms) t"
proof -
  have "finding_of (put_finding (mv_finding m) s1) = (finding_of s1)(f_id f \<mapsto> mv_finding m)"
    using assms by (intro finding_of_put) (simp_all add: merge_frame_def)
  moreover have "finding_of s1 = finding_of s" using assms(1) by (simp add: merge_frame_def)
  moreover note moved_map_None [OF assms(5)]
  ultimately have "finding_of t = finding_of s ++ moved_map (m # ms)"
    using assms(2,4) by (auto simp: moves_def fun_eq_iff map_add_def split: option.split)
  then show ?thesis using assms by (simp add: moves_def merge_frame_def ids_put)
qed

definition reassigned_from :: "string \<Rightarrow> finding \<Rightarrow> moved \<Rightarrow> bool" where
  "reassigned_from tgt f m = (\<exists>img cmp es.
     m = (reassigned img cmp tgt f)\<lparr>mv_finding := (mv_finding (reassigned img cmp tgt f))\<lparr>f_audit := f_audit f @ es\<rparr>\<rparr>)"

lemma reassigned_from_id: "reassigned_from tgt f m \<Longrightarrow> f_id (mv_finding m) = f_id f"
  by (auto simp: reassigned_from_def reassigned_def)

lemma audit_step_append:
  "append_finding_audit E actor act note f s = (f1, s1) \<Longrightarrow> merge_frame s s1 \<and> (\<exists>es. f1 = f\<lparr>f_audit := f_audit f @ es\<rparr>)"
  by (auto simp: append_finding_audit_def merge_frame_def utcnow_def)

lemma reassign_moves:
  assumes "reassign_rows E actor src tgt key rows s = (ms, t)" and "distinct (map f_id rows)"
    and "\<And>f. f \<in> set rows \<Longrightarrow> finding_of s (f_id f) = Some f"
  shows "moves s ms t \<and> (\<forall>m\<in>set ms. \<exists>f\<in>set rows. reassigned_from tgt f m)"
  using assms
proof (induction rows arbitrary: s ms)
  case (Cons f rows)
  define img where "img = finding_value_matches_merge_source (env_container_asset_path_aliases E) (f_image f) src key"
  define cmp where "cmp = finding_value_matches_merge_source (env_container_asset_path_aliases E) (f_component f) src key"
  show ?case
  proof (cases "img \<or> cmp")
    case False
    then have "reassign_rows E actor src tgt key rows s = (ms, t)" using Cons.prems(1) by (simp add: img_def cmp_def)
    from Cons.IH [OF this] Cons.prems(2,3) show ?thesis by auto
  next
    case True
    define m where "m = reassigned img cmp tgt f"
    obtain f1 s1 where a: "append_finding_audit E actor ''Asset merge reassigned finding'' (src @ '' -> '' @ tgt) (mv_finding m) s = (f1, s1)"
      by fastforce
    obtain ms' where r: "reassign_rows E actor src tgt key rows (put_finding f1 s1) = (ms', t)" and ms: "ms = m\<lparr>mv_finding := f1\<rparr> # ms'"
      using Cons.prems(1) True a by (auto simp: img_def cmp_def m_def split: prod.splits)
    obtain es where f1: "f1 = (mv_finding m)\<lparr>f_audit := f_audit (mv_finding m) @ es\<rparr>" and fr: "merge_frame s s1"
      using audit_step_append [OF a] by blast
    have m: "reassigned_from tgt f (m\<lparr>mv_finding := f1\<rparr>)" by (auto simp: reassigned_from_def m_def f1 reassigned_def)
    have fid: "f_id f1 = f_id f" using reassigned_from_id [OF m] by simp
    have row: "finding_of s (f_id f) = Some f" using Cons.prems(3) by simp
    have "finding_of (put_finding f1 s1) (f_id h) = Some h" if "h \<in> set rows" for h
    proof -
      have "f_id h \<noteq> f_id f" using imageI [OF that, of f_id] Cons.prems(2) by auto
      then show ?thesis using Cons.prems(3) [of h] that fun_cong [OF finding_of_put [OF fid, of s1], of "f_id h"] row fr by (simp add: merge_frame_def)
    qed
    from Cons.IH [OF r _ this] Cons.prems(2)
    have ih: "moves (put_finding f1 s1) ms' t" "\<forall>m\<in>set ms'. \<exists>f\<in>set rows. reassigned_from tgt f m" by auto
    have "f_id f \<notin> set (map (f_id \<circ> mv_finding) ms')"
      using ih(2) Cons.prems(2) by (auto dest!: reassigned_from_id bspec)
    then have "moves s ms t" unfolding ms using moves_Cons [OF fr _ row, of "m\<lparr>mv_finding := f1\<rparr>"] ih(1) fid by simp
    then show ?thesis using ih(2) m by (auto simp: ms)
  qed
qed simp

lemma consolidated_id [simp]: "f_id (mv_finding (consolidated cid m)) = f_id (mv_finding m)"
  by (simp add: consolidated_def Let_def)

text \<open>A consolidation step leaves a moved finding or marks it as a duplicate of another one.\<close>

definition settles :: "moved \<Rightarrow> moved \<Rightarrow> bool" where
  "settles m m' = (m' = m \<or> (\<exists>cid es.
     m' = (consolidated cid m)\<lparr>mv_finding := (mv_finding (consolidated cid m))\<lparr>f_audit := f_audit (mv_finding (consolidated cid m)) @ es\<rparr>\<rparr>))"

lemma settles_id: "settles m m' \<Longrightarrow> f_id (mv_finding m') = f_id (mv_finding m)"
  by (auto simp: settles_def)

lemma settles_ids: "list_all2 settles ms ms' \<Longrightarrow> map (f_id \<circ> mv_finding) ms' = map (f_id \<circ> mv_finding) ms"
  by (induction rule: list_all2_induct) (simp_all add: settles_id)

lemma settles_remembers: "reassigned_from tgt f m \<Longrightarrow> settles m m' \<Longrightarrow> remembers f m'"
  unfolding reassigned_from_def settles_def using reassigned_remembers consolidated_remembers by blast

lemma consolidate_moves:
  assumes "consolidate_rows E actor src tgt ids cs ms s = (n, ms', t)" and "distinct (map (f_id \<circ> mv_finding) ms)"
    and "\<And>m. m \<in> set ms \<Longrightarrow> finding_of s (f_id (mv_finding m)) = Some (mv_finding m)"
  shows "list_all2 settles ms ms' \<and> map f_id (s_findings t) = map f_id (s_findings s) \<and> s_merge_events t = s_merge_events s \<and>
    finding_of t = finding_of s ++ moved_map ms'"
  using assms
proof (induction ms arbitrary: s n ms')
  case (Cons m ms)
  have row: "finding_of s (f_id (mv_finding m)) = Some (mv_finding m)" using Cons.prems(3) by simp
  define peers where "peers = merge_peers src tgt cs (mv_finding m)"
  have new: "\<exists>s1 m' n' ms1. finding_of s1 = (finding_of s)(f_id (mv_finding m) \<mapsto> mv_finding m') \<and>
      map f_id (s_findings s1) = map f_id (s_findings s) \<and> s_merge_events s1 = s_merge_events s \<and> settles m m' \<and>
      ms' = m' # ms1 \<and> consolidate_rows E actor src tgt ids cs ms s1 = (n', ms1, t)"
  proof (cases "peers = []")
    case True
    have "finding_of s = (finding_of s)(f_id (mv_finding m) \<mapsto> mv_finding m)" using row by auto
    then show ?thesis using Cons.prems(1) True unfolding peers_def
      by (intro exI [of _ s] exI [of _ m]) (auto simp: settles_def split: prod.splits)
  next
    case False
    define cid where "cid = f_id (merge_canonical ids peers)"
    obtain f1 s1 where a: "append_finding_audit E actor ''Asset merge consolidated duplicate'' (''Canonical finding: '' @ cid)
        (mv_finding (consolidated cid m)) s = (f1, s1)" by fastforce
    obtain es where f1: "f1 = (mv_finding (consolidated cid m))\<lparr>f_audit := f_audit (mv_finding (consolidated cid m)) @ es\<rparr>"
      and fr: "merge_frame s s1" using audit_step_append [OF a] by blast
    have "finding_of (put_finding f1 s1) = (finding_of s)(f_id (mv_finding m) \<mapsto> f1)"
      using finding_of_put [of f1 "mv_finding m" s1] row fr by (simp add: merge_frame_def f1)
    moreover have "settles m ((consolidated cid m)\<lparr>mv_finding := f1\<rparr>)" by (auto simp: settles_def f1)
    moreover have "\<exists>n' ms1. ms' = (consolidated cid m)\<lparr>mv_finding := f1\<rparr> # ms1 \<and>
        consolidate_rows E actor src tgt ids cs ms (put_finding f1 s1) = (n', ms1, t)"
      using Cons.prems(1) False a by (auto simp: Let_def peers_def [symmetric] cid_def [symmetric] split: prod.splits)
    ultimately show ?thesis using ids_put [of f1 s1] fr
      by (intro exI [of _ "put_finding f1 s1"] exI [of _ "(consolidated cid m)\<lparr>mv_finding := f1\<rparr>"]) (auto simp: merge_frame_def)
  qed
  then obtain s1 m' n' ms1 where pf: "finding_of s1 = (finding_of s)(f_id (mv_finding m) \<mapsto> mv_finding m')"
    and fr: "map f_id (s_findings s1) = map f_id (s_findings s)" "s_merge_events s1 = s_merge_events s"
    and m': "settles m m'" and ms': "ms' = m' # ms1"
    and r: "consolidate_rows E actor src tgt ids cs ms s1 = (n', ms1, t)" by blast
  have fid: "f_id (mv_finding m') = f_id (mv_finding m)" using m' by (rule settles_id)
  have rows: "finding_of s1 (f_id (mv_finding k)) = Some (mv_finding k)" if "k \<in> set ms" for k
  proof -
    have "f_id (mv_finding k) \<noteq> f_id (mv_finding m)" using imageI [OF that, of "f_id \<circ> mv_finding"] Cons.prems(2) by auto
    then show ?thesis using Cons.prems(3) [of k] that fun_cong [OF pf, of "f_id (mv_finding k)"] by simp
  qed
  have ih: "list_all2 settles ms ms1" "map f_id (s_findings t) = map f_id (s_findings s)" "s_merge_events t = s_merge_events s"
    "finding_of t = (finding_of s)(f_id (mv_finding m) \<mapsto> mv_finding m') ++ moved_map ms1"
    using Cons.IH [OF r _ rows] Cons.prems(2) fr pf by simp_all
  have "moved_map ms1 (f_id (mv_finding m)) = None"
    using Cons.prems(2) settles_ids [OF ih(1)] by (intro moved_map_None) simp
  then have "finding_of t = finding_of s ++ moved_map ms'"
    using ih(4) fid by (auto simp: ms' fun_eq_iff map_add_def split: option.split)
  moreover have "list_all2 settles (m # ms) ms'" using ih(1) m' by (simp add: ms')
  ultimately show ?case using ih(2,3) by blast
qed simp

section \<open>The merge journal\<close>

text \<open>An event journals a moved finding.\<close>

definition journals :: "string \<Rightarrow> string \<Rightarrow> moved \<Rightarrow> asset_merge_event \<Rightarrow> bool" where
  "journals src tgt m e =
     (me_finding_id e = f_id (mv_finding m) \<and> me_prev_values e = JObj (mv_prev m) \<and> me_next_values e = JObj (mv_next m) \<and>
      me_source_asset_id e = src \<and> me_target_asset_id e = tgt \<and> me_reverted_at e = None)"

lemma fold_record_events:
  assumes "py_strip src = src" and "py_strip tgt = tgt"
  shows "\<exists>evs. s_merge_events (fold (\<lambda>m. record_merge_event E src tgt (f_id (mv_finding m)) (mv_prev m) (mv_next m) actor) ms s) =
      s_merge_events s @ evs \<and> list_all2 (journals src tgt) ms evs \<and>
    s_findings (fold (\<lambda>m. record_merge_event E src tgt (f_id (mv_finding m)) (mv_prev m) (mv_next m) actor) ms s) = s_findings s"
proof (induction ms arbitrary: s)
  case (Cons m ms)
  let ?t = "record_merge_event E src tgt (f_id (mv_finding m)) (mv_prev m) (mv_next m) actor s"
  obtain e where e: "s_merge_events ?t = s_merge_events s @ [e]" "journals src tgt m e" "s_findings ?t = s_findings s"
    using assms by (simp add: record_merge_event_def utcnow_def journals_def clean_asset_id_def)
  obtain evs where "s_merge_events (fold (\<lambda>m. record_merge_event E src tgt (f_id (mv_finding m)) (mv_prev m) (mv_next m) actor) ms ?t) =
      s_merge_events ?t @ evs" "list_all2 (journals src tgt) ms evs"
    "s_findings (fold (\<lambda>m. record_merge_event E src tgt (f_id (mv_finding m)) (mv_prev m) (mv_next m) actor) ms ?t) = s_findings ?t"
    using Cons by blast
  then show ?case using e by (intro exI [of _ "e # evs"]) simp
qed simp

text \<open>
  Moving the findings of a table with distinct ids: the journal gets one event per moved finding, and
  each journalled finding is the current row and remembers its original.
\<close>

definition journalled :: "session \<Rightarrow> session \<Rightarrow> asset_merge_event \<Rightarrow> bool" where
  "journalled s t e = (\<exists>f m. finding_of s (me_finding_id e) = Some f \<and> finding_of t (me_finding_id e) = Some (mv_finding m) \<and>
     remembers f m \<and> me_prev_values e = JObj (mv_prev m) \<and> me_next_values e = JObj (mv_next m))"

lemma move_findings_journal:
  assumes "move_findings E ctx actor src tgt s = (n, ms, t)" and "distinct (map f_id (s_findings s))"
    and "py_strip src = src" and "py_strip tgt = tgt"
  obtains evs where "s_merge_events t = s_merge_events s @ evs"
    "\<And>e. e \<in> set evs \<Longrightarrow> me_source_asset_id e = src \<and> me_target_asset_id e = tgt \<and> me_reverted_at e = None \<and> journalled s t e"
    "distinct (map me_finding_id evs)" "map f_id (s_findings t) = map f_id (s_findings s)"
    "\<And>i. i \<notin> set (map me_finding_id evs) \<Longrightarrow> finding_of t i = finding_of s i"
proof -
  define pa where "pa = env_container_asset_path_aliases E"
  define key where "key = container_merge_group_key pa src"
  define rows where "rows = merge_rows pa src key ctx (s_findings s)"
  obtain ms1 s1 where r: "reassign_rows E actor src tgt key rows s = (ms1, s1)" by fastforce
  define cs where "cs = filter (\<lambda>r. (f_image r = Some tgt \<or> f_tag r = Some tgt \<or> f_component r = Some tgt) \<and>
     tenant_filter_passes (ctx_tenant_id ctx) (ctx_cross_tenant ctx)) (s_findings s1)"
  obtain n2 ms2 s2 where c: "consolidate_rows E actor src tgt (map (f_id \<circ> mv_finding) ms1) cs ms1 s1 = (n2, ms2, s2)"
    by (metis prod_cases3)
  have t: "t = fold (\<lambda>m. record_merge_event E src tgt (f_id (mv_finding m)) (mv_prev m) (mv_next m) actor) ms2 s2"
    using assms(1) r c unfolding cs_def rows_def key_def pa_def by (auto simp: move_findings_def Let_def)
  have rows: "set rows \<subseteq> set (s_findings s)" "distinct (map f_id rows)"
    using assms(2) by (auto simp: rows_def merge_rows_def distinct_map_filter)
  have "finding_of s (f_id f) = Some f" if "f \<in> set rows" for f using that rows(1) tbl_get_distinct [OF assms(2)] by blast
  from reassign_moves [OF r rows(2) this]
  have m1: "moves s ms1 s1" "\<forall>m\<in>set ms1. \<exists>f\<in>set rows. reassigned_from tgt f m" by blast+
  have d1: "distinct (map (f_id \<circ> mv_finding) ms1)" using m1(1) by (simp add: moves_def)
  have cur: "finding_of s1 (f_id (mv_finding m)) = Some (mv_finding m)" if "m \<in> set ms1" for m
    using m1(1) moved_map_Some [OF d1 that] by (auto simp: moves_def map_add_def fun_eq_iff)
  note m2 = consolidate_moves [OF c d1 cur]
  have ids: "map (f_id \<circ> mv_finding) ms2 = map (f_id \<circ> mv_finding) ms1" using m2 settles_ids by blast
  obtain evs where e: "s_merge_events t = s_merge_events s2 @ evs" "list_all2 (journals src tgt) ms2 evs" "s_findings t = s_findings s2"
    using fold_record_events [OF assms(3,4), of E actor ms2 s2] unfolding t by blast
  have eids: "map me_finding_id evs = map (f_id \<circ> mv_finding) ms2"
    using e(2) by (induction rule: list_all2_induct) (simp_all add: journals_def)
  show thesis
  proof (rule that)
    show "s_merge_events t = s_merge_events s @ evs" using e(1) m2 m1(1) by (simp add: moves_def)
    show "distinct (map me_finding_id evs)" using d1 ids eids by simp
    show "map f_id (s_findings t) = map f_id (s_findings s)" using e(3) m2 m1(1) by (simp add: moves_def)
    show "finding_of t i = finding_of s i" if "i \<notin> set (map me_finding_id evs)" for i
      using that m2 m1(1) moved_map_None [of i ms2] moved_map_None [of i ms1] eids ids e(3)
      by (auto simp: moves_def map_add_def fun_eq_iff)
    show "me_source_asset_id ev = src \<and> me_target_asset_id ev = tgt \<and> me_reverted_at ev = None \<and> journalled s t ev"
      if "ev \<in> set evs" for ev
    proof -
      obtain k where k: "k < length evs" "ev = evs ! k" using \<open>ev \<in> set evs\<close> by (auto simp: in_set_conv_nth)
      then have j: "journals src tgt (ms2 ! k) ev" "k < length ms2" using e(2) by (auto simp: list_all2_conv_all_nth)
      have st: "settles (ms1 ! k) (ms2 ! k)" "k < length ms1" using m2 j(2) by (auto simp: list_all2_conv_all_nth)
      then obtain f where f: "f \<in> set rows" "reassigned_from tgt f (ms1 ! k)" using m1(2) nth_mem by blast
      have rem: "remembers f (ms2 ! k)" using settles_remembers [OF f(2) st(1)] .
      have "finding_of t (me_finding_id ev) = Some (mv_finding (ms2 ! k))"
        using m2 e(3) moved_map_Some [of ms2 "ms2 ! k"] d1 ids j by (auto simp: journals_def map_add_def fun_eq_iff)
      moreover have "finding_of s (me_finding_id ev) = Some f"
        using j(1) rem f(1) rows(1) tbl_get_distinct [OF assms(2), of f] by (auto simp: journals_def remembers_def)
      ultimately show ?thesis using rem j(1) by (auto simp: journalled_def journals_def)
    qed
  qed
qed

section \<open>Undoing\<close>

definition undo_visible :: "user_context \<Rightarrow> finding \<Rightarrow> bool" where
  "undo_visible ctx f = (ctx_tenant_id ctx = None \<or> row_tenant_visible (f_tenant_id f) ctx)"

lemma revert_event_frame [simp]:
  "s_findings (revert_event u i s) = s_findings s" "s_asset_aliases (revert_event u i s) = s_asset_aliases s"
  by (simp_all add: revert_event_def)

lemma audit_extends_trans: "audit_extends f g \<Longrightarrow> audit_extends g h \<Longrightarrow> audit_extends f h"
  by (auto simp: audit_extends_def)

lemma restore_unchanged: "restore_fields p n ks (b, f) = Inr (False, f') \<Longrightarrow> \<not> b \<and> f' = f"
  by (induction ks arbitrary: b f) (auto split: option.splits if_splits sum.splits)

lemma undo_event_step:
  assumes "journalled o_s s e"
  obtains s1 k where "\<And>evs n. undo_events E ctx actor nt u (e # evs) (n, s) = undo_events E ctx actor nt u evs (n + k, s1)"
    "s_asset_aliases s1 = s_asset_aliases s" "map f_id (s_findings s1) = map f_id (s_findings s)"
    "\<And>i. i \<noteq> me_finding_id e \<Longrightarrow> finding_of s1 i = finding_of s i"
    "\<And>f. finding_of o_s (me_finding_id e) = Some f \<Longrightarrow> undo_visible ctx f \<Longrightarrow>
       \<exists>f'. finding_of s1 (me_finding_id e) = Some f' \<and> audit_extends f f'"
proof -
  obtain f m where j: "finding_of o_s (me_finding_id e) = Some f" "finding_of s (me_finding_id e) = Some (mv_finding m)"
    "remembers f m" "me_prev_values e = JObj (mv_prev m)" "me_next_values e = JObj (mv_next m)"
    using assms by (auto simp: journalled_def)
  show thesis
  proof (cases "undo_visible ctx f")
    case False
    then show ?thesis using j by (intro that [of 0 s]) (auto simp: undo_visible_def remembers_def)
  next
    case True
    obtain b f' where r: "restore_fields (mv_prev m) (mv_next m) RESTORED_FIELDS (False, mv_finding m) = Inr (b, f')"
      "audit_extends f f'" using j(3) by (auto simp: remembers_def)
    obtain f2 s2 where a: "append_finding_audit E actor ''Asset unmerge restored finding fields'' nt f' s = (f2, s2)" by fastforce
    obtain es where f2: "f2 = f'\<lparr>f_audit := f_audit f' @ es\<rparr>" and fr: "merge_frame s s2" using audit_step_append [OF a] by blast
    have ids: "f_id f = me_finding_id e" "f_id (mv_finding m) = me_finding_id e" "f_id f2 = me_finding_id e" "f_id f' = me_finding_id e"
      using tbl_get_Some [OF j(1)] tbl_get_Some [OF j(2)] r(2) by (auto simp: f2 audit_extends_def)
    have vis: "\<not> (ctx_tenant_id ctx \<noteq> None \<and> \<not> row_tenant_visible (f_tenant_id (mv_finding m)) ctx)"
      using True j(3) by (auto simp: undo_visible_def remembers_def)
    have put: "finding_of (put_finding f2 s2) = (finding_of s)(me_finding_id e \<mapsto> f2)"
      using finding_of_put [of f2 "mv_finding m" s2] ids j(2) fr by (simp add: merge_frame_def)
    show ?thesis
    proof (cases b)
      case True
      show ?thesis
      proof (rule that [of 1 "revert_event u (me_id e) (put_finding f2 s2)"])
        show "undo_events E ctx actor nt u (e # evs) (n, s) =
            undo_events E ctx actor nt u evs (n + 1, revert_event u (me_id e) (put_finding f2 s2))" for evs n
          using j vis r True a by auto
        show "finding_of (revert_event u (me_id e) (put_finding f2 s2)) i = finding_of s i" if "i \<noteq> me_finding_id e" for i
          using that fun_cong [OF put, of i] by simp
        show "\<exists>g'. finding_of (revert_event u (me_id e) (put_finding f2 s2)) (me_finding_id e) = Some g' \<and> audit_extends g g'"
          if "finding_of o_s (me_finding_id e) = Some g" for g
          using that j(1) fun_cong [OF put, of "me_finding_id e"] audit_extends_trans [OF r(2), of f2] by (simp add: f2)
      qed (use ids_put [of f2 s2] fr in \<open>simp_all add: merge_frame_def\<close>)
    next
      case False
      then have f': "f' = mv_finding m" using restore_unchanged [of "mv_prev m" "mv_next m"] r(1) by auto
      show ?thesis
      proof (rule that [of 0 "revert_event u (me_id e) s"])
        show "undo_events E ctx actor nt u (e # evs) (n, s) = undo_events E ctx actor nt u evs (n + 0, revert_event u (me_id e) s)" for evs n
          using j vis r False f' by auto
      qed (use j r(2) f' in auto)
    qed
  qed
qed

lemma undo_events_restore:
  assumes "\<And>e. e \<in> set evs \<Longrightarrow> journalled o_s s e" and "distinct (map me_finding_id evs)"
  shows "\<exists>n' t. undo_events E ctx actor nt u evs (n, s) = Inr (n', t) \<and> s_asset_aliases t = s_asset_aliases s \<and>
    map f_id (s_findings t) = map f_id (s_findings s) \<and>
    (\<forall>i. i \<notin> me_finding_id ` set evs \<longrightarrow> finding_of t i = finding_of s i) \<and>
    (\<forall>i f. i \<in> me_finding_id ` set evs \<longrightarrow> finding_of o_s i = Some f \<longrightarrow> undo_visible ctx f \<longrightarrow>
       (\<exists>f'. finding_of t i = Some f' \<and> audit_extends f f'))"
  using assms
proof (induction evs arbitrary: s n)
  case (Cons e evs)
  have "journalled o_s s e" using Cons.prems(1) by simp
  then obtain s1 k where st: "\<And>n. undo_events E ctx actor nt u (e # evs) (n, s) = undo_events E ctx actor nt u evs (n + k, s1)"
    "s_asset_aliases s1 = s_asset_aliases s" "map f_id (s_findings s1) = map f_id (s_findings s)"
    "\<And>i. i \<noteq> me_finding_id e \<Longrightarrow> finding_of s1 i = finding_of s i"
    "\<And>f. finding_of o_s (me_finding_id e) = Some f \<Longrightarrow> undo_visible ctx f \<Longrightarrow>
       \<exists>f'. finding_of s1 (me_finding_id e) = Some f' \<and> audit_extends f f'"
    by (rule undo_event_step [where E = E and ctx = ctx and actor = actor and nt = nt and u = u]) blast
  have e: "me_finding_id e \<notin> me_finding_id ` set evs" using Cons.prems(2) by simp
  have "journalled o_s s1 d" if "d \<in> set evs" for d
  proof -
    have "me_finding_id d \<noteq> me_finding_id e" using imageI [OF that, of me_finding_id] e by auto
    then show ?thesis using Cons.prems(1) [of d] that st(4) [of "me_finding_id d"] by (simp add: journalled_def)
  qed
  from Cons.IH [OF this, of "n + k"] Cons.prems(2) obtain n' t where
    ih: "undo_events E ctx actor nt u evs (n + k, s1) = Inr (n', t)" "s_asset_aliases t = s_asset_aliases s1"
      "map f_id (s_findings t) = map f_id (s_findings s1)"
      "\<And>i. i \<notin> me_finding_id ` set evs \<Longrightarrow> finding_of t i = finding_of s1 i"
      "\<And>i f. i \<in> me_finding_id ` set evs \<Longrightarrow> finding_of o_s i = Some f \<Longrightarrow> undo_visible ctx f \<Longrightarrow>
         \<exists>f'. finding_of t i = Some f' \<and> audit_extends f f'" by auto
  have "finding_of t i = finding_of s i" if "i \<notin> me_finding_id ` set (e # evs)" for i
    using that st(4) [of i] ih(4) [of i] by simp
  moreover have "\<exists>f'. finding_of t i = Some f' \<and> audit_extends f f'"
    if "i \<in> me_finding_id ` set (e # evs)" "finding_of o_s i = Some f" "undo_visible ctx f" for i f
  proof (cases "i = me_finding_id e")
    case True
    then show ?thesis using st(5) [of f] ih(4) [OF e] that by simp
  next
    case False
    then show ?thesis using ih(5) [of i f] that by simp
  qed
  moreover have "undo_events E ctx actor nt u (e # evs) (n, s) = Inr (n', t)" using st(1) ih(1) by simp
  moreover have "s_asset_aliases t = s_asset_aliases s" "map f_id (s_findings t) = map f_id (s_findings s)"
    using st(2,3) ih(2,3) by simp_all
  ultimately show ?case by blast
qed simp

lemma resolve_removed_alias:
  assumes "alias_flat A"
  shows "resolve_canonical_asset_id (filter (\<lambda>r. aa_source_asset_id r \<noteq> py_strip x) A) x = py_strip x"
proof -
  let ?B = "filter (\<lambda>r. aa_source_asset_id r \<noteq> py_strip x) A"
  have t: "alias_target ?B y = (if y = py_strip x then None else alias_target A y)" for y
    by (simp add: alias_target_def tbl_get_drop)
  then have "alias_flat ?B" using assms by (auto simp: alias_flat_def split: if_splits)
  then show ?thesis by (simp add: resolve_flat t)
qed



end
