(* ===== verification/Vat_Settings.thy ===== *)
theory Vat_Settings
  imports Vat_Links
begin

text \<open>
  The part of \<open>api/settings.py\<close> that the services read: sources, trackers, labels and credentials, stored
  as JSON documents in the key-value table \<open>SettingsKV\<close> (here an association list), with the environment
  (\<open>core/config.py\<close>) as fallback. The documents come from the user interface and are not
  validated, so a reader that meets a value of another shape raises.
\<close>

section \<open>Dynamic access\<close>

definition res_bind :: "py_error + 'a \<Rightarrow> ('a \<Rightarrow> py_error + 'b) \<Rightarrow> py_error + 'b" where
  "res_bind r f = (case r of Inl e \<Rightarrow> Inl e | Inr x \<Rightarrow> f x)"

lemma res_bind_simps [simp]: "res_bind (Inl e) f = Inl e" "res_bind (Inr x) f = f x"
  by (simp_all add: res_bind_def)

lemma res_bind_Inr: "res_bind r f = Inr y \<longleftrightarrow> (\<exists>x. r = Inr x \<and> f x = Inr y)"
  by (cases r) auto

text \<open>\<open>x.get(k)\<close>, \<open>x.lower()\<close> and \<open>x.strip()\<close> of a value of unknown type, and \<open>a or b\<close>.\<close>

definition dyn_get :: "json \<Rightarrow> string \<Rightarrow> py_error + json" where
  "dyn_get j k = (if is_dict j then Inr (jget k (as_dict j)) else Inl (AttributeError ''get''))"

definition dyn_lower :: "json \<Rightarrow> py_error + string" where
  "dyn_lower j = (case j of JStr s \<Rightarrow> Inr (py_lower s) | _ \<Rightarrow> Inl (AttributeError ''lower''))"

definition dyn_strip :: "json \<Rightarrow> py_error + string" where
  "dyn_strip j = (case j of JStr s \<Rightarrow> Inr (py_strip s) | _ \<Rightarrow> Inl (AttributeError ''strip''))"

definition jor :: "json \<Rightarrow> json \<Rightarrow> json" where
  "jor a b = (if py_truth a then a else b)"

type_synonym settings_kv = "(string \<times> json) list"

record app_config =
  ac_aikido_client_id :: json
  ac_aikido_client_secret :: json
  ac_aikido_region :: json
  ac_aikido_webhook_secret :: json
  ac_linear_api_key :: json
  ac_linear_team_id :: json
  ac_linear_webhook_secret :: json
  ac_linear_link_title_fallback :: bool
  ac_linear_link_scan_limit :: nat
  ac_default_issue_template :: string

definition get_json :: "settings_kv \<Rightarrow> string \<Rightarrow> json \<Rightarrow> json" where
  "get_json kv key fallback = (case map_of kv key of None \<Rightarrow> fallback | Some v \<Rightarrow> if v = JNull then fallback else v)"

definition get_credentials :: "settings_kv \<Rightarrow> string \<Rightarrow> json_object" where
  "get_credentials kv key = (case map_of kv key of Some (JObj d) \<Rightarrow> d | _ \<Rightarrow> [])"

section \<open>Credentials\<close>

definition aikido_creds_key :: "string option \<Rightarrow> string" where
  "aikido_creds_key source_id =
     (if truthy source_id then ''aikido_credentials:'' @ or_empty source_id else ''aikido_credentials'')"

definition aikido_creds_of :: "app_config \<Rightarrow> json_object \<Rightarrow> json_object" where
  "aikido_creds_of cfg creds =
     [(''client_id'', jor (jor (jget ''client_id'' creds) (jget ''clientId'' creds)) (ac_aikido_client_id cfg)),
      (''client_secret'', jor (jor (jget ''client_secret'' creds) (jget ''clientSecret'' creds)) (ac_aikido_client_secret cfg)),
      (''region'', jor (jor (jget ''region'' creds) (ac_aikido_region cfg)) (JStr ''eu'')),
      (''webhook_secret'', jor (jor (jget ''webhook_secret'' creds) (jget ''webhookSecret'' creds)) (ac_aikido_webhook_secret cfg)),
      (''tenant_id'', jor (jget ''tenant_id'' creds) (jget ''tenantId'' creds)),
      (''sync_back_enabled'', jget_default ''sync_back_enabled'' (JBool True) creds)]"

definition get_aikido_credentials :: "app_config \<Rightarrow> settings_kv \<Rightarrow> string option \<Rightarrow> bool \<Rightarrow> json_object" where
  "get_aikido_credentials cfg kv source_id strict =
     (if truthy source_id
      then (let creds = get_credentials kv (aikido_creds_key source_id)
            in if py_truth (jor (jget ''client_id'' creds) (jget ''clientId'' creds)) then aikido_creds_of cfg creds
               else if strict
               then [(''client_id'', JNull), (''client_secret'', JNull), (''region'', jor (ac_aikido_region cfg) (JStr ''eu'')),
                     (''webhook_secret'', JNull), (''tenant_id'', JNull), (''sync_back_enabled'', JBool True)]
               else aikido_creds_of cfg (get_credentials kv ''aikido_credentials''))
      else aikido_creds_of cfg (get_credentials kv ''aikido_credentials''))"

definition PLACEHOLDER_PATTERNS :: "string list" where
  "PLACEHOLDER_PATTERNS = [''placeholder'', ''demo-'', ''changeme'', ''xxx'', ''your-'', ''example'']"

definition is_placeholder :: "json \<Rightarrow> bool" where
  "is_placeholder val =
     (case val of
        JStr s \<Rightarrow> s = [] \<or> list_ex (\<lambda>p. py_in p (py_strip (py_lower s))) PLACEHOLDER_PATTERNS
      | _ \<Rightarrow> True)"

definition get_linear_credentials :: "app_config \<Rightarrow> settings_kv \<Rightarrow> json \<times> json \<times> json" where
  "get_linear_credentials cfg kv =
     (let creds = get_credentials kv ''linear_credentials'';
          api_key = jor (jor (jget ''api_key'' creds) (jget ''apiKey'' creds)) (ac_linear_api_key cfg);
          team_id = jor (jor (jget ''team_id'' creds) (jget ''teamId'' creds)) (ac_linear_team_id cfg)
      in if \<not> py_truth api_key \<or> \<not> py_truth team_id then (JNull, JNull, JNull)
         else if is_placeholder api_key \<or> is_placeholder team_id then (JNull, JNull, JNull)
         else (api_key, team_id,
               jor (jor (jget ''webhook_secret'' creds) (jget ''webhookSecret'' creds)) (ac_linear_webhook_secret cfg)))"

text \<open>\<open>services/credential_resolver.py\<close>: Linear is the only tracker with a resolver, Aikido the only source.\<close>

definition get_tracker_credentials :: "app_config \<Rightarrow> settings_kv \<Rightarrow> string \<Rightarrow> json_object" where
  "get_tracker_credentials cfg kv adapter_key =
     (if adapter_key = ''linear''
      then (case get_linear_credentials cfg kv of (api_key, team_id, _) \<Rightarrow> [(''api_key'', api_key), (''team_id'', team_id)])
      else [])"

definition get_source_credentials :: "app_config \<Rightarrow> settings_kv \<Rightarrow> string \<Rightarrow> json_object" where
  "get_source_credentials cfg kv adapter_key =
     (if adapter_key = ''aikido'' then get_aikido_credentials cfg kv None False else [])"

definition TRACKER_REQUIRED_CREDENTIALS :: "(string \<times> string list) list" where
  "TRACKER_REQUIRED_CREDENTIALS = [(''linear'', [''api_key'', ''team_id''])]"

definition is_tracker_configured_for_creds :: "string \<Rightarrow> json_object \<Rightarrow> bool" where
  "is_tracker_configured_for_creds tracker_key creds =
     (case map_of TRACKER_REQUIRED_CREDENTIALS (py_lower tracker_key) of
        None \<Rightarrow> False
      | Some ks \<Rightarrow> ks \<noteq> [] \<and> list_all (\<lambda>k. py_truth (jget k creds)) ks)"

section \<open>Trackers\<close>

definition tracker_adapter_key :: "json \<Rightarrow> py_error + string" where
  "tracker_adapter_key t =
     res_bind (dyn_get t ''adapter'') (\<lambda>a. res_bind (dyn_get t ''type'') (\<lambda>y. dyn_lower (jor (jor a y) (JStr ''linear''))))"

definition get_trackers :: "settings_kv \<Rightarrow> json list" where
  "get_trackers kv =
     (case get_json kv ''trackers'' (JList []) of
        JList (t # ts) \<Rightarrow> t # ts
      | _ \<Rightarrow> (case get_json kv ''tracker'' (JObj []) of
                JObj (e # es) \<Rightarrow>
                  (let d = e # es in [JObj (if py_truth (jget ''id'' d) then d else jset ''id'' (JStr ''t-default'') d)])
              | _ \<Rightarrow> []))"

definition uses_aikido_tracking :: "json \<Rightarrow> bool" where
  "uses_aikido_tracking t =
     (py_truth (jget ''useAikidoTracking'' (as_dict t)) \<or> py_truth (jget ''use_aikido_tracking'' (as_dict t)))"

fun first_vat_tracker :: "json list \<Rightarrow> py_error + json option" where
  "first_vat_tracker [] = Inr None"
| "first_vat_tracker (t # ts) =
     (if \<not> is_dict t then Inl (AttributeError ''get'')
      else if \<not> uses_aikido_tracking t then Inr (Some t) else first_vat_tracker ts)"

definition get_tracker_key :: "settings_kv \<Rightarrow> py_error + string" where
  "get_tracker_key kv =
     res_bind (first_vat_tracker (get_trackers kv))
       (\<lambda>r. case r of Some t \<Rightarrow> tracker_adapter_key t
                    | None \<Rightarrow> (case get_trackers kv of t # _ \<Rightarrow> tracker_adapter_key t | [] \<Rightarrow> Inr ''linear''))"

fun tracker_key_for :: "string \<Rightarrow> json list \<Rightarrow> py_error + json" where
  "tracker_key_for sid [] = Inr JNull"
| "tracker_key_for sid (t # ts) =
     (if \<not> is_dict t then Inl (AttributeError ''get'')
      else if \<not> uses_aikido_tracking t then tracker_key_for sid ts
      else case dyn_strip (jor (jor (jget ''sourceId'' (as_dict t)) (jget ''source_id'' (as_dict t))) (JStr [])) of
             Inl e \<Rightarrow> Inl e
           | Inr x \<Rightarrow> if x = sid then Inr (jor (jget ''id'' (as_dict t)) (JStr (''linear-'' @ sid)))
                      else tracker_key_for sid ts)"

definition get_tracker_key_for_source :: "settings_kv \<Rightarrow> string \<Rightarrow> py_error + json" where
  "get_tracker_key_for_source kv aikido_source_id = tracker_key_for aikido_source_id (get_trackers kv)"

definition get_use_aikido_tracking :: "settings_kv \<Rightarrow> bool" where
  "get_use_aikido_tracking kv = list_ex (\<lambda>t. is_dict t \<and> uses_aikido_tracking t) (get_trackers kv)"

definition primary_tracker :: "settings_kv \<Rightarrow> json" where
  "primary_tracker kv = (case get_trackers kv of t # _ \<Rightarrow> t | [] \<Rightarrow> JObj [])"

definition get_tracker_issue_template :: "app_config \<Rightarrow> settings_kv \<Rightarrow> string" where
  "get_tracker_issue_template cfg kv =
     (let t = primary_tracker kv
      in if is_dict t \<and> py_truth (jget ''issueTemplate'' (as_dict t)) then py_str (jget ''issueTemplate'' (as_dict t))
         else ac_default_issue_template cfg)"

definition get_tracker_push_mode :: "settings_kv \<Rightarrow> py_error + string" where
  "get_tracker_push_mode kv =
     (let t = primary_tracker kv
      in if is_dict t
         then res_bind (dyn_lower (jor (jor (jget ''pushMode'' (as_dict t)) (jget ''push_mode'' (as_dict t))) (JStr ''groups'')))
                (\<lambda>mode. Inr (if mode \<in> set [''groups'', ''instances''] then mode else ''groups''))
         else Inr ''groups'')"

definition PUSH_SEVERITIES :: "string list" where
  "PUSH_SEVERITIES = [''critical'', ''high'', ''medium'', ''low'', ''informational'']"

fun index_of :: "'a \<Rightarrow> 'a list \<Rightarrow> nat option" where
  "index_of x [] = None"
| "index_of x (y # ys) = (if y = x then Some 0 else map_option Suc (index_of x ys))"

definition severity_order :: "string \<Rightarrow> nat" where
  "severity_order sev = (case index_of (py_strip (py_lower sev)) PUSH_SEVERITIES of Some i \<Rightarrow> i | None \<Rightarrow> 4)"

definition get_tracker_push_min_severity :: "settings_kv \<Rightarrow> py_error + string option" where
  "get_tracker_push_min_severity kv =
     (let t = primary_tracker kv
      in if is_dict t
         then res_bind (dyn_lower (jor (jor (jget ''pushMinSeverity'' (as_dict t)) (jget ''push_min_severity'' (as_dict t))) (JStr ''all'')))
                (\<lambda>v. let val = py_strip v
                     in Inr (if val = [] \<or> val = ''all'' then None else if val \<in> set PUSH_SEVERITIES then Some val else None))
         else Inr None)"

definition severity_meets_min :: "string \<Rightarrow> string option \<Rightarrow> bool" where
  "severity_meets_min severity min_severity =
     (if \<not> truthy min_severity then True else severity_order severity \<le> severity_order (or_empty min_severity))"

section \<open>Labels\<close>

definition get_labels :: "settings_kv \<Rightarrow> json_object list" where
  "get_labels kv =
     (let out = (case get_json kv ''labels'' (JList []) of
                   JList ls \<Rightarrow> map as_dict (filter (\<lambda>l. is_dict l \<and> py_truth (jget ''name'' (as_dict l))) ls)
                 | _ \<Rightarrow> [])
      in if out \<noteq> [] then out else [[(''name'', JStr ''security-bug''), (''color'', JStr ''#E53935'')]])"

text \<open>The model \<open>LabelConfig\<close>: a name of 1 to 64 characters and a color of at most 20.\<close>

definition label_config_of :: "json_object \<Rightarrow> py_error + label_config" where
  "label_config_of l =
     (case (jget ''name'' l, jget ''color'' l) of
        (JStr n, c) \<Rightarrow>
          if n = [] \<or> 64 < length n then Inl (ValueError ''name'')
          else (case c of
                  JNull \<Rightarrow> Inr \<lparr>lc_name = n, lc_color = None\<rparr>
                | JStr v \<Rightarrow> if 20 < length v then Inl (ValueError ''color'') else Inr \<lparr>lc_name = n, lc_color = Some v\<rparr>
                | _ \<Rightarrow> Inl (ValueError ''color''))
      | _ \<Rightarrow> Inl (ValueError ''name''))"

fun labels_to_configs :: "json_object list \<Rightarrow> py_error + label_config list" where
  "labels_to_configs [] = Inr []"
| "labels_to_configs (l # ls) =
     (if \<not> py_truth (jget ''name'' l) then labels_to_configs ls
      else res_bind (label_config_of l) (\<lambda>c. res_bind (labels_to_configs ls) (\<lambda>cs. Inr (c # cs))))"

section \<open>Sources\<close>

definition json_list :: "json \<Rightarrow> json list" where
  "json_list j = (case j of JList xs \<Rightarrow> xs | _ \<Rightarrow> [])"

definition aikido_adapter :: "json_object \<Rightarrow> py_error + bool" where
  "aikido_adapter d = res_bind (dyn_lower (jor (jget ''adapter'' d) (JStr []))) (\<lambda>a. Inr (a = ''aikido''))"

fun has_aikido_source :: "json list \<Rightarrow> py_error + bool" where
  "has_aikido_source [] = Inr False"
| "has_aikido_source (x # xs) =
     (if \<not> is_dict x then has_aikido_source xs
      else res_bind (aikido_adapter (as_dict x)) (\<lambda>a. if a then Inr True else has_aikido_source xs))"

definition has_aikido_source_on_canvas :: "settings_kv \<Rightarrow> py_error + bool" where
  "has_aikido_source_on_canvas kv = has_aikido_source (json_list (get_json kv ''sources'' (JList [])))"

fun first_aikido_source :: "json list \<Rightarrow> py_error + string option" where
  "first_aikido_source [] = Inr None"
| "first_aikido_source (x # xs) =
     (if \<not> is_dict x then first_aikido_source xs
      else res_bind (aikido_adapter (as_dict x))
             (\<lambda>a. if a \<and> py_truth (jget ''id'' (as_dict x)) then Inr (Some (py_str (jget ''id'' (as_dict x))))
                  else first_aikido_source xs))"

definition first_aikido_source_id :: "settings_kv \<Rightarrow> py_error + string option" where
  "first_aikido_source_id kv = first_aikido_source (json_list (get_json kv ''sources'' (JList [])))"

text \<open>A source id that is not text is formatted into the key of its credentials.\<close>

definition get_source_config :: "app_config \<Rightarrow> settings_kv \<Rightarrow> string \<Rightarrow> py_error + json_object option" where
  "get_source_config cfg kv source_name =
     (case find (\<lambda>x. is_dict x \<and> (jget ''id'' (as_dict x) = JStr source_name \<or> jget ''name'' (as_dict x) = JStr source_name))
             (json_list (get_json kv ''sources'' (JList []))) of
        Some x \<Rightarrow>
          (let out = as_dict x
           in res_bind (aikido_adapter out)
                (\<lambda>a. Inr (Some (if a
                   then (let creds = get_aikido_credentials cfg kv
                               (if py_truth (jget ''id'' out) then Some (py_str (jget ''id'' out)) else None) False
                         in jset ''supportsOutboundSync'' (JBool (py_truth (jget_default ''sync_back_enabled'' (JBool True) creds))) out)
                   else out))))
      | None \<Rightarrow>
          Inr (if py_lower source_name = ''aikido''
               then Some [(''adapter'', JStr ''aikido''),
                          (''supportsOutboundSync'', JBool (py_truth (jget_default ''sync_back_enabled'' (JBool True)
                             (get_aikido_credentials cfg kv None False))))]
               else None))"

text \<open>\<open>_supports_outbound_sync\<close> of \<open>services/sync_service.py\<close>.\<close>

definition supports_outbound_sync :: "json_object \<Rightarrow> py_error + bool" where
  "supports_outbound_sync source_config =
     res_bind (dyn_lower (jor (jor (jget ''authType'' source_config) (jget ''auth_type'' source_config)) (JStr ''webhook'')))
       (\<lambda>a. Inr (a \<noteq> ''push'' \<and> py_truth (jget_default ''supportsOutboundSync'' (JBool True) source_config)))"

end
