(* ===== verification/Vat_Sync.thy ===== *)
theory Vat_Sync
  imports Vat_Settings Vat_Ingest_Facts
begin

text \<open>
  The outbound queue of \<open>services/sync_service.py\<close>: events for trackers and vendors are queued in the table
  \<open>sync_events\<close> and a worker sends them, with retries. The adapters talk to services over HTTP; they are
  parameters (\<open>tracker_adapter\<close>, \<open>source_adapter\<close>), functions of the request and of the number of the
  call, so that the same request can have different answers. A failed call carries the text of the exception and of
  the HTTP response. A worker that raises rolls its transaction back and is modelled by \<open>Inl\<close>.
\<close>

datatype sync_exc = SyncExc (exc_text: string) (exc_response: "string option")

fun exc_of :: "py_error \<Rightarrow> sync_exc" where
  "exc_of (ValueError t) = SyncExc t None"
| "exc_of (TypeError t) = SyncExc t None"
| "exc_of (KeyError t) = SyncExc t None"
| "exc_of (NameError t) = SyncExc t None"
| "exc_of (IntegrityError t) = SyncExc t None"
| "exc_of (DataError t) = SyncExc t None"
| "exc_of (OverflowError t) = SyncExc t None"
| "exc_of (AttributeError t) = SyncExc t None"
| "exc_of MultipleResultsFound = SyncExc ''Multiple rows were found when one or none was required'' None"
| "exc_of (HTTPException n t) = SyncExc t None"

record tracker_adapter =
  ta_supports_create_issue :: bool
  ta_supports_post_comment :: bool
  ta_supports_update_issue :: bool
  ta_find_group :: "(nat \<Rightarrow> json \<Rightarrow> sync_exc + string option) option"
  ta_find_cve :: "(nat \<Rightarrow> json \<Rightarrow> sync_exc + string option) option"
  ta_find_title :: "(nat \<Rightarrow> json \<Rightarrow> sync_exc + string option) option"
  ta_create_issue :: "nat \<Rightarrow> sync_request \<Rightarrow> sync_exc + (string \<times> string option)"
  ta_post_comment :: "nat \<Rightarrow> sync_request \<Rightarrow> sync_exc + unit"
  ta_update_issue :: "nat \<Rightarrow> sync_request \<Rightarrow> sync_exc + unit"
  ta_create_issues_batch :: "(nat \<Rightarrow> sync_request list \<Rightarrow> sync_exc + (sync_exc + string \<times> string option) list) option"
  ta_update_issues_batch :: "(nat \<Rightarrow> sync_request list \<Rightarrow> sync_exc + string option list) option"

record source_adapter =
  sa_supports_ignore :: bool
  sa_supports_unignore :: bool
  sa_ignore_issue :: "nat \<Rightarrow> sync_request \<Rightarrow> sync_exc + unit"
  sa_unignore_issue :: "nat \<Rightarrow> sync_request \<Rightarrow> sync_exc + unit"

text \<open>Settings and the adapter registries.\<close>

record sync_conf =
  sc_config :: app_config
  sc_kv :: settings_kv
  sc_trackers :: "string \<Rightarrow> tracker_adapter option"
  sc_sources :: "string \<Rightarrow> source_adapter option"

definition next_call :: "session \<Rightarrow> nat \<times> session" where
  "next_call s = (s_calls s, s\<lparr>s_calls := Suc (s_calls s)\<rparr>)"

section \<open>Statuses and back-off\<close>

definition TRACKER_DECISION_STATUSES :: "status list" where
  "TRACKER_DECISION_STATUSES =
     [Approved, Rejected, RiskAccepted, FalsePositive, Suppressed, NotApplicable, Duplicate, Resolved]"

definition SOURCE_IGNORE_STATUSES :: "status list" where
  "SOURCE_IGNORE_STATUSES = [FalsePositive, Suppressed, NotApplicable, Duplicate, Resolved]"

definition is_aikido_finding :: "finding \<Rightarrow> bool" where
  "is_aikido_finding f =
     (py_lower (py_strip (or_empty (f_source f))) = ''aikido'' \<or> py_strip (or_empty (f_source_issue_group_id f)) \<noteq> [])"

definition get_backoff_seconds :: "nat \<Rightarrow> nat" where
  "get_backoff_seconds attempts = min (60 * 2 ^ attempts) 3600"

text \<open>\<open>t + timedelta(seconds=n)\<close> for at most a day; \<open>None\<close> is \<open>OverflowError\<close>.\<close>

definition add_seconds :: "nat \<Rightarrow> datetime \<Rightarrow> datetime option" where
  "add_seconds n t =
     (let m = 3600 * dt_hour t + 60 * dt_minute t + dt_second t + n;
          at = (\<lambda>d k. DateTime (dt_year d) (dt_month d) (dt_day d) (k div 3600) (k mod 3600 div 60) (k mod 60) (dt_micro d))
      in if m < 86400 then Some (at t m) else map_option (\<lambda>d. at d (m - 86400)) (next_day t))"

section \<open>The requests of schemas/vat.py\<close>

definition max_len :: "nat \<Rightarrow> 'a list option \<Rightarrow> bool" where
  "max_len n xs = (case xs of None \<Rightarrow> True | Some ys \<Rightarrow> length ys \<le> n)"

fun valid_request :: "sync_request \<Rightarrow> bool" where
  "valid_request (CreateIssue d tpl names cfgs) =
     (py_truth (jor (jget ''cve_id'' d) (jget ''cveId'' d)) \<and> 1 \<le> length tpl \<and> length tpl \<le> 10000 \<and> max_len 50 names)"
| "valid_request (PostDecision i b) = (1 \<le> length i \<and> length i \<le> 64 \<and> length b \<le> 10000)"
| "valid_request (UpdateIssue i d fs names cfgs u) =
     (1 \<le> length i \<and> length i \<le> 64 \<and> length fs \<le> 20 \<and> max_len 50 names)"
| "valid_request (SourceIgnore i scope) = (1 \<le> length i \<and> length i \<le> 128 \<and> scope \<in> set [''global'', ''contextual''])"
| "valid_request (SourceUnignore i) = (1 \<le> length i \<and> length i \<le> 128)"

text \<open>The validator of the source requests also strips the issue id.\<close>

fun normal_request :: "sync_request \<Rightarrow> sync_request" where
  "normal_request (SourceIgnore i scope) = SourceIgnore (take 128 (py_strip i)) scope"
| "normal_request (SourceUnignore i) = SourceUnignore (take 128 (py_strip i))"
| "normal_request r = r"

definition make_request :: "sync_request \<Rightarrow> py_error + sync_request" where
  "make_request r = (if valid_request r then Inr (normal_request r) else Inl (ValueError ''validation error''))"

text \<open>The event types and the request class that each of them is read as.\<close>

fun request_type :: "sync_request \<Rightarrow> string \<times> string" where
  "request_type (CreateIssue _ _ _ _) = (''tracker'', ''create_issue'')"
| "request_type (PostDecision _ _) = (''tracker'', ''post_decision'')"
| "request_type (UpdateIssue _ _ _ _ _ _) = (''tracker'', ''update_issue'')"
| "request_type (SourceIgnore _ _) = (''source'', ''source_ignore'')"
| "request_type (SourceUnignore _) = (''source'', ''source_unignore'')"

definition model_validate :: "string \<times> string \<Rightarrow> sync_request \<Rightarrow> py_error + sync_request" where
  "model_validate ty r = (if request_type r = ty then make_request r else Inl (ValueError ''validation error''))"

section \<open>Queueing\<close>

definition put_event :: "sync_event \<Rightarrow> session \<Rightarrow> session" where
  "put_event ev s = s\<lparr>s_sync_events := tbl_update (\<lambda>r. se_id r = se_id ev) (\<lambda>_. ev) (s_sync_events s)\<rparr>"

definition new_event :: "string \<Rightarrow> string \<Rightarrow> sync_request \<Rightarrow> nat \<Rightarrow> datetime \<Rightarrow> sync_event" where
  "new_event finding_id target_key payload i now =
     \<lparr>se_id = i, se_finding_id = finding_id, se_target = fst (request_type payload), se_target_key = target_key,
      se_event_type = snd (request_type payload), se_payload = payload, se_status = ''pending'', se_attempts = 0,
      se_max_attempts = 5, se_last_error = None, se_next_retry_at = None, se_completed_at = None,
      se_created_at = now, se_updated_at = now\<rparr>"

definition enqueue_sync_event :: "env \<Rightarrow> string \<Rightarrow> string \<Rightarrow> sync_request \<Rightarrow> session \<Rightarrow> session" where
  "enqueue_sync_event E finding_id target_key payload s =
     (let (now, s1) = utcnow E s
      in s1\<lparr>s_sync_events := s_sync_events s1 @ [new_event finding_id target_key payload (Suc (length (s_sync_events s1))) now]\<rparr>)"

text \<open>The callers build the request and queue it; \<open>None\<close> as a result means that nothing was queued.\<close>

definition enqueue_request :: "env \<Rightarrow> string \<Rightarrow> string \<Rightarrow> sync_request \<Rightarrow> session \<Rightarrow> py_error + (bool \<times> session)" where
  "enqueue_request E finding_id target_key r s =
     res_bind (make_request r) (\<lambda>p. Inr (True, enqueue_sync_event E finding_id target_key p s))"

definition enqueue_tracker_create_issue ::
  "env \<Rightarrow> finding \<Rightarrow> string \<Rightarrow> json_object \<Rightarrow> string \<Rightarrow> string list \<Rightarrow> label_config list \<Rightarrow> session \<Rightarrow> py_error + (bool \<times> session)" where
  "enqueue_tracker_create_issue E f tracker_key d template names cfgs s =
     enqueue_request E (f_id f) tracker_key (CreateIssue d template (Some names) (Some cfgs)) s"

text \<open>An issue id that is not text fails the validation of the request.\<close>

definition enqueue_tracker_update_issue ::
  "env \<Rightarrow> finding \<Rightarrow> string \<Rightarrow> json_object \<Rightarrow> string list \<Rightarrow> string list \<Rightarrow> label_config list \<Rightarrow> session \<Rightarrow>
   py_error + (bool \<times> session)" where
  "enqueue_tracker_update_issue E f tracker_key d changed names cfgs s =
     (let i = get_tracker_issue_id f tracker_key; u = get_tracker_issue_uuid f tracker_key
      in if \<not> py_truth i then Inr (False, s)
         else case (i, u) of
                (JStr iid, JNull) \<Rightarrow> enqueue_request E (f_id f) tracker_key (UpdateIssue iid d changed (Some names) (Some cfgs) None) s
              | (JStr iid, JStr uu) \<Rightarrow> enqueue_request E (f_id f) tracker_key (UpdateIssue iid d changed (Some names) (Some cfgs) (Some uu)) s
              | _ \<Rightarrow> Inl (ValueError ''validation error''))"

text \<open>\<open>_environmental_scoring_comment_lines\<close> and the comment of a decision; \<open>str.title\<close> of a status.\<close>

definition environmental_scoring_comment_lines :: "finding \<Rightarrow> string list" where
  "environmental_scoring_comment_lines f =
     (case jget ''environmental'' (as_dict (f_risk_scoring f)) of
        JObj e \<Rightarrow>
          (let score = jget ''score'' e; rationale = jget ''rationale'' e; exc = jget ''knownScannerException'' e
           in (if py_truth score then [''**Environmental score:** '' @ py_str score] else []) @
              (if py_truth rationale then [''**Environmental rationale:** '' @ take 500 (py_str rationale)] else []) @
              (if py_truth exc then [''**Known scanner exception:** '' @ take 500 (py_str exc)] else []))
      | _ \<Rightarrow> [])"

definition is_alpha :: "char \<Rightarrow> bool" where
  "is_alpha c = (lower_char c \<noteq> c \<or> upper_char c \<noteq> c)"

fun title_case :: "bool \<Rightarrow> string \<Rightarrow> string" where
  "title_case _ [] = []"
| "title_case inside (c # cs) = (if inside then lower_char c else upper_char c) # title_case (is_alpha c) cs"

definition status_title :: "status \<Rightarrow> string" where
  "status_title st = title_case False (map (\<lambda>c. if c = CHR ''_'' then CHR '' '' else c) (status_value st))"

definition newline :: string where
  "newline = [CHR 10]"

definition decision_body :: "finding \<Rightarrow> string \<Rightarrow> string" where
  "decision_body f user =
     py_join newline
       ([''**VAT Reviewer Decision:** '' @ status_title (f_status f), [], ''*Reviewed by '' @ user @ ''*''] @
        (if truthy (f_reviewer_note f) then [[], ''**Note:** '' @ or_empty (f_reviewer_note f)] else []) @
        (if truthy (f_justification f) then [[], ''**Justification:** '' @ take 500 (or_empty (f_justification f))] else []) @
        (case f_attestation f of
           Some (JObj (e # es)) \<Rightarrow>
             (let att = e # es
              in [[], ''**Waiver:** '' @ py_str (jget_default ''waiverRef'' (JStr ''N/A'') att) @ '' | Expires: '' @
                      py_str (jget_default ''expiresAt'' (JStr ''N/A'') att)])
         | _ \<Rightarrow> []) @
        (let ls = environmental_scoring_comment_lines f
         in if ls \<noteq> [] then [[], ''**Risk scoring evidence:**''] @ ls else []))"

definition attestation_readable :: "finding \<Rightarrow> bool" where
  "attestation_readable f = (case f_attestation f of None \<Rightarrow> True | Some a \<Rightarrow> py_truth a \<longrightarrow> is_dict a)"

definition enqueue_tracker_post_decision ::
  "env \<Rightarrow> finding \<Rightarrow> string \<Rightarrow> string \<Rightarrow> session \<Rightarrow> py_error + (bool \<times> session)" where
  "enqueue_tracker_post_decision E f tracker_key user s =
     (let i = get_tracker_issue_id f tracker_key
      in if f_status f \<notin> set TRACKER_DECISION_STATUSES \<or> \<not> py_truth i then Inr (False, s)
         else if \<not> attestation_readable f then Inl (AttributeError ''get'')
         else case i of
                JStr iid \<Rightarrow> enqueue_request E (f_id f) tracker_key (PostDecision iid (decision_body f user)) s
              | _ \<Rightarrow> Inl (ValueError ''validation error''))"

definition enqueue_source_ignore ::
  "env \<Rightarrow> finding \<Rightarrow> string \<Rightarrow> string \<Rightarrow> string option \<Rightarrow> session \<Rightarrow> py_error + (bool \<times> session)" where
  "enqueue_source_ignore E f adapter_key scope source_name s =
     (let i = get_source_issue_id f (or_empty (py_or source_name (Some adapter_key)))
      in if \<not> py_truth i then Inr (False, s)
         else enqueue_request E (f_id f) adapter_key (SourceIgnore (py_str i) scope) s)"

definition enqueue_source_unignore ::
  "env \<Rightarrow> finding \<Rightarrow> string \<Rightarrow> string option \<Rightarrow> session \<Rightarrow> py_error + (bool \<times> session)" where
  "enqueue_source_unignore E f adapter_key source_name s =
     (let i = get_source_issue_id f (or_empty (py_or source_name (Some adapter_key)))
      in if \<not> py_truth i then Inr (False, s)
         else enqueue_request E (f_id f) adapter_key (SourceUnignore (py_str i)) s)"

end
