(* ===== verification/Vat_Sync_Worker.thy ===== *)
theory Vat_Sync_Worker
  imports Vat_Sync Vat_Ledger
begin

text \<open>
  The worker of \<open>services/sync_service.py\<close>: \<open>process_sync_event\<close> sends one event and keeps the retry state,
  \<open>process_pending_sync_events\<close> drains the due events, sending runs of \<open>create_issue\<close> and of
  \<open>update_issue\<close> events as batches when the adapter can.
  The body of the \<open>try\<close> returns the exception, if any, together with the session at that
  point: what it wrote before the exception stays.
\<close>

section \<open>Results of a created issue\<close>

text \<open>A computation that may raise after it changed the session.\<close>

type_synonym 'a attempt = "(sync_exc + 'a) \<times> session"

definition try_bind :: "'a attempt \<Rightarrow> ('a \<Rightarrow> session \<Rightarrow> 'b attempt) \<Rightarrow> 'b attempt" where
  "try_bind r f = (case fst r of Inl e \<Rightarrow> (Inl e, snd r) | Inr x \<Rightarrow> f x (snd r))"

definition try_py :: "py_error + 'a \<Rightarrow> session \<Rightarrow> 'a attempt" where
  "try_py r s = (case r of Inl e \<Rightarrow> (Inl (exc_of e), s) | Inr x \<Rightarrow> (Inr x, s))"

text \<open>A call of the adapter.\<close>

definition call_out :: "(nat \<Rightarrow> 'r \<Rightarrow> sync_exc + 'a) \<Rightarrow> 'r \<Rightarrow> session \<Rightarrow> 'a attempt" where
  "call_out api r s = (case next_call s of (n, s1) \<Rightarrow> (api n r, s1))"

definition set_synced :: "datetime \<Rightarrow> string \<Rightarrow> finding \<Rightarrow> finding" where
  "set_synced now tracker_id f =
     f\<lparr>f_sync_status := Some ''synced'', f_sync_last_error := None, f_sync_failed_at := None,
       f_audit := f_audit f @ [audit_entry (strftime_z now) ''system'' ''Synced to Tracker'' tracker_id]\<rparr>"

definition label_names_of :: "json_object list \<Rightarrow> string list" where
  "label_names_of ls = map (\<lambda>l. py_str (jget ''name'' l)) (filter (\<lambda>l. py_truth (jget ''name'' l)) ls)"

definition record_tracker_created_correctly ::
  "env \<Rightarrow> finding \<Rightarrow> string \<Rightarrow> json_object \<Rightarrow> session \<Rightarrow> py_error + session" where
  "record_tracker_created_correctly E f tracker_key d s =
     (case (jor (get_tracker_issue_id f tracker_key) (JStr []), get_tracker_issue_uuid f tracker_key) of
        (JStr i, u) \<Rightarrow>
          res_bind (case u of JNull \<Rightarrow> Inr None | JStr v \<Rightarrow> Inr (Some v) | _ \<Rightarrow> Inl (ValueError ''validation error''))
            (\<lambda>uu. res_bind (make_request (UpdateIssue i d [] None None uu))
              (\<lambda>p. let (now, s1) = utcnow E s; (created, s2) = utcnow E s1
                   in Inr (s2\<lparr>s_sync_events := s_sync_events s2 @
                        [(new_event (f_id f) tracker_key p (Suc (length (s_sync_events s2))) created)
                           \<lparr>se_status := ''completed'', se_completed_at := Some now\<rparr>]\<rparr>)))
      | _ \<Rightarrow> Inl (ValueError ''validation error''))"

text \<open>
  What both paths do once the tracker has an issue for the finding. A finding that was linked to an existing
  issue gets an \<open>update_issue\<close> event for \<open>changed\<close> fields; \<open>with_status\<close> adds the current status to the snapshot.
\<close>

definition apply_issue ::
  "env \<Rightarrow> sync_conf \<Rightarrow> tracker_adapter \<Rightarrow> sync_event \<Rightarrow> json_object \<Rightarrow> bool \<Rightarrow> string list \<Rightarrow> string \<Rightarrow> string option \<Rightarrow> bool \<Rightarrow>
   session \<Rightarrow> unit attempt" where
  "apply_issue E C ad ev d with_status changed tracker_id tracker_uuid linked s =
     (case tbl_get f_id (se_finding_id ev) (s_findings s) of
        None \<Rightarrow> (Inr (), s)
      | Some f \<Rightarrow>
          (let (f1, s1) = add_tracker_link E f (se_target_key ev) tracker_id None None tracker_uuid s;
               (now, s2) = utcnow E s1; f2 = set_synced now tracker_id f1; s3 = put_finding f2 s2
           in if linked \<and> ta_supports_update_issue ad
              then (let labels = get_labels (sc_kv C);
                        d1 = (if with_status then jset ''status'' (JStr (status_value (f_status f2))) d else d)
                    in try_bind (try_py (labels_to_configs labels) s3)
                         (\<lambda>cfgs s4. case enqueue_tracker_update_issue E f2 (se_target_key ev) d1 changed (label_names_of labels) cfgs s4 of
                            Inl e \<Rightarrow> (Inl (exc_of e), s4) | Inr (_, s5) \<Rightarrow> (Inr (), s5)))
              else if \<not> linked
              then (case record_tracker_created_correctly E f2 (se_target_key ev) d s3 of
                      Inl e \<Rightarrow> (Inl (exc_of e), s3) | Inr s4 \<Rightarrow> (Inr (), s4))
              else (Inr (), s3)))"

section \<open>One event\<close>

text \<open>Asking the adapter for an existing issue; an empty answer counts as none.\<close>

definition find_existing_issue ::
  "(nat \<Rightarrow> json \<Rightarrow> sync_exc + string option) option \<Rightarrow> json \<Rightarrow> bool \<Rightarrow> string option \<Rightarrow> session \<Rightarrow> string option attempt" where
  "find_existing_issue finder key enabled found s =
     (case (finder, found) of
        (Some api, None) \<Rightarrow>
          if enabled \<and> py_truth key
          then try_bind (call_out api key s) (\<lambda>r s1. (Inr (if truthy r then r else None), s1))
          else (Inr None, s)
      | _ \<Rightarrow> (Inr found, s))"

definition find_issue :: "sync_conf \<Rightarrow> tracker_adapter \<Rightarrow> json_object \<Rightarrow> session \<Rightarrow> string option attempt" where
  "find_issue C ad d s =
     try_bind (find_existing_issue (ta_find_group ad) (jget ''group_key'' d) True None s)
       (\<lambda>r1 s1. try_bind (find_existing_issue (ta_find_cve ad) (jor (jget ''cve_id'' d) (jget ''cveId'' d)) True r1 s1)
         (\<lambda>r2 s2. find_existing_issue (ta_find_title ad) (jor (jget ''title'' d) (JStr []))
                    (ac_linear_link_title_fallback (sc_config C)) r2 s2))"

definition do_create_issue :: "env \<Rightarrow> sync_conf \<Rightarrow> tracker_adapter \<Rightarrow> sync_event \<Rightarrow> session \<Rightarrow> unit attempt" where
  "do_create_issue E C ad ev s =
     (if \<not> ta_supports_create_issue ad
      then (Inl (SyncExc (''Adapter '' @ se_target_key ev @ '' does not support create_issue'') None), s)
      else try_bind (try_py (model_validate (''tracker'', ''create_issue'') (se_payload ev)) s)
        (\<lambda>req s1. let d = ci_finding req
          in try_bind (try_py (get_tracker_push_mode (sc_kv C)) s1)
            (\<lambda>mode s2. try_bind (if mode = ''groups'' then find_issue C ad d s2 else (Inr None, s2))
              (\<lambda>found s3. case found of
                 Some i \<Rightarrow> apply_issue E C ad ev d True [''labels'', ''status''] i None True s3
               | None \<Rightarrow> try_bind (call_out (ta_create_issue ad) req s3)
                           (\<lambda>(i, u) s4. apply_issue E C ad ev d True [''labels'', ''status''] i u False s4)))))"

definition send_tracker :: "env \<Rightarrow> sync_conf \<Rightarrow> sync_event \<Rightarrow> session \<Rightarrow> unit attempt" where
  "send_tracker E C ev s =
     (case sc_trackers C (se_target_key ev) of
        None \<Rightarrow> (Inl (SyncExc (''Unknown tracker adapter: '' @ se_target_key ev) None), s)
      | Some ad \<Rightarrow>
          if se_event_type ev = ''create_issue'' then do_create_issue E C ad ev s
          else if se_event_type ev = ''post_decision''
          then (if \<not> ta_supports_post_comment ad
                then (Inl (SyncExc (''Adapter '' @ se_target_key ev @ '' does not support post_comment'') None), s)
                else try_bind (try_py (model_validate (''tracker'', ''post_decision'') (se_payload ev)) s)
                       (\<lambda>req. call_out (ta_post_comment ad) req))
          else if se_event_type ev = ''update_issue''
          then (if \<not> ta_supports_update_issue ad
                then (Inl (SyncExc (''Adapter '' @ se_target_key ev @ '' does not support update_issue'') None), s)
                else try_bind (try_py (model_validate (''tracker'', ''update_issue'') (se_payload ev)) s)
                       (\<lambda>req. call_out (ta_update_issue ad) req))
          else (Inl (SyncExc (''Unknown tracker event_type: '' @ se_event_type ev) None), s))"

definition send_source :: "sync_conf \<Rightarrow> sync_event \<Rightarrow> session \<Rightarrow> unit attempt" where
  "send_source C ev s =
     (case sc_sources C (se_target_key ev) of
        None \<Rightarrow> (Inl (SyncExc (''Unknown source adapter: '' @ se_target_key ev) None), s)
      | Some ad \<Rightarrow>
          if se_event_type ev = ''source_ignore''
          then (if \<not> sa_supports_ignore ad
                then (Inl (SyncExc (''Adapter '' @ se_target_key ev @ '' does not support ignore_issue'') None), s)
                else try_bind (try_py (model_validate (''source'', ''source_ignore'') (se_payload ev)) s)
                       (\<lambda>req. call_out (sa_ignore_issue ad) req))
          else if se_event_type ev = ''source_unignore''
          then (if \<not> sa_supports_unignore ad
                then (Inl (SyncExc (''Adapter '' @ se_target_key ev @ '' does not support unignore_issue'') None), s)
                else try_bind (try_py (model_validate (''source'', ''source_unignore'') (se_payload ev)) s)
                       (\<lambda>req. call_out (sa_unignore_issue ad) req))
          else (Inl (SyncExc (''Unknown source event_type: '' @ se_event_type ev) None), s))"

text \<open>A target that is neither a tracker nor a source falls through to the end of the \<open>try\<close>.\<close>

definition send_event :: "env \<Rightarrow> sync_conf \<Rightarrow> sync_event \<Rightarrow> session \<Rightarrow> unit attempt" where
  "send_event E C ev s =
     (if se_target ev = ''tracker'' then send_tracker E C ev s
      else if se_target ev = ''source'' then send_source C ev s else (Inr (), s))"

definition err_detail :: "sync_exc \<Rightarrow> string" where
  "err_detail e = exc_text e @ (case exc_response e of Some (c # cs) \<Rightarrow> '' | response: '' @ take 500 (c # cs) | _ \<Rightarrow> [])"

definition mark_failed_finding :: "datetime \<Rightarrow> sync_exc \<Rightarrow> finding \<Rightarrow> finding" where
  "mark_failed_finding now e f =
     f\<lparr>f_sync_status := Some ''sync_failed'', f_sync_failed_at := Some now, f_sync_last_error := Some (take 500 (exc_text e))\<rparr>"

definition begin_event :: "env \<Rightarrow> sync_event \<Rightarrow> session \<Rightarrow> sync_event \<times> session" where
  "begin_event E ev s =
     (let (now, s1) = utcnow E s; ev1 = ev\<lparr>se_status := ''processing'', se_attempts := se_attempts ev + 1, se_updated_at := now\<rparr>
      in (ev1, put_event ev1 s1))"

definition complete_event :: "env \<Rightarrow> sync_event \<Rightarrow> session \<Rightarrow> sync_event \<times> session" where
  "complete_event E ev s =
     (let (now, s1) = utcnow E s;
          ev1 = ev\<lparr>se_status := ''completed'', se_completed_at := Some now, se_last_error := None, se_next_retry_at := None\<rparr>
      in (ev1, put_event ev1 s1))"

definition retry_event :: "env \<Rightarrow> string \<Rightarrow> nat \<Rightarrow> sync_event \<Rightarrow> session \<Rightarrow> sync_exc + (sync_event \<times> session)" where
  "retry_event E err backoff ev s =
     (let (now, s1) = utcnow E s
      in case add_seconds backoff now of
           None \<Rightarrow> Inl (SyncExc ''date value out of range'' None)
         | Some t \<Rightarrow> (let ev1 = ev\<lparr>se_status := ''pending'', se_last_error := Some err, se_next_retry_at := Some t\<rparr>
                     in Inr (ev1, put_event ev1 s1)))"

definition fail_event :: "env \<Rightarrow> sync_exc \<Rightarrow> sync_event \<Rightarrow> session \<Rightarrow> session" where
  "fail_event E e ev s =
     (let s1 = put_event (ev\<lparr>se_status := ''failed'', se_last_error := Some (take 500 (err_detail e))\<rparr>) s
      in if se_event_type ev = ''create_issue''
         then (case tbl_get f_id (se_finding_id ev) (s_findings s1) of
                 None \<Rightarrow> s1
               | Some f \<Rightarrow> (let (now, s2) = utcnow E s1 in put_finding (mark_failed_finding now e f) s2))
         else s1)"

definition process_sync_event :: "env \<Rightarrow> sync_conf \<Rightarrow> sync_event \<Rightarrow> session \<Rightarrow> sync_exc + (bool \<times> session)" where
  "process_sync_event E C ev s =
     (let (ev1, s1) = begin_event E ev s; (r, s2) = send_event E C ev1 s1
      in case r of
           Inr _ \<Rightarrow> Inr (True, snd (complete_event E ev1 s2))
         | Inl e \<Rightarrow>
             if se_max_attempts ev1 \<le> se_attempts ev1 then Inr (False, fail_event E e ev1 s2)
             else (case retry_event E (take 500 (err_detail e)) (get_backoff_seconds (se_attempts ev1)) ev1 s2 of
                     Inl x \<Rightarrow> Inl x | Inr (_, s3) \<Rightarrow> Inr (False, s3)))"

section \<open>Batches\<close>

text \<open>
  The batch paths have no \<open>try\<close>: an exception ends the run. They do not look at \<open>max_attempts\<close>, and
  a \<open>create_issue\<close> event counts two attempts.
\<close>

definition find_batch_issue ::
  "(nat \<Rightarrow> json \<Rightarrow> sync_exc + string option) option \<Rightarrow> json \<Rightarrow> string option \<Rightarrow> session \<Rightarrow> string option attempt" where
  "find_batch_issue finder key found s =
     (case (finder, found) of
        (Some api, None) \<Rightarrow> if py_truth key then call_out api key s else (Inr None, s)
      | _ \<Rightarrow> (Inr found, s))"

definition find_issue_batch :: "tracker_adapter \<Rightarrow> json_object \<Rightarrow> session \<Rightarrow> string option attempt" where
  "find_issue_batch ad d s =
     try_bind (find_batch_issue (ta_find_group ad) (jget ''group_key'' d) None s)
       (\<lambda>r1 s1. try_bind (find_batch_issue (ta_find_cve ad) (jor (jget ''cve_id'' d) (jget ''cveId'' d)) r1 s1)
         (\<lambda>r2 s2. find_batch_issue (ta_find_title ad) (jor (jget ''title'' d) (JStr [])) r2 s2))"

fun begin_batch :: "env \<Rightarrow> sync_event list \<Rightarrow> session \<Rightarrow> sync_event list \<times> session" where
  "begin_batch E [] s = ([], s)"
| "begin_batch E (ev # evs) s =
     (let (ev1, s1) = begin_event E ev s; (evs1, s2) = begin_batch E evs s1 in (ev1 # evs1, s2))"

text \<open>The events with an existing issue and those to create, each in order.\<close>

fun classify_batch ::
  "tracker_adapter \<Rightarrow> string \<Rightarrow> sync_event list \<Rightarrow> session \<Rightarrow>
   ((sync_event \<times> sync_request \<times> string) list \<times> (sync_event \<times> sync_request) list) attempt" where
  "classify_batch ad mode [] s = (Inr ([], []), s)"
| "classify_batch ad mode (ev # evs) s =
     try_bind (try_py (model_validate (''tracker'', ''create_issue'') (se_payload ev)) s)
       (\<lambda>req s1. try_bind (if mode = ''groups'' then find_issue_batch ad (ci_finding req) s1 else (Inr None, s1))
         (\<lambda>found s2. try_bind (classify_batch ad mode evs s2)
           (\<lambda>(ls, cs) s3. (Inr (if truthy found then ((ev, req, or_empty found) # ls, cs) else (ls, (ev, req) # cs)), s3))))"

definition settle_created :: "env \<Rightarrow> sync_event \<Rightarrow> session \<Rightarrow> session" where
  "settle_created E ev s =
     (let (ev1, s1) = complete_event E ev s; (now, s2) = utcnow E s1
      in put_event (ev1\<lparr>se_attempts := se_attempts ev1 + 1, se_updated_at := now\<rparr>) s2)"

fun link_batch ::
  "env \<Rightarrow> sync_conf \<Rightarrow> tracker_adapter \<Rightarrow> (sync_event \<times> sync_request \<times> string) list \<Rightarrow> session \<Rightarrow> nat attempt" where
  "link_batch E C ad [] s = (Inr 0, s)"
| "link_batch E C ad ((ev, req, i) # rest) s =
     try_bind (apply_issue E C ad ev (ci_finding req) False [''labels''] i None True s)
       (\<lambda>_ s1. try_bind (link_batch E C ad rest (settle_created E ev s1)) (\<lambda>n s2. (Inr (Suc n), s2)))"

text \<open>\<open>zip\<close> of the events with the answers: what is longer is cut off.\<close>

fun create_batch ::
  "env \<Rightarrow> sync_conf \<Rightarrow> tracker_adapter \<Rightarrow> (sync_event \<times> sync_request) list \<Rightarrow> (sync_exc + string \<times> string option) list \<Rightarrow>
   session \<Rightarrow> nat attempt" where
  "create_batch E C ad ((ev, req) # rest) (Inr (i, u) # answers) s =
     try_bind (apply_issue E C ad ev (ci_finding req) False [''labels''] i u False s)
       (\<lambda>_ s1. try_bind (create_batch E C ad rest answers (settle_created E ev s1)) (\<lambda>n s2. (Inr (Suc n), s2)))"
| "create_batch E C ad ((ev, req) # rest) (Inl e # answers) s =
     (case retry_event E (take 500 (exc_text e)) (get_backoff_seconds (se_attempts ev)) ev s of
        Inl x \<Rightarrow> (Inl x, s)
      | Inr (ev1, s1) \<Rightarrow>
          (let (now, s2) = utcnow E s1
           in create_batch E C ad rest answers
                (put_event (ev1\<lparr>se_attempts := se_attempts ev1 + 1, se_updated_at := now\<rparr>) s2)))"
| "create_batch E C ad _ _ s = (Inr 0, s)"

definition run_create_batch ::
  "env \<Rightarrow> sync_conf \<Rightarrow> tracker_adapter \<Rightarrow> (nat \<Rightarrow> sync_request list \<Rightarrow> sync_exc + (sync_exc + string \<times> string option) list) \<Rightarrow>
   string \<Rightarrow> sync_event list \<Rightarrow> session \<Rightarrow> nat attempt" where
  "run_create_batch E C ad api mode evs s =
     (let (evs1, s1) = begin_batch E evs s
      in try_bind (classify_batch ad mode evs1 s1)
           (\<lambda>(links, creates) s2. try_bind (link_batch E C ad links s2)
             (\<lambda>n s3. if creates = [] then (Inr n, s3)
                     else try_bind (call_out api (map snd creates) s3)
                            (\<lambda>answers s4. try_bind (create_batch E C ad creates answers s4) (\<lambda>m s5. (Inr (n + m), s5))))))"

fun validate_updates :: "sync_event list \<Rightarrow> py_error + sync_request list" where
  "validate_updates [] = Inr []"
| "validate_updates (ev # evs) =
     res_bind (model_validate (''tracker'', ''update_issue'') (se_payload ev))
       (\<lambda>r. res_bind (validate_updates evs) (\<lambda>rs. Inr (r # rs)))"

fun update_batch :: "env \<Rightarrow> sync_event list \<Rightarrow> string option list \<Rightarrow> session \<Rightarrow> nat attempt" where
  "update_batch E (ev # evs) (err # errs) s =
     (let (now, s1) = utcnow E s; ev1 = ev\<lparr>se_attempts := se_attempts ev + 1, se_updated_at := now\<rparr>
      in case err of
           None \<Rightarrow> try_bind (update_batch E evs errs (snd (complete_event E ev1 s1))) (\<lambda>n s2. (Inr (Suc n), s2))
         | Some e \<Rightarrow>
             (case retry_event E (take 500 e) (get_backoff_seconds (se_attempts ev1)) ev1 s1 of
                Inl x \<Rightarrow> (Inl x, s1)
              | Inr (_, s2) \<Rightarrow> update_batch E evs errs s2))"
| "update_batch E _ _ s = (Inr 0, s)"

section \<open>Draining the queue\<close>

definition due :: "datetime \<Rightarrow> sync_event \<Rightarrow> bool" where
  "due now ev = (se_status ev \<in> set [''pending'', ''processing''] \<and>
     (case se_next_retry_at ev of None \<Rightarrow> True | Some t \<Rightarrow> t \<le> now))"

definition same_run :: "sync_event \<Rightarrow> sync_event \<Rightarrow> bool" where
  "same_run ev r = (se_target r = se_target ev \<and> se_target_key r = se_target_key ev \<and> se_event_type r = se_event_type ev)"

definition batch_of :: "sync_event \<Rightarrow> sync_event list \<Rightarrow> sync_event list" where
  "batch_of ev evs = ev # takeWhile (same_run ev) evs"

function process_events :: "env \<Rightarrow> sync_conf \<Rightarrow> bool \<Rightarrow> sync_event list \<Rightarrow> nat \<Rightarrow> session \<Rightarrow> sync_exc + (nat \<times> session)" where
  "process_events E C configured [] n s = Inr (n, s)"
| "process_events E C configured (ev # evs) n s =
     (if se_target ev = ''tracker'' \<and> \<not> configured then process_events E C configured evs n s
      else let batch = batch_of ev evs; rest = dropWhile (same_run ev) evs;
               one = (\<lambda>_. case process_sync_event E C ev s of
                             Inl x \<Rightarrow> Inl x
                           | Inr (ok, s1) \<Rightarrow> process_events E C configured evs (if ok then Suc n else n) s1)
           in case (if se_target ev = ''tracker'' \<and> se_target_key ev \<noteq> [] then sc_trackers C (se_target_key ev) else None) of
                None \<Rightarrow> one ()
              | Some ad \<Rightarrow>
                  if se_event_type ev = ''create_issue''
                  then (case get_tracker_push_mode (sc_kv C) of
                          Inl x \<Rightarrow> Inl (exc_of x)
                        | Inr mode \<Rightarrow>
                            (case (if 2 \<le> length batch then ta_create_issues_batch ad else None) of
                               None \<Rightarrow> one ()
                             | Some api \<Rightarrow>
                                 (case run_create_batch E C ad api mode batch s of
                                    (Inl x, _) \<Rightarrow> Inl x | (Inr m, s1) \<Rightarrow> process_events E C configured rest (n + m) s1)))
                  else (case (if se_event_type ev = ''update_issue'' \<and> 2 \<le> length batch then ta_update_issues_batch ad else None) of
                          None \<Rightarrow> one ()
                        | Some api \<Rightarrow>
                            (case validate_updates batch of
                               Inl x \<Rightarrow> Inl (exc_of x)
                             | Inr reqs \<Rightarrow>
                                 (case call_out api reqs s of
                                    (Inl x, _) \<Rightarrow> Inl x
                                  | (Inr answers, s1) \<Rightarrow>
                                      (case update_batch E batch answers s1 of
                                         (Inl x, _) \<Rightarrow> Inl x
                                       | (Inr m, s2) \<Rightarrow> process_events E C configured rest (n + m) s2)))))"
  by pat_completeness auto

termination process_events
  by (relation "measure (\<lambda>(_, _, _, evs, _, _). length evs)") (auto simp: le_imp_less_Suc length_dropWhile_le)

definition process_pending_sync_events :: "env \<Rightarrow> sync_conf \<Rightarrow> nat \<Rightarrow> session \<Rightarrow> sync_exc + (nat \<times> session)" where
  "process_pending_sync_events E C limit s =
     (let (now, s1) = utcnow E s;
          events = take limit (sort_key se_created_at (filter (due now) (s_sync_events s1)))
      in case get_tracker_key (sc_kv C) of
           Inl e \<Rightarrow> Inl (exc_of e)
         | Inr tracker_key \<Rightarrow>
             (let creds = get_tracker_credentials (sc_config C) (sc_kv C) tracker_key
              in process_events E C (py_truth (jget ''api_key'' creds) \<and> py_truth (jget ''team_id'' creds)) events 0 s1))"

text \<open>\<open>reset_failed_tracker_events\<close>: failed events of a tracker are tried again.\<close>

definition reset_failed_tracker_events :: "env \<Rightarrow> string \<Rightarrow> session \<Rightarrow> nat \<times> session" where
  "reset_failed_tracker_events E target_key s =
     (let bad = (\<lambda>ev. se_target ev = ''tracker'' \<and> se_target_key ev = target_key \<and> se_status ev = ''failed'');
          events = filter bad (s_sync_events s); ids = map se_finding_id events
      in if events = [] then (0, s)
         else let (now, s1) = utcnow E s
              in (length events,
                  s1\<lparr>s_sync_events := tbl_update bad (\<lambda>ev. ev\<lparr>se_status := ''pending'', se_attempts := 0, se_last_error := None,
                                             se_next_retry_at := None, se_updated_at := now\<rparr>) (s_sync_events s1),
                     s_findings := tbl_update (\<lambda>f. f_id f \<in> set ids \<and> f_sync_status f = Some ''sync_failed'')
                        (\<lambda>f. f\<lparr>f_sync_status := Some ''pending_sync'', f_sync_last_error := None, f_sync_failed_at := None\<rparr>)
                        (s_findings s1)\<rparr>))"

end
