(* ===== verification/Vat_Sync_Props.thy ===== *)
theory Vat_Sync_Props
  imports Vat_Sync_Worker
begin

text \<open>
  What the queue guarantees: events are well typed, the retry state is consistent, completed events are final,
  and how often a failing event is tried.
\<close>

section \<open>Well-formed events\<close>

definition event_ok :: "sync_event \<Rightarrow> bool" where
  "event_ok ev =
     (request_type (se_payload ev) = (se_target ev, se_event_type ev) \<and>
      se_status ev \<in> {''pending'', ''processing'', ''completed'', ''failed''} \<and>
      (se_status ev = ''completed'' \<longrightarrow> se_completed_at ev \<noteq> None \<and> se_last_error ev = None \<and> se_next_retry_at ev = None) \<and>
      (se_status ev = ''failed'' \<longrightarrow> se_last_error ev \<noteq> None \<and> se_max_attempts ev \<le> se_attempts ev) \<and>
      (se_status ev = ''pending'' \<longrightarrow> (if se_attempts ev = 0 then se_last_error ev = None \<and> se_next_retry_at ev = None
                                   else se_last_error ev \<noteq> None \<and> se_next_retry_at ev \<noteq> None)))"

text \<open>What never changes in a row of the queue.\<close>

definition static :: "sync_event \<Rightarrow> string \<times> string \<times> string \<times> string \<times> sync_request \<times> nat \<times> datetime" where
  "static ev = (se_finding_id ev, se_target ev, se_target_key ev, se_event_type ev, se_payload ev, se_max_attempts ev, se_created_at ev)"

definition queue_ok :: "session \<Rightarrow> bool" where
  "queue_ok s = (map se_id (s_sync_events s) = [1..<Suc (length (s_sync_events s))] \<and> list_all event_ok (s_sync_events s))"

text \<open>A step that changes only the rows in \<open>I\<close>, keeps their static part, and appends new rows.\<close>

definition evolves :: "nat set \<Rightarrow> sync_event \<Rightarrow> sync_event \<Rightarrow> bool" where
  "evolves I a b = (se_id b = se_id a \<and> static b = static a \<and> (se_id a \<notin> I \<longrightarrow> b = a) \<and> (event_ok a \<longrightarrow> event_ok b))"

definition touches :: "nat set \<Rightarrow> session \<Rightarrow> session \<Rightarrow> bool" where
  "touches I s t = (\<exists>us new. s_sync_events t = us @ new \<and> list_all2 (evolves I) (s_sync_events s) us \<and> list_all event_ok new \<and>
     map se_id new = [Suc (length us)..<Suc (length us + length new)])"

lemma evolves_refl [simp]: "evolves I a a"
  by (simp add: evolves_def)

lemma evolves_trans: "evolves I a b \<Longrightarrow> evolves J b c \<Longrightarrow> evolves (I \<union> J) a c"
  by (auto simp: evolves_def)

lemma evolves_mono: "evolves I a b \<Longrightarrow> I \<subseteq> J \<Longrightarrow> evolves J a b"
  by (auto simp: evolves_def)

lemma list_all2_refl_evolves [simp]: "list_all2 (evolves I) xs xs"
  by (simp add: list_all2_refl)

lemma touches_same: "s_sync_events t = s_sync_events s \<Longrightarrow> touches I s t"
  unfolding touches_def by (intro exI [of _ "s_sync_events s"] exI [of _ "[]"]) simp

lemma touches_all2: "list_all2 (evolves I) (s_sync_events s) (s_sync_events t) \<Longrightarrow> touches I s t"
  unfolding touches_def by (intro exI [of _ "s_sync_events t"] exI [of _ "[]"]) simp

lemma touches_refl [simp]: "touches I s s"
  by (simp add: touches_same)

lemma touches_mono: "touches I s t \<Longrightarrow> I \<subseteq> J \<Longrightarrow> touches J s t"
  unfolding touches_def by (meson evolves_mono list_all2_mono)

lemma upt_join: "i \<le> j \<Longrightarrow> j \<le> k \<Longrightarrow> [i..<j] @ [j..<k] = [i..<k]"
  using upt_add_eq_append [of i j "k - j"] by simp

lemma touches_trans:
  assumes "touches I s t" and "touches J t u"
  shows "touches (I \<union> J) s u"
proof -
  obtain us new where t: "s_sync_events t = us @ new" "list_all2 (evolves I) (s_sync_events s) us" "list_all event_ok new"
    "map se_id new = [Suc (length us)..<Suc (length us + length new)]" using assms(1) by (auto simp: touches_def)
  obtain vs more where u: "s_sync_events u = vs @ more" "list_all2 (evolves J) (us @ new) vs" "list_all event_ok more"
    "map se_id more = [Suc (length vs)..<Suc (length vs + length more)]" using assms(2) t(1) by (auto simp: touches_def)
  obtain us' new' where vs: "vs = us' @ new'" "list_all2 (evolves J) us us'" "list_all2 (evolves J) new new'"
    using u(2) by (auto simp: list_all2_append1)
  have len: "length us' = length us" "length new' = length new" using vs(2,3) by (auto dest: list_all2_lengthD)
  have "list_all2 (evolves (I \<union> J)) (s_sync_events s) us'"
    using list_all2_trans [OF _ t(2) vs(2)] evolves_trans by blast
  moreover have ok: "list_all event_ok new'" and ids: "map se_id new' = map se_id new"
    using vs(3) t(3) by (induction rule: list_all2_induct) (auto simp: evolves_def)
  moreover have "map se_id (new' @ more) = [Suc (length us')..<Suc (length us' + length (new' @ more))]"
    using u(4) t(4) ids len vs(1) upt_join [of "Suc (length us)" "Suc (length us + length new)" "Suc (length us + length new + length more)"]
    by (simp add: add.assoc del: upt_Suc)
  ultimately show ?thesis unfolding touches_def
    using u(1,3) vs(1) by (intro exI [of _ us'] exI [of _ "new' @ more"]) simp
qed

lemma touches_untouched:
  assumes "touches I s t" and "ev \<in> set (s_sync_events s)" and "se_id ev \<notin> I"
  shows "ev \<in> set (s_sync_events t)"
proof -
  obtain us new where t: "s_sync_events t = us @ new" "list_all2 (evolves I) (s_sync_events s) us"
    using assms(1) by (auto simp: touches_def)
  obtain k where "k < length (s_sync_events s)" "ev = s_sync_events s ! k" using assms(2) by (auto simp: in_set_conv_nth)
  then have "evolves I ev (us ! k)" "us ! k \<in> set us" using t(2) by (auto simp: list_all2_conv_all_nth)
  then show ?thesis using assms(3) t(1) by (auto simp: evolves_def)
qed

lemma touches_queue_ok:
  assumes "touches I s t" and "queue_ok s"
  shows "queue_ok t"
proof -
  obtain us new where t: "s_sync_events t = us @ new" "list_all2 (evolves I) (s_sync_events s) us" "list_all event_ok new"
    "map se_id new = [Suc (length us)..<Suc (length us + length new)]" using assms(1) by (auto simp: touches_def)
  have len: "length us = length (s_sync_events s)" using t(2) by (auto dest: list_all2_lengthD)
  have "list_all event_ok (s_sync_events s)" using assms(2) by (simp add: queue_ok_def)
  with t(2) have ids: "map se_id us = map se_id (s_sync_events s)" and ok: "list_all event_ok us"
    by (induction rule: list_all2_induct) (auto simp: evolves_def)
  have "map se_id (us @ new) = [1..<Suc (length (us @ new))]"
    using ids assms(2) t(4) len upt_join [of 1 "Suc (length us)" "Suc (length us + length new)"]
    by (simp add: queue_ok_def del: upt_Suc)
  then show ?thesis using ok t(1,3) by (simp add: queue_ok_def)
qed

text \<open>A row of the queue that an event in hand stands for.\<close>

definition in_queue :: "session \<Rightarrow> sync_event \<Rightarrow> bool" where
  "in_queue s ev = (\<exists>r\<in>set (s_sync_events s). se_id r = se_id ev \<and> static r = static ev \<and> event_ok r)"

lemma touches_in_queue:
  assumes "touches I s t" and "in_queue s ev"
  shows "in_queue t ev"
proof -
  obtain us new where t: "s_sync_events t = us @ new" "list_all2 (evolves I) (s_sync_events s) us"
    using assms(1) by (auto simp: touches_def)
  obtain r where r: "r \<in> set (s_sync_events s)" "se_id r = se_id ev" "static r = static ev" "event_ok r"
    using assms(2) by (auto simp: in_queue_def)
  then obtain k where "k < length (s_sync_events s)" "r = s_sync_events s ! k" by (auto simp: in_set_conv_nth)
  then have "us ! k \<in> set us" "evolves I r (us ! k)" using t(2) by (auto simp: list_all2_conv_all_nth)
  then obtain u where "u \<in> set us" "evolves I r u" by blast
  then show ?thesis using r t(1) by (auto simp: in_queue_def evolves_def intro!: bexI [of _ u])
qed

lemma in_queue_static: "in_queue s ev \<Longrightarrow> se_id ev' = se_id ev \<Longrightarrow> static ev' = static ev \<Longrightarrow> in_queue s ev'"
  by (simp add: in_queue_def)

lemma queue_ok_unique:
  assumes "queue_ok s" and "r \<in> set (s_sync_events s)" and "q \<in> set (s_sync_events s)" and "se_id r = se_id q"
  shows "r = q"
proof -
  have "distinct (map se_id (s_sync_events s))" using assms(1) by (simp add: queue_ok_def del: upt_Suc)
  then show ?thesis using assms(2-4) by (auto simp: distinct_map dest: inj_onD)
qed

lemma touches_put:
  assumes "queue_ok s" and "in_queue s ev" and "event_ok ev"
  shows "touches {se_id ev} s (put_event ev s)"
proof -
  obtain r where r: "r \<in> set (s_sync_events s)" "se_id r = se_id ev" "static r = static ev"
    using assms(2) by (auto simp: in_queue_def)
  have "evolves {se_id ev} q (if se_id q = se_id ev then ev else q)" if "q \<in> set (s_sync_events s)" for q
    using queue_ok_unique [OF assms(1) that r(1)] r(2,3) assms(3) by (auto simp: evolves_def)
  then have "list_all2 (evolves {se_id ev}) (s_sync_events s) (s_sync_events (put_event ev s))"
    by (auto simp: put_event_def tbl_update_def list_all2_conv_all_nth)
  then show ?thesis by (rule touches_all2)
qed

lemma touches_append:
  assumes "s_sync_events t = s_sync_events s @ [ev]" and "event_ok ev" and "se_id ev = Suc (length (s_sync_events s))"
  shows "touches I s t"
  unfolding touches_def using assms by (intro exI [of _ "s_sync_events s"] exI [of _ "[ev]"]) simp

section \<open>The steps of the service\<close>

lemma new_event_ok: "event_ok (new_event fid key p i now)"
  by (simp add: event_ok_def new_event_def)

lemma touches_enqueue: "touches I s (enqueue_sync_event E fid key p s)"
  by (rule touches_append [OF _ new_event_ok])
     (simp_all add: enqueue_sync_event_def utcnow_def new_event_def)

lemma enqueue_request_touches: "enqueue_request E fid key r s = Inr (b, t) \<Longrightarrow> touches I s t"
  by (auto simp: enqueue_request_def res_bind_Inr touches_enqueue)

lemma touches_try_bind:
  assumes "touches I s (snd r)" and "\<And>x. fst r = Inr x \<Longrightarrow> touches I (snd r) (snd (f x (snd r)))"
  shows "touches I s (snd (try_bind r f))"
  using assms touches_trans [OF assms(1), of I] by (cases "fst r") (auto simp: try_bind_def)

lemma try_bind_Inr: "try_bind r f = (Inr y, t) \<longleftrightarrow> (\<exists>x s. r = (Inr x, s) \<and> f x s = (Inr y, t))"
  by (cases r; cases "fst r") (auto simp: try_bind_def)

lemma try_py_Inr: "try_py r s = (Inr x, t) \<longleftrightarrow> r = Inr x \<and> t = s"
  by (cases r) (auto simp: try_py_def)

lemma try_py_snd [simp]: "snd (try_py r s) = s"
  by (cases r) (simp_all add: try_py_def)

lemma call_out_touches [simp]: "touches I s (snd (call_out api r s))"
  by (simp add: call_out_def next_call_def touches_same)

lemma utcnow_events [simp]: "s_sync_events (snd (utcnow E s)) = s_sync_events s"
  by (simp add: utcnow_def)

lemma put_finding_events [simp]: "s_sync_events (put_finding f s) = s_sync_events s"
  by (simp add: put_finding_def)

lemma add_tracker_link_events [simp]: "s_sync_events (snd (add_tracker_link E f a i u fs uu s)) = s_sync_events s"
  by (simp add: add_tracker_link_def utcnow_def Let_def)

lemma enqueue_update_touches:
  "enqueue_tracker_update_issue E f key d ch names cfgs s = Inr (b, t) \<Longrightarrow> touches I s t"
  by (auto simp: enqueue_tracker_update_issue_def Let_def dest: enqueue_request_touches split: if_splits json.splits)

lemma record_created_touches:
  assumes "record_tracker_created_correctly E f key d s = Inr t"
  shows "touches I s t"
proof -
  obtain p now where "s_sync_events t = s_sync_events s @
      [(new_event (f_id f) key p (Suc (length (s_sync_events s))) (env_clock E (Suc (s_clk s))))\<lparr>se_status := ''completed'', se_completed_at := Some now\<rparr>]"
    using assms by (auto simp: record_tracker_created_correctly_def res_bind_Inr utcnow_def Let_def split: json.splits)
  then show ?thesis by (rule touches_append) (simp_all add: event_ok_def new_event_def)
qed

lemma apply_issue_touches: "touches I s (snd (apply_issue E C ad ev d ws ch i u linked s))"
proof (cases "tbl_get f_id (se_finding_id ev) (s_findings s)")
  case None
  then show ?thesis by (simp add: apply_issue_def)
next
  case (Some f)
  define p where "p = add_tracker_link E f (se_target_key ev) i None None u s"
  define q where "q = utcnow E (snd p)"
  define f2 where "f2 = set_synced (fst q) i (fst p)"
  define s3 where "s3 = put_finding f2 (snd q)"
  have s3: "touches I s s3" by (rule touches_same) (simp add: s3_def q_def p_def)
  define d1 where "d1 = (if ws then jset ''status'' (JStr (status_value (f_status f2))) d else d)"
  let ?up = "\<lambda>cfgs s4. case enqueue_tracker_update_issue E f2 (se_target_key ev) d1 ch (label_names_of (get_labels (sc_kv C))) cfgs s4 of
      Inl e \<Rightarrow> (Inl (exc_of e), s4) | Inr (_, s5) \<Rightarrow> (Inr (), s5)"
  have up: "touches I s4 (snd (?up cfgs s4))" for cfgs s4
    by (auto split: sum.split dest: enqueue_update_touches)
  have rec: "touches I s3 (snd (case record_tracker_created_correctly E f2 (se_target_key ev) d s3 of
      Inl e \<Rightarrow> (Inl (exc_of e), s3) | Inr s4 \<Rightarrow> (Inr (), s4)))"
    by (auto split: sum.split dest: record_created_touches)
  have "apply_issue E C ad ev d ws ch i u linked s =
      (if linked \<and> ta_supports_update_issue ad then try_bind (try_py (labels_to_configs (get_labels (sc_kv C))) s3) ?up
       else if \<not> linked then (case record_tracker_created_correctly E f2 (se_target_key ev) d s3 of
          Inl e \<Rightarrow> (Inl (exc_of e), s3) | Inr s4 \<Rightarrow> (Inr (), s4)) else (Inr (), s3))"
    unfolding apply_issue_def Some option.case Let_def case_prod_beta d1_def s3_def f2_def q_def p_def by (rule refl)
  moreover have "touches I s (snd (try_bind (try_py (labels_to_configs (get_labels (sc_kv C))) s3) ?up))"
    by (rule touches_try_bind) (use s3 in simp, rule up)
  ultimately show ?thesis using s3 touches_trans [OF s3 rec] by simp
qed

lemma find_existing_touches: "touches I s (snd (find_existing_issue finder key en found s))"
  by (auto simp: find_existing_issue_def split: option.split intro!: touches_try_bind)

lemma find_issue_touches: "touches I s (snd (find_issue C ad d s))"
  unfolding find_issue_def by (intro touches_try_bind find_existing_touches)

lemma do_create_touches: "touches I s (snd (do_create_issue E C ad ev s))"
  unfolding do_create_issue_def Let_def
  by (auto intro!: touches_try_bind find_issue_touches apply_issue_touches split: option.split)

lemma send_event_touches: "touches I s (snd (send_event E C ev s))"
  unfolding send_event_def send_tracker_def send_source_def
  by (auto intro!: touches_try_bind do_create_touches split: option.split)

section \<open>The worker\<close>

lemma in_queue_ok:
  assumes "in_queue s ev"
  shows "request_type (se_payload ev) = (se_target ev, se_event_type ev)"
  using assms by (auto simp: in_queue_def static_def event_ok_def)

text \<open>A row that is written back with a new state.\<close>

lemma put_step:
  assumes "queue_ok s" and "in_queue s ev" and "se_id ev' = se_id ev" and "static ev' = static ev" and "event_ok ev'"
    and "s_sync_events s1 = s_sync_events s"
  shows "touches {se_id ev} s (put_event ev' s1)"
proof -
  have "queue_ok s1" "in_queue s1 ev'" using assms by (simp_all add: queue_ok_def in_queue_def)
  from touches_put [OF this assms(5)] show ?thesis using assms(3,6) by (simp add: touches_def)
qed

lemma begin_event_step:
  assumes "begin_event E ev s = (ev1, s1)" and "queue_ok s" and "in_queue s ev"
  shows "touches {se_id ev} s s1 \<and> se_id ev1 = se_id ev \<and> static ev1 = static ev \<and> se_attempts ev1 = se_attempts ev + 1"
proof -
  define r where "r = ev\<lparr>se_status := ''processing'', se_attempts := se_attempts ev + 1, se_updated_at := fst (utcnow E s)\<rparr>"
  have e: "ev1 = r" "s1 = put_event r (snd (utcnow E s))" using assms(1) by (auto simp: begin_event_def r_def Let_def case_prod_beta)
  have r: "se_id r = se_id ev" "static r = static ev" "event_ok r"
    using in_queue_ok [OF assms(3)] by (simp_all add: r_def static_def event_ok_def)
  show ?thesis using put_step [OF assms(2,3) r, of "snd (utcnow E s)"] r e by (simp add: r_def)
qed

lemma complete_event_step:
  assumes "complete_event E ev s = (ev1, s1)" and "queue_ok s" and "in_queue s ev"
  shows "touches {se_id ev} s s1 \<and> se_id ev1 = se_id ev \<and> static ev1 = static ev \<and> se_status ev1 = ''completed'' \<and> event_ok ev1"
proof -
  define r where "r = ev\<lparr>se_status := ''completed'', se_completed_at := Some (fst (utcnow E s)), se_last_error := None, se_next_retry_at := None\<rparr>"
  have e: "ev1 = r" "s1 = put_event r (snd (utcnow E s))" using assms(1) by (auto simp: complete_event_def r_def Let_def case_prod_beta)
  have r: "se_id r = se_id ev" "static r = static ev" "event_ok r"
    using in_queue_ok [OF assms(3)] by (simp_all add: r_def static_def event_ok_def)
  show ?thesis using put_step [OF assms(2,3) r, of "snd (utcnow E s)"] r e by (simp add: r_def)
qed

lemma retry_event_step:
  assumes "retry_event E err b ev s = Inr (ev1, s1)" and "queue_ok s" and "in_queue s ev" and "0 < se_attempts ev"
  shows "touches {se_id ev} s s1 \<and> se_id ev1 = se_id ev \<and> static ev1 = static ev \<and> se_attempts ev1 = se_attempts ev \<and>
    se_status ev1 = ''pending'' \<and> event_ok ev1"
proof -
  obtain t where t: "add_seconds b (fst (utcnow E s)) = Some t"
    and e: "ev1 = ev\<lparr>se_status := ''pending'', se_last_error := Some err, se_next_retry_at := Some t\<rparr>" "s1 = put_event ev1 (snd (utcnow E s))"
    using assms(1) by (auto simp: retry_event_def Let_def case_prod_beta split: option.splits)
  have r: "se_id ev1 = se_id ev" "static ev1 = static ev" "event_ok ev1"
    using in_queue_ok [OF assms(3)] assms(4) by (simp_all add: e(1) static_def event_ok_def)
  show ?thesis using put_step [OF assms(2,3) r, of "snd (utcnow E s)"] r e by simp
qed

lemma fail_event_step:
  assumes "queue_ok s" and "in_queue s ev" and "se_max_attempts ev \<le> se_attempts ev"
  shows "touches {se_id ev} s (fail_event E e ev s)"
proof -
  define r where "r = ev\<lparr>se_status := ''failed'', se_last_error := Some (take 500 (err_detail e))\<rparr>"
  have r: "se_id r = se_id ev" "static r = static ev" "event_ok r"
    using in_queue_ok [OF assms(2)] assms(3) by (simp_all add: r_def static_def event_ok_def)
  have "s_sync_events (fail_event E e ev s) = s_sync_events (put_event r s)"
    by (simp add: fail_event_def r_def Let_def case_prod_beta split: option.split)
  then show ?thesis using put_step [OF assms(1,2) r, of s] by (simp add: touches_def)
qed

lemma process_sync_event_touches:
  assumes "process_sync_event E C ev s = Inr (b, t)" and "queue_ok s" and "in_queue s ev"
  shows "touches {se_id ev} s t"
proof -
  obtain ev1 s1 where b: "begin_event E ev s = (ev1, s1)" by fastforce
  obtain r s2 where r: "send_event E C ev1 s1 = (r, s2)" by fastforce
  note st = begin_event_step [OF b assms(2,3)]
  have s2: "touches {se_id ev} s s2"
    using touches_trans [of "{se_id ev}" s s1 "{se_id ev}"] st send_event_touches [of "{se_id ev}" s1 E C ev1] r by simp
  have q: "queue_ok s2" "in_queue s2 ev1"
    using touches_queue_ok [OF s2 assms(2)] touches_in_queue [OF s2 assms(3)] st by (auto intro: in_queue_static)
  have "touches {se_id ev1} s2 t"
  proof (cases r)
    case (Inr x)
    then have "t = snd (complete_event E ev1 s2)" using assms(1) b r by (simp add: process_sync_event_def)
    then show ?thesis using complete_event_step [OF _ q] by (metis prod.collapse)
  next
    case (Inl e)
    show ?thesis
    proof (cases "se_max_attempts ev1 \<le> se_attempts ev1")
      case True
      then show ?thesis using fail_event_step [OF q True, of E e] assms(1) b r Inl by (simp add: process_sync_event_def)
    next
      case False
      then obtain ev2 where "retry_event E (take 500 (err_detail e)) (get_backoff_seconds (se_attempts ev1)) ev1 s2 = Inr (ev2, t)"
        using assms(1) b r Inl by (auto simp: process_sync_event_def split: sum.splits)
      from retry_event_step [OF this q] show ?thesis using st by simp
    qed
  qed
  from touches_trans [OF s2 this] show ?thesis using st by simp
qed

section \<open>Batches\<close>

text \<open>Steps over a list of rows of the queue.\<close>

lemma touches_ids:
  assumes "touches {se_id ev} s t" and "touches (se_id ` set evs) t u"
  shows "touches (se_id ` set (ev # evs)) s u"
  using touches_trans [OF assms] by simp

lemma begin_batch_step:
  assumes "begin_batch E evs s = (evs1, s1)" and "queue_ok s" and "\<And>ev. ev \<in> set evs \<Longrightarrow> in_queue s ev"
  shows "touches (se_id ` set evs) s s1 \<and> map se_id evs1 = map se_id evs \<and>
    (\<forall>ev\<in>set evs1. in_queue s1 ev \<and> 0 < se_attempts ev)"
  using assms
proof (induction evs arbitrary: s evs1)
  case (Cons ev evs)
  obtain ev1 t where b: "begin_event E ev s = (ev1, t)" by fastforce
  obtain evs2 where c: "begin_batch E evs t = (evs2, s1)" and evs1: "evs1 = ev1 # evs2"
    using Cons.prems(1) b by (auto split: prod.splits)
  note st = begin_event_step [OF b Cons.prems(2) Cons.prems(3) [OF list.set_intros(1)]]
  have q: "queue_ok t" "in_queue t ev1" and "\<And>r. r \<in> set evs \<Longrightarrow> in_queue t r"
    using st touches_queue_ok Cons.prems touches_in_queue by (auto intro: in_queue_static [of t ev])
  note ih = Cons.IH [OF c this(1,3)]
  then have "in_queue s1 ev1" using touches_in_queue q by blast
  then show ?case using ih st touches_ids [of ev s t evs s1] by (auto simp: evs1)
qed simp

lemma settle_created_step:
  assumes "queue_ok s" and "in_queue s ev"
  shows "touches {se_id ev} s (settle_created E ev s)"
proof -
  obtain ev1 s1 where c: "complete_event E ev s = (ev1, s1)" by fastforce
  note st = complete_event_step [OF c assms]
  define r where "r = ev1\<lparr>se_attempts := se_attempts ev1 + 1, se_updated_at := fst (utcnow E s1)\<rparr>"
  have q: "queue_ok s1" "in_queue s1 ev1"
    using st touches_queue_ok assms touches_in_queue by (auto intro: in_queue_static [of s1 ev])
  have "se_status ev1 = ''completed''" "event_ok ev1" using st by simp_all
  then have r: "se_id r = se_id ev1" "static r = static ev1" "event_ok r" by (simp_all add: r_def static_def event_ok_def)
  have "settle_created E ev s = put_event r (snd (utcnow E s1))"
    by (simp add: settle_created_def c r_def Let_def case_prod_beta)
  then show ?thesis using touches_trans [OF _ put_step [OF q r, of "snd (utcnow E s1)"], of "{se_id ev}" s] st by simp
qed

lemma classify_batch_step: "touches I s (snd (classify_batch ad mode evs s))"
proof (induction evs arbitrary: s)
  case (Cons ev evs)
  have f: "touches I s1 (snd (find_batch_issue fd k r s1))" for fd k r s1
    by (auto simp: find_batch_issue_def split: option.split)
  have "touches I s1 (snd (find_issue_batch ad d s1))" for d s1
    unfolding find_issue_batch_def by (intro touches_try_bind f)
  then show ?case using Cons by (auto intro!: touches_try_bind split: prod.split)
qed simp

lemma classify_batch_rows:
  "classify_batch ad mode evs s = (Inr (ls, cs), t) \<Longrightarrow> set (map fst ls) \<subseteq> set evs \<and> set (map fst cs) \<subseteq> set evs"
proof (induction evs arbitrary: s ls cs t)
  case (Cons ev evs)
  obtain req where mv: "model_validate (''tracker'', ''create_issue'') (se_payload ev) = Inr req"
    using Cons.prems by (auto simp: try_bind_Inr try_py_Inr)
  obtain found s2 where "(if mode = ''groups'' then find_issue_batch ad (ci_finding req) s else (Inr None, s)) = (Inr found, s2)"
    and rest: "try_bind (classify_batch ad mode evs s2)
      (\<lambda>(ls, cs) s3. (Inr (if truthy found then ((ev, req, or_empty found) # ls, cs) else (ls, (ev, req) # cs)), s3)) = (Inr (ls, cs), t)"
    using Cons.prems mv unfolding classify_batch.simps try_bind_Inr try_py_Inr by auto
  then obtain ls1 cs1 where "classify_batch ad mode evs s2 = (Inr (ls1, cs1), t)"
    "(if truthy found then ((ev, req, or_empty found) # ls1, cs1) else (ls1, (ev, req) # cs1)) = (ls, cs)"
    unfolding try_bind_Inr by auto
  then show ?case using Cons.IH [of s2 ls1 cs1 t] by (cases "truthy found"; clarsimp; blast)
qed simp

lemma link_batch_step:
  assumes "link_batch E C ad ls s = (Inr n, t)" and "queue_ok s" and "\<And>x. x \<in> set ls \<Longrightarrow> in_queue s (fst x)"
  shows "touches (se_id ` fst ` set ls) s t"
  using assms
proof (induction ls arbitrary: s n)
  case (Cons x ls)
  obtain ev req i where x: "x = (ev, req, i)" by (metis prod_cases3)
  obtain s1 m where a: "apply_issue E C ad ev (ci_finding req) False [''labels''] i None True s = (Inr (), s1)"
    and l: "link_batch E C ad ls (settle_created E ev s1) = (Inr m, t)"
    using Cons.prems(1) by (auto simp: x try_bind_Inr)
  have s1: "touches {se_id ev} s s1" using apply_issue_touches [of "{se_id ev}" s] a by (metis snd_conv)
  have "queue_ok s1" "in_queue s1 ev" using touches_queue_ok [OF s1] touches_in_queue [OF s1] Cons.prems(2) Cons.prems(3) [of x] x by auto
  from touches_trans [OF s1 settle_created_step [OF this, of E]]
  have s2: "touches {se_id ev} s (settle_created E ev s1)" by simp
  have q: "queue_ok (settle_created E ev s1)" "\<And>y. y \<in> set ls \<Longrightarrow> in_queue (settle_created E ev s1) (fst y)"
    using touches_queue_ok [OF s2] touches_in_queue [OF s2] Cons.prems(2,3) by auto
  from touches_trans [OF s2 Cons.IH [OF l q]] show ?case by (simp add: x)
qed simp

lemma create_batch_step:
  assumes "create_batch E C ad cs answers s = (Inr n, t)" and "queue_ok s"
    and "\<And>x. x \<in> set cs \<Longrightarrow> in_queue s (fst x) \<and> 0 < se_attempts (fst x)"
  shows "touches (se_id ` fst ` set cs) s t"
  using assms
proof (induction E C ad cs answers s arbitrary: n rule: create_batch.induct)
  case (1 E C ad ev req rest i u answers s)
  obtain s1 m where a: "apply_issue E C ad ev (ci_finding req) False [''labels''] i u False s = (Inr (), s1)"
    and l: "create_batch E C ad rest answers (settle_created E ev s1) = (Inr m, t)"
    using 1(2) unfolding create_batch.simps try_bind_Inr by auto
  have s1: "touches {se_id ev} s s1" using apply_issue_touches [of "{se_id ev}" s] a by (metis snd_conv)
  have "queue_ok s1" "in_queue s1 ev" using touches_queue_ok [OF s1] touches_in_queue [OF s1] 1(3) 1(4) [of "(ev, req)"] by auto
  from touches_trans [OF s1 settle_created_step [OF this, of E]]
  have s2: "touches {se_id ev} s (settle_created E ev s1)" by simp
  have q: "queue_ok (settle_created E ev s1)"
    "\<And>y. y \<in> set rest \<Longrightarrow> in_queue (settle_created E ev s1) (fst y) \<and> 0 < se_attempts (fst y)"
    using touches_queue_ok [OF s2] touches_in_queue [OF s2] 1(3,4) by auto
  from touches_trans [OF s2 1(1) [OF l q]] show ?case by simp
next
  case (2 E C ad ev req rest e answers s)
  obtain ev1 s1 where r: "retry_event E (take 500 (exc_text e)) (get_backoff_seconds (se_attempts ev)) ev s = Inr (ev1, s1)"
    using 2(2) by (auto split: sum.splits)
  define ev2 where "ev2 = ev1\<lparr>se_attempts := se_attempts ev1 + 1, se_updated_at := fst (utcnow E s1)\<rparr>"
  define s2 where "s2 = put_event ev2 (snd (utcnow E s1))"
  have l: "create_batch E C ad rest answers s2 = (Inr n, t)"
    using 2(2) r by (simp add: s2_def ev2_def Let_def case_prod_beta)
  have st: "touches {se_id ev} s s1" "se_id ev1 = se_id ev" "static ev1 = static ev" "se_status ev1 = ''pending''" "event_ok ev1"
    "0 < se_attempts ev1" using retry_event_step [OF r] 2(3) 2(4) [of "(ev, req)"] by auto
  have q1: "queue_ok s1" "in_queue s1 ev1"
    using touches_queue_ok [OF st(1)] touches_in_queue [OF st(1)] 2(3) 2(4) [of "(ev, req)"] st(2,3) by (auto intro: in_queue_static [of s1 ev])
  have e2: "se_id ev2 = se_id ev1" "static ev2 = static ev1" "event_ok ev2"
    using st(4-6) by (simp_all add: ev2_def static_def event_ok_def)
  have s2: "touches {se_id ev} s s2"
    using touches_trans [OF st(1) put_step [OF q1 e2, of "snd (utcnow E s1)"]] st(2) by (simp add: s2_def)
  have q: "queue_ok s2" "\<And>y. y \<in> set rest \<Longrightarrow> in_queue s2 (fst y) \<and> 0 < se_attempts (fst y)"
    using touches_queue_ok [OF s2] touches_in_queue [OF s2] 2(3,4) by auto
  have "touches (se_id ` fst ` set rest) s2 t" using 2(1) [OF r refl prod.collapse] l q by (simp add: s2_def ev2_def)
  from touches_trans [OF s2 this] show ?case by simp
qed simp_all

lemma update_batch_step:
  assumes "update_batch E evs errs s = (Inr n, t)" and "queue_ok s" and "\<And>ev. ev \<in> set evs \<Longrightarrow> in_queue s ev"
  shows "touches (se_id ` set evs) s t"
  using assms
proof (induction E evs errs s arbitrary: n rule: update_batch.induct)
  case (1 E ev evs err errs s)
  define ev1 where "ev1 = ev\<lparr>se_attempts := se_attempts ev + 1, se_updated_at := fst (utcnow E s)\<rparr>"
  define s1 where "s1 = snd (utcnow E s)"
  have "in_queue s ev" using 1(5) by simp
  then have q1: "queue_ok s1" "in_queue s1 ev1" "0 < se_attempts ev1" "se_id ev1 = se_id ev"
    using 1(4) by (simp_all add: s1_def ev1_def queue_ok_def in_queue_def static_def)
  have t1: "touches {se_id ev} s s1" by (rule touches_same) (simp add: s1_def)
  obtain s2 m where s2: "touches {se_id ev1} s1 s2" and u: "update_batch E evs errs s2 = (Inr m, t)"
    and ih: "\<And>n. update_batch E evs errs s2 = (Inr n, t) \<Longrightarrow> queue_ok s2 \<Longrightarrow> (\<And>ev. ev \<in> set evs \<Longrightarrow> in_queue s2 ev) \<Longrightarrow>
      touches (se_id ` set evs) s2 t"
  proof (cases err)
    case None
    obtain ev2 s2 where c: "complete_event E ev1 s1 = (ev2, s2)" by fastforce
    have "\<exists>m. update_batch E evs errs s2 = (Inr m, t)"
      using 1(3) None c by (auto simp: Let_def case_prod_beta try_bind_Inr ev1_def s1_def)
    then show ?thesis
      using that [of s2] complete_event_step [OF c q1(1,2)] 1(1) [OF refl prod.collapse refl None] c
      by (auto simp: ev1_def s1_def)
  next
    case (Some e)
    obtain ev2 s2 where c: "retry_event E (take 500 e) (get_backoff_seconds (se_attempts ev1)) ev1 s1 = Inr (ev2, s2)"
      using 1(3) Some by (auto simp: Let_def case_prod_beta ev1_def s1_def split: sum.splits)
    have "update_batch E evs errs s2 = (Inr n, t)"
      using 1(3) Some c by (simp add: Let_def case_prod_beta ev1_def s1_def)
    then show ?thesis
      using that [of s2] retry_event_step [OF c q1(1-3)] 1(2) [OF refl prod.collapse refl Some] c
      by (auto simp: ev1_def s1_def)
  qed
  have s12: "touches {se_id ev} s s2" using touches_trans [OF t1 s2] q1(4) by simp
  have "queue_ok s2" "\<And>r. r \<in> set evs \<Longrightarrow> in_queue s2 r"
    using touches_queue_ok [OF s12 1(4)] touches_in_queue [OF s12] 1(5) by auto
  from touches_ids [OF s12 ih [OF u this]] show ?case .
qed simp_all

lemma run_create_batch_step:
  assumes "run_create_batch E C ad api mode evs s = (Inr n, t)" and "queue_ok s" and "\<And>ev. ev \<in> set evs \<Longrightarrow> in_queue s ev"
  shows "touches (se_id ` set evs) s t"
proof -
  obtain evs1 s1 where b: "begin_batch E evs s = (evs1, s1)" by fastforce
  note st = begin_batch_step [OF b assms(2,3)]
  have ids: "se_id ` set evs1 = se_id ` set evs" using st by (metis image_set)
  have q1: "queue_ok s1" using st touches_queue_ok assms(2) by blast
  obtain ls cs s2 k s3 where c: "classify_batch ad mode evs1 s1 = (Inr (ls, cs), s2)" and l: "link_batch E C ad ls s2 = (Inr k, s3)"
    and r: "(if cs = [] then (Inr k, s3) else try_bind (call_out api (map snd cs) s3)
       (\<lambda>answers s4. try_bind (create_batch E C ad cs answers s4) (\<lambda>m s5. (Inr (k + m), s5)))) = (Inr n, t)"
    using assms(1) b by (auto simp: run_create_batch_def try_bind_Inr)
  have s12: "touches {} s1 s2" using classify_batch_step [of "{}" s1 ad mode evs1] c by simp
  have sub: "fst ` set ls \<subseteq> set evs1" "fst ` set cs \<subseteq> set evs1" using classify_batch_rows [OF c] by simp_all
  have q2: "queue_ok s2" "\<And>ev. ev \<in> set evs1 \<Longrightarrow> in_queue s2 ev \<and> 0 < se_attempts ev"
    using touches_queue_ok [OF s12 q1] touches_in_queue [OF s12] st by auto
  have s23: "touches (se_id ` set evs1) s2 s3"
    by (rule touches_mono [OF link_batch_step [OF l q2(1)]]) (use q2(2) sub(1) in auto)
  have s3t: "touches (se_id ` set evs1) s3 t"
  proof (cases "cs = []")
    case True
    then show ?thesis using r by simp
  next
    case False
    then obtain answers s4 m where o: "call_out api (map snd cs) s3 = (Inr answers, s4)"
      and cb: "create_batch E C ad cs answers s4 = (Inr m, t)" using r by (auto simp: try_bind_Inr)
    have s34: "touches (se_id ` set evs1) s3 s4" using call_out_touches [of _ s3 api "map snd cs"] o by (metis snd_conv)
    have s24: "touches (se_id ` set evs1) s2 s4" using touches_trans [OF s23 s34] by simp
    have "touches (se_id ` fst ` set cs) s4 t"
      by (rule create_batch_step [OF cb touches_queue_ok [OF s24 q2(1)]]) (use touches_in_queue [OF s24] q2(2) sub(2) in auto)
    then have "touches (se_id ` set evs1) s4 t" by (rule touches_mono) (use sub(2) in auto)
    from touches_trans [OF s34 this] show ?thesis by simp
  qed
  show ?thesis using touches_trans [OF touches_trans [OF _ s12] touches_trans [OF s23 s3t], of "se_id ` set evs" s] st ids by simp
qed

section \<open>Draining the queue\<close>

text \<open>The ways in which a run consumes a prefix of its events.\<close>

lemma process_events_cases:
  assumes "process_events E C b (ev # evs) n s = Inr (m, t)"
  obtains (skip) "process_events E C b evs n s = Inr (m, t)"
  | (one) ok s1 k where "process_sync_event E C ev s = Inr (ok, s1)" "process_events E C b evs k s1 = Inr (m, t)"
  | (create) ad api mode j s1 k where "run_create_batch E C ad api mode (batch_of ev evs) s = (Inr j, s1)"
      "process_events E C b (dropWhile (same_run ev) evs) k s1 = Inr (m, t)"
  | (update) api :: "nat \<Rightarrow> sync_request list \<Rightarrow> sync_exc + string option list" and reqs answers s1 j s2 k
    where "call_out api reqs s = (Inr answers, s1)"
      "update_batch E (batch_of ev evs) answers s1 = (Inr j, s2)"
      "process_events E C b (dropWhile (same_run ev) evs) k s2 = Inr (m, t)"
  using assms by (simp add: Let_def split: if_splits option.splits sum.splits prod.splits)

lemma batch_of_set: "set (batch_of ev evs) \<union> set (dropWhile (same_run ev) evs) = set (ev # evs)"
  using set_append [of "takeWhile (same_run ev) evs" "dropWhile (same_run ev) evs"] by (auto simp: batch_of_def)

lemma process_events_step:
  assumes "process_events E C b evs n s = Inr (m, t)" and "queue_ok s" and "\<And>ev. ev \<in> set evs \<Longrightarrow> in_queue s ev"
  shows "touches (se_id ` set evs) s t"
  using assms
proof (induction "length evs" arbitrary: evs n s rule: less_induct)
  case less
  show ?case
  proof (cases evs)
    case Nil
    then show ?thesis using less.prems(1) by simp
  next
    case (Cons ev rest)
    have go: "touches (se_id ` set evs) s t"
      if "touches I s s1" "I \<subseteq> se_id ` set evs" "length xs < length evs" "set xs \<subseteq> set evs" "process_events E C b xs k s1 = Inr (m, t)"
      for I s1 xs k
    proof -
      have "touches (se_id ` set xs) s1 t"
        using less.hyps [OF that(3,5)] touches_queue_ok [OF that(1) less.prems(2)] touches_in_queue [OF that(1)] less.prems(3) that(4) by blast
      then have "touches (I \<union> se_id ` set xs) s t" using touches_trans [OF that(1)] by blast
      then show ?thesis by (rule touches_mono) (use that(2,4) in auto)
    qed
    have sub: "se_id ` set (batch_of ev rest) \<subseteq> se_id ` set evs" "set (dropWhile (same_run ev) rest) \<subseteq> set evs"
      using batch_of_set [of ev rest] Cons by auto
    have len: "length (dropWhile (same_run ev) rest) < length evs" using length_dropWhile_le [of "same_run ev" rest] Cons by simp
    have bq: "in_queue s r" if "r \<in> set (batch_of ev rest)" for r using that batch_of_set [of ev rest] less.prems(3) Cons by auto
    from less.prems(1) [unfolded Cons] show ?thesis
    proof (cases rule: process_events_cases)
      case skip
      then show ?thesis using go [of "{}" s rest n] Cons by auto
    next
      case (one ok s1 k)
      then show ?thesis using go [of "{se_id ev}" s1 rest k] process_sync_event_touches [OF one(1) less.prems(2)] less.prems(3) Cons by auto
    next
      case (create ad api mode j s1 k)
      then show ?thesis using go [OF _ sub(1) len sub(2) create(2)] run_create_batch_step [OF create(1) less.prems(2) bq] by blast
    next
      case (update api reqs answers s1 j s2 k)
      have s1: "touches {} s s1" using call_out_touches [of "{}" s api reqs] update(1) by simp
      have "touches (se_id ` set (batch_of ev rest)) s1 s2"
        by (rule update_batch_step [OF update(2) touches_queue_ok [OF s1 less.prems(2)]]) (use touches_in_queue [OF s1] bq in auto)
      then have "touches (se_id ` set (batch_of ev rest)) s s2" using touches_trans [OF s1] by (metis sup_bot_left)
      then show ?thesis using go [OF _ sub(1) len sub(2) update(3)] by blast
    qed
  qed
qed

lemma process_pending_step:
  assumes "process_pending_sync_events E C limit s = Inr (n, t)" and "queue_ok s"
  obtains I where "touches I s t" "\<And>ev. ev \<in> set (s_sync_events s) \<Longrightarrow> se_id ev \<in> I \<Longrightarrow> se_status ev \<noteq> ''completed''"
proof -
  define s1 where "s1 = snd (utcnow E s)"
  define evs where "evs = take limit (sort_key se_created_at (filter (due (fst (utcnow E s))) (s_sync_events s1)))"
  obtain b where p: "process_events E C b evs 0 s1 = Inr (n, t)"
    using assms(1) by (auto simp: process_pending_sync_events_def Let_def case_prod_beta evs_def s1_def split: sum.splits)
  have evs: "set evs \<subseteq> {ev \<in> set (s_sync_events s). due (fst (utcnow E s)) ev}"
    using set_take_subset [of limit] by (fastforce simp: evs_def s1_def)
  have q: "queue_ok s1" using assms(2) by (simp add: s1_def queue_ok_def)
  have "in_queue s1 ev" if "ev \<in> set evs" for ev
    using that evs assms(2) by (auto simp: in_queue_def queue_ok_def s1_def list_all_iff)
  from process_events_step [OF p q this] have "touches (se_id ` set evs) s1 t" by blast
  then have "touches (se_id ` set evs) s t" by (simp add: touches_def s1_def)
  moreover have "se_status ev \<noteq> ''completed''" if ev: "ev \<in> set (s_sync_events s)" "se_id ev \<in> se_id ` set evs" for ev
  proof -
    obtain r where r: "r \<in> set evs" "se_id ev = se_id r" using ev(2) by auto
    then have "r \<in> set (s_sync_events s)" "due (fst (utcnow E s)) r" using evs by auto
    then show ?thesis using queue_ok_unique [OF assms(2) ev(1) _ r(2)] by (auto simp: due_def)
  qed
  ultimately show ?thesis by (rule that)
qed

section \<open>Reachable queues\<close>

text \<open>
  The steps of the system as far as the queue is concerned: a handler queues a request, the worker
  commits a run, an administrator resets failed events, or something else happens that leaves the queue alone.
\<close>

inductive queue_step :: "env \<Rightarrow> sync_conf \<Rightarrow> session \<Rightarrow> session \<Rightarrow> bool" for E C where
  queued: "enqueue_request E fid key r s = Inr (b, t) \<Longrightarrow> queue_step E C s t"
| worked: "process_pending_sync_events E C limit s = Inr (n, t) \<Longrightarrow> queue_step E C s t"
| reset: "reset_failed_tracker_events E key s = (n, t) \<Longrightarrow> queue_step E C s t"
| other: "s_sync_events t = s_sync_events s \<Longrightarrow> queue_step E C s t"

lemma reset_touches:
  assumes "reset_failed_tracker_events E key s = (n, t)"
  shows "touches {se_id ev |ev. ev \<in> set (s_sync_events s) \<and> se_status ev = ''failed''} s t"
proof -
  define bad where "bad = (\<lambda>ev::sync_event. se_target ev = ''tracker'' \<and> se_target_key ev = key \<and> se_status ev = ''failed'')"
  define up where "up = (\<lambda>ev::sync_event. ev\<lparr>se_status := ''pending'', se_attempts := 0, se_last_error := None, se_next_retry_at := None,
    se_updated_at := fst (utcnow E s)\<rparr>)"
  let ?I = "{se_id ev |ev. ev \<in> set (s_sync_events s) \<and> se_status ev = ''failed''}"
  have "evolves ?I ev (if bad ev then up ev else ev)" if "ev \<in> set (s_sync_events s)" for ev
    using that by (auto simp: evolves_def bad_def up_def static_def event_ok_def)
  then have "list_all2 (evolves ?I) (s_sync_events s) (tbl_update bad up (s_sync_events s))"
    by (auto simp: tbl_update_def list_all2_conv_all_nth)
  moreover have "s_sync_events t = tbl_update bad up (s_sync_events s) \<or> t = s"
    using assms by (auto simp: reset_failed_tracker_events_def bad_def up_def Let_def utcnow_def split: if_splits)
  ultimately show ?thesis using touches_all2 [of ?I s t] by auto
qed

lemma queue_step_touches:
  assumes "queue_step E C s t" and "queue_ok s"
  shows "\<exists>I. touches I s t \<and> (\<forall>ev\<in>set (s_sync_events s). se_id ev \<in> I \<longrightarrow> se_status ev \<noteq> ''completed'')"
  using assms(1)
proof cases
  case (queued fid key r b)
  then show ?thesis using enqueue_request_touches [of E fid key r s b t "{}"] by blast
next
  case (worked limit n)
  show ?thesis by (rule process_pending_step [OF worked assms(2)]) (rule exI, intro conjI ballI impI, assumption, blast)
next
  case (reset key n)
  have "se_status ev \<noteq> ''completed''"
    if e: "ev \<in> set (s_sync_events s)" "se_id ev \<in> {se_id ev |ev. ev \<in> set (s_sync_events s) \<and> se_status ev = ''failed''}" for ev
  proof -
    obtain r where "r \<in> set (s_sync_events s)" "se_id ev = se_id r" "se_status r = ''failed''" using e(2) by blast
    then show ?thesis using queue_ok_unique [OF assms(2) e(1), of r] by simp
  qed
  then show ?thesis using reset_touches [OF reset] by blast
next
  case other
  then show ?thesis using touches_same [of t s "{}"] by blast
qed

inductive queue_reachable :: "env \<Rightarrow> sync_conf \<Rightarrow> session \<Rightarrow> bool" for E C where
  start: "s_sync_events s = [] \<Longrightarrow> queue_reachable E C s"
| step: "queue_reachable E C s \<Longrightarrow> queue_step E C s t \<Longrightarrow> queue_reachable E C t"

lemma queue_reachable_ok: "queue_reachable E C s \<Longrightarrow> queue_ok s"
proof (induction rule: queue_reachable.induct)
  case (step s t)
  then show ?case using queue_step_touches touches_queue_ok by blast
qed (simp add: queue_ok_def)


text \<open>
  C9. Completed events are final: no step of the system, neither another run of the worker nor a reset, changes or
  removes a completed event of a reachable queue, so it is never sent again.
\<close>

theorem completed_events_final:
  assumes "queue_reachable E C s" and "queue_step E C s t" and "ev \<in> set (s_sync_events s)" and "se_status ev = ''completed''"
  shows "ev \<in> set (s_sync_events t) \<and> \<not> due now ev"
proof -
  obtain I where I: "touches I s t" "se_id ev \<notin> I"
    using queue_step_touches [OF assms(2) queue_reachable_ok [OF assms(1)]] assms(3,4) by blast
  then show ?thesis using touches_untouched [OF I(1) assms(3)] assms(4) by (auto simp: due_def)
qed

section \<open>How often a failing event is tried\<close>

lemma put_event_row: "in_queue s ev \<Longrightarrow> se_id ev' = se_id ev \<Longrightarrow> ev' \<in> set (s_sync_events (put_event ev' s))"
  by (auto simp: in_queue_def put_event_def set_tbl_update image_iff)

lemma backoff_bounds: "0 < n \<Longrightarrow> 120 \<le> get_backoff_seconds n \<and> get_backoff_seconds n \<le> 3600"
proof -
  assume "0 < n"
  then have "(2::nat) ^ 1 \<le> 2 ^ n" by (intro power_increasing) auto
  then show ?thesis by (simp add: get_backoff_seconds_def)
qed

lemma retry_event_row:
  assumes "retry_event E err b ev s = Inr (ev1, s1)" and "in_queue s ev"
  shows "ev1 \<in> set (s_sync_events s1) \<and> se_last_error ev1 = Some err \<and>
    (\<exists>w. se_next_retry_at ev1 = Some w \<and> add_seconds b (env_clock E (s_clk s)) = Some w)"
proof -
  obtain t where t: "add_seconds b (fst (utcnow E s)) = Some t"
    and e: "ev1 = ev\<lparr>se_status := ''pending'', se_last_error := Some err, se_next_retry_at := Some t\<rparr>" "s1 = put_event ev1 (snd (utcnow E s))"
    using assms(1) by (auto simp: retry_event_def Let_def case_prod_beta split: option.splits)
  have "in_queue (snd (utcnow E s)) ev" using assms(2) by (simp add: in_queue_def)
  then show ?thesis using put_event_row [of "snd (utcnow E s)" ev ev1] t e by (simp add: utcnow_def)
qed


text \<open>
  Failures in a batch are never given up: whatever the number of attempts already made and whatever the
  limit \<open>max_attempts\<close>, each \<open>update_issue\<close> event of a batch that the tracker refuses is pending again.
\<close>

lemma batched_failures_never_give_up:
  assumes "update_batch E evs errs s = (Inr n, t)" and "queue_ok s" and "\<And>ev. ev \<in> set evs \<Longrightarrow> in_queue s ev"
    and "distinct (map se_id evs)" and "length errs = length evs" and "None \<notin> set errs"
  shows "n = 0 \<and> (\<forall>ev\<in>set evs. \<exists>r\<in>set (s_sync_events t). se_id r = se_id ev \<and> se_status r = ''pending'' \<and>
    se_attempts r = se_attempts ev + 1)"
  using assms
proof (induction evs arbitrary: errs s n)
  case (Cons ev evs)
  obtain e errs' where errs: "errs = Some e # errs'" using Cons.prems(5,6) by (cases errs; cases "hd errs") auto
  define ev1 where "ev1 = ev\<lparr>se_attempts := se_attempts ev + 1, se_updated_at := fst (utcnow E s)\<rparr>"
  define s1 where "s1 = snd (utcnow E s)"
  obtain ev2 s2 where r: "retry_event E (take 500 e) (get_backoff_seconds (se_attempts ev1)) ev1 s1 = Inr (ev2, s2)"
    and u: "update_batch E evs errs' s2 = (Inr n, t)"
    using Cons.prems(1) by (auto simp: errs Let_def case_prod_beta ev1_def s1_def split: sum.splits)
  have "in_queue s ev" using Cons.prems(3) by simp
  then have q1: "queue_ok s1" "in_queue s1 ev1" "0 < se_attempts ev1"
    using Cons.prems(2) by (simp_all add: s1_def ev1_def queue_ok_def in_queue_def static_def)
  note st = retry_event_step [OF r q1]
  have s2: "touches {se_id ev} s s2" using st by (simp add: touches_def s1_def ev1_def)
  have q2: "queue_ok s2" "\<And>r. r \<in> set evs \<Longrightarrow> in_queue s2 r"
    using touches_queue_ok [OF s2 Cons.prems(2)] touches_in_queue [OF s2] Cons.prems(3) by auto
  have ih: "n = 0 \<and> (\<forall>ev\<in>set evs. \<exists>r\<in>set (s_sync_events t). se_id r = se_id ev \<and> se_status r = ''pending'' \<and>
      se_attempts r = se_attempts ev + 1)"
    using Cons.IH [OF u q2] Cons.prems(4-6) by (simp add: errs)
  have "ev2 \<in> set (s_sync_events t)"
    using touches_untouched [OF update_batch_step [OF u q2]] retry_event_row [OF r q1(2)] st Cons.prems(4) by (auto simp: ev1_def)
  then show ?case using ih st by (auto simp: ev1_def intro!: bexI [of _ ev2])
qed simp

section \<open>Examples\<close>

definition demo_adapter :: tracker_adapter where
  "demo_adapter =
     \<lparr>ta_supports_create_issue = True, ta_supports_post_comment = True, ta_supports_update_issue = True,
      ta_find_group = None, ta_find_cve = None, ta_find_title = None,
      ta_create_issue = (\<lambda>n r. Inr (''SEC-1'', None)), ta_post_comment = (\<lambda>n r. Inr ()),
      ta_update_issue = (\<lambda>n r. Inl (SyncExc ''500'' (Some ''oops''))),
      ta_create_issues_batch = None, ta_update_issues_batch = None\<rparr>"

definition demo_conf :: sync_conf where
  "demo_conf =
     \<lparr>sc_config = \<lparr>ac_aikido_client_id = JNull, ac_aikido_client_secret = JNull, ac_aikido_region = JNull,
        ac_aikido_webhook_secret = JNull, ac_linear_api_key = JStr ''k'', ac_linear_team_id = JStr ''t'',
        ac_linear_webhook_secret = JNull, ac_linear_link_title_fallback = False, ac_linear_link_scan_limit = 2, ac_default_issue_template = ''x''\<rparr>,
      sc_kv = [], sc_trackers = (\<lambda>k. if k = ''linear'' then Some demo_adapter else None), sc_sources = (\<lambda>_. None)\<rparr>"

definition demo_sync_env :: env where
  "demo_sync_env = demo_env\<lparr>env_clock := (\<lambda>n. DateTime 1 1 1 0 0 0 n)\<rparr>"

definition demo_queue :: "sync_request \<Rightarrow> session" where
  "demo_queue r = enqueue_sync_event demo_sync_env ''F-1'' ''linear'' r empty_session"

abbreviation demo_post :: sync_request where "demo_post \<equiv> PostDecision ''SEC-1'' ''ok''"

abbreviation demo_update :: sync_request where "demo_update \<equiv> UpdateIssue ''SEC-1'' [] [] None None None"

lemma demo_queue_reachable:
  assumes "make_request r = Inr r"
  shows "queue_reachable demo_sync_env demo_conf (demo_queue r)"
proof -
  have "enqueue_request demo_sync_env ''F-1'' ''linear'' r empty_session = Inr (True, demo_queue r)"
    using assms by (simp add: enqueue_request_def demo_queue_def)
  from queue_reachable.step [OF queue_reachable.start queue_step.queued [OF this]] show ?thesis by simp
qed

lemma demo_requests: "make_request demo_post = Inr demo_post" "make_request demo_update = Inr demo_update"
  by (simp_all add: make_request_def max_len_def)

lemmas demo_sync_defs = demo_queue_def demo_conf_def demo_adapter_def demo_sync_env_def demo_env_def enqueue_sync_event_def new_event_def
  utcnow_def due_def get_tracker_key_def get_trackers_def get_json_def get_tracker_credentials_def get_linear_credentials_def
  get_credentials_def jget_def jor_def is_placeholder_def PLACEHOLDER_PATTERNS_def batch_of_def process_sync_event_def begin_event_def
  send_event_def send_tracker_def try_bind_def try_py_def model_validate_def make_request_def max_len_def call_out_def next_call_def
  complete_event_def retry_event_def add_seconds_def get_backoff_seconds_def put_event_def py_strip_def strip_by_def
  lstrip_by_def rstrip_by_def py_lower_def

lemma demo_process:
  "\<exists>t. process_sync_event demo_sync_env demo_conf ev s = Inr (True, t) \<and> map se_status (s_sync_events t) = [''completed'']"
  if "ev = hd (s_sync_events (demo_queue demo_post))" "s = snd (utcnow demo_sync_env (demo_queue demo_post))"
  using that by (auto simp add: demo_sync_defs Let_def case_prod_beta)

lemma demo_worked:
  "\<exists>t. process_pending_sync_events demo_sync_env demo_conf 10 (demo_queue demo_post) = Inr (1, t) \<and>
     map se_status (s_sync_events t) = [''completed'']"
proof -
  let ?q = "demo_queue demo_post"
  have q: "s_sync_events (snd (utcnow demo_sync_env ?q)) = [hd (s_sync_events ?q)]"
    by (simp add: demo_queue_def enqueue_sync_event_def utcnow_def)
  have d: "due (fst (utcnow demo_sync_env ?q)) (hd (s_sync_events ?q))"
    "se_target (hd (s_sync_events ?q)) = ''tracker''" "se_target_key (hd (s_sync_events ?q)) = ''linear''"
    "se_event_type (hd (s_sync_events ?q)) = ''post_decision''"
    by (simp_all add: demo_queue_def enqueue_sync_event_def utcnow_def due_def new_event_def)
  have k: "get_tracker_key (sc_kv demo_conf) = Inr ''linear''"
    by (simp add: demo_conf_def get_tracker_key_def get_trackers_def get_json_def)
  have c: "py_truth (jget ''api_key'' (get_tracker_credentials (sc_config demo_conf) (sc_kv demo_conf) ''linear''))"
    "py_truth (jget ''team_id'' (get_tracker_credentials (sc_config demo_conf) (sc_kv demo_conf) ''linear''))" by code_simp+
  obtain t where t: "process_sync_event demo_sync_env demo_conf (hd (s_sync_events ?q)) (snd (utcnow demo_sync_env ?q)) = Inr (True, t)"
    "map se_status (s_sync_events t) = [''completed'']" using demo_process [OF refl refl] by (elim exE conjE)
  have ad: "sc_trackers demo_conf ''linear'' = Some demo_adapter" by (simp add: demo_conf_def)
  have evs: "take 10 (sort_key se_created_at (filter (due (fst (utcnow demo_sync_env ?q))) (s_sync_events (snd (utcnow demo_sync_env ?q))))) =
      [hd (s_sync_events ?q)]" unfolding q using d(1) by simp
  have "process_events demo_sync_env demo_conf True [hd (s_sync_events ?q)] 0 (snd (utcnow demo_sync_env ?q)) = Inr (1, t)"
    using t(1) ad d(2-4) by (simp add: Let_def)
  then have "process_pending_sync_events demo_sync_env demo_conf 10 ?q = Inr (1, t)"
    unfolding process_pending_sync_events_def Let_def case_prod_beta evs k sum.case using c by simp
  then show ?thesis using t(2) by (intro exI conjI)
qed

lemma demo_begun:
  "fst (send_event demo_sync_env demo_conf
      (fst (begin_event demo_sync_env (hd (s_sync_events (demo_queue demo_update))) (demo_queue demo_update)))
      (snd (begin_event demo_sync_env (hd (s_sync_events (demo_queue demo_update))) (demo_queue demo_update)))) =
   Inl (SyncExc ''500'' (Some ''oops''))"
  by (simp add: demo_sync_defs Let_def case_prod_beta)

lemma demo_failed:
  "\<exists>t. process_sync_event demo_sync_env demo_conf (hd (s_sync_events (demo_queue demo_update))) (demo_queue demo_update) = Inr (False, t)"
  by (auto simp add: demo_sync_defs Let_def case_prod_beta)


theorem completed_events_final_witness:
  "\<exists>t ev. process_pending_sync_events demo_sync_env demo_conf 10 (demo_queue demo_post) = Inr (1, t) \<and> ev \<in> set (s_sync_events t) \<and>
     se_status ev = ''completed'' \<and> ev \<in> set (s_sync_events (snd (reset_failed_tracker_events demo_sync_env ''linear'' t)))"
proof -
  obtain t where p: "process_pending_sync_events demo_sync_env demo_conf 10 (demo_queue demo_post) = Inr (1, t)"
    and st: "map se_status (s_sync_events t) = [''completed'']" using demo_worked by (elim exE conjE)
  then obtain ev where ev: "ev \<in> set (s_sync_events t)" "se_status ev = ''completed''" by (cases "s_sync_events t") auto
  have "queue_reachable demo_sync_env demo_conf t"
    using queue_reachable.step [OF demo_queue_reachable [OF demo_requests(1)] queue_step.worked [OF p]] .
  moreover have "queue_step demo_sync_env demo_conf t (snd (reset_failed_tracker_events demo_sync_env ''linear'' t))"
    by (rule queue_step.reset [of _ "''linear''" t "fst (reset_failed_tracker_events demo_sync_env ''linear'' t)"]) simp
  ultimately have "ev \<in> set (s_sync_events (snd (reset_failed_tracker_events demo_sync_env ''linear'' t))) \<and> \<not> due undefined ev"
    by (rule completed_events_final [OF _ _ ev])
  then show ?thesis using p ev by (intro exI conjI) (assumption+, simp)
qed


end
