(* ===== verification/Vat_Grouping.thy ===== *)
theory Vat_Grouping
  imports Vat_Observations
begin

text \<open>
  \<open>services/grouping.py\<close>: the group key of a finding, computed at read time. The patterns that clean rule titles are
  regular expressions of Python's \<open>re\<close>; a small backtracking matcher gives them their meaning: the
  rests of the text after a match, in the order in which the engine tries them.
\<close>

section \<open>Regular expressions\<close>

datatype re = REps | RChar "char \<Rightarrow> bool" | RSeq re re | RAlt re re | RStar re | REnd

primrec star_match :: "(string \<Rightarrow> string list) \<Rightarrow> nat \<Rightarrow> string \<Rightarrow> string list" where
  "star_match f 0 s = [s]"
| "star_match f (Suc n) s = concat (map (\<lambda>r. if length r < length s then star_match f n r else []) (f s)) @ [s]"

text \<open>\<open>$\<close> matches at the end and before a final newline.\<close>

primrec re_match :: "re \<Rightarrow> string \<Rightarrow> string list" where
  "re_match REps s = [s]"
| "re_match (RChar p) s = (case s of [] \<Rightarrow> [] | c # cs \<Rightarrow> if p c then [cs] else [])"
| "re_match (RSeq a b) s = concat (map (re_match b) (re_match a s))"
| "re_match (RAlt a b) s = re_match a s @ re_match b s"
| "re_match (RStar a) s = star_match (re_match a) (length s) s"
| "re_match REnd s = (if s = [] \<or> s = [CHR 10] then [s] else [])"

definition rplus :: "re \<Rightarrow> re" where "rplus a = RSeq a (RStar a)"

definition ropt :: "re \<Rightarrow> re" where "ropt a = RAlt a REps"

definition rcat :: "re list \<Rightarrow> re" where "rcat rs = foldr RSeq rs REps"

text \<open>A literal text that ignores case.\<close>

definition rlit :: "string \<Rightarrow> re" where
  "rlit s = rcat (map (\<lambda>d. RChar (\<lambda>c. lower_char c = lower_char d)) s)"

definition ralts :: "string list \<Rightarrow> re" where
  "ralts ss = foldr (\<lambda>s r. RAlt (rlit s) r) (butlast ss) (rlit (last ss))"

text \<open>\<open>re.sub(pattern, repl, text)\<close>: the leftmost matches, from left to right; no pattern here matches the empty text.\<close>

fun re_sub :: "re \<Rightarrow> string \<Rightarrow> string \<Rightarrow> string" where
  "re_sub r repl [] = []"
| "re_sub r repl (c # cs) =
     (case re_match r (c # cs) of
        rest # _ \<Rightarrow> if length rest \<le> length cs then repl @ re_sub r repl rest else c # re_sub r repl cs
      | [] \<Rightarrow> c # re_sub r repl cs)"

lemma star_match_suffix:
  assumes "\<And>s r. r \<in> set (f s) \<Longrightarrow> \<exists>p. s = p @ r"
  shows "r \<in> set (star_match f n s) \<Longrightarrow> \<exists>p. s = p @ r"
proof (induction n arbitrary: s)
  case (Suc n)
  then consider "r = s" | q where "q \<in> set (f s)" "r \<in> set (star_match f n q)" by (auto split: if_splits)
  then show ?case
  proof cases
    case (2 q)
    then obtain p p' where "s = p @ q" "q = p' @ r" using assms Suc.IH by meson
    then show ?thesis by (intro exI [of _ "p @ p'"]) simp
  qed simp
qed simp

lemma re_match_suffix: "r \<in> set (re_match a s) \<Longrightarrow> \<exists>p. s = p @ r"
proof (induction a arbitrary: r s)
  case (RSeq a b)
  then obtain q where "q \<in> set (re_match a s)" "r \<in> set (re_match b q)" by auto
  then obtain p p' where "s = p @ q" "q = p' @ r" using RSeq.IH by meson
  then show ?case by (intro exI [of _ "p @ p'"]) simp
next
  case (RStar a)
  then show ?case using star_match_suffix [of "re_match a"] by auto
qed (auto split: list.splits if_splits)

section \<open>Normal forms\<close>

definition normalize_ecosystem_for_grouping :: "string \<Rightarrow> string" where
  "normalize_ecosystem_for_grouping eco =
     (let e = py_strip (py_lower eco) in if e \<in> set [''npm'', ''yarn'', ''pnpm''] then ''npm'' else e)"

definition extract_component_base_for_grouping :: "string option \<Rightarrow> string" where
  "extract_component_base_for_grouping component =
     (if \<not> truthy component then []
      else let base = component_base (py_strip (or_empty component))
           in if base = [] then []
              else case split_ws_once base of
                     [a, b] \<Rightarrow> if b \<noteq> [] \<and> py_isdigit (hd b) then py_strip a else base
                   | _ \<Rightarrow> base)"

definition separator_run :: re where
  "separator_run = rplus (RChar (\<lambda>c. c \<in> set ''-_.''))"

definition normalize_package_name :: "string option \<Rightarrow> string \<Rightarrow> string" where
  "normalize_package_name ecosystem name =
     (let n = py_strip name; eco = py_strip (py_lower (or_empty ecosystem))
      in if n = [] then []
         else if eco \<in> set [''pypi'', ''pip'', ''pipenv'', ''poetry''] then py_lower (re_sub separator_run ''-'' n)
         else py_lower n)"

definition word_char :: "char \<Rightarrow> bool" where
  "word_char c = (py_isdigit c \<or> c = CHR ''_'' \<or> lower_char c \<noteq> c \<or> upper_char c \<noteq> c)"

definition path_char :: "char \<Rightarrow> bool" where
  "path_char c = (word_char c \<or> c \<in> set ''./-'')"

abbreviation rspaces :: re where "rspaces \<equiv> rplus (RChar py_isspace)"

abbreviation rpath :: re where "rpath \<equiv> rplus (RChar path_char)"

definition more_paths :: re where
  "more_paths = ropt (rcat [RStar (RChar py_isspace), RChar (\<lambda>c. c = CHR '',''), RStar (RChar py_isspace), rpath])"

definition others_pattern :: re where
  "others_pattern =
     (let item = RSeq (rlit '', '') (rplus (RChar (\<lambda>c. c \<noteq> CHR '','')))
      in rcat [item, ropt item, rlit '' and '', rplus (RChar py_isdigit), rlit '' other'', ropt (rlit ''s''), REnd])"

definition path_pattern :: re where
  "path_pattern =
     rcat [rspaces, rlit ''in'', rspaces, rpath, RChar (\<lambda>c. c = CHR ''.''),
           ralts [''py'', ''ts'', ''tsx'', ''js'', ''jsx'', ''json'', ''yml'', ''yaml'', ''md'', ''txt'', ''xml'', ''html'', ''css'', ''sh'',
                  ''go'', ''rs'', ''java'', ''kt'', ''env'', ''tf'', ''hcl'', ''toml'', ''lock''], more_paths, REnd]"

definition plain_file_pattern :: re where
  "plain_file_pattern =
     rcat [rspaces, rlit ''in'', rspaces, RStar (RChar path_char),
           ralts [''Dockerfile'', ''Makefile'', ''.dockerignore'', ''.gitignore''], more_paths, REnd]"

definition line_pattern :: re where
  "line_pattern =
     rcat [rspaces, rlit ''at'', rspaces, rlit ''line'', rspaces, rplus (RChar py_isdigit),
           ropt (RSeq (RChar (\<lambda>c. c = CHR ''-'')) (rplus (RChar py_isdigit))), rspaces, rlit ''in'', rspaces, rpath, REnd]"

definition normalize_rule_title :: "string option \<Rightarrow> bool \<Rightarrow> string" where
  "normalize_rule_title title strip_locations =
     (if \<not> truthy title then []
      else let t = py_strip (or_empty title)
           in if \<not> strip_locations then py_lower t
              else py_lower (py_strip (re_sub line_pattern [] (re_sub plain_file_pattern []
                     (re_sub path_pattern [] (re_sub others_pattern [] t))))))"

section \<open>Group keys\<close>

text \<open>The enumeration of finding types has five members, so the last branch of the code, \<open>other:\<close>, is never taken.\<close>

definition asset_key :: "string \<Rightarrow> finding \<Rightarrow> string" where
  "asset_key path_aliases f =
     (let raw = py_strip (or_empty (f_image f)); br = normalize (or_empty (f_branch f)); tg = normalize (or_empty (f_tag f))
      in (if raw \<noteq> [] then py_lower (py_strip (container_image_group_key path_aliases raw)) else []) @ ''|'' @ br @ ''|'' @ tg)"

text \<open>Ecosystem and package of a dependency finding.\<close>

definition group_eco :: "finding \<Rightarrow> string" where
  "group_eco f =
     normalize_ecosystem_for_grouping (effective_sca_ecosystem (f_ecosystem f) (f_benchmark_family f) (f_image f) (f_tag f))"

definition group_pkg :: "finding \<Rightarrow> string" where
  "group_pkg f =
     (let raw = (if truthy (f_component_base f) then or_empty (f_component_base f)
                 else extract_component_base_for_grouping (f_component f));
          cross = (if raw \<noteq> [] then normalize_sca_package_for_cross_scanner raw else [])
      in if cross \<noteq> [] then normalize_package_name (if group_eco f = [] then None else Some (group_eco f)) cross else [])"

definition secret_separators :: re where
  "secret_separators = rplus (RChar (\<lambda>c. c \<in> set ''-_'' \<or> py_isspace c))"

definition first_of :: "string list \<Rightarrow> string" where
  "first_of xs = (case filter (\<lambda>x. x \<noteq> []) xs of [] \<Rightarrow> [] | x # _ \<Rightarrow> x)"

definition title_or_cve :: "finding \<Rightarrow> string option" where
  "title_or_cve f = (if truthy (f_title f) then f_title f else Some (f_cve_id f))"

definition secret_key :: "finding \<Rightarrow> string" where
  "secret_key f =
     (let raw = first_of [normalize (or_empty (f_secret_type f)), normalize (or_empty (f_rule_id f)),
                          normalize_rule_title (title_or_cve f) False, f_id f]
      in if \<not> py_in '' in '' raw \<and> length raw < 80
         then first_of [strip_by (\<lambda>c. c = CHR ''-'') (re_sub secret_separators ''-'' raw), raw] else raw)"

definition group_kind :: "finding \<Rightarrow> string" where
  "group_kind f =
     (case f_finding_type f of
        SCA \<Rightarrow> if group_pkg f \<noteq> [] then ''sca'' else ''cve''
      | SAST \<Rightarrow> ''sast'' | IaC \<Rightarrow> ''iac'' | Secret \<Rightarrow> ''secret'' | License \<Rightarrow> ''license'')"

definition group_body :: "finding \<Rightarrow> string" where
  "group_body f =
     (case f_finding_type f of
        SCA \<Rightarrow> if group_pkg f \<noteq> [] then group_eco f @ ''|'' @ group_pkg f else normalize (f_cve_id f)
      | SAST \<Rightarrow> first_of [normalize (or_empty (f_rule_id f)), normalize (or_empty (f_cwe_id f)),
                         normalize_rule_title (title_or_cve f) True, f_id f]
      | IaC \<Rightarrow> first_of [normalize (or_empty (f_rule_id f)), normalize_rule_title (title_or_cve f) True, f_id f]
      | Secret \<Rightarrow> secret_key f
      | License \<Rightarrow> if group_pkg f \<noteq> [] then group_eco f @ ''|'' @ group_pkg f else f_id f)"

definition get_finding_group_key :: "string \<Rightarrow> finding \<Rightarrow> string" where
  "get_finding_group_key path_aliases f = group_kind f @ '':'' @ group_body f @ ''#'' @ asset_key path_aliases f"

section \<open>Groups do not cross assets\<close>

lemma append_sep_inj:
  assumes "xs @ c # ys = us @ c # vs" and "c \<notin> set xs" and "c \<notin> set us"
  shows "xs = us \<and> ys = vs"
  using assms by (induction xs arbitrary: us) (auto simp: Cons_eq_append_conv append_eq_Cons_conv)

lemma append_last_sep_inj:
  assumes "xs @ c # ys = us @ c # vs" and "c \<notin> set ys" and "c \<notin> set vs"
  shows "xs = us \<and> ys = vs"
  using append_sep_inj [of "rev ys" c "rev xs" "rev vs" "rev us"] arg_cong [OF assms(1), of rev] assms(2,3) by auto

lemma group_kind_colon: "CHR '':'' \<notin> set (group_kind f)"
  by (simp add: group_kind_def split: finding_type.split)



end
