(* ===== verification/Vat_Linear.thy ===== *)
theory Vat_Linear
  imports Vat_Sync_Props Vat_Grouping
begin

text \<open>
  The parts of \<open>adapters/linear.py\<close> that read issues: the marker of a group in the description of an issue, the CVE
  identifiers in its text, the comparison form of its title, and the searches that page through the issues
  of the team. Then \<open>link_linear_issues_to_findings\<close> of \<open>services/sync_service.py\<close>, which links findings to
  the issues that exist. The API of the tracker, \<open>list_issues\<close>, is a parameter: the number of the call, the size of
  the page and the cursor give the issues of the page and the next cursor.
\<close>

section \<open>Reading the text of an issue\<close>

record linear_node =
  ln_id :: "string option"
  ln_identifier :: "string option"
  ln_title :: "string option"
  ln_description :: "string option"

type_synonym linear_pages = "nat \<Rightarrow> nat \<Rightarrow> string option \<Rightarrow> py_error + (linear_node list \<times> string option)"

text \<open>\<open>re.findall\<close>: the texts of the leftmost matches; no pattern here matches the empty text.\<close>

fun re_findall :: "re \<Rightarrow> string \<Rightarrow> string list" where
  "re_findall r [] = []"
| "re_findall r (c # cs) =
     (case re_match r (c # cs) of
        rest # _ \<Rightarrow> if length rest \<le> length cs then take (Suc (length cs) - length rest) (c # cs) # re_findall r rest
                    else re_findall r cs
      | [] \<Rightarrow> re_findall r cs)"

definition digits :: "nat \<Rightarrow> re" where
  "digits n = rcat (replicate n (RChar py_isdigit))"

definition CVE_PATTERN :: re where
  "CVE_PATTERN = rcat [rlit ''CVE-'', digits 4, rlit ''-'', digits 4, RStar (RChar py_isdigit)]"

text \<open>\<open>list(dict.fromkeys(xs))\<close>: the first occurrences.\<close>

fun fromkeys :: "'a list \<Rightarrow> 'a list" where
  "fromkeys [] = []"
| "fromkeys (x # xs) = x # filter (\<lambda>y. y \<noteq> x) (fromkeys xs)"

definition extract_cve_ids :: "string \<Rightarrow> string list" where
  "extract_cve_ids text = fromkeys (map py_upper (re_findall CVE_PATTERN text))"

text \<open>\<open>str.split()\<close>: the words between runs of white space.\<close>

fun split_ws :: "string \<Rightarrow> string \<Rightarrow> string list" where
  "split_ws w [] = (if w = [] then [] else [w])"
| "split_ws w (c # cs) = (if py_isspace c then (if w = [] then [] else [w]) @ split_ws [] cs else split_ws (w @ [c]) cs)"

definition normalize_title :: "string \<Rightarrow> string" where
  "normalize_title title = py_lower (py_join '' '' (split_ws [] (py_strip title)))"

text \<open>
  The pattern \<open>\[VAT-GROUP:\s*([^\]]+)\]\<close>: white space is skipped greedily, and is given back only when
  nothing else is left for the key; \<open>strip\<close> then removes it.
\<close>

definition group_at :: "string \<Rightarrow> string option" where
  "group_at s =
     (if \<not> py_startswith s ''[VAT-GROUP:'' then None
      else let body = drop 11 s; key = takeWhile (\<lambda>c. c \<noteq> CHR '']'') body; rest = dropWhile (\<lambda>c. c \<noteq> CHR '']'') body
           in if rest = [] \<or> key = [] then None else Some (py_strip key))"

fun extract_group_key :: "string \<Rightarrow> string option" where
  "extract_group_key [] = None"
| "extract_group_key (c # cs) = (case group_at (c # cs) of Some k \<Rightarrow> Some k | None \<Rightarrow> extract_group_key cs)"

text \<open>The last lines of \<open>_build_issue_body\<close>: the marker of the group is appended to the description.\<close>

definition with_group_marker :: "string option \<Rightarrow> string \<Rightarrow> string" where
  "with_group_marker group_key body =
     (if truthy group_key then body @ newline @ newline @ ''<!-- [VAT-GROUP: '' @ or_empty group_key @ ''] -->'' else body)"

section \<open>Paging through the issues\<close>

definition node_identifier :: "linear_node \<Rightarrow> string" where
  "node_identifier n = or_empty (py_or (ln_identifier n) (ln_id n))"

text \<open>The loop of the three searches; each of them looks for another mark on an issue.\<close>

partial_function (option) search_pages ::
  "linear_pages \<Rightarrow> (linear_node \<Rightarrow> bool) \<Rightarrow> nat \<Rightarrow> nat \<Rightarrow> string option \<Rightarrow> session \<Rightarrow> ((py_error + string option) \<times> session) option" where
  "search_pages list_issues hit max_issues fetched cursor s =
     (if max_issues \<le> fetched then Some (Inr None, s)
      else case list_issues (s_calls s) (min 100 (max_issues - fetched)) cursor of
             Inl e \<Rightarrow> Some (Inl e, s\<lparr>s_calls := Suc (s_calls s)\<rparr>)
           | Inr (nodes, next) \<Rightarrow>
               (case filter (\<lambda>n. node_identifier n \<noteq> [] \<and> hit n) nodes of
                  n # _ \<Rightarrow> Some (Inr (Some (node_identifier n)), s\<lparr>s_calls := Suc (s_calls s)\<rparr>)
                | [] \<Rightarrow> if truthy next
                        then search_pages list_issues hit max_issues (fetched + length nodes) next (s\<lparr>s_calls := Suc (s_calls s)\<rparr>)
                        else Some (Inr None, s\<lparr>s_calls := Suc (s_calls s)\<rparr>)))"

definition find_existing_issue_for_group_key ::
  "linear_pages \<Rightarrow> string \<Rightarrow> nat \<Rightarrow> session \<Rightarrow> ((py_error + string option) \<times> session) option" where
  "find_existing_issue_for_group_key list_issues group_key max_issues s =
     (if py_strip group_key = [] then Some (Inr None, s)
      else search_pages list_issues
             (\<lambda>n. case extract_group_key (or_empty (ln_description n)) of
                    None \<Rightarrow> False | Some k \<Rightarrow> k \<noteq> [] \<and> k = py_strip group_key) max_issues 0 None s)"

definition find_existing_issue_for_cve ::
  "linear_pages \<Rightarrow> string \<Rightarrow> nat \<Rightarrow> session \<Rightarrow> ((py_error + string option) \<times> session) option" where
  "find_existing_issue_for_cve list_issues cve_id max_issues s =
     (let cve = py_upper (py_strip cve_id)
      in if py_strip cve_id = [] \<or> re_match CVE_PATTERN cve = [] then Some (Inr None, s)
         else search_pages list_issues
                (\<lambda>n. cve \<in> set (extract_cve_ids (or_empty (ln_title n) @ '' '' @ or_empty (ln_description n)))) max_issues 0 None s)"

definition find_existing_issue_for_title ::
  "linear_pages \<Rightarrow> string \<Rightarrow> nat \<Rightarrow> session \<Rightarrow> ((py_error + string option) \<times> session) option" where
  "find_existing_issue_for_title list_issues title max_issues s =
     (if py_strip title = [] \<or> normalize_title title = [] then Some (Inr None, s)
      else search_pages list_issues (\<lambda>n. normalize_title (or_empty (ln_title n)) = normalize_title title) max_issues 0 None s)"

section \<open>Linking findings to the issues that exist\<close>

record issue_index =
  ix_group :: "(string \<times> string) list"
  ix_cve :: "(string \<times> string) list"
  ix_title :: "(string \<times> string) list"
  ix_uuid :: "(string \<times> string) list"

definition empty_index :: issue_index where
  "empty_index = \<lparr>ix_group = [], ix_cve = [], ix_title = [], ix_uuid = []\<rparr>"

text \<open>
  The four dictionaries as association lists. The first issue with a key keeps it, and the empty key is not entered;
  the UUID of an identifier is overwritten.
\<close>

definition enter :: "string \<Rightarrow> string \<Rightarrow> (string \<times> string) list \<Rightarrow> (string \<times> string) list" where
  "enter k v m = (if k = [] \<or> map_of m k \<noteq> None then m else (k, v) # m)"

definition index_node :: "bool \<Rightarrow> linear_node \<Rightarrow> issue_index \<Rightarrow> issue_index" where
  "index_node title_fallback n ix =
     (let i = node_identifier n; title = or_empty (ln_title n); desc = or_empty (ln_description n)
      in if i = [] then ix
         else \<lparr>ix_group = enter (or_empty (extract_group_key desc)) i (ix_group ix),
               ix_cve = fold (\<lambda>c. enter c i) (extract_cve_ids (title @ '' '' @ desc)) (ix_cve ix),
               ix_title = (if title_fallback then enter (normalize_title title) i (ix_title ix) else ix_title ix),
               ix_uuid = (if truthy (ln_id n) then (i, or_empty (ln_id n)) # ix_uuid ix else ix_uuid ix)\<rparr>)"

partial_function (option) pull_issues ::
  "linear_pages \<Rightarrow> bool \<Rightarrow> nat \<Rightarrow> nat \<Rightarrow> string option \<Rightarrow> issue_index \<Rightarrow> session \<Rightarrow>
   (py_error + (nat \<times> issue_index \<times> session)) option" where
  "pull_issues list_issues title_fallback max_issues fetched cursor ix s =
     (if max_issues \<le> fetched then Some (Inr (fetched, ix, s))
      else case list_issues (s_calls s) (min 100 (max_issues - fetched)) cursor of
             Inl e \<Rightarrow> Some (Inl e)
           | Inr (nodes, next) \<Rightarrow>
               (if truthy next
                then pull_issues list_issues title_fallback max_issues (fetched + length nodes) next
                       (fold (index_node title_fallback) nodes ix) (s\<lparr>s_calls := Suc (s_calls s)\<rparr>)
                else Some (Inr (fetched + length nodes, fold (index_node title_fallback) nodes ix, s\<lparr>s_calls := Suc (s_calls s)\<rparr>))))"

definition no_entries :: "issue_index \<Rightarrow> bool" where
  "no_entries ix = (ix_group ix = [] \<and> ix_cve ix = [] \<and> ix_title ix = [])"

text \<open>The group of the finding decides, then its CVE, then its title.\<close>

definition issue_for :: "string \<Rightarrow> issue_index \<Rightarrow> finding \<Rightarrow> string option" where
  "issue_for path_aliases ix f =
     py_or (py_or (map_of (ix_group ix) (get_finding_group_key path_aliases f))
              (if f_cve_id f \<noteq> [] then map_of (ix_cve ix) (py_upper (f_cve_id f)) else None))
       (if truthy (f_title f) then map_of (ix_title ix) (normalize_title (or_empty (f_title f))) else None)"

definition update_snapshot :: "finding \<Rightarrow> json_object" where
  "update_snapshot f =
     [(''cveId'', JStr (f_cve_id f)), (''cve_id'', JStr (f_cve_id f)), (''title'', opt_json (f_title f)),
      (''severity'', JStr (severity_value (f_severity f))), (''status'', JStr (status_value (f_status f)))]"

definition queue_update ::
  "env \<Rightarrow> sync_conf \<Rightarrow> string \<Rightarrow> string list \<Rightarrow> finding \<Rightarrow> session \<Rightarrow> py_error + (bool \<times> session)" where
  "queue_update E C tracker_key changed f s =
     (let labels = get_labels (sc_kv C)
      in res_bind (labels_to_configs labels)
           (\<lambda>cfgs. enqueue_tracker_update_issue E f tracker_key (update_snapshot f) changed (label_names_of labels) cfgs s))"

definition supports_update :: "sync_conf \<Rightarrow> string \<Rightarrow> bool" where
  "supports_update C tracker_key = (case sc_trackers C tracker_key of None \<Rightarrow> False | Some ad \<Rightarrow> ta_supports_update_issue ad)"

definition link_finding ::
  "env \<Rightarrow> sync_conf \<Rightarrow> string \<Rightarrow> string \<Rightarrow> string option \<Rightarrow> finding \<Rightarrow> session \<Rightarrow> py_error + session" where
  "link_finding E C tracker_key identifier issue_uuid f s =
     (let (f1, s1) = add_tracker_link E f tracker_key identifier None None issue_uuid s; (now, s2) = utcnow E s1;
          f2 = f1\<lparr>f_sync_status := Some ''synced'', f_sync_last_error := None, f_sync_failed_at := None,
                  f_audit := f_audit f1 @ [audit_entry (strftime_z now) ''system'' ''Linked to existing Linear issue'' identifier]\<rparr>;
          s3 = put_finding f2 s2
      in if supports_update C tracker_key
         then res_bind (queue_update E C tracker_key [''labels'', ''status''] f2 s3) (\<lambda>(_, s4). Inr s4)
         else Inr s3)"

fun link_issue_rows ::
  "env \<Rightarrow> sync_conf \<Rightarrow> string \<Rightarrow> string option \<Rightarrow> issue_index \<Rightarrow> finding list \<Rightarrow> nat \<times> session \<Rightarrow> py_error + (nat \<times> session)" where
  "link_issue_rows E C tracker_key min_sev ix [] acc = Inr acc"
| "link_issue_rows E C tracker_key min_sev ix (f # fs) (n, s) =
     (if get_use_aikido_tracking (sc_kv C) \<and> is_aikido_finding f \<or> has_tracker_link f (Some tracker_key) \<or>
         \<not> severity_meets_min (severity_value (f_severity f)) min_sev
      then link_issue_rows E C tracker_key min_sev ix fs (n, s)
      else case issue_for (env_container_asset_path_aliases E) ix f of
             Some (c # cs) \<Rightarrow>
               res_bind (link_finding E C tracker_key (c # cs) (map_of (ix_uuid ix) (c # cs)) f s)
                 (\<lambda>s1. link_issue_rows E C tracker_key min_sev ix fs (Suc n, s1))
           | _ \<Rightarrow> link_issue_rows E C tracker_key min_sev ix fs (n, s))"

definition tracker_ready :: "sync_conf \<Rightarrow> string \<Rightarrow> bool" where
  "tracker_ready C tracker_key =
     (let creds = get_tracker_credentials (sc_config C) (sc_kv C) tracker_key
      in py_truth (jget ''api_key'' creds) \<and> py_truth (jget ''team_id'' creds))"

text \<open>The result is the number of findings linked, the number of issues read and the session.\<close>

definition link_linear_issues_to_findings ::
  "env \<Rightarrow> sync_conf \<Rightarrow> linear_pages \<Rightarrow> nat \<Rightarrow> session \<Rightarrow> (py_error + (nat \<times> nat \<times> session)) option" where
  "link_linear_issues_to_findings E C list_issues max_issues s =
     (case get_tracker_key (sc_kv C) of
        Inl e \<Rightarrow> Some (Inl e)
      | Inr tk \<Rightarrow>
          if \<not> tracker_ready C tk then Some (Inr (0, 0, s))
          else map_option
            (\<lambda>r. res_bind r (\<lambda>(fetched, ix, s1).
               if no_entries ix then Inr (0, fetched, s1)
               else let rows = take (ac_linear_link_scan_limit (sc_config C)) (sort_key f_id (filter (\<lambda>f. \<not> f_archived f) (s_findings s1)))
                    in res_bind (get_tracker_push_min_severity (sc_kv C))
                         (\<lambda>min_sev. res_bind (link_issue_rows E C tk min_sev ix rows (0, s1)) (\<lambda>(n, s2). Inr (n, fetched, s2)))))
            (pull_issues list_issues (ac_linear_link_title_fallback (sc_config C)) max_issues 0 None empty_index s))"

text \<open>The \<open>create_issue\<close> events of a finding that are on their way.\<close>

definition pending_of :: "string \<Rightarrow> string \<Rightarrow> sync_event \<Rightarrow> bool" where
  "pending_of event_type finding_id ev =
     (se_finding_id ev = finding_id \<and> se_target ev = ''tracker'' \<and> se_event_type ev = event_type \<and>
      se_status ev \<in> set [''pending'', ''processing''])"

definition creates_on_way :: "session \<Rightarrow> string \<Rightarrow> nat" where
  "creates_on_way s i = length (filter (pending_of ''create_issue'' i) (s_sync_events s))"

section \<open>The marker of a group\<close>

lemma startswith_before:
  assumes "py_startswith (b @ c # r) n" and "c \<notin> set n"
  shows "py_startswith b n"
proof (cases "length n \<le> length b")
  case False
  then have "(take (length n) (b @ c # r)) ! length b = c" by (simp add: nth_append)
  with assms False show ?thesis unfolding py_startswith_def by (metis linorder_not_le nth_mem)
qed (use assms in \<open>auto simp: py_startswith_def\<close>)

lemma extract_skips:
  assumes "\<not> py_in ''[VAT-GROUP:'' body" and "c \<notin> set ''[VAT-GROUP:''"
  shows "extract_group_key (body @ c # r) = extract_group_key r"
  using assms(1)
proof (induction body)
  case Nil
  have "\<not> py_startswith (c # r) ''[VAT-GROUP:''" using assms(2) by (auto simp: py_startswith_def)
  then show ?case by (simp add: group_at_def)
next
  case (Cons b body)
  then have "\<not> py_startswith ((b # body) @ c # r) ''[VAT-GROUP:''" using startswith_before [OF _ assms(2)] by (metis py_in.simps(2))
  then show ?case using Cons by (simp add: group_at_def)
qed

lemma extract_group_no_bracket: "extract_group_key d = Some k \<Longrightarrow> CHR '']'' \<notin> set k"
proof (induction d)
  case (Cons c d)
  have "CHR '']'' \<notin> set (py_strip (takeWhile (\<lambda>c. c \<noteq> CHR '']'') xs))" for xs
    by (rule notin_py_strip) (auto dest: set_takeWhileD)
  then show ?case using Cons by (auto simp: group_at_def Let_def split: option.splits if_splits)
qed simp

lemma extract_marker:
  assumes "CHR '']'' \<notin> set k" and "k \<noteq> []"
  shows "extract_group_key (''[VAT-GROUP: '' @ k @ ''] -->'') = Some (py_strip (CHR '' '' # k))"
proof -
  have "takeWhile (\<lambda>c. c \<noteq> CHR '']'') (k @ ''] -->'') = k" "dropWhile (\<lambda>c. c \<noteq> CHR '']'') (k @ ''] -->'') = ''] -->''"
    using assms(1) by (simp_all add: takeWhile_append dropWhile_append)
  then show ?thesis by (simp add: group_at_def py_startswith_def)
qed

lemma strip_space: "py_strip (CHR '' '' # k) = py_strip k"
  by (simp add: py_strip_def strip_by_def lstrip_by_def py_isspace_def)

end
