(* ===== verification/Vat_Linear_Props.thy ===== *)
theory Vat_Linear_Props
  imports Vat_Linear
begin

text \<open>
  What the searches and the linking pass promise: the marker written into an issue is found again, paging ends
  when every page but the last one has issues, and a finding is linked only to an issue that bears its group,
  its CVE or its title.
\<close>

section \<open>Searching\<close>

text \<open>
  C13. An issue that was created for a group is found again: when the first page of the tracker holds an issue whose
  description carries the marker of the group key, the search for that key returns an issue with that
  marker after one call. The key must be free of closing brackets and of outer white space.
\<close>

theorem group_issue_found:
  assumes page: "list_issues (s_calls s) (min 100 max_issues) None = Inr (nodes, next)" and "0 < max_issues"
    and n: "n \<in> set nodes" "node_identifier n \<noteq> []" "ln_description n = Some (with_group_marker (Some k) body)"
    and "\<not> py_in ''[VAT-GROUP:'' body" and k: "CHR '']'' \<notin> set k" "py_strip k = k" "k \<noteq> []"
  shows "\<exists>m\<in>set nodes. extract_group_key (or_empty (ln_description m)) = Some k \<and>
    find_existing_issue_for_group_key list_issues k max_issues s =
      Some (Inr (Some (node_identifier m)), s\<lparr>s_calls := Suc (s_calls s)\<rparr>)"
proof -
  have nl: "CHR 10 \<notin> set ''[VAT-GROUP:''" by simp
  have "extract_group_key (with_group_marker (Some k) body) = extract_group_key (newline @ ''<!-- [VAT-GROUP: '' @ k @ ''] -->'')"
    using extract_skips [OF assms(6) nl] k(3) by (simp add: with_group_marker_def newline_def)
  also have "\<dots> = extract_group_key (''[VAT-GROUP: '' @ k @ ''] -->'')" by (simp add: newline_def group_at_def py_startswith_def)
  finally have e: "extract_group_key (or_empty (ln_description n)) = Some k"
    using extract_marker [OF k(1,3)] n(3) k(2) by (simp add: strip_space)
  define hit where "hit = (\<lambda>n::linear_node. case extract_group_key (or_empty (ln_description n)) of None \<Rightarrow> False | Some x \<Rightarrow> x \<noteq> [] \<and> x = py_strip k)"
  have h: "hit m \<longleftrightarrow> extract_group_key (or_empty (ln_description m)) = Some k" for m using k(2,3) by (auto simp: hit_def split: option.split)
  obtain m ms where m: "filter (\<lambda>n. node_identifier n \<noteq> [] \<and> hit n) nodes = m # ms"
    using e n(1,2) h by (cases "filter (\<lambda>n. node_identifier n \<noteq> [] \<and> hit n) nodes") (auto simp: filter_empty_conv)
  have f: "find_existing_issue_for_group_key list_issues k max_issues s = search_pages list_issues hit max_issues 0 None s"
    using k(2,3) by (simp add: find_existing_issue_for_group_key_def hit_def)
  have "m \<in> set nodes" "hit m" using arg_cong [OF m, of set] by auto
  moreover have "search_pages list_issues hit max_issues 0 None s = Some (Inr (Some (node_identifier m)), s\<lparr>s_calls := Suc (s_calls s)\<rparr>)"
    by (subst search_pages.simps) (use page assms(2) m in simp)
  ultimately show ?thesis using h f by auto
qed

text \<open>The issues that the tracker returns on some page.\<close>

definition served :: "linear_pages \<Rightarrow> linear_node \<Rightarrow> bool" where
  "served list_issues n = (\<exists>k m c nodes next. list_issues k m c = Inr (nodes, next) \<and> n \<in> set nodes)"

lemma search_pages_hit:
  assumes "search_pages list_issues hit mx fetched c s = Some (Inr (Some i), t)"
  shows "\<exists>m. served list_issues m \<and> hit m \<and> node_identifier m = i"
proof -
  have "r = (Inr (Some i), t) \<longrightarrow> (\<exists>m. served list_issues m \<and> hit m \<and> node_identifier m = i)"
    if "search_pages list_issues hit mx fetched c s = Some r" for r
  proof (rule search_pages.raw_induct [where P = "\<lambda>api hit mx fe c s r. r = (Inr (Some i), t) \<longrightarrow> (\<exists>m. served api m \<and> hit m \<and> node_identifier m = i)",
        OF _ that])
    fix search :: "linear_pages \<Rightarrow> (linear_node \<Rightarrow> bool) \<Rightarrow> nat \<Rightarrow> nat \<Rightarrow> string option \<Rightarrow> session \<Rightarrow> ((py_error + string option) \<times> session) option"
    fix api hit and mx fe :: nat and c s r
    assume ih: "\<And>api hit mx fe c s r. search api hit mx fe c s = Some r \<Longrightarrow>
        r = (Inr (Some i), t) \<longrightarrow> (\<exists>m. served api m \<and> hit m \<and> node_identifier m = i)"
      and e: "(if mx \<le> fe then Some (Inr None, s)
        else case api (s_calls s) (min 100 (mx - fe)) c of Inl e \<Rightarrow> Some (Inl e, s\<lparr>s_calls := Suc (s_calls s)\<rparr>)
          | Inr (nodes, next) \<Rightarrow> (case filter (\<lambda>n. node_identifier n \<noteq> [] \<and> hit n) nodes of
               [] \<Rightarrow> if truthy next then search api hit mx (fe + length nodes) next (s\<lparr>s_calls := Suc (s_calls s)\<rparr>)
                     else Some (Inr None, s\<lparr>s_calls := Suc (s_calls s)\<rparr>)
             | n # _ \<Rightarrow> Some (Inr (Some (node_identifier n)), s\<lparr>s_calls := Suc (s_calls s)\<rparr>))) = Some r"
    have h: "served api n \<and> hit n" if "api k m c' = Inr (nodes, nx)" "filter (\<lambda>n. node_identifier n \<noteq> [] \<and> hit n) nodes = n # ns" for k m c' nodes nx n ns
    proof -
      have "n \<in> set (filter (\<lambda>n. node_identifier n \<noteq> [] \<and> hit n) nodes)" using that(2) by simp
      then show ?thesis using that(1) unfolding served_def by auto blast
    qed
    show "r = (Inr (Some i), t) \<longrightarrow> (\<exists>m. served api m \<and> hit m \<and> node_identifier m = i)"
    proof (cases "mx \<le> fe \<or> isl (api (s_calls s) (min 100 (mx - fe)) c)")
      case True
      with e show ?thesis by (auto simp: isl_def split: if_splits)
    next
      case False
      then obtain nodes nx where p: "api (s_calls s) (min 100 (mx - fe)) c = Inr (nodes, nx)"
        by (metis isl_def old.prod.exhaust sum.exhaust)
      show ?thesis
      proof (cases "filter (\<lambda>n. node_identifier n \<noteq> [] \<and> hit n) nodes")
        case Nil
        with e p False ih [of api hit mx "fe + length nodes" nx "s\<lparr>s_calls := Suc (s_calls s)\<rparr>" r] show ?thesis
          by (auto split: if_splits)
      next
        case (Cons n ns)
        with e p False have "r = (Inr (Some (node_identifier n)), s\<lparr>s_calls := Suc (s_calls s)\<rparr>)" by simp
        with h [OF p Cons] show ?thesis by auto
      qed
    qed
  qed
  with assms show ?thesis by simp
qed

text \<open>
  A group whose key has a closing bracket is never found: the pattern stops at the first bracket, so the search
  returns no issue, whatever the tracker holds.
\<close>

lemma bracket_group_never_found:
  assumes "CHR '']'' \<in> set (py_strip k)"
  shows "find_existing_issue_for_group_key list_issues k max_issues s \<noteq> Some (Inr (Some i), t)"
proof
  assume f: "find_existing_issue_for_group_key list_issues k max_issues s = Some (Inr (Some i), t)"
  have "py_strip k \<noteq> []" using assms by auto
  with f have "search_pages list_issues (\<lambda>n. case extract_group_key (or_empty (ln_description n)) of
      None \<Rightarrow> False | Some x \<Rightarrow> x \<noteq> [] \<and> x = py_strip k) max_issues 0 None s = Some (Inr (Some i), t)"
    by (simp add: find_existing_issue_for_group_key_def)
  from search_pages_hit [OF this] obtain m :: linear_node where "extract_group_key (or_empty (ln_description m)) = Some (py_strip k)"
    by (auto split: option.splits)
  then show False using extract_group_no_bracket assms by blast
qed

section \<open>Linking\<close>

lemma pull_issues_returns:
  assumes "\<And>k m c nodes next. list_issues k m c = Inr (nodes, next) \<Longrightarrow> truthy next \<Longrightarrow> nodes \<noteq> []"
  shows "\<exists>r. pull_issues list_issues fb mx fetched c ix s = Some r"
proof (induction "mx - fetched" arbitrary: fetched c ix s rule: less_induct)
  case less
  show ?case
  proof (cases "mx \<le> fetched \<or> isl (list_issues (s_calls s) (min 100 (mx - fetched)) c)")
    case True
    then show ?thesis by (subst pull_issues.simps) (auto simp: isl_def)
  next
    case False
    then obtain nodes nx where p: "list_issues (s_calls s) (min 100 (mx - fetched)) c = Inr (nodes, nx)"
      by (metis isl_def old.prod.exhaust sum.exhaust)
    have "\<exists>r. pull_issues list_issues fb mx (fetched + length nodes) nx ix' s' = Some r" if "truthy nx" for ix' s'
      using less [of "fetched + length nodes"] assms [OF p that] False by (cases nodes) auto
    with False p show ?thesis by (subst pull_issues.simps) auto
  qed
qed

text \<open>
  C14. The linking pass ends: when every page that promises another one holds at least one issue, it returns (a result
  or the exception of the tracker). The loop has no other bound on the number of calls.
\<close>

theorem link_issues_returns:
  assumes "\<And>k m c nodes next. list_issues k m c = Inr (nodes, next) \<Longrightarrow> truthy next \<Longrightarrow> nodes \<noteq> []"
  shows "\<exists>r. link_linear_issues_to_findings E C list_issues max_issues s = Some r"
proof -
  obtain r where "pull_issues list_issues (ac_linear_link_title_fallback (sc_config C)) max_issues 0 None empty_index s = Some r"
    using pull_issues_returns assms by blast
  then show ?thesis by (simp add: link_linear_issues_to_findings_def split: sum.split)
qed

text \<open>Every entry of the index comes from an issue that the tracker returned and that bears the key.\<close>

definition keyed :: "linear_pages \<Rightarrow> (linear_node \<Rightarrow> string \<Rightarrow> bool) \<Rightarrow> (string \<times> string) list \<Rightarrow> bool" where
  "keyed api bears m \<longleftrightarrow> (\<forall>k i. map_of m k = Some i \<longrightarrow> (\<exists>n. served api n \<and> node_identifier n = i \<and> bears n k))"

abbreviation bears_group :: "linear_node \<Rightarrow> string \<Rightarrow> bool" where
  "bears_group n k \<equiv> extract_group_key (or_empty (ln_description n)) = Some k"

abbreviation bears_cve :: "linear_node \<Rightarrow> string \<Rightarrow> bool" where
  "bears_cve n k \<equiv> k \<in> set (extract_cve_ids (or_empty (ln_title n) @ '' '' @ or_empty (ln_description n)))"

abbreviation bears_title :: "linear_node \<Rightarrow> string \<Rightarrow> bool" where
  "bears_title n k \<equiv> normalize_title (or_empty (ln_title n)) = k"

definition index_sound :: "linear_pages \<Rightarrow> issue_index \<Rightarrow> bool" where
  "index_sound api ix \<longleftrightarrow> keyed api bears_group (ix_group ix) \<and> keyed api bears_cve (ix_cve ix) \<and> keyed api bears_title (ix_title ix)"

lemma keyed_step:
  assumes "keyed api bears m" and "served api n" and "\<And>k i. map_of m' k = Some i \<Longrightarrow> map_of m k = Some i \<or> bears n k \<and> i = node_identifier n"
  shows "keyed api bears m'"
  using assms unfolding keyed_def by metis

lemma enter_Some: "map_of (enter k v m) k' = Some i \<Longrightarrow> map_of m k' = Some i \<or> k' = k \<and> i = v \<and> k \<noteq> []"
  by (auto simp: enter_def split: if_splits)

lemma fold_enter_Some: "map_of (fold (\<lambda>c. enter c v) ks m) k' = Some i \<Longrightarrow> map_of m k' = Some i \<or> k' \<in> set ks \<and> i = v"
  by (induction ks arbitrary: m) (auto dest: enter_Some)

lemma index_node_sound:
  assumes "index_sound api ix" and "served api n"
  shows "index_sound api (index_node fb n ix)"
proof (cases "node_identifier n = []")
  case False
  let ?t = "or_empty (ln_title n)" and ?d = "or_empty (ln_description n)"
  have g: "extract_group_key ?d = Some (or_empty (extract_group_key ?d))" if "or_empty (extract_group_key ?d) \<noteq> []"
    using that by (cases "extract_group_key ?d") auto
  have "map_of (ix_group ix) k = Some i \<or> extract_group_key ?d = Some k \<and> i = node_identifier n" if "map_of (ix_group (index_node fb n ix)) k = Some i" for k i
    using that enter_Some [of _ _ "ix_group ix" k i] False g by (auto simp: index_node_def Let_def)
  moreover have "map_of (ix_cve ix) k = Some i \<or> k \<in> set (extract_cve_ids (?t @ '' '' @ ?d)) \<and> i = node_identifier n"
    if "map_of (ix_cve (index_node fb n ix)) k = Some i" for k i
    using that fold_enter_Some [of _ _ "ix_cve ix" k i] False by (auto simp: index_node_def Let_def)
  moreover have "map_of (ix_title ix) k = Some i \<or> normalize_title ?t = k \<and> i = node_identifier n" if "map_of (ix_title (index_node fb n ix)) k = Some i" for k i
    using that enter_Some [of _ _ "ix_title ix" k i] False by (auto simp: index_node_def Let_def split: if_splits)
  ultimately show ?thesis using assms unfolding index_sound_def by (blast intro: keyed_step [of api _ _ n])
qed (use assms in \<open>simp add: index_node_def\<close>)

lemma pull_issues_sound:
  assumes "pull_issues api fb mx fetched c ix s = Some (Inr (m, ix', t))" and "index_sound api ix"
  shows "index_sound api ix' \<and> s_findings t = s_findings s \<and> s_sync_events t = s_sync_events s"
proof -
  let ?Q = "\<lambda>api fb mx fe c ix s r. index_sound api ix \<longrightarrow> (\<forall>m ix' t. r = Inr (m, ix', t) \<longrightarrow>
      index_sound api ix' \<and> s_findings t = s_findings s \<and> s_sync_events t = s_sync_events s)"
  have "?Q api fb mx fetched c ix s r" if "pull_issues api fb mx fetched c ix s = Some r" for r
  proof (rule pull_issues.raw_induct [where P = ?Q, OF _ that])
    fix pull :: "linear_pages \<Rightarrow> bool \<Rightarrow> nat \<Rightarrow> nat \<Rightarrow> string option \<Rightarrow> issue_index \<Rightarrow> session \<Rightarrow> (py_error + (nat \<times> issue_index \<times> session)) option"
    fix api fb and mx fe :: nat and c ix s r
    assume ih: "\<And>api fb mx fe c ix s r. pull api fb mx fe c ix s = Some r \<Longrightarrow> ?Q api fb mx fe c ix s r"
      and e: "(if mx \<le> fe then Some (Inr (fe, ix, s)) else case api (s_calls s) (min 100 (mx - fe)) c of Inl e \<Rightarrow> Some (Inl e)
        | Inr (nodes, next) \<Rightarrow> if truthy next then pull api fb mx (fe + length nodes) next (fold (index_node fb) nodes ix) (s\<lparr>s_calls := Suc (s_calls s)\<rparr>)
            else Some (Inr (fe + length nodes, fold (index_node fb) nodes ix, s\<lparr>s_calls := Suc (s_calls s)\<rparr>))) = Some r"
    have f: "index_sound api (fold (index_node fb) ns ix)" if "index_sound api ix" "\<forall>n\<in>set ns. served api n" for ns ix
      using that by (induction ns arbitrary: ix) (auto intro: index_node_sound)
    show "?Q api fb mx fe c ix s r"
    proof (cases "mx \<le> fe \<or> isl (api (s_calls s) (min 100 (mx - fe)) c)")
      case True
      with e show ?thesis by (auto simp: isl_def split: if_splits)
    next
      case False
      then obtain nodes nx where p: "api (s_calls s) (min 100 (mx - fe)) c = Inr (nodes, nx)"
        by (metis isl_def old.prod.exhaust sum.exhaust)
      have "\<forall>n\<in>set nodes. served api n" using p unfolding served_def by blast
      then have x: "index_sound api ix \<Longrightarrow> index_sound api (fold (index_node fb) nodes ix)" using f by blast
      show ?thesis
      proof (cases "truthy nx")
        case True
        with e p False have "pull api fb mx (fe + length nodes) nx (fold (index_node fb) nodes ix) (s\<lparr>s_calls := Suc (s_calls s)\<rparr>) = Some r" by simp
        note q = ih [OF this]
        show ?thesis
        proof (intro impI allI)
          fix m ix' t
          assume "index_sound api ix" and "r = Inr (m, ix', t)"
          with q x show "index_sound api ix' \<and> s_findings t = s_findings s \<and> s_sync_events t = s_sync_events s" by auto
        qed
      next
        case False
        with e p \<open>\<not> (mx \<le> fe \<or> _)\<close> x show ?thesis by auto
      qed
    qed
  qed
  from this [OF assms(1)] assms(2) show ?thesis by simp
qed

text \<open>A finding that was linked to an issue; everything else of it that the pass may change is listed.\<close>

definition linked_to :: "string \<Rightarrow> string \<Rightarrow> finding \<Rightarrow> finding \<Rightarrow> bool" where
  "linked_to tk i f g \<longleftrightarrow>
     \<not> has_tracker_link f (Some tk) \<and> get_tracker_issue_id g tk = JStr i \<and>
     (\<exists>ls au. g = f\<lparr>f_external_links := ls, f_audit := f_audit f @ au, f_sync_status := Some ''synced'', f_sync_last_error := None,
                   f_sync_failed_at := None\<rparr>)"

definition keeps_creates :: "session \<Rightarrow> session \<Rightarrow> bool" where
  "keeps_creates s t \<longleftrightarrow> map f_id (s_findings t) = map f_id (s_findings s) \<and> creates_on_way t = creates_on_way s"

lemma keeps_creates_refl [simp]: "keeps_creates s s"
  by (simp add: keeps_creates_def)

lemma keeps_creates_trans: "keeps_creates s t \<Longrightarrow> keeps_creates t u \<Longrightarrow> keeps_creates s u"
  by (simp add: keeps_creates_def)

lemma enqueue_update_keeps:
  assumes "enqueue_tracker_update_issue E f tk d ch names cfgs s = Inr (b, t)"
  shows "s_findings t = s_findings s \<and> creates_on_way t = creates_on_way s"
proof -
  have "s_findings t = s_findings s \<and> creates_on_way t = creates_on_way s"
    if "enqueue_request E i tk (UpdateIssue j d ch n c u) s = Inr (b, t)" for i j n c u
    using that by (auto simp: enqueue_request_def make_request_def enqueue_sync_event_def res_bind_Inr utcnow_def creates_on_way_def
        pending_of_def new_event_def fun_eq_iff split: if_splits)
  with assms show ?thesis by (auto simp: enqueue_tracker_update_issue_def Let_def split: if_splits json.splits)
qed

lemma link_finding_effect:
  assumes "link_finding E C tk i u f s = Inr t" and "\<not> has_tracker_link f (Some tk)"
  shows "keeps_creates s t \<and> (\<forall>g\<in>set (s_findings t). g \<in> set (s_findings s) \<or> f_id g = f_id f \<and> linked_to tk i f g)"
proof -
  obtain f1 s1 where a: "add_tracker_link E f tk i None None u s = (f1, s1)" by fastforce
  obtain now s2 where n: "utcnow E s1 = (now, s2)" by fastforce
  define f2 where "f2 = f1\<lparr>f_sync_status := Some ''synced'', f_sync_last_error := None, f_sync_failed_at := None,
      f_audit := f_audit f1 @ [audit_entry (strftime_z now) ''system'' ''Linked to existing Linear issue'' i]\<rparr>"
  have ls: "f_external_links f1 = drop_links ''tracker'' tk (f_external_links f) @ [JObj (tracker_row E tk i None None u s)]"
    using add_tracker_links [of E f tk i None None u s] a by simp
  have f1: "f1 = f\<lparr>f_external_links := f_external_links f1\<rparr>" "s_findings s1 = s_findings s" "s_sync_events s1 = s_sync_events s"
    using a by (auto simp: add_tracker_link_def utcnow_def Let_def)
  have s2: "s_findings s2 = s_findings s" "s_sync_events s2 = s_sync_events s" using n f1 by (auto simp: utcnow_def)
  have "get_tracker_issue_id f2 tk = JStr i"
    by (simp add: f2_def get_tracker_issue_id_def ls link_field_replace [OF tracker_row_link(1)] tracker_row_link(2))
  moreover have "\<exists>ls au. f2 = f\<lparr>f_external_links := ls, f_audit := f_audit f @ au, f_sync_status := Some ''synced'', f_sync_last_error := None,
      f_sync_failed_at := None\<rparr>" unfolding f2_def
    by (intro exI [of _ "f_external_links f1"] exI [of _ "[audit_entry (strftime_z now) ''system'' ''Linked to existing Linear issue'' i]"])
      (subst f1(1), subst (2) f1(1), simp)
  ultimately have l: "linked_to tk i f f2" using assms(2) by (simp add: linked_to_def)
  have id: "f_id f2 = f_id f" unfolding f2_def by (subst f1(1)) simp
  have "s_findings t = s_findings (put_finding f2 s2) \<and> creates_on_way t = creates_on_way (put_finding f2 s2)"
    using assms(1) enqueue_update_keeps
    by (auto simp: link_finding_def a n f2_def [symmetric] queue_update_def res_bind_Inr Let_def split: if_splits; blast)
  moreover have "creates_on_way (put_finding f2 s2) = creates_on_way s" by (simp add: creates_on_way_def fun_eq_iff s2)
  moreover have "map f_id (s_findings (put_finding f2 s2)) = map f_id (s_findings s)" "\<forall>g\<in>set (s_findings (put_finding f2 s2)). g \<in> set (s_findings s) \<or> g = f2"
    using s2(1) by (auto simp: put_finding_def tbl_update_def)
  ultimately show ?thesis using l id by (auto simp: keeps_creates_def)
qed

lemma issue_for_served:
  assumes "index_sound api ix" and "issue_for pa ix f = Some i" and "i \<noteq> []"
  shows "\<exists>n. served api n \<and> node_identifier n = i \<and>
    (bears_group n (get_finding_group_key pa f) \<or> bears_cve n (py_upper (f_cve_id f)) \<or> bears_title n (normalize_title (or_empty (f_title f))))"
proof -
  consider "map_of (ix_group ix) (get_finding_group_key pa f) = Some i" | "map_of (ix_cve ix) (py_upper (f_cve_id f)) = Some i"
    | "map_of (ix_title ix) (normalize_title (or_empty (f_title f))) = Some i"
    using assms(2,3) by (auto simp: issue_for_def py_or_def split: if_splits)
  then show ?thesis using assms(1) unfolding index_sound_def keyed_def by cases metis+
qed

lemma link_issue_rows_effect:
  assumes "link_issue_rows E C tk min_sev ix fs (n, s) = Inr (m, t)"
  shows "keeps_creates s t \<and> (\<forall>g\<in>set (s_findings t). g \<in> set (s_findings s) \<or>
    (\<exists>f\<in>set fs. \<exists>i. f_id g = f_id f \<and> linked_to tk i f g \<and> i \<noteq> [] \<and> issue_for (env_container_asset_path_aliases E) ix f = Some i))"
  using assms
proof (induction fs arbitrary: n s)
  case (Cons f fs)
  consider (skip) n' where "link_issue_rows E C tk min_sev ix fs (n', s) = Inr (m, t)"
    | (link) i s1 where "i \<noteq> []" "issue_for (env_container_asset_path_aliases E) ix f = Some i" "\<not> has_tracker_link f (Some tk)"
        "link_finding E C tk i (map_of (ix_uuid ix) i) f s = Inr s1" "link_issue_rows E C tk min_sev ix fs (Suc n, s1) = Inr (m, t)"
    using Cons.prems by (auto simp: res_bind_Inr split: if_splits option.splits list.splits)
  then show ?case
  proof cases
    case skip
    from Cons.IH [OF this] show ?thesis by auto
  next
    case link
    from link_finding_effect [OF link(4,3)] Cons.IH [OF link(5)] link(1,2) show ?thesis
      by (meson keeps_creates_trans list.set_intros)
  qed
qed simp

lemma link_issues_cases:
  assumes "link_linear_issues_to_findings E C api max_issues s = Some (Inr (n, fetched, t))"
  obtains "t = s" | tk ix s1 where
    "pull_issues api (ac_linear_link_title_fallback (sc_config C)) max_issues 0 None empty_index s = Some (Inr (fetched, ix, s1))"
    "t = s1 \<or> (\<exists>min_sev. link_issue_rows E C tk min_sev ix (take (ac_linear_link_scan_limit (sc_config C))
        (sort_key f_id (filter (\<lambda>f. \<not> f_archived f) (s_findings s1)))) (0, s1) = Inr (n, t))"
  using assms by (auto simp: link_linear_issues_to_findings_def res_bind_Inr Let_def split: sum.splits if_splits)

lemma empty_index_sound: "index_sound api empty_index"
  by (simp add: index_sound_def keyed_def empty_index_def)

lemma link_issues_keeps:
  assumes "link_linear_issues_to_findings E C api max_issues s = Some (Inr (n, fetched, t))"
  shows "keeps_creates s t"
  using assms
proof (cases rule: link_issues_cases)
  case (2 tk ix s1)
  have "keeps_creates s s1" using pull_issues_sound [OF 2(1) empty_index_sound] by (simp add: keeps_creates_def creates_on_way_def fun_eq_iff)
  then show ?thesis using 2(2) link_issue_rows_effect keeps_creates_trans by metis
qed simp


section \<open>Examples\<close>

declare search_pages.simps [code] pull_issues.simps [code]

definition demo_issue :: linear_node where
  "demo_issue = \<lparr>ln_id = Some ''u-7'', ln_identifier = Some ''SEC-7'', ln_title = Some (''Fix CVE-2024-1234''),
     ln_description = Some (with_group_marker (Some ''sast:a#b'') ''text'')\<rparr>"

definition demo_pages :: linear_pages where
  "demo_pages = (\<lambda>k m c. Inr ([demo_issue], None))"

definition demo_link_session :: session where
  "demo_link_session = empty_session\<lparr>s_findings := [demo_finding\<lparr>f_cve_id := ''CVE-2024-1234''\<rparr>]\<rparr>"

theorem group_issue_found_witness:
  "find_existing_issue_for_group_key demo_pages ''sast:a#b'' 200 empty_session =
     Some (Inr (Some ''SEC-7''), empty_session\<lparr>s_calls := Suc (s_calls empty_session)\<rparr>)"
proof -
  have "py_strip ''sast:a#b'' = ''sast:a#b''" "\<not> py_in ''[VAT-GROUP:'' ''text''" "node_identifier demo_issue = ''SEC-7''" by code_simp+
  then show ?thesis
    using group_issue_found [of demo_pages empty_session 200 "[demo_issue]" None demo_issue "''sast:a#b''" "''text''"]
    by (simp add: demo_pages_def demo_issue_def)
qed

theorem link_issues_returns_witness: "\<exists>r. link_linear_issues_to_findings demo_sync_env demo_conf demo_pages 500 empty_session = Some r"
  by (rule link_issues_returns) (simp add: demo_pages_def)

lemma demo_link:
  "\<exists>n fetched t g. link_linear_issues_to_findings demo_sync_env demo_conf demo_pages 5 demo_link_session = Some (Inr (n, fetched, t)) \<and>
     g \<in> set (s_findings t) \<and> g \<notin> set (s_findings demo_link_session)"
proof -
  have "case link_linear_issues_to_findings demo_sync_env demo_conf demo_pages 5 demo_link_session of
      Some (Inr (n, fetched, t)) \<Rightarrow> list_ex (\<lambda>g. f_external_links g \<noteq> []) (s_findings t) | _ \<Rightarrow> False" by code_simp
  then obtain n fetched t where t: "link_linear_issues_to_findings demo_sync_env demo_conf demo_pages 5 demo_link_session = Some (Inr (n, fetched, t))"
    "list_ex (\<lambda>g. f_external_links g \<noteq> []) (s_findings t)" by (auto split: option.splits sum.splits)
  from t(2) obtain g where "g \<in> set (s_findings t)" "f_external_links g \<noteq> []" by (auto simp: list_ex_iff)
  then have "g \<in> set (s_findings t) \<and> g \<notin> set (s_findings demo_link_session)" by (auto simp: demo_link_session_def demo_finding_def)
  with t(1) show ?thesis by blast
qed


end
