(* ===== verification/Vat_Sync_Backfill.thy ===== *)
theory Vat_Sync_Backfill
  imports Vat_Linear_Props
begin

text \<open>
  The producers of \<open>create_issue\<close> events in \<open>services/sync_service.py\<close>: the hook of the ingest, the backfill of
  findings without a tracker issue (after \<open>link_linear_issues_to_findings\<close> linked those that have one), the
  corrections of linked issues, and the synchronisation of a single finding.
\<close>

section \<open>Snapshots\<close>

definition opt_int :: "int option \<Rightarrow> json" where
  "opt_int i = (case i of None \<Rightarrow> JNull | Some n \<Rightarrow> JInt n)"

definition create_snapshot :: "finding \<Rightarrow> json_object" where
  "create_snapshot f =
     [(''cveId'', JStr (f_cve_id f)), (''cve_id'', JStr (f_cve_id f)), (''title'', opt_json (f_title f)),
      (''severity'', JStr (severity_value (f_severity f))), (''component'', opt_json (f_component f)), (''image'', opt_json (f_image f)),
      (''findingType'', JStr (finding_type_value (f_finding_type f))), (''description'', opt_json (f_description f)),
      (''finding_id'', JStr (f_id f)), (''file_path'', opt_json (f_file_path f)), (''line'', opt_int (f_line f)),
      (''source_file_url'', opt_json (f_source_file_url f)), (''source_issue_url'', opt_json (get_source_issue_url f))]"

definition with_group_key :: "env \<Rightarrow> string \<Rightarrow> finding \<Rightarrow> json_object \<Rightarrow> json_object" where
  "with_group_key E push_mode f d =
     (if push_mode = ''groups'' then jset ''group_key'' (JStr (get_finding_group_key (env_container_asset_path_aliases E) f)) d else d)"

text \<open>Queueing \<open>create_issue\<close> for a finding with the configured template and labels.\<close>

definition queue_create :: "env \<Rightarrow> sync_conf \<Rightarrow> string \<Rightarrow> string \<Rightarrow> finding \<Rightarrow> session \<Rightarrow> py_error + session" where
  "queue_create E C tracker_key push_mode f s =
     (let labels = get_labels (sc_kv C)
      in res_bind (labels_to_configs labels)
           (\<lambda>cfgs. res_bind (enqueue_tracker_create_issue E f tracker_key (with_group_key E push_mode f (create_snapshot f))
                              (get_tracker_issue_template (sc_config C) (sc_kv C)) (label_names_of labels) cfgs s)
             (\<lambda>(_, s1). Inr (put_finding (f\<lparr>f_sync_status := Some ''pending_sync''\<rparr>) s1))))"

section \<open>The producers\<close>

definition maybe_enqueue_tracker_for_new_finding ::
  "env \<Rightarrow> sync_conf \<Rightarrow> bool \<Rightarrow> finding \<Rightarrow> session \<Rightarrow> py_error + (bool \<times> session)" where
  "maybe_enqueue_tracker_for_new_finding E C auto_sync f s =
     (if \<not> auto_sync \<or> f_status f \<notin> set [Open, Reopened, InReview] then Inr (False, s)
      else if get_use_aikido_tracking (sc_kv C) \<and> is_aikido_finding f then Inr (False, s)
      else res_bind (get_tracker_key (sc_kv C))
        (\<lambda>tk. if \<not> is_tracker_configured_for_creds tk (get_tracker_credentials (sc_config C) (sc_kv C) tk) then Inr (False, s)
              else res_bind (get_tracker_push_min_severity (sc_kv C))
                (\<lambda>min_sev. if \<not> severity_meets_min (severity_value (f_severity f)) min_sev then Inr (False, s)
                  else res_bind (get_tracker_push_mode (sc_kv C))
                    (\<lambda>mode. res_bind (queue_create E C tk mode f s) (\<lambda>s1. Inr (True, s1))))))"

text \<open>The query of the backfill: no tracker link and no \<open>create_issue\<close> event on its way.\<close>

definition unlinked :: "sync_conf \<Rightarrow> string \<Rightarrow> finding \<Rightarrow> bool" where
  "unlinked C tk f =
     (f_status f \<in> set [Open, Reopened, InReview] \<and> \<not> f_archived f \<and>
      \<not> list_ex (\<lambda>l. json_text (jget ''kind'' (as_dict l)) = Some ''tracker'' \<and> json_text (jget ''adapter_key'' (as_dict l)) = Some tk) (f_external_links f) \<and>
      (get_use_aikido_tracking (sc_kv C) \<longrightarrow> f_source f \<noteq> Some ''Aikido''))"

definition backfill_candidates :: "sync_conf \<Rightarrow> string \<Rightarrow> nat \<Rightarrow> session \<Rightarrow> finding list" where
  "backfill_candidates C tk limit s =
     take limit (sort_key f_created_at
       (filter (\<lambda>f. unlinked C tk f \<and> \<not> list_ex (pending_of ''create_issue'' (f_id f)) (s_sync_events s)) (s_findings s)))"

fun backfill_rows ::
  "env \<Rightarrow> sync_conf \<Rightarrow> string \<Rightarrow> string \<Rightarrow> string option \<Rightarrow> finding list \<Rightarrow> nat \<times> session \<Rightarrow> py_error + (nat \<times> session)" where
  "backfill_rows E C tk mode min_sev [] acc = Inr acc"
| "backfill_rows E C tk mode min_sev (f # fs) (n, s) =
     (if has_tracker_link f (Some tk) \<or> \<not> severity_meets_min (severity_value (f_severity f)) min_sev
      then backfill_rows E C tk mode min_sev fs (n, s)
      else res_bind (queue_create E C tk mode f s) (\<lambda>s1. backfill_rows E C tk mode min_sev fs (Suc n, s1)))"

definition backfill_queue ::
  "env \<Rightarrow> sync_conf \<Rightarrow> string \<Rightarrow> string \<Rightarrow> nat \<Rightarrow> session \<Rightarrow> py_error + (nat \<times> session)" where
  "backfill_queue E C tk mode limit s =
     res_bind (labels_to_configs (get_labels (sc_kv C)))
       (\<lambda>_. case backfill_candidates C tk limit s of
              [] \<Rightarrow> Inr (0, s)
            | f # fs \<Rightarrow> res_bind (get_tracker_push_min_severity (sc_kv C)) (\<lambda>min_sev. backfill_rows E C tk mode min_sev (f # fs) (0, s)))"

text \<open>\<open>None\<close> when the tracker pages for ever without issues.\<close>

definition backfill_unsynced_findings ::
  "env \<Rightarrow> sync_conf \<Rightarrow> linear_pages \<Rightarrow> nat \<Rightarrow> session \<Rightarrow> (py_error + (nat \<times> session)) option" where
  "backfill_unsynced_findings E C list_issues limit s =
     (case get_tracker_key (sc_kv C) of
        Inl e \<Rightarrow> Some (Inl e)
      | Inr tk \<Rightarrow>
          if \<not> tracker_ready C tk then Some (Inr (0, s))
          else case get_tracker_push_mode (sc_kv C) of
                 Inl e \<Rightarrow> Some (Inl e)
               | Inr mode \<Rightarrow>
                   if mode = ''groups'' \<and> list_ex (unlinked C tk) (s_findings s)
                   then map_option (\<lambda>r. res_bind r (\<lambda>(_, _, s1). backfill_queue E C tk mode limit s1))
                          (link_linear_issues_to_findings E C list_issues 500 s)
                   else Some (backfill_queue E C tk mode limit s))"

text \<open>
  \<open>backfill_tracker_corrections\<close>: linked findings without a pending or completed \<open>update_issue\<close>, the latest change
  first. The column \<open>updated_at\<close>, which the database layer sets at every write, is a parameter.
\<close>

definition corrected :: "string \<Rightarrow> string \<Rightarrow> sync_event \<Rightarrow> bool" where
  "corrected tk finding_id ev =
     (se_finding_id ev = finding_id \<and> se_target ev = ''tracker'' \<and> se_target_key ev = tk \<and> se_event_type ev = ''update_issue'' \<and>
      se_status ev \<in> set [''pending'', ''processing'', ''completed''])"

fun correct_rows ::
  "env \<Rightarrow> string \<Rightarrow> string list \<Rightarrow> label_config list \<Rightarrow> finding list \<Rightarrow> nat \<times> session \<Rightarrow> py_error + (nat \<times> session)" where
  "correct_rows E tk names cfgs [] acc = Inr acc"
| "correct_rows E tk names cfgs (f # fs) (n, s) =
     res_bind (enqueue_tracker_update_issue E f tk (update_snapshot f) [''labels'', ''title'', ''severity'', ''status''] names cfgs s)
       (\<lambda>(queued, s1). correct_rows E tk names cfgs fs (if queued then Suc n else n, s1))"

definition correction_candidates :: "sync_conf \<Rightarrow> (finding \<Rightarrow> datetime) \<Rightarrow> string \<Rightarrow> nat \<Rightarrow> session \<Rightarrow> finding list" where
  "correction_candidates C updated_at tk limit s =
     take limit (rev (sort_key updated_at
       (filter (\<lambda>f. list_ex (adapter_link ''tracker'' tk) (f_external_links f) \<and> \<not> list_ex (corrected tk (f_id f)) (s_sync_events s) \<and>
                    \<not> f_archived f \<and> (get_use_aikido_tracking (sc_kv C) \<longrightarrow> f_source f \<noteq> Some ''Aikido'')) (s_findings s))))"

definition backfill_tracker_corrections ::
  "env \<Rightarrow> sync_conf \<Rightarrow> (finding \<Rightarrow> datetime) \<Rightarrow> nat \<Rightarrow> session \<Rightarrow> py_error + (nat \<times> session)" where
  "backfill_tracker_corrections E C updated_at limit s =
     res_bind (get_tracker_key (sc_kv C))
       (\<lambda>tk. if \<not> tracker_ready C tk \<or> \<not> supports_update C tk then Inr (0, s)
             else let labels = get_labels (sc_kv C)
                  in res_bind (labels_to_configs labels)
                       (\<lambda>cfgs. correct_rows E tk (label_names_of labels) cfgs (correction_candidates C updated_at tk limit s) (0, s)))"

text \<open>\<open>scalar_one_or_none\<close> of the query for an event on its way: two events raise.\<close>

definition one_pending :: "string \<Rightarrow> string \<Rightarrow> session \<Rightarrow> py_error + bool" where
  "one_pending event_type finding_id s =
     (case filter (pending_of event_type finding_id) (s_sync_events s) of
        [] \<Rightarrow> Inr False | [_] \<Rightarrow> Inr True | _ \<Rightarrow> Inl MultipleResultsFound)"

text \<open>
  \<open>sync_single_finding_to_tracker\<close>; the result tells whether an event was queued. Where an update was queued the
  code calls \<open>trigger_sync_worker\<close>, which the module does not import: the event is committed, then the call
  raises \<open>NameError\<close>. The committed session is part of that result.
\<close>

datatype single_result = NotQueued | Queued session | QueuedThenRaised session

definition sync_single_finding_to_tracker ::
  "env \<Rightarrow> sync_conf \<Rightarrow> string \<Rightarrow> session \<Rightarrow> py_error + single_result" where
  "sync_single_finding_to_tracker E C finding_id s =
     res_bind (get_tracker_key (sc_kv C))
       (\<lambda>tk. if \<not> tracker_ready C tk then Inr NotQueued
             else case tbl_get f_id finding_id (s_findings s) of
                    None \<Rightarrow> Inr NotQueued
                  | Some f \<Rightarrow>
                      if f_archived f \<or> get_use_aikido_tracking (sc_kv C) \<and> is_aikido_finding f then Inr NotQueued
                      else if has_tracker_link f (Some tk)
                      then (if (case sc_trackers C tk of None \<Rightarrow> True | Some ad \<Rightarrow> \<not> ta_supports_update_issue ad) then Inr NotQueued
                            else res_bind (one_pending ''update_issue'' finding_id s)
                              (\<lambda>waiting. if waiting then Inr NotQueued
                                else (let labels = get_labels (sc_kv C)
                                      in res_bind (labels_to_configs labels)
                                           (\<lambda>cfgs. res_bind (enqueue_tracker_update_issue E f tk (update_snapshot f)
                                                              [''labels'', ''title'', ''severity''] (label_names_of labels) cfgs s)
                                             (\<lambda>(queued, s1). Inr (if queued then QueuedThenRaised s1 else NotQueued))))))
                      else if f_status f \<notin> set [Open, Reopened] then Inr NotQueued
                      else res_bind (get_tracker_push_min_severity (sc_kv C))
                        (\<lambda>min_sev. if \<not> severity_meets_min (severity_value (f_severity f)) min_sev then Inr NotQueued
                          else res_bind (one_pending ''create_issue'' finding_id s)
                            (\<lambda>waiting. if waiting then Inr NotQueued
                              else res_bind (get_tracker_push_mode (sc_kv C))
                                (\<lambda>mode. res_bind (queue_create E C tk mode f s) (\<lambda>s1. Inr (Queued s1))))))"

text \<open>
  \<open>unlink_deleted_linear_issues\<close> reads a limit through \<open>get_settings\<close>, which the module does not import either:
  with a configured tracker every call raises.
\<close>

definition unlink_deleted_linear_issues :: "sync_conf \<Rightarrow> py_error + nat" where
  "unlink_deleted_linear_issues C =
     res_bind (get_tracker_key (sc_kv C))
       (\<lambda>tk. if tk \<noteq> ''linear'' \<or> \<not> tracker_ready C tk then Inr 0
             else Inl (NameError ''get_settings''))"

definition compute_idempotency_key_sync :: "env \<Rightarrow> string \<Rightarrow> string \<Rightarrow> string option list \<Rightarrow> string" where
  "compute_idempotency_key_sync E source event_type parts =
     take 64 (env_sha256 E (source @ '':'' @ event_type @ '':'' @ py_join '':'' (map or_empty (filter (\<lambda>p. p \<noteq> None) parts))))"

section \<open>No duplicate issues\<close>

lemma queue_create_effect:
  assumes "queue_create E C tk mode f s = Inr t"
  obtains ev where "s_sync_events t = s_sync_events s @ [ev]" "\<And>i. pending_of ''create_issue'' i ev \<longleftrightarrow> i = f_id f"
proof -
  obtain cfgs x s1 where e: "enqueue_tracker_create_issue E f tk (with_group_key E mode f (create_snapshot f))
      (get_tracker_issue_template (sc_config C) (sc_kv C)) (label_names_of (get_labels (sc_kv C))) cfgs s = Inr (x, s1)"
    and t: "t = put_finding (f\<lparr>f_sync_status := Some ''pending_sync''\<rparr>) s1"
    using assms by (auto simp: queue_create_def res_bind_Inr Let_def)
  define p where "p = CreateIssue (with_group_key E mode f (create_snapshot f)) (get_tracker_issue_template (sc_config C) (sc_kv C))
    (Some (label_names_of (get_labels (sc_kv C)))) (Some cfgs)"
  have "request_type p = (''tracker'', ''create_issue'')" "normal_request p = p" by (simp_all add: p_def)
  moreover from this have "s1 = enqueue_sync_event E (f_id f) tk p s"
    using e unfolding enqueue_tracker_create_issue_def enqueue_request_def make_request_def p_def [symmetric]
    by (auto simp: res_bind_Inr split: if_splits)
  ultimately show thesis using t by (intro that [of "new_event (f_id f) tk p (Suc (length (s_sync_events s))) (env_clock E (s_clk s))"])
      (auto simp: pending_of_def new_event_def enqueue_sync_event_def utcnow_def)
qed

lemma backfill_rows_effect:
  assumes "backfill_rows E C tk mode min_sev fs (n, s) = Inr (m, t)" and "distinct (map f_id fs)"
  shows "\<exists>I. I \<subseteq> f_id ` set fs \<and> finite I \<and> m = n + card I \<and> (\<forall>i. creates_on_way t i = creates_on_way s i + (if i \<in> I then 1 else 0))"
  using assms
proof (induction fs arbitrary: n s)
  case (Cons f fs)
  show ?case
  proof (cases "has_tracker_link f (Some tk) \<or> \<not> severity_meets_min (severity_value (f_severity f)) min_sev")
    case True
    then obtain I where "I \<subseteq> f_id ` set fs" "finite I" "m = n + card I"
      "\<forall>i. creates_on_way t i = creates_on_way s i + (if i \<in> I then 1 else 0)" using Cons.IH [of n s] Cons.prems by auto
    then show ?thesis by (intro exI [of _ I]) auto
  next
    case False
    then obtain s1 where q: "queue_create E C tk mode f s = Inr s1" and r: "backfill_rows E C tk mode min_sev fs (Suc n, s1) = Inr (m, t)"
      using Cons.prems(1) by (auto simp: res_bind_Inr)
    obtain I where I: "I \<subseteq> f_id ` set fs" "finite I" "m = Suc n + card I"
      "\<And>i. creates_on_way t i = creates_on_way s1 i + (if i \<in> I then 1 else 0)" using Cons.IH [OF r] Cons.prems(2) by auto
    have "creates_on_way s1 i = creates_on_way s i + (if i = f_id f then 1 else 0)" for i
      by (rule queue_create_effect [OF q]) (simp add: creates_on_way_def)
    moreover have "f_id f \<notin> I" using I(1) Cons.prems(2) by auto
    ultimately show ?thesis using I by (intro exI [of _ "insert (f_id f) I"]) auto
  qed
qed (auto intro: exI [of _ "{}"])


text \<open>
  Resetting failed events can duplicate issues: the backfill does not count failed events, so it queues a second
  \<open>create_issue\<close> for a finding whose first one failed, and the reset then puts the first one back, so that two
  events for the same finding are on their way.
\<close>

lemma reset_duplicates_create:
  assumes "ev \<in> set (s_sync_events s)" and "se_finding_id ev = i" and "se_target ev = ''tracker''" and "se_target_key ev = tk"
    and "se_event_type ev = ''create_issue''" and "se_status ev = ''failed''" and "0 < creates_on_way s i"
  shows "2 \<le> creates_on_way (snd (reset_failed_tracker_events E tk s)) i"
proof -
  define bad where "bad = (\<lambda>ev::sync_event. se_target ev = ''tracker'' \<and> se_target_key ev = tk \<and> se_status ev = ''failed'')"
  define up where "up = (\<lambda>ev::sync_event. ev\<lparr>se_status := ''pending'', se_attempts := 0, se_last_error := None, se_next_retry_at := None,
    se_updated_at := fst (utcnow E s)\<rparr>)"
  define p where "p = pending_of ''create_issue'' i"
  have "filter bad (s_sync_events s) \<noteq> []" using assms by (auto simp: bad_def filter_empty_conv)
  then have e: "s_sync_events (snd (reset_failed_tracker_events E tk s)) = map (\<lambda>r. if bad r then up r else r) (s_sync_events s)"
    by (simp add: reset_failed_tracker_events_def bad_def up_def Let_def utcnow_def tbl_update_def)
  have sub: "length (filter p xs) + length (filter (\<lambda>r. bad r \<and> se_finding_id r = i \<and> se_event_type r = ''create_issue'') xs)
      \<le> length (filter p (map (\<lambda>r. if bad r then up r else r) xs))" for xs
    by (induction xs) (auto simp: p_def pending_of_def bad_def up_def)
  have "filter (\<lambda>r. bad r \<and> se_finding_id r = i \<and> se_event_type r = ''create_issue'') (s_sync_events s) \<noteq> []"
    using assms by (auto simp: bad_def filter_empty_conv)
  then have "1 \<le> length (filter (\<lambda>r. bad r \<and> se_finding_id r = i \<and> se_event_type r = ''create_issue'') (s_sync_events s))"
    by (simp add: Suc_le_eq)
  then show ?thesis using sub [of "s_sync_events s"] assms(7) unfolding creates_on_way_def e p_def by linarith
qed

section \<open>Examples\<close>

definition demo_instances :: sync_conf where
  "demo_instances = demo_conf\<lparr>sc_kv := [(''trackers'', JList [JObj [(''pushMode'', JStr ''instances'')]])]\<rparr>"

definition demo_unsynced :: session where
  "demo_unsynced = empty_session\<lparr>s_findings := [demo_finding\<lparr>f_status := Open\<rparr>],
     s_sync_events := [(new_event ''F-1'' ''linear'' (CreateIssue [(''cve_id'', JStr ''CVE-1'')] ''x'' None None) 1 (DateTime 1 1 1 0 0 0 0))
        \<lparr>se_status := ''failed'', se_attempts := 5, se_last_error := Some ''500''\<rparr>]\<rparr>"

lemma demo_backfill:
  "\<exists>t. backfill_unsynced_findings demo_sync_env demo_instances demo_pages 10 demo_unsynced = Some (Inr (1, t)) \<and>
     s_sync_events demo_unsynced = take 1 (s_sync_events t) \<and> 0 < creates_on_way t ''F-1''"
proof -
  let ?f = "demo_finding\<lparr>f_status := Open\<rparr>"
  have k: "get_tracker_key (sc_kv demo_instances) = Inr ''linear''" "get_tracker_push_mode (sc_kv demo_instances) = Inr ''instances''"
    "get_tracker_push_min_severity (sc_kv demo_instances) = Inr None" "tracker_ready demo_instances ''linear''"
    "labels_to_configs (get_labels (sc_kv demo_instances)) = Inr [\<lparr>lc_name = ''security-bug'', lc_color = Some ''#E53935''\<rparr>]"
    "label_names_of (get_labels (sc_kv demo_instances)) = [''security-bug'']"
    "get_tracker_issue_template (sc_config demo_instances) (sc_kv demo_instances) = ''x''" by code_simp+
  have c: "backfill_candidates demo_instances ''linear'' 10 demo_unsynced = [?f]" "\<not> has_tracker_link ?f (Some ''linear'')" by code_simp+
  have "\<exists>t. queue_create demo_sync_env demo_instances ''linear'' ''instances'' ?f demo_unsynced = Inr t \<and>
      s_sync_events demo_unsynced = take 1 (s_sync_events t) \<and> 0 < creates_on_way t ''F-1''"
    by (simp add: queue_create_def k enqueue_tracker_create_issue_def enqueue_request_def make_request_def with_group_key_def
        create_snapshot_def jget_def jor_def max_len_def demo_finding_def enqueue_sync_event_def utcnow_def demo_unsynced_def creates_on_way_def
        pending_of_def new_event_def)
  then show ?thesis by (auto simp: backfill_unsynced_findings_def backfill_queue_def k c severity_meets_min_def truthy_def)
qed


end
