(* ===== verification/Vat_Findings.thy ===== *)
theory Vat_Findings
  imports Vat_Grouping Vat_Ledger_Read Vat_Ingest_Facts
begin

text \<open>
  Listing findings: the query of \<open>services/findings_service.py\<close> with its filters, order and limits, the batches of
  \<open>stream_findings\<close>, and the handler \<open>get_findings_groups\<close> of \<open>api/findings.py\<close>. A handler's dictionary of a
  finding is the finding.
\<close>

section \<open>The query\<close>

text \<open>
  SQL's \<open>LIKE\<close>: the percent sign is any text, the underscore any character, and a backslash takes the next character
  literally. The code puts the search term between two percent signs as it is.
\<close>

fun like_match :: "string \<Rightarrow> string \<Rightarrow> bool" where
  "like_match [] s = (s = [])"
| "like_match (c # p) s =
     (if c = CHR ''%'' then (if like_match p s then True else case s of [] \<Rightarrow> False | _ # s' \<Rightarrow> like_match (c # p) s')
      else case s of
             [] \<Rightarrow> False
           | d # s' \<Rightarrow>
               if c = CHR ''_'' then like_match p s'
               else if c = CHR 92 then (case p of [] \<Rightarrow> False | e # p' \<Rightarrow> if d = e then like_match p' s' else False)
               else if d = c then like_match p s' else False)"

definition ilike :: "string option \<Rightarrow> string \<Rightarrow> bool" where
  "ilike column term = (case column of None \<Rightarrow> False | Some s \<Rightarrow> like_match (''%'' @ py_lower term @ ''%'') (py_lower s))"

definition query_parts :: "string option \<Rightarrow> string list" where
  "query_parts v = filter (\<lambda>p. p \<noteq> []) (map py_strip (split_char (CHR '','') (or_empty v)))"

text \<open>A filter on an enumeration drops the values that it does not know, and itself when none is left.\<close>

definition enum_filter :: "(string \<Rightarrow> 'a option) \<Rightarrow> string option \<Rightarrow> 'a \<Rightarrow> bool" where
  "enum_filter parse v x = (let vals = List.map_filter parse (query_parts v) in vals = [] \<or> x \<in> set vals)"

definition status_of_text :: "string \<Rightarrow> status option" where
  "status_of_text p = (case status_to_enum p of Inl _ \<Rightarrow> None | Inr st \<Rightarrow> Some st)"

definition severity_of_text :: "string \<Rightarrow> severity option" where
  "severity_of_text p = find (\<lambda>s. severity_value s = p) [Critical, High, Medium, Low, Informational]"

definition finding_type_of_text :: "string \<Rightarrow> finding_type option" where
  "finding_type_of_text p = find (\<lambda>t. finding_type_value t = p) [SCA, Secret, IaC, SAST, License]"

record finding_query =
  fq_ctx :: "(string option \<times> bool) option"
  fq_archived :: "bool option"
  fq_status :: "string option"
  fq_severity :: "string option"
  fq_source :: "string option"
  fq_finding_type :: "string option"
  fq_asset :: "string option"
  fq_search :: "string option"
  fq_search_fields :: "string option"
  fq_limit :: nat
  fq_offset :: nat

definition search_columns :: "(string \<times> (finding \<Rightarrow> string option)) list" where
  "search_columns =
     [(''cve_id'', \<lambda>f. Some (f_cve_id f)), (''title'', f_title), (''component'', f_component), (''image'', f_image),
      (''team'', f_team), (''owner'', f_owner)]"

text \<open>Search fields that are all unknown give no clause, so nothing is filtered.\<close>

definition search_matches :: "string option \<Rightarrow> string option \<Rightarrow> finding \<Rightarrow> bool" where
  "search_matches search search_fields f =
     (let named = map py_lower (query_parts search_fields);
          fields = (if named = [] then map fst search_columns else named);
          clauses = filter (\<lambda>(n, _). n \<in> set fields) search_columns
      in \<not> truthy search \<or> clauses = [] \<or> list_ex (\<lambda>(_, column). ilike (column f) (or_empty search)) clauses)"

definition query_matches :: "finding_query \<Rightarrow> finding \<Rightarrow> bool" where
  "query_matches q f =
     ((case fq_ctx q of None \<Rightarrow> True | Some (tenant_id, cross) \<Rightarrow> tenant_filter_passes tenant_id cross) \<and>
      (case fq_archived q of None \<Rightarrow> True | Some a \<Rightarrow> f_archived f = a) \<and>
      enum_filter status_of_text (fq_status q) (f_status f) \<and>
      enum_filter severity_of_text (fq_severity q) (f_severity f) \<and>
      enum_filter (\<lambda>p. Some (Some p)) (fq_source q) (f_source f) \<and>
      enum_filter finding_type_of_text (fq_finding_type q) (f_finding_type f) \<and>
      (truthy (fq_asset q) \<longrightarrow> ilike (f_component f) (or_empty (fq_asset q)) \<or> ilike (f_image f) (or_empty (fq_asset q))) \<and>
      search_matches (fq_search q) (fq_search_fields q) f)"

text \<open>Newest first; the id breaks ties.\<close>

definition newest_first :: "finding list \<Rightarrow> finding list" where
  "newest_first fs = rev (sort_key f_created_at (sort_key f_id fs))"

definition list_findings :: "nat \<Rightarrow> finding_query \<Rightarrow> session \<Rightarrow> finding list" where
  "list_findings max_limit q s =
     (let rows = drop (fq_offset q) (newest_first (filter (query_matches q) (s_findings s)));
          n = (if 0 < fq_limit q then min (fq_limit q) max_limit else 0)
      in if 0 < n then take n rows else rows)"

fun partitions :: "nat \<Rightarrow> 'a list \<Rightarrow> 'a list list" where
  "partitions n [] = []"
| "partitions n (x # xs) = (if n = 0 then [x # xs] else take n (x # xs) # partitions n (drop n (x # xs)))"

definition stream_findings :: "nat \<Rightarrow> nat \<Rightarrow> finding_query \<Rightarrow> session \<Rightarrow> finding list list" where
  "stream_findings max_limit batch_size q s = partitions batch_size (list_findings max_limit q s)"

section \<open>Groups\<close>

record group_entry =
  ge_key :: string
  ge_severity :: severity
  ge_findings :: "finding list"

definition SEV_ORDER :: "severity list" where
  "SEV_ORDER = [Critical, High, Medium, Low, Informational]"

definition sev_index :: "severity \<Rightarrow> nat" where
  "sev_index s = length (takeWhile (\<lambda>x. x \<noteq> s) SEV_ORDER)"

text \<open>\<open>max(xs, key=...)\<close>: the first element with the greatest key.\<close>

fun py_max_by :: "('a \<Rightarrow> nat) \<Rightarrow> 'a \<Rightarrow> 'a list \<Rightarrow> 'a" where
  "py_max_by k x [] = x"
| "py_max_by k x (y # ys) = py_max_by k (if k x < k y then y else x) ys"

fun add_to_group :: "string \<Rightarrow> finding \<Rightarrow> (string \<times> finding list) list \<Rightarrow> (string \<times> finding list) list" where
  "add_to_group key f [] = [(key, [f])]"
| "add_to_group key f ((k, fs) # gs) = (if k = key then (k, fs @ [f]) # gs else (k, fs) # add_to_group key f gs)"

definition groups_map :: "string \<Rightarrow> finding list \<Rightarrow> (string \<times> finding list) list" where
  "groups_map path_aliases fs = fold (\<lambda>f. add_to_group (get_finding_group_key path_aliases f) f) fs []"

definition group_entry_of :: "string \<times> finding list \<Rightarrow> group_entry" where
  "group_entry_of g =
     \<lparr>ge_key = fst g, ge_severity = f_severity (py_max_by (\<lambda>f. sev_index (f_severity f)) (hd (snd g)) (tl (snd g))), ge_findings = snd g\<rparr>"

record groups_answer =
  ga_groups :: "group_entry list"
  ga_total :: nat
  ga_scan_limit_applied :: bool

definition get_findings_groups :: "env \<Rightarrow> nat \<Rightarrow> nat \<Rightarrow> finding_query \<Rightarrow> nat \<Rightarrow> nat \<Rightarrow> session \<Rightarrow> groups_answer" where
  "get_findings_groups E max_limit scan_limit q limit offset s =
     (let fs = list_findings max_limit (q\<lparr>fq_limit := scan_limit, fq_offset := 0\<rparr>) s;
          gs = sort_key (\<lambda>g. sev_index (ge_severity g)) (map group_entry_of (groups_map (env_container_asset_path_aliases E) fs))
      in \<lparr>ga_groups = take limit (drop offset gs), ga_total = length gs, ga_scan_limit_applied = (scan_limit \<le> length fs)\<rparr>)"

section \<open>What the listings promise\<close>

text \<open>
  Streaming returns what listing returns: the batches put together are the list, none is empty, and none is longer
  than the batch size.
\<close>

lemma stream_agrees_with_list:
  "concat (stream_findings m n q s) = list_findings m q s \<and>
   list_all (\<lambda>b. b \<noteq> [] \<and> (n = 0 \<or> length b \<le> n)) (stream_findings m n q s)"
proof -
  have "concat (partitions n xs) = xs \<and> list_all (\<lambda>b. b \<noteq> [] \<and> (n = 0 \<or> length b \<le> n)) (partitions n xs)" for xs :: "finding list"
    by (induction n xs rule: partitions.induct) (auto simp del: take.simps drop.simps)
  then show ?thesis by (simp add: stream_findings_def)
qed

lemma set_newest_first [simp]: "set (newest_first fs) = set fs"
  by (simp add: newest_first_def)

lemma py_max_by_greatest:
  "py_max_by k x xs \<in> set (x # xs) \<and> (\<forall>y\<in>set (x # xs). k y \<le> k (py_max_by k x xs))"
proof (induction xs arbitrary: x)
  case (Cons y ys)
  from Cons [of "if k x < k y then y else x"] show ?case by (auto split: if_splits)
qed simp

definition grouped :: "string \<Rightarrow> finding list \<Rightarrow> (string \<times> finding list) list \<Rightarrow> bool" where
  "grouped pa fs gs \<longleftrightarrow> distinct (map fst gs) \<and>
     (\<forall>k xs. (k, xs) \<in> set gs \<longrightarrow> xs = filter (\<lambda>f. get_finding_group_key pa f = k) fs \<and> xs \<noteq> []) \<and>
     get_finding_group_key pa ` set fs = fst ` set gs"

lemma add_to_group_fst: "fst ` set (add_to_group k f gs) = insert k (fst ` set gs)"
  by (induction k f gs rule: add_to_group.induct) (simp_all add: insert_commute)

lemma add_to_group_distinct: "distinct (map fst gs) \<Longrightarrow> distinct (map fst (add_to_group k f gs))"
  by (induction k f gs rule: add_to_group.induct) (auto simp: add_to_group_fst)

lemma add_to_group_other: "x \<noteq> k \<Longrightarrow> (x, xs) \<in> set (add_to_group k f gs) \<longleftrightarrow> (x, xs) \<in> set gs"
  by (induction k f gs rule: add_to_group.induct) auto

lemma add_to_group_same:
  assumes "distinct (map fst gs)"
  shows "(k, xs) \<in> set (add_to_group k f gs) \<longleftrightarrow> (\<exists>ys. (k, ys) \<in> set gs \<and> xs = ys @ [f]) \<or> k \<notin> fst ` set gs \<and> xs = [f]"
  using assms
proof (induction gs)
  case (Cons g gs)
  have n: "\<And>ys. (fst g, ys) \<notin> set gs" using Cons.prems by (auto simp: image_iff)
  show ?case
  proof (cases "fst g = k")
    case True
    then show ?thesis using n by (cases g) auto
  next
    case False
    then show ?thesis using Cons by (cases g) auto
  qed
qed simp

lemma grouped_add:
  assumes "grouped pa fs gs"
  shows "grouped pa (fs @ [f]) (add_to_group (get_finding_group_key pa f) f gs)"
proof -
  let ?k = "get_finding_group_key pa f"
  have d: "distinct (map fst gs)" and e: "\<And>k xs. (k, xs) \<in> set gs \<Longrightarrow> xs = filter (\<lambda>f. get_finding_group_key pa f = k) fs \<and> xs \<noteq> []"
    and i: "get_finding_group_key pa ` set fs = fst ` set gs" using assms by (auto simp: grouped_def)
  have n: "filter (\<lambda>g. get_finding_group_key pa g = ?k) fs = []" if "?k \<notin> fst ` set gs"
    using that i by (metis (mono_tags, lifting) filter_False image_eqI)
  have "xs = filter (\<lambda>g. get_finding_group_key pa g = k) (fs @ [f]) \<and> xs \<noteq> []" if "(k, xs) \<in> set (add_to_group ?k f gs)" for k xs
    using that e n add_to_group_other [of k ?k xs f gs] add_to_group_same [OF d, of ?k xs f] by (cases "k = ?k") auto
  then show ?thesis using add_to_group_distinct [OF d] i by (auto simp: grouped_def add_to_group_fst)
qed

lemma groups_map_grouped: "grouped pa fs (groups_map pa fs)"
proof -
  have "grouped pa (gs @ fs) (fold (\<lambda>f. add_to_group (get_finding_group_key pa f) f) fs a)" if "grouped pa gs a" for gs a
    using that
  proof (induction fs arbitrary: gs a)
    case (Cons f fs)
    from Cons.IH [OF grouped_add [OF Cons.prems]] show ?case by simp
  qed simp
  from this [of "[]" "[]"] show ?thesis by (simp add: groups_map_def grouped_def)
qed

text \<open>
  C27. A group on a page holds exactly the scanned findings of its key. Its severity is that of its least severe member:
  the handler takes the maximum of an index in which the most severe level comes first.
\<close>

theorem group_severity_is_least:
  assumes "g \<in> set (ga_groups (get_findings_groups E m scan q limit offset s))"
  shows "ge_findings g = filter (\<lambda>f. get_finding_group_key (env_container_asset_path_aliases E) f = ge_key g)
      (list_findings m (q\<lparr>fq_limit := scan, fq_offset := 0\<rparr>) s) \<and>
    ge_severity g \<in> f_severity ` set (ge_findings g) \<and>
    (\<forall>f\<in>set (ge_findings g). sev_index (f_severity f) \<le> sev_index (ge_severity g))"
proof -
  let ?fs = "list_findings m (q\<lparr>fq_limit := scan, fq_offset := 0\<rparr>) s"
  let ?pa = "env_container_asset_path_aliases E"
  have "g \<in> group_entry_of ` set (groups_map ?pa ?fs)"
    using assms by (auto simp: get_findings_groups_def Let_def dest!: in_set_takeD in_set_dropD)
  then obtain k xs where x: "(k, xs) \<in> set (groups_map ?pa ?fs)" "g = group_entry_of (k, xs)" by auto
  then have e: "xs = filter (\<lambda>f. get_finding_group_key ?pa f = k) ?fs" "xs \<noteq> []" using groups_map_grouped [of ?pa ?fs] by (auto simp: grouped_def)
  have h: "hd xs # tl xs = xs" using e(2) by simp
  show ?thesis using py_max_by_greatest [of "\<lambda>f. sev_index (f_severity f)" "hd xs" "tl xs"] e(1) x(2) unfolding h
    by (simp add: group_entry_of_def)
qed

text \<open>
  The page says that the scan limit was hit only when the limit of a listing is at least the scan limit: with
  the defaults (2000 and 5000) a truncated scan is never reported.
\<close>

lemma scan_limit_never_reported:
  assumes "0 < m" and "m < scan"
  shows "\<not> ga_scan_limit_applied (get_findings_groups E m scan q limit offset s)"
  using assms by (simp add: get_findings_groups_def list_findings_def Let_def)

section \<open>Examples\<close>

definition demo_query :: finding_query where
  "demo_query = \<lparr>fq_ctx = None, fq_archived = None, fq_status = None, fq_severity = None, fq_source = None, fq_finding_type = None,
     fq_asset = None, fq_search = Some ''CVE'', fq_search_fields = None, fq_limit = 0, fq_offset = 0\<rparr>"

definition demo_two :: session where
  "demo_two = empty_session\<lparr>s_findings := [demo_finding\<lparr>f_severity := Critical\<rparr>, demo_finding\<lparr>f_id := ''F-2'', f_severity := Low\<rparr>]\<rparr>"

theorem group_severity_is_least_witness:
  "\<exists>g. ga_groups (get_findings_groups demo_env 20 50 demo_query 10 0 demo_two) = [g] \<and> length (ge_findings g) = 2 \<and> ge_severity g = Low \<and>
     sev_index Critical \<le> sev_index (ge_severity g)"
proof -
  have c: "(case ga_groups (get_findings_groups demo_env 20 50 demo_query 10 0 demo_two) of
      [g] \<Rightarrow> length (ge_findings g) = 2 \<and> ge_severity g = Low \<and> map f_severity (ge_findings g) = [Low, Critical] | _ \<Rightarrow> False)" by code_simp
  then obtain g where g: "ga_groups (get_findings_groups demo_env 20 50 demo_query 10 0 demo_two) = [g]" "length (ge_findings g) = 2"
    "ge_severity g = Low" "map f_severity (ge_findings g) = [Low, Critical]" by (auto split: list.splits)
  then obtain f where "f \<in> set (ge_findings g)" "f_severity f = Critical" by (metis (no_types) in_set_conv_nth length_map list.set_intros nth_map nth_mem)
  with group_severity_is_least [of g demo_env 20 50 demo_query 10 0 demo_two] g show ?thesis by force
qed

end
