(* ===== verification/Vat_Triage.thy ===== *)
theory Vat_Triage
  imports Vat_Findings Vat_Linear_Props
begin

text \<open>
  The reviewer's operations of \<open>services/findings_service.py\<close>: update, bulk update, revert, archive, unarchive and the
  override of a fingerprint, with their audit events, the decision ledger and the outbound events of a status
  change, and the handlers of \<open>api/findings.py\<close> that call them. Waking the worker (\<open>trigger_sync_worker\<close>) has no effect on
  the rows. Adapter keys of links are text, as every writer stores them. The arrow in an audit action is the
  UTF-8 encoding of U+2192, which has no 8-bit character.
\<close>

section \<open>The request\<close>

text \<open>A field that the request leaves out is \<open>None\<close>; a null is \<open>Some None\<close>.\<close>

record finding_update =
  fu_status :: "string option option"
  fu_justification :: "string option option"
  fu_compensating_controls :: "string option option"
  fu_reviewer_note :: "string option option"
  fu_suppression_scope :: "string option option"
  fu_attestation :: "json option option"
  fu_risk_scoring :: "json option option"

definition STATUS_DISPLAY :: "(string \<times> string) list" where
  "STATUS_DISPLAY =
     [(''SyncedToTracker'', ''Synced to Tracker''), (''InReview'', ''In Review''), (''RiskAccepted'', ''Risk Accepted''),
      (''FalsePositive'', ''False Positive''), (''NotApplicable'', ''Not Applicable'')]"

definition status_display :: "status \<Rightarrow> string" where
  "status_display st = (case map_of STATUS_DISPLAY (status_value st) of Some d \<Rightarrow> d | None \<Rightarrow> status_value st)"

definition arrow :: string where
  "arrow = [CHR 0xE2, CHR 0x86, CHR 0x92]"

definition text_note :: "string option option \<Rightarrow> string option" where
  "text_note v = nonempty (take 200 (py_strip (or_empty (case v of Some t \<Rightarrow> t | None \<Rightarrow> None))))"

definition risk_note :: "json option option \<Rightarrow> string option" where
  "risk_note v =
     (case v of
        Some (Some r) \<Rightarrow>
          (let env = jget ''environmental'' (as_dict r)
           in if \<not> is_dict env then None
              else case jor (jget ''rationale'' (as_dict env)) (jget ''knownScannerException'' (as_dict env)) of
                     JStr n \<Rightarrow> nonempty (take 200 (py_strip n)) | _ \<Rightarrow> None)
      | _ \<Rightarrow> None)"

definition audit_note_for_update :: "finding_update \<Rightarrow> string option" where
  "audit_note_for_update u =
     (case List.map_filter (\<lambda>n. n) [risk_note (fu_risk_scoring u), text_note (fu_reviewer_note u), text_note (fu_justification u),
                                   text_note (fu_compensating_controls u)] of
        n # _ \<Rightarrow> Some n | [] \<Rightarrow> None)"

definition audit_action_for_update :: "finding_update \<Rightarrow> status \<Rightarrow> status \<Rightarrow> string" where
  "audit_action_for_update u old_status new_status =
     (if new_status \<noteq> old_status then ''Status '' @ arrow @ '' '' @ status_display new_status
      else if fu_reviewer_note u \<noteq> None then ''Reviewer note updated''
      else if fu_justification u \<noteq> None then ''Justification updated''
      else if fu_compensating_controls u \<noteq> None then ''Compensating controls updated''
      else if fu_suppression_scope u \<noteq> None then ''Suppression scope updated''
      else if fu_attestation u \<noteq> None then ''Attestation updated''
      else if fu_risk_scoring u \<noteq> None then ''Environmental scoring updated''
      else ''Finding updated'')"

definition audit_reason_code_for_update :: "finding_update \<Rightarrow> bool \<Rightarrow> string" where
  "audit_reason_code_for_update u status_changed =
     (if status_changed then ''status_change''
      else if fu_reviewer_note u \<noteq> None then ''reviewer_note''
      else if fu_justification u \<noteq> None then ''justification''
      else if fu_compensating_controls u \<noteq> None then ''compensating_controls''
      else if fu_suppression_scope u \<noteq> None then ''suppression_scope''
      else if fu_attestation u \<noteq> None then ''attestation''
      else if fu_risk_scoring u \<noteq> None then ''risk_scoring''
      else ''finding_update'')"

definition suppression_scope_of :: "string option \<Rightarrow> suppression_scope option" where
  "suppression_scope_of s =
     (if \<not> truthy s then None else Some (if s = Some ''global'' then Scope_global else Scope_contextual))"

section \<open>Audit\<close>

definition triage_entry :: "string \<Rightarrow> string \<Rightarrow> string \<Rightarrow> string option \<Rightarrow> json" where
  "triage_entry ts user action note =
     JObj [(''ts'', JStr ts), (''user'', JStr user), (''action'', JStr action), (''note'', opt_json note)]"

text \<open>Appending an entry with the current time, as every operation does.\<close>

definition audited :: "env \<Rightarrow> string \<Rightarrow> string \<Rightarrow> string option \<Rightarrow> finding \<Rightarrow> session \<Rightarrow> finding \<times> session" where
  "audited E user action note f s =
     (let (now, s1) = utcnow E s; f1 = f\<lparr>f_audit := f_audit f @ [triage_entry (strftime_z now) user action note]\<rparr>
      in (f1, put_finding f1 s1))"

definition emit_finding_audit_event ::
  "env \<Rightarrow> finding \<Rightarrow> string \<Rightarrow> string \<Rightarrow> string option \<Rightarrow> string \<Rightarrow> status option \<Rightarrow> session \<Rightarrow> session" where
  "emit_finding_audit_event E f user action note reason_code old_status s =
     (let current = status_display (f_status f);
          d = [(''action'', JStr action), (''status'', JStr current)] @
              (case old_status of None \<Rightarrow> [] | Some st \<Rightarrow> [(''previousStatus'', JStr (status_display st))]);
          (tid, s1) = new_trace_id E s
      in snd (emit_audit_event E
           (event_defaults\<lparr>ea_trace_id := tid, ea_event_type := ''finding.audit'', ea_actor_type := ''user'', ea_actor_id := Some user,
              ea_asset_id := py_or (f_image f) (f_component f), ea_finding_id := Some (f_id f), ea_decision_name := Some action,
              ea_decision_reason_code := Some reason_code, ea_decision_result := Some current, ea_data := d,
              ea_retention_class := ''compliance'', ea_note := note\<rparr>) s1))"

section \<open>Outbound events of a status change\<close>

definition SYNCABLE_TRACKER_FIELDS :: "string list" where
  "SYNCABLE_TRACKER_FIELDS = [''status'', ''severity'', ''title'', ''labels'']"

text \<open>The order of the fields in the request is that of a Python set, which is left open; the model keeps the given order.\<close>

definition enqueue_tracker_update_issue_if_supported ::
  "env \<Rightarrow> sync_conf \<Rightarrow> finding \<Rightarrow> string list \<Rightarrow> session \<Rightarrow> py_error + session" where
  "enqueue_tracker_update_issue_if_supported E C f changed_fields s =
     (let syncable = filter (\<lambda>x. x \<in> set SYNCABLE_TRACKER_FIELDS) changed_fields
      in if syncable = [] then Inr s
         else res_bind (get_tracker_key (sc_kv C))
           (\<lambda>tk. if \<not> supports_update C tk \<or> \<not> list_ex (adapter_link ''tracker'' tk) (f_external_links f) then Inr s
             else let labels = get_labels (sc_kv C); names = label_names_of labels;
                      fields = (if ''labels'' \<notin> set syncable \<and> names \<noteq> [] then syncable @ [''labels''] else syncable)
                  in res_bind (labels_to_configs labels)
                       (\<lambda>cfgs. res_bind (enqueue_tracker_update_issue E f tk (update_snapshot f) fields names cfgs s)
                                 (\<lambda>(_, s1). Inr s1))))"

text \<open>Telling every source of the finding that takes outbound events; \<open>send\<close> gets the adapter and the source.\<close>

definition tell_source ::
  "sync_conf \<Rightarrow> finding \<Rightarrow> (string \<Rightarrow> string \<Rightarrow> session \<Rightarrow> py_error + (bool \<times> session)) \<Rightarrow> json \<Rightarrow> session \<Rightarrow> py_error + session" where
  "tell_source C f send l s =
     (case jget ''adapter_key'' (as_dict l) of
        JStr source \<Rightarrow>
          if source = [] \<or> \<not> py_truth (get_source_issue_id f source) then Inr s
          else res_bind (get_source_config (sc_config C) (sc_kv C) source)
            (\<lambda>cfg. let c = (case cfg of None \<Rightarrow> [] | Some c \<Rightarrow> c)
                   in if c = [] then Inr s
                      else res_bind (supports_outbound_sync c)
                        (\<lambda>ok. if \<not> ok then Inr s
                              else res_bind (dyn_lower (jor (jor (jget ''adapter'' c) (jget ''type'' c)) (JStr (py_lower source))))
                                     (\<lambda>key. res_bind (send key source s) (\<lambda>(_, s1). Inr s1))))
      | _ \<Rightarrow> Inr s)"

fun tell_sources ::
  "sync_conf \<Rightarrow> finding \<Rightarrow> (string \<Rightarrow> string \<Rightarrow> session \<Rightarrow> py_error + (bool \<times> session)) \<Rightarrow> json list \<Rightarrow> session \<Rightarrow> py_error + session" where
  "tell_sources C f send [] s = Inr s"
| "tell_sources C f send (l # ls) s = res_bind (tell_source C f send l s) (tell_sources C f send ls)"

definition enqueue_sync_on_status_change ::
  "env \<Rightarrow> sync_conf \<Rightarrow> finding \<Rightarrow> status \<Rightarrow> string \<Rightarrow> session \<Rightarrow> py_error + session" where
  "enqueue_sync_on_status_change E C f new_status user s =
     res_bind (get_tracker_key (sc_kv C))
       (\<lambda>tk. res_bind (if new_status \<in> set TRACKER_DECISION_STATUSES \<and> has_tracker_link f (Some tk)
                        then enqueue_tracker_post_decision E f tk user s else Inr (False, s))
         (\<lambda>(_, s1). res_bind
            (if new_status \<in> set SOURCE_IGNORE_STATUSES
             then tell_sources C f
                    (\<lambda>key source. enqueue_source_ignore E f key
                       (if f_suppression_scope f = Some Scope_global then ''global'' else ''contextual'') (Some source))
                    (get_all_source_links f) s1
             else Inr s1)
            (\<lambda>s2. if new_status = Reopened
                  then tell_sources C f (\<lambda>key source. enqueue_source_unignore E f key (Some source)) (get_all_source_links f) s2
                  else Inr s2)))"

section \<open>The operations\<close>

definition get_finding :: "string \<Rightarrow> session \<Rightarrow> finding option" where
  "get_finding finding_id s = tbl_get f_id finding_id (s_findings s)"

definition with_status :: "finding_update \<Rightarrow> finding \<Rightarrow> py_error + finding" where
  "with_status u f =
     (case fu_status u of
        Some (Some (c # cs)) \<Rightarrow>
          res_bind (status_to_enum (c # cs))
            (\<lambda>st. Inr (if st \<noteq> f_status f then f\<lparr>f_previous_status := Some (status_value (f_status f)), f_status := st\<rparr> else f))
      | _ \<Rightarrow> Inr f)"

definition with_fields :: "env \<Rightarrow> (string \<Rightarrow> nat option) \<Rightarrow> finding_update \<Rightarrow> string \<Rightarrow> finding \<Rightarrow> session \<Rightarrow> finding \<times> session" where
  "with_fields E cvss3 u user f s =
     (let set = (\<lambda>new old. case new of Some v \<Rightarrow> v | None \<Rightarrow> old);
          f1 = f\<lparr>f_justification := set (fu_justification u) (f_justification f),
                  f_compensating_controls := set (fu_compensating_controls u) (f_compensating_controls f),
                  f_reviewer_note := set (fu_reviewer_note u) (f_reviewer_note f),
                  f_suppression_scope := (case fu_suppression_scope u of Some v \<Rightarrow> suppression_scope_of v | None \<Rightarrow> f_suppression_scope f),
                  f_attestation := (case fu_attestation u of Some v \<Rightarrow> v | None \<Rightarrow> f_attestation f)\<rparr>
      in case fu_risk_scoring u of
           None \<Rightarrow> (f1, s)
         | Some r \<Rightarrow>
             (let (now, s1) = utcnow E s
              in (f1\<lparr>f_risk_scoring := merge_environmental_risk_scoring cvss3 (f_risk_scoring f)
                        (case r of None \<Rightarrow> JNull | Some j \<Rightarrow> j) user (strftime_z now)\<rparr>, s1)))"

definition update_finding ::
  "env \<Rightarrow> sync_conf \<Rightarrow> (string \<Rightarrow> nat option) \<Rightarrow> string \<Rightarrow> finding_update \<Rightarrow> string \<Rightarrow> session \<Rightarrow> py_error + (finding option \<times> session)" where
  "update_finding E C cvss3 finding_id u user s =
     (case get_finding finding_id s of
        None \<Rightarrow> Inr (None, s)
      | Some f \<Rightarrow>
          res_bind (with_status u f)
            (\<lambda>f1. let (f2, s1) = with_fields E cvss3 u user f1 s;
                       action = audit_action_for_update u (f_status f) (f_status f2); note = audit_note_for_update u;
                       (f3, s2) = audited E user action note f2 s1;
                       changed = (f_status f3 \<noteq> f_status f);
                       s3 = emit_finding_audit_event E f3 user action note (audit_reason_code_for_update u changed)
                              (if changed then Some (f_status f) else None) s2;
                       s4 = snd (record_decision_from_finding E f3 user ''reviewer_update'' None s3)
                   in if changed
                      then res_bind (enqueue_sync_on_status_change E C f3 (f_status f3) user s4)
                             (\<lambda>s5. res_bind (enqueue_tracker_update_issue_if_supported E C f3 [''status''] s5) (\<lambda>s6. Inr (Some f3, s6)))
                      else Inr (Some f3, s4)))"

definition revert_finding :: "env \<Rightarrow> sync_conf \<Rightarrow> string \<Rightarrow> string \<Rightarrow> string \<Rightarrow> session \<Rightarrow> py_error + (finding option \<times> session)" where
  "revert_finding E C finding_id reason user s =
     (case get_finding finding_id s of
        None \<Rightarrow> Inr (None, s)
      | Some f \<Rightarrow>
          if \<not> truthy (f_previous_status f) then Inr (None, s)
          else case status_to_enum (or_empty (f_previous_status f)) of
                 Inl _ \<Rightarrow> Inr (None, s)
               | Inr prev \<Rightarrow>
                   (let quote = (\<lambda>v. CHR 34 # v @ [CHR 34]);
                        (f1, s1) = audited E user (''Reverted '' @ quote (status_value (f_status f)) @ '' '' @ arrow @ '' '' @ quote (status_value prev))
                          (nonempty (take 200 reason))
                          (f\<lparr>f_status := prev, f_previous_status := Some (status_value (f_status f))\<rparr>) s
                    in res_bind (enqueue_sync_on_status_change E C f1 prev user s1) (\<lambda>s2. Inr (Some f1, s2))))"

definition archive_finding :: "env \<Rightarrow> string \<Rightarrow> string \<Rightarrow> string \<Rightarrow> session \<Rightarrow> finding option \<times> session" where
  "archive_finding E finding_id reason user s =
     (case get_finding finding_id s of
        None \<Rightarrow> (None, s)
      | Some f \<Rightarrow>
          (let (now, s1) = utcnow E s;
               (f1, s2) = audited E user ''Finding archived'' (Some reason)
                            (f\<lparr>f_archived := True, f_archived_at := Some now, f_archived_reason := Some reason\<rparr>) s1
           in (Some f1, s2)))"

definition unarchive_finding :: "env \<Rightarrow> string \<Rightarrow> string \<Rightarrow> session \<Rightarrow> finding option \<times> session" where
  "unarchive_finding E finding_id user s =
     (case get_finding finding_id s of
        None \<Rightarrow> (None, s)
      | Some f \<Rightarrow>
          (let (f1, s1) = audited E user ''Finding unarchived'' None
                            (f\<lparr>f_archived := False, f_archived_at := None, f_archived_reason := None\<rparr>) s
           in (Some f1, s1)))"

text \<open>The column \<open>fingerprint_id\<close> holds 64 characters: PostgreSQL refuses a longer value when the row is written.\<close>

definition override_fingerprint :: "env \<Rightarrow> string \<Rightarrow> string \<Rightarrow> session \<Rightarrow> py_error + (finding option \<times> session)" where
  "override_fingerprint E finding_id user s =
     (case get_finding finding_id s of
        None \<Rightarrow> Inr (None, s)
      | Some f \<Rightarrow>
          (let (u, s1) = uuid4_hex E s;
               fp = f_fingerprint_id f @ ''_override_'' @ take 12 u;
               (f1, s2) = audited E user ''Fingerprint override''
                 (Some ''Manual override: was incorrectly merged. New fingerprint prevents future merges.'') (f\<lparr>f_fingerprint_id := fp\<rparr>) s1
           in if 64 < length fp then Inl (DataError ''value too long for type character varying(64)'') else Inr (Some f1, s2)))"

fun bulk_rows :: "env \<Rightarrow> status \<Rightarrow> string \<Rightarrow> string \<Rightarrow> string \<Rightarrow> finding list \<Rightarrow> session \<Rightarrow> finding list \<times> session" where
  "bulk_rows E st text justification user [] s = ([], s)"
| "bulk_rows E st text justification user (f # fs) s =
     (let f1 = (if st \<noteq> f_status f then f\<lparr>f_previous_status := Some (status_value (f_status f))\<rparr> else f)\<lparr>f_status := st,
                  f_justification := py_or (Some justification) (f_justification f)\<rparr>;
          (f2, s1) = audited E user (''Bulk: '' @ text) (nonempty (take 80 justification)) f1 s;
          s2 = snd (record_decision_from_finding E f2 user ''bulk_triage'' None s1);
          (gs, s3) = bulk_rows E st text justification user fs s2
      in (f2 # gs, s3))"

fun bulk_sync :: "env \<Rightarrow> sync_conf \<Rightarrow> status \<Rightarrow> string \<Rightarrow> finding list \<Rightarrow> session \<Rightarrow> py_error + session" where
  "bulk_sync E C st user [] s = Inr s"
| "bulk_sync E C st user (f # fs) s =
     res_bind (enqueue_sync_on_status_change E C f st user s) (\<lambda>s1. bulk_sync E C st user fs s1)"

definition bulk_update_findings ::
  "env \<Rightarrow> sync_conf \<Rightarrow> string list \<Rightarrow> string \<Rightarrow> string \<Rightarrow> user_context option \<Rightarrow> string \<Rightarrow> session \<Rightarrow> py_error + (finding list \<times> session)" where
  "bulk_update_findings E C ids text justification ctx user s =
     (let rows = filter (\<lambda>f. f_id f \<in> set ids \<and>
                   (case ctx of None \<Rightarrow> True | Some c \<Rightarrow> tenant_filter_passes (ctx_tenant_id c) (ctx_cross_tenant c))) (s_findings s)
      in res_bind (status_to_enum text)
           (\<lambda>st. let (fs, s1) = bulk_rows E st text justification user rows s
                 in res_bind (bulk_sync E C st user fs s1) (\<lambda>s2. Inr (fs, s2))))"

section \<open>The handlers\<close>

text \<open>A finding that the caller does not see is reported like one that does not exist.\<close>

definition finding_not_found :: py_error where
  "finding_not_found = HTTPException 404 ''Finding not found''"

definition on_visible ::
  "user_context \<Rightarrow> string \<Rightarrow> (session \<Rightarrow> py_error + (finding option \<times> session)) \<Rightarrow> string \<Rightarrow> session \<Rightarrow> py_error + (finding \<times> session)" where
  "on_visible ctx finding_id operation missing s =
     (if (case get_finding finding_id s of None \<Rightarrow> False | Some f \<Rightarrow> \<not> row_tenant_visible (f_tenant_id f) ctx) then Inl finding_not_found
      else res_bind (operation s)
             (\<lambda>(r, s1). case r of None \<Rightarrow> Inl (HTTPException 404 missing) | Some f \<Rightarrow> Inr (f, s1)))"

definition patch_finding where
  "patch_finding E C cvss3 ctx user finding_id u s =
     on_visible ctx finding_id (update_finding E C cvss3 finding_id u user) ''Finding not found'' s"

definition post_archive_finding where
  "post_archive_finding E ctx user finding_id reason s =
     on_visible ctx finding_id (\<lambda>s. Inr (archive_finding E finding_id reason user s)) ''Finding not found'' s"

definition post_revert_finding where
  "post_revert_finding E C ctx user finding_id reason s =
     on_visible ctx finding_id (revert_finding E C finding_id reason user) ''Finding not found or no previous status to revert to'' s"

definition post_unarchive_finding where
  "post_unarchive_finding E ctx user finding_id s =
     on_visible ctx finding_id (\<lambda>s. Inr (unarchive_finding E finding_id user s)) ''Finding not found'' s"

definition post_override_fingerprint where
  "post_override_fingerprint E ctx user finding_id s =
     on_visible ctx finding_id (override_fingerprint E finding_id user) ''Finding not found'' s"

section \<open>What an operation leaves alone\<close>

text \<open>No finding changes, and outbound events are only added.\<close>

definition appends :: "session \<Rightarrow> session \<Rightarrow> bool" where
  "appends s t \<longleftrightarrow> s_findings t = s_findings s \<and> (\<exists>es. s_sync_events t = s_sync_events s @ es)"

lemma appends_refl [simp]: "appends s s"
  by (simp add: appends_def)

lemma appends_trans: "appends s t \<Longrightarrow> appends t u \<Longrightarrow> appends s u"
  by (auto simp: appends_def)

lemma appends_event: "appends s t \<Longrightarrow> ev \<in> set (s_sync_events s) \<Longrightarrow> ev \<in> set (s_sync_events t)"
  by (auto simp: appends_def)

lemma enqueue_request_appends: "enqueue_request E i k r s = Inr (b, t) \<Longrightarrow> appends s t"
  by (auto simp: enqueue_request_def enqueue_sync_event_def utcnow_def appends_def res_bind_Inr)

lemma enqueue_appends:
  "enqueue_tracker_post_decision E f tk user s = Inr (b, t) \<Longrightarrow> appends s t"
  "enqueue_tracker_update_issue E f tk d ch ns cs s = Inr (b, t) \<Longrightarrow> appends s t"
  "enqueue_source_ignore E f k scope src s = Inr (b, t) \<Longrightarrow> appends s t"
  "enqueue_source_unignore E f k src s = Inr (b, t) \<Longrightarrow> appends s t"
  by (auto simp: enqueue_tracker_post_decision_def enqueue_tracker_update_issue_def enqueue_source_ignore_def enqueue_source_unignore_def
      Let_def split: if_splits json.splits dest: enqueue_request_appends)

lemma tell_sources_appends:
  assumes "tell_sources C f send ls s = Inr t" and send: "\<And>k n s b t. send k n s = Inr (b, t) \<Longrightarrow> appends s t"
  shows "appends s t"
proof -
  have one: "appends s t" if "tell_source C f send l s = Inr t" for l s t
    using that by (auto simp: tell_source_def res_bind_Inr Let_def split: json.splits if_splits dest: send)
  show ?thesis using assms(1)
    by (induction ls arbitrary: s) (auto simp: res_bind_Inr intro: appends_trans [OF one])
qed

lemma emit_appends [simp]: "appends s (snd (emit_audit_event E a s))"
  by (simp add: emit_audit_event_def appends_def utcnow_def uuid4_hex_def store_event_def Let_def split: option.split)

lemma emit_finding_appends [simp]: "appends s (emit_finding_audit_event E f user a n r st s)"
proof -
  have "appends s (snd (new_trace_id E s))" by (simp add: appends_def new_trace_id_def uuid4_hex_def)
  then show ?thesis using emit_appends appends_trans by (fastforce simp: emit_finding_audit_event_def Let_def case_prod_beta)
qed

lemma record_appends [simp]: "appends s (snd (record_decision_from_finding E f user r p s))"
proof (cases "record_decision_from_finding E f user r p s")
  case (Pair d t)
  have "appends s t"
  proof (cases d)
    case None
    then show ?thesis using Pair by (auto simp: record_decision_from_finding_def Let_def split: if_splits list.splits prod.splits)
  next
    case (Some d')
    then obtain primary others where c: "candidates_for_finding E (s_asset_aliases s) f p = primary # others"
      using Pair by (auto simp: record_decision_from_finding_def split: if_splits list.splits)
    obtain now s1 where s1: "utcnow E s = (now, s1)" by fastforce
    obtain d1 s2 where s2: "write_decision E f user primary now s1 = (d1, s2)" by fastforce
    define s5 where "s5 = (let s3 = add_revision E d1 user r now s2; s4 = upsert_decision_link E (d_id d1) (f_id f) primary (d_decision_version d1) s3
      in s4\<lparr>s_subject_aliases := fold (add_source_alias (normalize_tenant_id (f_tenant_id f)) (dsc_subject_key primary) now) others (s_subject_aliases s4)\<rparr>)"
    obtain tid s6 where s6: "new_trace_id E s5 = (tid, s6)" by fastforce
    have t: "t = snd (emit_audit_event E (recorded_event tid user r f d1 primary) s6)"
      using Pair Some c s1 s2 s6 by (auto simp: record_decision_from_finding_def s5_def Let_def split: if_splits)
    have "appends s s1" using s1 by (auto simp: utcnow_def appends_def)
    moreover have "appends s1 s2" using s2
      by (auto simp: write_decision_def appends_def put_decision_def new_decision_id_def uuid4_hex_def Let_def split: option.splits)
    moreover have "appends s2 s5"
      by (simp add: s5_def appends_def add_revision_def upsert_decision_link_def new_revision_id_def uuid4_hex_def utcnow_def Let_def case_prod_beta)
    moreover have "appends s5 s6" using s6 by (auto simp: appends_def new_trace_id_def uuid4_hex_def)
    ultimately show ?thesis using emit_appends appends_trans unfolding t by meson
  qed
  with Pair show ?thesis by simp
qed

lemma status_change_steps:
  assumes "enqueue_sync_on_status_change E C f st user s = Inr t"
  obtains tk b s1 where "get_tracker_key (sc_kv C) = Inr tk" "appends s s1" "appends s1 t"
    "(if st \<in> set TRACKER_DECISION_STATUSES \<and> has_tracker_link f (Some tk) then enqueue_tracker_post_decision E f tk user s else Inr (False, s)) = Inr (b, s1)"
proof -
  define post where "post = (\<lambda>tk. if st \<in> set TRACKER_DECISION_STATUSES \<and> has_tracker_link f (Some tk)
      then enqueue_tracker_post_decision E f tk user s else Inr (False, s))"
  define ignore where "ignore = (\<lambda>s1. if st \<in> set SOURCE_IGNORE_STATUSES
      then tell_sources C f (\<lambda>key source. enqueue_source_ignore E f key
             (if f_suppression_scope f = Some Scope_global then ''global'' else ''contextual'') (Some source)) (get_all_source_links f) s1
      else Inr s1)"
  define unignore where "unignore = (\<lambda>s2. if st = Reopened
      then tell_sources C f (\<lambda>key source. enqueue_source_unignore E f key (Some source)) (get_all_source_links f) s2 else Inr s2)"
  have "res_bind (get_tracker_key (sc_kv C)) (\<lambda>tk. res_bind (post tk) (\<lambda>(_, s1). res_bind (ignore s1) (\<lambda>s2. unignore s2))) = Inr t"
    using assms unfolding enqueue_sync_on_status_change_def post_def ignore_def unignore_def .
  then obtain tk b s1 s2 where tk: "get_tracker_key (sc_kv C) = Inr tk" and 1: "post tk = Inr (b, s1)" and 2: "ignore s1 = Inr s2"
    and 3: "unignore s2 = Inr t" by (auto simp: res_bind_Inr)
  have "appends s s1" using 1 enqueue_appends(1) by (auto simp: post_def split: if_splits)
  moreover have "appends s1 s2" using 2 tell_sources_appends [OF _ enqueue_appends(3)] by (simp add: ignore_def split: if_splits)
  moreover have "appends s2 t" using 3 tell_sources_appends [OF _ enqueue_appends(4)] by (simp add: unignore_def split: if_splits)
  ultimately show thesis using that [of tk s1 b] tk 1 [unfolded post_def] appends_trans by blast
qed

lemma status_change_appends: "enqueue_sync_on_status_change E C f st user s = Inr t \<Longrightarrow> appends s t"
  by (erule status_change_steps) (rule appends_trans)

lemma update_supported_appends:
  "enqueue_tracker_update_issue_if_supported E C f ch s = Inr t \<Longrightarrow> appends s t"
  by (auto simp: enqueue_tracker_update_issue_if_supported_def res_bind_Inr Let_def split: if_splits dest: enqueue_appends(2))

lemma audited_effect:
  assumes "audited E user a n f s = (g, t)"
  shows "(\<exists>e. g = f\<lparr>f_audit := f_audit f @ [e]\<rparr>) \<and> s_findings t = s_findings (put_finding g s) \<and> s_sync_events t = s_sync_events s"
  using assms by (auto simp: audited_def utcnow_def put_finding_def Let_def)

lemma stored_put:
  assumes "get_finding i s = Some f" and "f_id g = f_id f" and "s_findings t = s_findings (put_finding g s)"
  shows "get_finding i t = Some g \<and> (\<forall>j. j \<noteq> i \<longrightarrow> get_finding j t = get_finding j s)"
proof -
  have i: "f_id f = i" using assms(1) by (auto simp: get_finding_def dest: tbl_get_Some)
  show ?thesis using assms unfolding get_finding_def i
    by (auto simp: put_finding_def tbl_get_upsert_update)
qed

section \<open>Properties\<close>

lemma with_status_effect:
  assumes "with_status u f = Inr g"
  shows "g = f\<lparr>f_status := f_status g, f_previous_status := (if f_status g = f_status f then f_previous_status f else Some (status_value (f_status f)))\<rparr>"
  using assms by (auto simp: with_status_def res_bind_Inr split: option.splits list.splits if_splits)

lemma with_fields_effect:
  assumes "with_fields E cvss3 u user f s = (g, t)"
  shows "g = f\<lparr>f_justification := f_justification g, f_compensating_controls := f_compensating_controls g, f_reviewer_note := f_reviewer_note g,
      f_suppression_scope := f_suppression_scope g, f_attestation := f_attestation g, f_risk_scoring := f_risk_scoring g\<rparr> \<and>
    s_findings t = s_findings s \<and> s_sync_events t = s_sync_events s"
  using assms by (auto simp: with_fields_def utcnow_def Let_def split: option.splits)

text \<open>The columns that an update may write.\<close>

definition updated_from :: "finding \<Rightarrow> finding \<Rightarrow> bool" where
  "updated_from f g \<longleftrightarrow>
     g = f\<lparr>f_status := f_status g, f_previous_status := (if f_status g = f_status f then f_previous_status f else Some (status_value (f_status f))),
           f_justification := f_justification g, f_compensating_controls := f_compensating_controls g, f_reviewer_note := f_reviewer_note g,
           f_suppression_scope := f_suppression_scope g, f_attestation := f_attestation g, f_risk_scoring := f_risk_scoring g,
           f_audit := f_audit g\<rparr> \<and>
     (\<exists>e. f_audit g = f_audit f @ [e])"

lemma updated_from_id: "updated_from f g \<Longrightarrow> f_id g = f_id f"
  unfolding updated_from_def by (elim conjE, erule ssubst) simp

lemma update_steps:
  assumes "update_finding E C cvss3 i u user s = Inr (Some g, t)"
  obtains f s2 s4 where "get_finding i s = Some f" "updated_from f g" "s_findings s2 = s_findings (put_finding g s)"
    "appends s2 s4" "f_status g = f_status f \<longrightarrow> t = s4"
    "f_status g \<noteq> f_status f \<longrightarrow> (\<exists>s5. enqueue_sync_on_status_change E C g (f_status g) user s4 = Inr s5 \<and> appends s5 t)"
proof -
  obtain f f1 where f: "get_finding i s = Some f" and f1: "with_status u f = Inr f1"
    using assms by (auto simp: update_finding_def res_bind_Inr split: option.splits)
  obtain f2 s1 where f2: "with_fields E cvss3 u user f1 s = (f2, s1)" by fastforce
  define action where "action = audit_action_for_update u (f_status f) (f_status f2)"
  define note' where "note' = audit_note_for_update u"
  obtain f3 s2 where f3: "audited E user action note' f2 s1 = (f3, s2)" by fastforce
  define changed where "changed \<longleftrightarrow> f_status f3 \<noteq> f_status f"
  define s4 where "s4 = snd (record_decision_from_finding E f3 user ''reviewer_update'' None
      (emit_finding_audit_event E f3 user action note' (audit_reason_code_for_update u changed) (if changed then Some (f_status f) else None) s2))"
  have run: "(if changed then res_bind (enqueue_sync_on_status_change E C f3 (f_status f3) user s4)
        (\<lambda>s5. res_bind (enqueue_tracker_update_issue_if_supported E C f3 [''status''] s5) (\<lambda>s6. Inr (Some f3, s6)))
      else Inr (Some f3, s4)) = Inr (Some g, t)"
    using assms by (simp add: update_finding_def f f1 f2 f3 [unfolded action_def note'_def] action_def note'_def changed_def s4_def Let_def cong: if_cong)
  have g: "g = f3" using run by (auto simp: res_bind_Inr split: if_splits)
  have a: "(\<exists>e. f3 = f2\<lparr>f_audit := f_audit f2 @ [e]\<rparr>)" "s_findings s2 = s_findings (put_finding f3 s1)" using audited_effect [OF f3] by auto
  have w: "f2 = f1\<lparr>f_justification := f_justification f2, f_compensating_controls := f_compensating_controls f2, f_reviewer_note := f_reviewer_note f2,
      f_suppression_scope := f_suppression_scope f2, f_attestation := f_attestation f2, f_risk_scoring := f_risk_scoring f2\<rparr>" "s_findings s1 = s_findings s"
    using with_fields_effect [OF f2] by auto
  have st: "f_status f2 = f_status f1" "f_audit f2 = f_audit f1" by (subst w(1), simp)+
  note e1 = with_status_effect [OF f1]
  have au: "f_audit f1 = f_audit f" by (subst e1) simp
  from a(1) obtain e where e: "f3 = f2\<lparr>f_audit := f_audit f2 @ [e]\<rparr>" by blast
  have up: "updated_from f f3"
    unfolding updated_from_def using st au e by (subst e, subst w(1), subst e1) simp
  have "s_findings s2 = s_findings (put_finding g s)" using a(2) w(2) g by (simp add: put_finding_def)
  moreover have "appends s2 s4" unfolding s4_def using appends_trans [OF emit_finding_appends record_appends] .
  moreover have "t = s4" if "f_status g = f_status f" using run that g by (simp add: changed_def)
  moreover have "\<exists>s5. enqueue_sync_on_status_change E C g (f_status g) user s4 = Inr s5 \<and> appends s5 t" if "f_status g \<noteq> f_status f"
    using run that g by (auto simp: changed_def res_bind_Inr dest: update_supported_appends)
  ultimately show thesis using that f up g by blast
qed

text \<open>
  C15. An update writes the reviewer's columns of one finding and nothing else: the finding is stored with one more audit
  entry, a change of status remembers the old status, and every other finding is untouched.
\<close>

theorem update_writes_review_only:
  assumes "update_finding E C cvss3 i u user s = Inr (Some g, t)"
  shows "\<exists>f. get_finding i s = Some f \<and> updated_from f g \<and> get_finding i t = Some g \<and> (\<forall>j. j \<noteq> i \<longrightarrow> get_finding j t = get_finding j s)"
proof -
  from assms obtain f s2 s4 where f: "get_finding i s = Some f" "updated_from f g" and p: "s_findings s2 = s_findings (put_finding g s)"
    and a: "appends s2 s4" "f_status g = f_status f \<longrightarrow> t = s4"
      "f_status g \<noteq> f_status f \<longrightarrow> (\<exists>s5. enqueue_sync_on_status_change E C g (f_status g) user s4 = Inr s5 \<and> appends s5 t)" by (rule update_steps)
  have "appends s4 t" using a(2,3) status_change_appends appends_trans appends_refl by metis
  then have "s_findings t = s_findings (put_finding g s)" using a(1) p by (simp add: appends_def)
  from stored_put [OF f(1) updated_from_id [OF f(2)] this] f show ?thesis by blast
qed

text \<open>
  C16. A terminal decision reaches the tracker: when an update changes the status to one that the tracker is told of and
  the finding has an issue there, a comment with the decision is queued for it.
\<close>

theorem decision_reaches_tracker:
  assumes "update_finding E C cvss3 i u user s = Inr (Some g, t)" and "get_finding i s = Some f"
    and "f_status g \<noteq> f_status f" and "f_status g \<in> set TRACKER_DECISION_STATUSES" and "get_tracker_key (sc_kv C) = Inr tk"
    and "has_tracker_link g (Some tk)" and "get_tracker_issue_id g tk = JStr iid" and "iid \<noteq> []"
  shows "\<exists>ev\<in>set (s_sync_events t). se_finding_id ev = f_id g \<and> se_target_key ev = tk \<and> se_status ev = ''pending'' \<and>
    se_payload ev = PostDecision iid (decision_body g user)"
proof -
  from assms(1) obtain f' s2 s4 where f: "get_finding i s = Some f'" and "updated_from f' g" "s_findings s2 = s_findings (put_finding g s)"
    "appends s2 s4" "f_status g = f_status f' \<longrightarrow> t = s4"
    and a: "f_status g \<noteq> f_status f' \<longrightarrow> (\<exists>s5. enqueue_sync_on_status_change E C g (f_status g) user s4 = Inr s5 \<and> appends s5 t)" by (rule update_steps)
  then obtain s5 where s5: "enqueue_sync_on_status_change E C g (f_status g) user s4 = Inr s5" "appends s5 t" using assms(2,3) by auto
  from s5(1) obtain b s1 where p: "enqueue_tracker_post_decision E g tk user s4 = Inr (b, s1)" and "appends s1 s5"
    by (rule status_change_steps) (use assms(4-6) in simp)
  moreover have "\<exists>ev\<in>set (s_sync_events s1). se_finding_id ev = f_id g \<and> se_target_key ev = tk \<and> se_status ev = ''pending'' \<and>
      se_payload ev = PostDecision iid (decision_body g user)"
    using p assms(4,7,8) by (auto simp: enqueue_tracker_post_decision_def enqueue_request_def make_request_def enqueue_sync_event_def new_event_def
        utcnow_def res_bind_Inr Let_def split: if_splits)
  ultimately show ?thesis using s5(2) appends_event by blast
qed

lemma status_to_enum_value [simp]: "status_to_enum (status_value st) = Inr st"
  by (cases st) (simp_all add: status_to_enum_def STATUS_FROM_DISPLAY_def status_value_def status_of_value_def all_statuses_def)

lemma revert_effect:
  assumes "revert_finding E C i reason user s = Inr (Some g, t)"
  shows "\<exists>f st e. get_finding i s = Some f \<and> status_to_enum (or_empty (f_previous_status f)) = Inr st \<and>
    g = f\<lparr>f_status := st, f_previous_status := Some (status_value (f_status f)), f_audit := f_audit f @ [e]\<rparr> \<and> get_finding i t = Some g"
proof -
  obtain f st where f: "get_finding i s = Some f" "status_to_enum (or_empty (f_previous_status f)) = Inr st"
    using assms by (auto simp: revert_finding_def split: option.splits if_splits sum.splits)
  then obtain a n s1 where a: "audited E user a n (f\<lparr>f_status := st, f_previous_status := Some (status_value (f_status f))\<rparr>) s = (g, s1)"
    and q: "enqueue_sync_on_status_change E C g st user s1 = Inr t"
    using assms by (auto simp: revert_finding_def res_bind_Inr Let_def split: if_splits prod.splits)
  from audited_effect [OF a] obtain e where e: "g = f\<lparr>f_status := st, f_previous_status := Some (status_value (f_status f)), f_audit := f_audit f @ [e]\<rparr>"
    and p: "s_findings s1 = s_findings (put_finding g s)" by auto
  have "s_findings t = s_findings (put_finding g s)" using status_change_appends [OF q] p by (simp add: appends_def)
  from stored_put [OF f(1) _ this] e f show ?thesis by auto
qed

text \<open>
  C17. Reverting is its own inverse: a second revert brings back the status and the previous status that the first one
  exchanged and leaves no other trace than two audit entries; and reverting an update that changed the status restores
  the status from before the update.
\<close>

theorem revert_roundtrip:
  assumes "revert_finding E C i reason user s = Inr (Some g, t)" and "get_finding i s = Some f" and "f_previous_status f = Some (status_value st)"
    and "revert_finding E C i reason' user' t = Inr (r, v)"
  shows "\<exists>h e1 e2. r = Some h \<and> h = f\<lparr>f_audit := f_audit f @ [e1, e2]\<rparr> \<and> get_finding i v = Some h"
proof -
  from revert_effect [OF assms(1)] assms(2,3) obtain e1 where
    g: "g = f\<lparr>f_status := st, f_previous_status := Some (status_value (f_status f)), f_audit := f_audit f @ [e1]\<rparr>" and t: "get_finding i t = Some g" by auto
  have "status_value (f_status f) \<noteq> []" by (cases "f_status f") (simp_all add: status_value_def)
  then have "r \<noteq> None" using assms(4) by (auto simp: revert_finding_def t g res_bind_Inr Let_def split: prod.splits)
  then obtain h where h: "r = Some h" by auto
  from revert_effect [OF assms(4) [unfolded h]] t g obtain e2 where
    "h = g\<lparr>f_status := f_status f, f_previous_status := Some (status_value st), f_audit := f_audit g @ [e2]\<rparr>" "get_finding i v = Some h" by auto
  then show ?thesis using h g assms(3) by (intro exI [of _ h] exI [of _ e1] exI [of _ e2]) (auto intro!: finding.equality)
qed

text \<open>
  No ingested finding can get a new fingerprint: fingerprints have 64 characters, which is the width of the column, so
  the longer text that the override builds is refused and the operation always fails.
\<close>

lemma override_never_fits:
  assumes "get_finding i s = Some f" and "length (f_fingerprint_id f) = 64"
  shows "override_fingerprint E i user s = Inl (DataError ''value too long for type character varying(64)'')"
  using assms by (simp add: override_fingerprint_def Let_def case_prod_beta)

section \<open>Examples\<close>

definition demo_patch :: finding_update where
  "demo_patch = \<lparr>fu_status = Some (Some ''Risk Accepted''), fu_justification = Some (Some ''behind the WAF''), fu_compensating_controls = None,
     fu_reviewer_note = None, fu_suppression_scope = None, fu_attestation = None, fu_risk_scoring = None\<rparr>"

definition demo_triage :: session where
  "demo_triage = empty_session\<lparr>s_findings :=
     [demo_finding\<lparr>f_status := Open, f_previous_status := Some ''InReview'',
        f_external_links := [JObj [(''kind'', JStr ''tracker''), (''adapter_key'', JStr ''linear''), (''issue_id'', JStr ''SEC-1'')]]\<rparr>]\<rparr>"

definition demo_triage_env :: env where
  "demo_triage_env = demo_sync_env\<lparr>env_decision_ledger_enabled := False\<rparr>"

definition demo_untriaged :: finding where
  "demo_untriaged = hd (s_findings demo_triage)"

definition demo_accepted :: finding where
  "demo_accepted = demo_untriaged\<lparr>f_status := RiskAccepted, f_previous_status := Some ''Open'', f_justification := Some ''behind the WAF''\<rparr>"

lemma demo_accepted_facts:
  "f_status demo_accepted = RiskAccepted" "has_tracker_link demo_accepted (Some ''linear'')"
  "get_tracker_issue_id demo_accepted ''linear'' = JStr ''SEC-1''" "get_tracker_issue_uuid demo_accepted ''linear'' = JNull"
  "attestation_readable demo_accepted" "length (decision_body demo_accepted ''alice'') \<le> 300" "get_all_source_links demo_accepted = []"
  "list_ex (adapter_link ''tracker'' ''linear'') (f_external_links demo_accepted)"
  by code_simp+

lemma demo_audited_facts:
  "has_tracker_link (f\<lparr>f_audit := a\<rparr>) k = has_tracker_link f k" "get_tracker_issue_id (f\<lparr>f_audit := a\<rparr>) n = get_tracker_issue_id f n"
  "get_tracker_issue_uuid (f\<lparr>f_audit := a\<rparr>) n = get_tracker_issue_uuid f n"
  "attestation_readable (f\<lparr>f_audit := a\<rparr>) = attestation_readable f" "decision_body (f\<lparr>f_audit := a\<rparr>) u = decision_body f u"
  "get_all_source_links (f\<lparr>f_audit := a\<rparr>) = get_all_source_links f"
  by (simp_all add: has_tracker_link_def get_tracker_issue_id_def get_tracker_issue_uuid_def attestation_readable_def decision_body_def
      environmental_scoring_comment_lines_def get_all_source_links_def)

lemma demo_update:
  "\<exists>g t. update_finding demo_triage_env demo_conf (\<lambda>_. None) ''F-1'' demo_patch ''alice'' demo_triage = Inr (Some g, t) \<and>
     f_status g = RiskAccepted \<and> has_tracker_link g (Some ''linear'') \<and> get_tracker_issue_id g ''linear'' = JStr ''SEC-1''"
proof -
  have k: "get_tracker_key (sc_kv demo_conf) = Inr ''linear''" "supports_update demo_conf ''linear''"
    "labels_to_configs (get_labels (sc_kv demo_conf)) = Inr [\<lparr>lc_name = ''security-bug'', lc_color = Some ''#E53935''\<rparr>]"
    "label_names_of (get_labels (sc_kv demo_conf)) = [''security-bug'']" by code_simp+
  have o: "f_status demo_untriaged = Open" by code_simp
  have g: "get_finding ''F-1'' demo_triage = Some demo_untriaged" by (simp add: get_finding_def demo_untriaged_def demo_triage_def demo_finding_def)
  have st: "status_to_enum ''Risk Accepted'' = Inr RiskAccepted" by code_simp
  have "with_status demo_patch demo_untriaged = Inr (demo_untriaged\<lparr>f_previous_status := Some ''Open'', f_status := RiskAccepted\<rparr>)"
    by (simp add: with_status_def demo_patch_def st o status_value_def)
  moreover have "with_fields demo_triage_env (\<lambda>_. None) demo_patch ''alice'' (demo_untriaged\<lparr>f_previous_status := Some ''Open'', f_status := RiskAccepted\<rparr>)
      demo_triage = (demo_accepted, demo_triage)" by (simp add: with_fields_def demo_patch_def demo_accepted_def)
  moreover have "\<exists>s5. enqueue_sync_on_status_change demo_triage_env demo_conf (demo_accepted\<lparr>f_audit := a\<rparr>) RiskAccepted ''alice'' s = Inr s5" for a s
    using demo_accepted_facts
    by (simp add: enqueue_sync_on_status_change_def k demo_audited_facts enqueue_tracker_post_decision_def enqueue_request_def make_request_def
        TRACKER_DECISION_STATUSES_def SOURCE_IGNORE_STATUSES_def)
  moreover have "\<exists>s6. enqueue_tracker_update_issue_if_supported demo_triage_env demo_conf (demo_accepted\<lparr>f_audit := a\<rparr>) [''status''] s = Inr s6" for a s
    using demo_accepted_facts
    by (simp add: enqueue_tracker_update_issue_if_supported_def k demo_audited_facts enqueue_tracker_update_issue_def enqueue_request_def make_request_def
        SYNCABLE_TRACKER_FIELDS_def max_len_def)
  ultimately have "\<exists>a t. update_finding demo_triage_env demo_conf (\<lambda>_. None) ''F-1'' demo_patch ''alice'' demo_triage =
      Inr (Some (demo_accepted\<lparr>f_audit := a\<rparr>), t)"
    using demo_accepted_facts(1) o by (fastforce simp: update_finding_def g audited_def utcnow_def Let_def res_bind_Inr)
  then show ?thesis using demo_accepted_facts demo_audited_facts by (elim exE) (intro exI conjI, assumption, simp_all)
qed

lemma demo_get: "\<exists>f. get_finding ''F-1'' demo_triage = Some f \<and> f_status f = Open \<and> f_previous_status f = Some (status_value InReview)"
  by (simp add: get_finding_def demo_triage_def demo_finding_def status_value_def)

theorem update_writes_review_only_witness:
  "\<exists>f g t. update_finding demo_triage_env demo_conf (\<lambda>_. None) ''F-1'' demo_patch ''alice'' demo_triage = Inr (Some g, t) \<and>
     updated_from f g \<and> get_finding ''F-1'' t = Some g \<and> get_finding ''F-2'' t = get_finding ''F-2'' demo_triage"
proof -
  obtain g t where u: "update_finding demo_triage_env demo_conf (\<lambda>_. None) ''F-1'' demo_patch ''alice'' demo_triage = Inr (Some g, t)"
    and "f_status g = RiskAccepted" "has_tracker_link g (Some ''linear'')" "get_tracker_issue_id g ''linear'' = JStr ''SEC-1''"
    using demo_update by (elim exE conjE)
  from update_writes_review_only [OF u] obtain f where f: "updated_from f g" "get_finding ''F-1'' t = Some g"
    and j: "\<And>j. j \<noteq> ''F-1'' \<Longrightarrow> get_finding j t = get_finding j demo_triage" by (elim exE conjE) simp
  have "get_finding ''F-2'' t = get_finding ''F-2'' demo_triage" by (rule j) simp
  with u f show ?thesis by (intro exI conjI)
qed

theorem decision_reaches_tracker_witness:
  "\<exists>g t ev. update_finding demo_triage_env demo_conf (\<lambda>_. None) ''F-1'' demo_patch ''alice'' demo_triage = Inr (Some g, t) \<and>
     ev \<in> set (s_sync_events t) \<and> se_payload ev = PostDecision ''SEC-1'' (decision_body g ''alice'')"
proof -
  obtain g t where u: "update_finding demo_triage_env demo_conf (\<lambda>_. None) ''F-1'' demo_patch ''alice'' demo_triage = Inr (Some g, t)"
    and st: "f_status g = RiskAccepted" and l: "has_tracker_link g (Some ''linear'')" and i: "get_tracker_issue_id g ''linear'' = JStr ''SEC-1''"
    using demo_update by (elim exE conjE)
  obtain f where f: "get_finding ''F-1'' demo_triage = Some f" and fs: "f_status f = Open"
    and "f_previous_status f = Some (status_value InReview)" using demo_get by (elim exE conjE)
  have k: "get_tracker_key (sc_kv demo_conf) = Inr ''linear''" by code_simp
  have d: "f_status g \<noteq> f_status f" "f_status g \<in> set TRACKER_DECISION_STATUSES" using st fs by (simp_all add: TRACKER_DECISION_STATUSES_def)
  have "''SEC-1'' \<noteq> []" by simp
  from decision_reaches_tracker [OF u f d k l i this] obtain ev where "ev \<in> set (s_sync_events t)"
    "se_payload ev = PostDecision ''SEC-1'' (decision_body g ''alice'')" by (elim bexE conjE)
  with u show ?thesis by (intro exI conjI)
qed

lemma demo_revert:
  "\<exists>g t r v. revert_finding demo_triage_env demo_conf ''F-1'' ''wrong'' ''alice'' demo_triage = Inr (Some g, t) \<and>
     revert_finding demo_triage_env demo_conf ''F-1'' ''again'' ''bob'' t = Inr (r, v)"
proof -
  have "case revert_finding demo_triage_env demo_conf ''F-1'' ''wrong'' ''alice'' demo_triage of
      Inr (Some g, t) \<Rightarrow> \<not> isl (revert_finding demo_triage_env demo_conf ''F-1'' ''again'' ''bob'' t) | _ \<Rightarrow> False"
    by code_simp
  then obtain g t where "revert_finding demo_triage_env demo_conf ''F-1'' ''wrong'' ''alice'' demo_triage = Inr (Some g, t)"
    "\<not> isl (revert_finding demo_triage_env demo_conf ''F-1'' ''again'' ''bob'' t)" by (auto split: sum.splits option.splits prod.splits)
  then show ?thesis by (cases "revert_finding demo_triage_env demo_conf ''F-1'' ''again'' ''bob'' t") auto
qed

theorem revert_roundtrip_witness:
  "\<exists>f g t h v. revert_finding demo_triage_env demo_conf ''F-1'' ''wrong'' ''alice'' demo_triage = Inr (Some g, t) \<and>
     revert_finding demo_triage_env demo_conf ''F-1'' ''again'' ''bob'' t = Inr (Some h, v) \<and>
     get_finding ''F-1'' demo_triage = Some f \<and> f_status h = f_status f"
proof -
  obtain g t r v where r: "revert_finding demo_triage_env demo_conf ''F-1'' ''wrong'' ''alice'' demo_triage = Inr (Some g, t)"
    "revert_finding demo_triage_env demo_conf ''F-1'' ''again'' ''bob'' t = Inr (r, v)" using demo_revert by (elim exE conjE)
  obtain f where f: "get_finding ''F-1'' demo_triage = Some f" and "f_status f = Open"
    and p: "f_previous_status f = Some (status_value InReview)" using demo_get by (elim exE conjE)
  from revert_roundtrip [OF r(1) f p r(2)] obtain h e1 e2 where h: "r = Some h" "h = f\<lparr>f_audit := f_audit f @ [e1, e2]\<rparr>"
    and "get_finding ''F-1'' v = Some h" by (elim exE conjE)
  have "f_status h = f_status f" by (simp add: h(2))
  with r(1) r(2) [unfolded h(1)] f show ?thesis by (intro exI conjI)
qed

end
