(* ===== verification/Vat_Webhooks.thy ===== *)
theory Vat_Webhooks
  imports Vat_Triage Vat_Ingest_Props
begin

text \<open>
  Inbound deliveries: \<open>services/webhook_idempotency.py\<close>, \<open>api/webhooks/common.py\<close> and the Aikido handler
  \<open>api/webhooks/aikido.py\<close>, which ends in \<open>ingest_finding\<close> or closes a finding. HMAC-SHA256 is the parameter
  \<open>hmac\<close> of the secret and the body; the adapter's translation of an issue is a parameter of each delivery, and so is the
  time of its receipt. A request carries its body and the document that \<open>json.loads\<close> reads from it (\<open>None\<close>:
  it is not JSON). The committed data is the session together with the table \<open>webhook_events\<close>; a delivery that raises or
  loses the claim rolls back, so only the \<open>Inr\<close> results change it.
\<close>

section \<open>webhook\_idempotency.py\<close>

record webhook_event =
  we_idempotency_key :: string
  we_source :: string
  we_event_type :: json
  we_payload_hash :: "string option"
  we_result :: json

record web_state =
  w_session :: session
  w_events :: "webhook_event list"

text \<open>\<open>json.dumps(payload, sort_keys=True)\<close> with the default separators and ASCII output.\<close>

definition ascii_char :: "char \<Rightarrow> string" where
  "ascii_char c = (if 126 < (of_char c :: nat) then [CHR 92, CHR ''u''] @ hex4 (of_char c) else json_char c)"

definition ascii_str :: "string \<Rightarrow> string" where
  "ascii_str s = [CHR 34] @ concat (map ascii_char s) @ [CHR 34]"

fun dumps :: "json \<Rightarrow> string" where
  "dumps JNull = ''null''"
| "dumps (JBool b) = (if b then ''true'' else ''false'')"
| "dumps (JInt i) = int_str i"
| "dumps (JFloat i) = float_str i"
| "dumps (JStr s) = ascii_str s"
| "dumps (JList xs) = ''['' @ py_join '', '' (map dumps xs) @ '']''"
| "dumps (JObj kvs) =
     ''{'' @ py_join '', '' (map (\<lambda>(k, v). ascii_str k @ '': '' @ v) (sort_key fst (map (\<lambda>(k, v). (k, dumps v)) kvs))) @ ''}''"

definition compute_idempotency_key :: "(string \<Rightarrow> string) \<Rightarrow> string \<Rightarrow> string \<Rightarrow> string list \<Rightarrow> string" where
  "compute_idempotency_key H source event_type parts =
     take 64 (H (source @ '':'' @ event_type @ '':'' @ py_join '':'' parts))"

definition webhook_payload_hash :: "(string \<Rightarrow> string) \<Rightarrow> json \<Rightarrow> string option" where
  "webhook_payload_hash H payload = (if payload = JNull then None else Some (take 64 (H (dumps payload))))"

definition seen :: "string \<Rightarrow> web_state \<Rightarrow> bool" where
  "seen key w = list_ex (\<lambda>e. we_idempotency_key e = key) (w_events w)"

text \<open>The column \<open>event_type\<close> holds 64 characters of text.\<close>

definition valid_event_type :: "json \<Rightarrow> bool" where
  "valid_event_type ev = (case ev of JNull \<Rightarrow> True | JStr t \<Rightarrow> length t \<le> 64 | _ \<Rightarrow> False)"

definition insert_event ::
  "(string \<Rightarrow> string) \<Rightarrow> string \<Rightarrow> string \<Rightarrow> json \<Rightarrow> json \<Rightarrow> json \<Rightarrow> web_state \<Rightarrow> py_error + (bool \<times> web_state)" where
  "insert_event H key source ev payload result w =
     (if \<not> valid_event_type ev then Inl (DataError ''event_type'')
      else if seen key w then Inr (False, w)
      else Inr (True, w\<lparr>w_events := w_events w @
             [\<lparr>we_idempotency_key = key, we_source = source, we_event_type = ev, we_payload_hash = webhook_payload_hash H payload,
               we_result = result\<rparr>]\<rparr>))"

definition claim_webhook ::
  "(string \<Rightarrow> string) \<Rightarrow> string \<Rightarrow> string \<Rightarrow> json \<Rightarrow> json \<Rightarrow> web_state \<Rightarrow> py_error + (bool \<times> web_state)" where
  "claim_webhook H key source ev payload w = insert_event H key source ev payload JNull w"

definition is_duplicate_webhook :: "web_state \<Rightarrow> string \<Rightarrow> bool" where
  "is_duplicate_webhook w key = seen key w"

definition record_webhook_processed ::
  "(string \<Rightarrow> string) \<Rightarrow> string \<Rightarrow> string \<Rightarrow> json \<Rightarrow> json \<Rightarrow> json \<Rightarrow> web_state \<Rightarrow> py_error + web_state" where
  "record_webhook_processed H key source ev payload result w =
     res_bind (insert_event H key source ev payload result w) (\<lambda>(_, w1). Inr w1)"

section \<open>webhooks/common.py\<close>

record http_request =
  rq_headers :: "(string \<times> string) list"
  rq_body :: string
  rq_json :: "json option"

definition header :: "http_request \<Rightarrow> string \<Rightarrow> string option" where
  "header rq name = map_option snd (find (\<lambda>(k, v). py_lower k = py_lower name) (rq_headers rq))"

text \<open>\<open>hmac.compare_digest\<close> refuses text that is not ASCII.\<close>

definition verify_hmac :: "(string \<Rightarrow> string \<Rightarrow> string) \<Rightarrow> json \<Rightarrow> string \<Rightarrow> string option \<Rightarrow> py_error + bool" where
  "verify_hmac hmac secret payload signature =
     (if \<not> py_truth secret \<or> \<not> truthy signature then Inr False
      else case secret of
             JStr key \<Rightarrow>
               (let sig = py_strip (or_empty signature); expected = hmac key payload
                in if \<not> list_all (\<lambda>c. (of_char c :: nat) < 128) sig then Inl (TypeError ''comparing strings with non-ASCII characters'')
                   else Inr (sig = expected \<or> sig = ''sha256='' @ expected))
           | _ \<Rightarrow> Inl (AttributeError ''encode''))"

text \<open>
  \<open>int(float(t))\<close> of a text: sign, digits with single underscores between them, a fraction and an exponent, truncated towards
  zero. A value that a double cannot hold is infinite, and \<open>int\<close> of it raises \<open>OverflowError\<close>. The rounding of the
  digits beyond the precision of a double is left out.
\<close>

fun drop_underscores :: "bool \<Rightarrow> string \<Rightarrow> string option" where
  "drop_underscores after_digit [] = Some []"
| "drop_underscores after_digit (c # cs) =
     (if c = CHR ''_''
      then (case cs of d # ds \<Rightarrow> if after_digit \<and> py_isdigit d then drop_underscores False cs else None | [] \<Rightarrow> None)
      else map_option ((#) c) (drop_underscores (py_isdigit c) cs))"

definition digits_value :: "string \<Rightarrow> int" where
  "digits_value ds = foldl (\<lambda>n c. 10 * n + int (of_char c - 48)) 0 ds"

definition split_sign :: "string \<Rightarrow> bool \<times> string" where
  "split_sign s = (case s of c # cs \<Rightarrow> if c = CHR ''-'' then (True, cs) else if c = CHR ''+'' then (False, cs) else (False, s) | [] \<Rightarrow> (False, []))"

definition scaled :: "int \<Rightarrow> int \<Rightarrow> int" where
  "scaled m e = (if 0 \<le> e then m * 10 ^ nat e else m div 10 ^ nat (- e))"

definition mantissa_value :: "string \<Rightarrow> int \<Rightarrow> py_error + int" where
  "mantissa_value s e =
     (let ip = takeWhile py_isdigit s; rest = dropWhile py_isdigit s
      in if rest \<noteq> [] \<and> hd rest \<noteq> CHR ''.'' \<or> \<not> list_all py_isdigit (tl rest) \<or> ip @ tl rest = []
         then Inl (ValueError ''could not convert string to float'')
         else (let v = scaled (digits_value (ip @ tl rest)) (e - int (length (tl rest)))
               in if 2 ^ 1024 - 2 ^ 970 \<le> v then Inl (OverflowError ''cannot convert float infinity to integer'') else Inr v))"

definition float_text_to_int :: "string \<Rightarrow> py_error + int" where
  "float_text_to_int t =
     (case drop_underscores False (py_lower (py_strip t)) of
        None \<Rightarrow> Inl (ValueError ''could not convert string to float'')
      | Some s \<Rightarrow>
          (let (neg, u) = split_sign s; signed = (\<lambda>v. if neg then - v else v)
           in if u \<in> set [''inf'', ''infinity''] then Inl (OverflowError ''cannot convert float infinity to integer'')
              else if u = ''nan'' then Inl (ValueError ''cannot convert float NaN to integer'')
              else case split_once ''e'' u of
                     None \<Rightarrow> res_bind (mantissa_value u 0) (\<lambda>v. Inr (signed v))
                   | Some (m, x) \<Rightarrow>
                       (let (xneg, ds) = split_sign x
                        in if ds = [] \<or> \<not> list_all py_isdigit ds then Inl (ValueError ''could not convert string to float'')
                           else res_bind (mantissa_value m (if xneg then - digits_value ds else digits_value ds)) (\<lambda>v. Inr (signed v)))))"

definition timestamp_int :: "json \<Rightarrow> py_error + int" where
  "timestamp_int v =
     (case v of JInt i \<Rightarrow> Inr i | JBool b \<Rightarrow> Inr (if b then 1 else 0) | JFloat h \<Rightarrow> Inr (if h < 0 then - (- h div 100) else h div 100)
      | JStr t \<Rightarrow> float_text_to_int t | _ \<Rightarrow> Inl (TypeError ''float() argument must be a string or a real number''))"

fun first_set :: "string list \<Rightarrow> json_object \<Rightarrow> json" where
  "first_set [] d = JNull"
| "first_set (k # ks) d = (if jget k d \<noteq> JNull then jget k d else first_set ks d)"

fun first_header :: "string list \<Rightarrow> http_request \<Rightarrow> string option" where
  "first_header [] rq = None"
| "first_header (h # hs) rq = (if truthy (header rq h) then header rq h else first_header hs rq)"

text \<open>The handlers pass no names, so the default headers and keys are looked at. A missing time, and a zero, is accepted.\<close>

definition verify_replay_timestamp :: "int \<Rightarrow> http_request \<Rightarrow> json \<Rightarrow> int \<Rightarrow> py_error + bool" where
  "verify_replay_timestamp now rq payload max_age =
     (let h = first_header [''X-Webhook-Timestamp'', ''X-Aikido-Webhook-Timestamp''] rq
      in res_bind
           (if truthy h then Inr (opt_json h)
            else if py_truth payload
            then (if is_dict payload
                  then Inr (first_set [''dispatched_at'', ''created_at'', ''timestamp'', ''webhookTimestamp''] (as_dict payload))
                  else Inl (AttributeError ''get''))
            else Inr JNull)
           (\<lambda>ts_val.
              if \<not> py_truth ts_val then Inr True
              else case timestamp_int ts_val of
                     Inl (ValueError t) \<Rightarrow> Inr False
                   | Inl (TypeError t) \<Rightarrow> Inr False
                   | Inl e \<Rightarrow> Inl e
                   | Inr t \<Rightarrow> (let ts = (if 10 ^ 12 < t then t div 1000 else t) in Inr (\<bar>now - ts\<bar> \<le> max_age))))"

section \<open>webhooks/aikido.py\<close>

datatype web_reply = Response nat string | Reply json_object

definition get_nested :: "json \<Rightarrow> string \<Rightarrow> json" where
  "get_nested obj k = (if is_dict obj then jget k (as_dict obj) else JNull)"

definition aikido_issue :: "json \<Rightarrow> py_error + json" where
  "aikido_issue data =
     res_bind (dyn_get data ''issue'')
       (\<lambda>i. if py_truth i then Inr i
            else res_bind (dyn_get (jget_default ''payload'' (JObj []) (as_dict data)) ''issue'') (\<lambda>j. Inr (jor j data)))"

definition schema_text :: "string \<Rightarrow> string" where
  "schema_text t = sanitize_untrusted_text t"

definition minimal_finding :: "string \<Rightarrow> string \<Rightarrow> string \<Rightarrow> string option \<Rightarrow> string \<Rightarrow> string option \<Rightarrow> vat_finding option" where
  "minimal_finding cve_id sev description component title source_issue_id =
     (let cve = schema_text cve_id; desc = schema_text description; comp = map_option schema_text component;
          ttl = schema_text title; sid = map_option schema_text source_issue_id
      in if cve = [] \<or> 128 < length cve \<or> 10000 < length desc \<or> 512 < length (or_empty comp) \<or> 512 < length ttl \<or>
            128 < length (or_empty sid) then None
         else Some
           \<lparr>vf_cve_id = schema_cve_id cve, vf_severity = schema_severity (schema_text sev), vf_description = desc, vf_component = comp,
            vf_component_base = None, vf_image = None, vf_branch = None, vf_tag = None, vf_image_digest = None, vf_file_path = None,
            vf_line = None, vf_snippet_masked = None, vf_rule_id = None, vf_cwe_id = None, vf_ecosystem = None,
            vf_source_issue_id = sid, vf_title = Some ttl, vf_finding_type = SCA, vf_benchmark_id = None, vf_benchmark_family = None,
            vf_profile_scope = None, vf_stable_rule_key = None, vf_partial_fingerprints = [], vf_scanner_identity = None,
            vf_license_expression = None, vf_observed_container_tags = None, vf_source_file_url = None, vf_secret_type = None,
            vf_resource = None, vf_source_issue_group_id = None, vf_source_issue_url = None, vf_status = None,
            vf_first_detected_at = None, vf_closed_at = None, vf_cvss = None, vf_epss = None, vf_risk_scoring = JNull,
            vf_team = None, vf_owner = None, vf_content_version = None, vf_result_state = None,
            vf_needs_family_classification = False\<rparr>)"

definition fallback_to_vat :: "json \<Rightarrow> vat_finding option" where
  "fallback_to_vat data =
     (case aikido_issue data of
        Inl e \<Rightarrow> None
      | Inr issue \<Rightarrow>
          (let n = get_nested issue;
               cve_id = py_str (jor (jor (jor (n ''cveId'') (n ''cve_id'')) (n ''id'')) (JStr ''unknown''));
               comp = py_str (jor (jor (jor (n ''component'') (n ''package'')) (n ''component_base'')) (JStr []));
               comp1 = (if comp \<noteq> [] \<and> py_truth (n ''version'') then comp @ '' '' @ py_str (n ''version'') else comp);
               sev = py_lower (py_str (jor (jor (n ''severity'') (n ''criticality'')) (JStr ''medium'')));
               raw_id = jor (n ''id'') (n ''issue_id'')
           in minimal_finding cve_id sev (py_str (jor (n ''description'') (JStr []))) (nonempty comp1)
                (py_str (jor (jor (n ''title'') (n ''name'')) (JStr cve_id)))
                (if raw_id = JNull then None else Some (py_str raw_id))))"

definition aikido_configured :: "json_object \<Rightarrow> bool" where
  "aikido_configured creds = (py_truth (jget ''client_id'' creds) \<and> py_truth (jget ''client_secret'' creds))"

record aikido_side =
  ak_supports_inbound_sync :: bool
  ak_to_vat_finding :: "json \<Rightarrow> py_error + vat_finding"

text \<open>What an \<open>issue.closed\<close> is looked up by: CVE, component, image, branch, tag and the vendor's issue id.\<close>

definition closed_identity :: "aikido_side \<Rightarrow> json \<Rightarrow> py_error + (string \<times> string \<times> string \<times> string \<times> string \<times> string)" where
  "closed_identity A data =
     (case ak_to_vat_finding A data of
        Inr p \<Rightarrow> Inr (vf_cve_id p, component_or_base p, or_empty (vf_image p), or_empty (vf_branch p), or_empty (vf_tag p),
                      py_strip (or_empty (vf_source_issue_id p)))
      | Inl _ \<Rightarrow>
          res_bind (aikido_issue data) (\<lambda>issue.
            if \<not> is_dict issue then Inl (AttributeError ''get'')
            else (let n = get_nested issue
                  in Inr (py_str (jor (jor (jor (n ''cveId'') (n ''cve_id'')) (n ''id'')) (JStr ''unknown'')),
                          py_str (jor (jor (jor (n ''component'') (n ''package'')) (n ''component_base'')) (JStr [])), [], [], [],
                          py_strip (py_str (jor (jor (n ''id'') (n ''issue_id'')) (JStr [])))))))"

definition closed_target ::
  "(string \<Rightarrow> string) \<Rightarrow> string \<times> string \<times> string \<times> string \<times> string \<times> string \<Rightarrow> session \<Rightarrow> py_error + finding option" where
  "closed_target H = (\<lambda>(cve_id, component, image, branch, tag, sid) s.
     case (if sid \<noteq> [] then find_finding_by_external_id s ''Aikido'' sid else None) of
       Some f \<Rightarrow> Inr (Some f)
     | None \<Rightarrow>
         (case filter (\<lambda>f. f_fingerprint_id f = make_fingerprint H cve_id component (Some image) (Some branch) (Some tag) None) (s_findings s) of
            [] \<Rightarrow> Inr None | [f] \<Rightarrow> Inr (Some f) | _ \<Rightarrow> Inl MultipleResultsFound))"

definition close_finding :: "env \<Rightarrow> string option \<Rightarrow> string \<Rightarrow> finding \<Rightarrow> session \<Rightarrow> session" where
  "close_finding E aikido_source_id cve_id f s =
     (let (now, s1) = utcnow E s
      in put_finding (f\<lparr>f_status := Resolved,
           f_aikido_source_id := (if truthy aikido_source_id \<and> \<not> truthy (f_aikido_source_id f) then aikido_source_id else f_aikido_source_id f),
           f_audit := f_audit f @ [JObj [(''ts'', JStr (strftime_z now)), (''user'', JStr ''system''),
             (''action'', JStr ''Closed via Aikido issue.closed''), (''note'', JStr (''Aikido reported issue closed for '' @ cve_id))]]\<rparr>) s1)"

definition reply_duplicate :: "json \<Rightarrow> web_reply" where
  "reply_duplicate event = Reply [(''received'', JBool True), (''event'', event), (''duplicate'', JBool True)]"

definition aikido_closed ::
  "env \<Rightarrow> aikido_side \<Rightarrow> string option \<Rightarrow> string \<Rightarrow> json \<Rightarrow> json \<Rightarrow> web_state \<Rightarrow> py_error + (web_reply \<times> web_state)" where
  "aikido_closed E A aikido_source_id key event data w =
     res_bind (closed_identity A data) (\<lambda>ident.
     res_bind (claim_webhook (env_sha256 E) key ''aikido'' event data w) (\<lambda>(claimed, w1).
       if \<not> claimed then Inr (reply_duplicate event, w)
       else res_bind (closed_target (env_sha256 E) ident (w_session w1)) (\<lambda>existing.
         case existing of
           Some f \<Rightarrow> Inr (Reply [(''received'', JBool True), (''event'', event), (''finding_id'', JStr (f_id f)), (''status'', JStr ''Resolved'')],
                          w1\<lparr>w_session := close_finding E aikido_source_id (fst ident) f (w_session w1)\<rparr>)
         | None \<Rightarrow> Inr (Reply [(''received'', JBool True), (''event'', event), (''finding_id'', JNull)], w1))))"

definition aikido_trace_id :: "(string \<Rightarrow> string) \<Rightarrow> string option \<Rightarrow> json_object \<Rightarrow> string" where
  "aikido_trace_id H source_id issue =
     (let issue_id = py_str (jor (jor (jget ''id'' issue) (jget ''issue_id'' issue)) (JStr ''unknown''))
      in take 32 (H (''aikido-sync:'' @ or_empty (py_or source_id (Some ''default'')) @ '':'' @ issue_id)))"

definition aikido_issue_trace_id :: "(string \<Rightarrow> string) \<Rightarrow> string option \<Rightarrow> json_object \<Rightarrow> string" where
  "aikido_issue_trace_id H source_id issue = aikido_trace_id H source_id issue"

definition aikido_payload :: "aikido_side \<Rightarrow> json \<Rightarrow> py_error + vat_finding" where
  "aikido_payload A data =
     (case ak_to_vat_finding A data of
        Inr p \<Rightarrow> Inr p | Inl e \<Rightarrow> (case fallback_to_vat data of Some p \<Rightarrow> Inr p | None \<Rightarrow> Inl e))"

definition aikido_upsert ::
  "env \<Rightarrow> aikido_side \<Rightarrow> json_object \<Rightarrow> string option \<Rightarrow> string \<Rightarrow> json \<Rightarrow> json \<Rightarrow> web_state \<Rightarrow> py_error + (web_reply \<times> web_state)" where
  "aikido_upsert E A creds aikido_source_id key event data w =
     res_bind (aikido_payload A data) (\<lambda>payload.
       let own = jget ''issue'' (as_dict data); traced = (if is_dict own \<and> py_truth own then own else data);
           trace_id = aikido_issue_trace_id (env_sha256 E) aikido_source_id (as_dict traced)
       in res_bind (dyn_strip (jor (jget ''tenant_id'' creds) (JStr []))) (\<lambda>tenant.
          res_bind (claim_webhook (env_sha256 E) key ''aikido'' event data w) (\<lambda>(claimed, w1).
            if \<not> claimed then Inr (reply_duplicate event, w)
            else res_bind (ingest_finding E
                   \<lparr>ia_source_name = ''Aikido'', ia_tenant_id = Some (normalize_tenant_id (Some tenant)), ia_aikido_source_id = aikido_source_id,
                    ia_trace_id = Some trace_id, ia_parser_id = Some ''aikido'', ia_scan_session_id = None, ia_scanner_version = None,
                    ia_raw_evidence_ref = None, ia_force_tag_override = False, ia_cluster_id = None\<rparr> payload (w_session w1))
                   (\<lambda>(f, created, s). Inr (Reply [(''received'', JBool True), (''event'', event), (''finding_id'', JStr (f_id f)),
                                                   (''created'', JBool created)], w1\<lparr>w_session := s\<rparr>)))))"

definition delivery_event :: "json_object \<Rightarrow> json" where
  "delivery_event d = jor (jor (jget ''event'' d) (jget ''event_type'' d)) (JStr ''unknown'')"

definition delivery_time :: "json_object \<Rightarrow> json" where
  "delivery_time d = jor (jor (jor (jget ''dispatched_at'' d) (jget ''created_at'' d)) (jget ''timestamp'' d)) (JStr [])"

definition delivery_key :: "(string \<Rightarrow> string) \<Rightarrow> json \<Rightarrow> json_object \<Rightarrow> string" where
  "delivery_key H issue d =
     compute_idempotency_key H ''aikido'' (py_str (delivery_event d))
       [py_str (jor (jor (get_nested issue ''id'') (get_nested issue ''issue_id'')) (JStr [])), py_str (delivery_time d)]"

definition handle_aikido_delivery ::
  "env \<Rightarrow> aikido_side \<Rightarrow> json_object \<Rightarrow> string option \<Rightarrow> json \<Rightarrow> web_state \<Rightarrow> py_error + (web_reply \<times> web_state)" where
  "handle_aikido_delivery E A creds aikido_source_id data w =
     (if \<not> is_dict data then Inl (AttributeError ''get'')
      else res_bind (aikido_issue data) (\<lambda>issue.
        let d = as_dict data; event = delivery_event d; key = delivery_key (env_sha256 E) issue d
        in if is_duplicate_webhook w key then Inr (reply_duplicate event, w)
           else if \<not> ak_supports_inbound_sync A
           then res_bind (record_webhook_processed (env_sha256 E) key ''aikido'' event data JNull w) (\<lambda>w1.
                  Inr (Reply [(''received'', JBool True), (''event'', event), (''skipped'', JStr ''adapter does not support inbound sync'')], w1))
           else if event = JStr ''issue.closed'' then aikido_closed E A aikido_source_id key event data w
           else aikido_upsert E A creds aikido_source_id key event data w))"

definition handle_aikido_webhook ::
  "env \<Rightarrow> (string \<Rightarrow> string \<Rightarrow> string) \<Rightarrow> aikido_side \<Rightarrow> int \<Rightarrow> json_object \<Rightarrow> string option \<Rightarrow> http_request \<Rightarrow> web_state \<Rightarrow>
   py_error + (web_reply \<times> web_state)" where
  "handle_aikido_webhook E hmac A now creds aikido_source_id rq w =
     (let secret = jget ''webhook_secret'' creds
      in if \<not> aikido_configured creds then Inr (Response 503 ''Aikido not configured'', w)
         else if \<not> py_truth secret then Inr (Response 503 ''Aikido webhook secret not configured'', w)
         else res_bind (verify_hmac hmac secret (rq_body rq) (header rq ''X-Aikido-Webhook-Signature'')) (\<lambda>ok.
           if \<not> ok then Inr (Response 401 ''Invalid signature'', w)
           else case rq_json rq of
                  None \<Rightarrow> Inr (Response 400 ''Invalid JSON'', w)
                | Some data \<Rightarrow>
                    res_bind (verify_replay_timestamp now rq data 30) (\<lambda>fresh.
                      if \<not> fresh then Inr (Response 401 ''Replay: timestamp too old or invalid'', w)
                      else handle_aikido_delivery E A creds aikido_source_id data w)))"

definition aikido_webhook_per_source where
  "aikido_webhook_per_source E hmac A now cfg kv source_id rq w =
     handle_aikido_webhook E hmac A now (get_aikido_credentials cfg kv (Some source_id) True) (Some source_id) rq w"

definition aikido_webhook where
  "aikido_webhook E hmac A now cfg kv rq w =
     handle_aikido_webhook E hmac A now (get_aikido_credentials cfg kv None False) None rq w"

section \<open>What a delivery changes\<close>

lemma seen_session [simp]: "seen key (w\<lparr>w_session := s\<rparr>) = seen key w"
  by (simp add: seen_def)

lemma insert_event_cases:
  assumes "insert_event H key source ev payload result w = Inr (b, w1)"
  shows "w_session w1 = w_session w \<and> seen key w1 \<and> (b \<longleftrightarrow> \<not> seen key w) \<and> (\<not> b \<longrightarrow> w1 = w)"
  using assms by (auto simp: insert_event_def seen_def split: if_splits)

lemmas claim_cases = insert_event_cases[where result = JNull, folded claim_webhook_def]

lemma closed_cases:
  assumes "aikido_closed E A src key event data w = Inr (r, w1)"
  shows "w1 = w \<or> \<not> seen key w \<and> seen key w1"
  using assms by (auto simp: aikido_closed_def res_bind_Inr dest!: claim_cases split: if_splits option.splits)

lemma upsert_cases:
  assumes "aikido_upsert E A creds src key event data w = Inr (r, w1)"
  shows "w1 = w \<or> \<not> seen key w \<and> seen key w1"
  using assms by (auto simp: aikido_upsert_def res_bind_Inr Let_def dest!: claim_cases split: if_splits)

lemma delivery_cases:
  assumes "handle_aikido_delivery E A creds src data w = Inr (r, w1)" "w1 \<noteq> w"
  obtains issue where "is_dict data" "aikido_issue data = Inr issue"
    "\<not> seen (delivery_key (env_sha256 E) issue (as_dict data)) w" "seen (delivery_key (env_sha256 E) issue (as_dict data)) w1"
proof -
  from assms(1) obtain issue where i: "is_dict data" "aikido_issue data = Inr issue"
    by (auto simp: handle_aikido_delivery_def res_bind_Inr split: if_splits)
  let ?key = "delivery_key (env_sha256 E) issue (as_dict data)"
  have "w1 = w \<or> \<not> seen ?key w \<and> seen ?key w1"
    using assms(1) i
    by (auto simp: handle_aikido_delivery_def record_webhook_processed_def is_duplicate_webhook_def Let_def res_bind_Inr
        dest: closed_cases upsert_cases insert_event_cases split: if_splits)
  with assms(2) i show thesis by (auto intro: that)
qed

lemma delivery_seen:
  assumes "is_dict data" "aikido_issue data = Inr issue" "seen (delivery_key (env_sha256 E) issue (as_dict data)) w"
  shows "handle_aikido_delivery E A creds src data w = Inr (reply_duplicate (delivery_event (as_dict data)), w)"
  using assms by (simp add: handle_aikido_delivery_def is_duplicate_webhook_def Let_def)

lemma webhook_cases:
  assumes "handle_aikido_webhook E hmac A now creds src rq w = Inr (r, w1)" "w1 \<noteq> w"
  obtains data where "rq_json rq = Some data" "handle_aikido_delivery E A creds src data w = Inr (r, w1)"
    "py_truth (jget ''webhook_secret'' creds)"
    "verify_hmac hmac (jget ''webhook_secret'' creds) (rq_body rq) (header rq ''X-Aikido-Webhook-Signature'') = Inr True"
    "verify_replay_timestamp now rq data 30 = Inr True"
  using assms by (auto simp: handle_aikido_webhook_def Let_def res_bind_Inr split: if_splits option.splits)

lemma seen_mono: "seen key w \<Longrightarrow> set (w_events w) \<subseteq> set (w_events w') \<Longrightarrow> seen key w'"
  by (auto simp: seen_def list_ex_iff)

text \<open>C19. A delivery takes effect once: when it has changed the stored data, a repetition of the same request changes nothing, at
  any later time, with any later credentials and whatever has been stored in between.\<close>

theorem delivered_once:
  assumes "handle_aikido_webhook E hmac A now creds src rq w = Inr (r, w1)" "w1 \<noteq> w"
    and "set (w_events w1) \<subseteq> set (w_events w2)" "env_sha256 E' = env_sha256 E"
    and "handle_aikido_webhook E' hmac' A' now' creds' src' rq w2 = Inr (r', w3)"
  shows "w3 = w2"
proof (rule ccontr)
  assume "w3 \<noteq> w2"
  with assms(5) obtain data where d: "rq_json rq = Some data" "handle_aikido_delivery E' A' creds' src' data w2 = Inr (r', w3)"
    by (rule webhook_cases)
  from assms(1,2) d(1) have "handle_aikido_delivery E A creds src data w = Inr (r, w1)"
    by (auto elim!: webhook_cases)
  with assms(2) obtain issue where i: "is_dict data" "aikido_issue data = Inr issue"
    "seen (delivery_key (env_sha256 E) issue (as_dict data)) w1"
    by (auto elim!: delivery_cases)
  with assms(3,4) have "seen (delivery_key (env_sha256 E') issue (as_dict data)) w2"
    by (auto intro: seen_mono)
  with i d(2) \<open>w3 \<noteq> w2\<close> show False by (simp add: delivery_seen)
qed

lemma verified:
  assumes "verify_hmac hmac secret body sig = Inr True"
  obtains key s where "secret = JStr key" "key \<noteq> []" "sig = Some s" "py_strip s = hmac key body \<or> py_strip s = ''sha256='' @ hmac key body"
  using assms by (cases secret; cases sig) (auto simp: verify_hmac_def Let_def py_truth_def truthy_def or_empty_def split: if_splits)

text \<open>C18. Only the holder of the secret changes anything: a request that changes the stored data carries the HMAC of its body under
  the configured secret, is fresh, and was not handled before.\<close>

theorem webhook_authorised:
  assumes "handle_aikido_webhook E hmac A now creds src rq w = Inr (r, w1)" "w1 \<noteq> w"
  shows "\<exists>key sig data issue. jget ''webhook_secret'' creds = JStr key \<and> key \<noteq> [] \<and>
    header rq ''X-Aikido-Webhook-Signature'' = Some sig \<and>
    (py_strip sig = hmac key (rq_body rq) \<or> py_strip sig = ''sha256='' @ hmac key (rq_body rq)) \<and>
    rq_json rq = Some data \<and> verify_replay_timestamp now rq data 30 = Inr True \<and>
    aikido_issue data = Inr issue \<and> \<not> seen (delivery_key (env_sha256 E) issue (as_dict data)) w"
proof -
  from assms obtain data where d: "rq_json rq = Some data" "handle_aikido_delivery E A creds src data w = Inr (r, w1)"
    "verify_hmac hmac (jget ''webhook_secret'' creds) (rq_body rq) (header rq ''X-Aikido-Webhook-Signature'') = Inr True"
    "verify_replay_timestamp now rq data 30 = Inr True"
    by (rule webhook_cases)
  from d(3) obtain key sig where k: "jget ''webhook_secret'' creds = JStr key" "key \<noteq> []"
    "header rq ''X-Aikido-Webhook-Signature'' = Some sig"
    "py_strip sig = hmac key (rq_body rq) \<or> py_strip sig = ''sha256='' @ hmac key (rq_body rq)"
    by (rule verified)
  from d(2) assms(2) obtain issue where "aikido_issue data = Inr issue"
    "\<not> seen (delivery_key (env_sha256 E) issue (as_dict data)) w"
    by (rule delivery_cases)
  with d k show ?thesis by blast
qed

section \<open>Closing a finding\<close>

definition closed_finding :: "datetime \<Rightarrow> string option \<Rightarrow> string \<Rightarrow> finding \<Rightarrow> finding" where
  "closed_finding now src cve f =
     f\<lparr>f_status := Resolved,
       f_aikido_source_id := (if truthy src \<and> \<not> truthy (f_aikido_source_id f) then src else f_aikido_source_id f),
       f_audit := f_audit f @ [JObj [(''ts'', JStr (strftime_z now)), (''user'', JStr ''system''),
         (''action'', JStr ''Closed via Aikido issue.closed''), (''note'', JStr (''Aikido reported issue closed for '' @ cve))]]\<rparr>"

lemma close_finding_effect:
  assumes "get_finding (f_id f) s = Some f"
  shows "\<exists>now. get_finding (f_id f) (close_finding E src cve f s) = Some (closed_finding now src cve f)"
    and "s_decisions (close_finding E src cve f s) = s_decisions s"
proof -
  let ?g = "closed_finding (env_clock E (s_clk s)) src cve f"
  have "close_finding E src cve f s = put_finding ?g (s\<lparr>s_clk := Suc (s_clk s)\<rparr>)"
    by (simp add: close_finding_def utcnow_def closed_finding_def)
  moreover have "f_id ?g = f_id f" by (simp add: closed_finding_def)
  ultimately show "\<exists>now. get_finding (f_id f) (close_finding E src cve f s) = Some (closed_finding now src cve f)"
    using stored_put[OF assms, of ?g] by (auto simp: put_finding_def)
  show "s_decisions (close_finding E src cve f s) = s_decisions s"
    by (simp add: close_finding_def utcnow_def put_finding_def)
qed

text \<open>C22. An \<open>issue.closed\<close> takes a finding out of the reviewer's hands: whatever its status was, it becomes Resolved,
  the status before is not remembered, the decision ledger is not told, and a finding without an earlier status cannot be
  reverted.\<close>

theorem closing_forgets_the_review:
  assumes "closed_identity A data = Inr who" "closed_target (env_sha256 E) who (w_session w) = Inr (Some f)"
    and "get_finding (f_id f) (w_session w) = Some f" "\<not> seen key w"
  shows "\<exists>r w1 f1. aikido_closed E A src key (JStr ''issue.closed'') data w = Inr (r, w1) \<and>
    get_finding (f_id f) (w_session w1) = Some f1 \<and> f_status f1 = Resolved \<and> f_previous_status f1 = f_previous_status f \<and>
    s_decisions (w_session w1) = s_decisions (w_session w) \<and>
    (f_previous_status f = None \<longrightarrow> revert_finding E C (f_id f) reason user (w_session w1) = Inr (None, w_session w1))"
proof -
  obtain w1 where c: "claim_webhook (env_sha256 E) key ''aikido'' (JStr ''issue.closed'') data w = Inr (True, w1)" "w_session w1 = w_session w"
    using assms(4) by (auto simp: claim_webhook_def insert_event_def valid_event_type_def)
  let ?w = "w1\<lparr>w_session := close_finding E src (fst who) f (w_session w1)\<rparr>"
  obtain r where "aikido_closed E A src key (JStr ''issue.closed'') data w = Inr (r, ?w)"
    by (simp add: aikido_closed_def assms(1,2) c)
  moreover obtain now where "get_finding (f_id f) (w_session ?w) = Some (closed_finding now src (fst who) f)"
    using close_finding_effect(1)[OF assms(3), of E src "fst who"] c(2) by auto
  moreover have "s_decisions (w_session ?w) = s_decisions (w_session w)"
    using close_finding_effect(2)[OF assms(3)] c(2) by simp
  ultimately show ?thesis
    by (intro exI[of _ r] exI[of _ ?w] exI[of _ "closed_finding now src (fst who) f"])
      (simp add: closed_finding_def revert_finding_def truthy_def or_empty_def)
qed

text \<open>Two deliveries without a time that name the same event and issue have one key, so only the first is handled.\<close>

lemma undated_deliveries_collide:
  assumes "delivery_time d1 = JStr []" "delivery_time d2 = JStr []" "delivery_event d1 = delivery_event d2"
    and "jor (get_nested i1 ''id'') (get_nested i1 ''issue_id'') = jor (get_nested i2 ''id'') (get_nested i2 ''issue_id'')"
  shows "delivery_key H i1 d1 = delivery_key H i2 d2"
  using assms by (simp add: delivery_key_def)

section \<open>Witnesses\<close>

definition demo_web_env :: env where
  "demo_web_env = demo_import_env\<lparr>env_sha256 := (\<lambda>x. x)\<rparr>"

definition demo_web_adapter :: aikido_side where
  "demo_web_adapter = \<lparr>ak_supports_inbound_sync = True, ak_to_vat_finding = (\<lambda>_. Inl (KeyError ''issue''))\<rparr>"

definition demo_web_creds :: json_object where
  "demo_web_creds = [(''client_id'', JStr ''c''), (''client_secret'', JStr ''s''), (''webhook_secret'', JStr ''k'')]"

definition demo_web_data :: json where
  "demo_web_data = JObj [(''event'', JStr ''issue.closed''), (''issue'', JObj [(''id'', JStr ''7'')]), (''dispatched_at'', JStr ''100'')]"

definition demo_web_request :: http_request where
  "demo_web_request = \<lparr>rq_headers = [(''x-aikido-webhook-signature'', ''sha256=ok'')], rq_body = ''b'', rq_json = Some demo_web_data\<rparr>"

definition demo_web_state :: "finding list \<Rightarrow> web_state" where
  "demo_web_state fs = \<lparr>w_session = empty_session\<lparr>s_findings := fs\<rparr>, w_events = []\<rparr>"

definition demo_web_linked :: finding where
  "demo_web_linked = demo_finding\<lparr>f_external_links := [JObj [(''adapter_key'', JStr ''Aikido''), (''issue_id'', JStr ''7'')]]\<rparr>"

abbreviation demo_deliver where
  "demo_deliver \<equiv> handle_aikido_webhook demo_web_env (\<lambda>k b. ''ok'') demo_web_adapter 110 demo_web_creds None demo_web_request"

lemma demo_deliver_runs:
  "case demo_deliver (demo_web_state []) of Inr (r, w1) \<Rightarrow> length (w_events w1) = 1 \<and>
     (case demo_deliver w1 of Inr (r', w2) \<Rightarrow> length (w_events w2) = 1 | _ \<Rightarrow> False) | _ \<Rightarrow> False"
  by code_simp

lemma demo_delivered:
  obtains r w1 r' w2 where "demo_deliver (demo_web_state []) = Inr (r, w1)" "w1 \<noteq> demo_web_state []" "demo_deliver w1 = Inr (r', w2)"
proof -
  from demo_deliver_runs obtain r w1 where a: "demo_deliver (demo_web_state []) = Inr (r, w1)"
    by (auto split: sum.splits)
  with demo_deliver_runs have l: "length (w_events w1) = 1" by simp
  from demo_deliver_runs a obtain r' w2 where b: "demo_deliver w1 = Inr (r', w2)"
    by (cases "demo_deliver w1") auto
  from l have "w1 \<noteq> demo_web_state []" by (auto simp: demo_web_state_def)
  from a this b show thesis by (rule that)
qed

theorem delivered_once_witness:
  "\<exists>r w1 r'. demo_deliver (demo_web_state []) = Inr (r, w1) \<and> w1 \<noteq> demo_web_state [] \<and> demo_deliver w1 = Inr (r', w1)"
proof -
  obtain r w1 r' w2 where d: "demo_deliver (demo_web_state []) = Inr (r, w1)" "w1 \<noteq> demo_web_state []" "demo_deliver w1 = Inr (r', w2)"
    by (rule demo_delivered)
  with delivered_once[OF d(1,2) subset_refl refl d(3)] show ?thesis by auto
qed

theorem webhook_authorised_witness:
  "\<exists>key sig data issue. jget ''webhook_secret'' demo_web_creds = JStr key \<and> key \<noteq> [] \<and>
    header demo_web_request ''X-Aikido-Webhook-Signature'' = Some sig \<and>
    (py_strip sig = ''ok'' \<or> py_strip sig = ''sha256='' @ ''ok'') \<and>
    rq_json demo_web_request = Some data \<and> verify_replay_timestamp 110 demo_web_request data 30 = Inr True \<and>
    aikido_issue data = Inr issue \<and> \<not> seen (delivery_key (env_sha256 demo_web_env) issue (as_dict data)) (demo_web_state [])"
proof -
  obtain r w1 where d: "demo_deliver (demo_web_state []) = Inr (r, w1)" "w1 \<noteq> demo_web_state []"
    by (rule demo_delivered)
  from webhook_authorised[OF d] show ?thesis .
qed

lemma demo_closed_identity: "closed_identity demo_web_adapter demo_web_data = Inr (''7'', [], [], [], [], ''7'')"
  by code_simp

lemma demo_closed_target:
  "closed_target (env_sha256 demo_web_env) (''7'', [], [], [], [], ''7'') (w_session (demo_web_state [demo_web_linked])) = Inr (Some demo_web_linked)"
proof -
  have "links_contain ''Aikido'' ''7'' (f_external_links demo_web_linked)" by code_simp
  then show ?thesis by (simp add: closed_target_def find_finding_by_external_id_def demo_web_state_def latest_by_def)
qed

theorem closing_forgets_the_review_witness:
  "\<exists>r w1 f1. aikido_closed demo_web_env demo_web_adapter None ''x'' (JStr ''issue.closed'') demo_web_data (demo_web_state [demo_web_linked]) = Inr (r, w1) \<and>
    get_finding ''F-1'' (w_session w1) = Some f1 \<and> f_status f1 = Resolved \<and> f_status demo_web_linked = RiskAccepted \<and>
    revert_finding demo_web_env demo_conf ''F-1'' ''mistake'' ''alice'' (w_session w1) = Inr (None, w_session w1)"
proof -
  have g: "get_finding (f_id demo_web_linked) (w_session (demo_web_state [demo_web_linked])) = Some demo_web_linked"
    by (simp add: get_finding_def demo_web_state_def)
  have s: "\<not> seen ''x'' (demo_web_state [demo_web_linked])" by (simp add: seen_def demo_web_state_def)
  have "f_id demo_web_linked = ''F-1''" "f_status demo_web_linked = RiskAccepted" "f_previous_status demo_web_linked = None"
    by (simp_all add: demo_web_linked_def demo_finding_def)
  with closing_forgets_the_review[OF demo_closed_identity demo_closed_target g s,
      where src = None and C = demo_conf and reason = "''mistake''" and user = "''alice''"] show ?thesis by auto
qed

end
