(* ===== verification/Vat_Inbound.thy ===== *)
theory Vat_Inbound
  imports Vat_Webhooks
begin

text \<open>
  The inbound side of the tracker: \<open>api/webhooks/linear.py\<close> with \<open>services/linear_parsed_service.py\<close>,
  \<open>services/tracker_issue_closed.py\<close> and \<open>services/watched_label_inject.py\<close>. A comment or an edited description that
  contains a decision block updates the linked finding, an issue that is closed without one is reopened, and labels or
  removed templates make the service post its template. The reading of a block (\<open>_parse_vat_block\<close>, which
  asks RapidFuzz and spaCy) and the calls to Linear are the record \<open>linear_side\<close>. Each step of a delivery has its
  own transaction, so a delivery that raises keeps the steps before; posting the canonical form of a
  block back is left out, it changes nothing that is stored.
\<close>

record vat_block =
  vb_cve_id :: string
  vb_status :: string
  vb_justification :: string
  vb_compensating_controls :: string

record linear_side =
  ls_parse_block :: "string \<Rightarrow> string option \<Rightarrow> vat_block option"
  ls_resolve_label_ids :: "string list \<Rightarrow> py_error + json list"
  ls_get_issue :: "string \<Rightarrow> py_error + json"
  ls_inject :: "string \<Rightarrow> json \<Rightarrow> string \<Rightarrow> string \<Rightarrow> sync_exc + unit"
  ls_is_state_closed :: "json \<Rightarrow> bool"
  ls_reopen_issue :: "string \<Rightarrow> py_error + bool"
  ls_supports_inbound_sync :: bool
  ls_reinject_on_removal :: bool

section \<open>linear\_parsed\_service.py\<close>

definition parse_vat_block_from_text :: "linear_side \<Rightarrow> string \<Rightarrow> vat_block option" where
  "parse_vat_block_from_text L text =
     ls_parse_block L text (case extract_cve_ids text of c # _ \<Rightarrow> Some c | [] \<Rightarrow> None)"

text \<open>The finding that a block is about: the linked one, else any one with the CVE, else the one with that id.\<close>

definition block_target :: "session \<Rightarrow> string \<Rightarrow> string \<Rightarrow> string \<Rightarrow> finding option" where
  "block_target s cve_id issue_id issue_uuid =
     (case find_finding_by_linear_issue_id_or_uuid s issue_id (nonempty issue_uuid) of
        Some f \<Rightarrow> Some f
      | None \<Rightarrow>
          (case find (\<lambda>f. f_cve_id f = cve_id) (s_findings s) of
             Some f \<Rightarrow> Some f
           | None \<Rightarrow> if cve_id \<noteq> [] \<and> length cve_id \<le> 32 then find (\<lambda>f. f_id f = cve_id) (s_findings s) else None))"

definition block_update :: "vat_block \<Rightarrow> finding_update" where
  "block_update b =
     \<lparr>fu_status = Some (Some (vb_status b)), fu_justification = Some (Some (vb_justification b)),
      fu_compensating_controls = Some (Some (vb_compensating_controls b)), fu_reviewer_note = None, fu_suppression_scope = None,
      fu_attestation = None, fu_risk_scoring = None\<rparr>"

definition inbound_user :: string where
  "inbound_user = ''security@co.com''"

definition apply_vat_parsed_update ::
  "env \<Rightarrow> sync_conf \<Rightarrow> (string \<Rightarrow> nat option) \<Rightarrow> linear_side \<Rightarrow> vat_block \<Rightarrow> string \<Rightarrow> string \<Rightarrow> string \<Rightarrow> json \<Rightarrow> json \<Rightarrow> web_state \<Rightarrow>
   py_error + (json_object \<times> web_state)" where
  "apply_vat_parsed_update E C cvss3 L b issue_id issue_uuid key event data w =
     (let head = [(''received'', JBool True), (''event'', event), (''parsed'', JBool True)];
          note = (\<lambda>result w. record_webhook_processed (env_sha256 E) key ''linear'' event data result w)
      in case block_target (w_session w) (vb_cve_id b) issue_id issue_uuid of
           None \<Rightarrow> res_bind (note JNull w) (\<lambda>w1. Inr (head @ [(''finding'', JNull)], w1))
         | Some f \<Rightarrow>
             if \<not> ls_supports_inbound_sync L
             then res_bind (note JNull w) (\<lambda>w1. Inr (head @ [(''skipped'', JStr ''adapter does not support inbound sync'')], w1))
             else res_bind (update_finding E C cvss3 (f_id f) (block_update b) inbound_user (w_session w)) (\<lambda>(_, s1).
                  res_bind (note (JObj [(''finding_id'', JStr (f_id f))]) (w\<lparr>w_session := s1\<rparr>)) (\<lambda>w1.
                    Inr (head @ [(''finding_id'', JStr (f_id f))], w1))))"

section \<open>tracker\_issue\_closed.py\<close>

definition FINDING_TERMINAL_STATUSES :: "status list" where
  "FINDING_TERMINAL_STATUSES =
     [Approved, Rejected, RiskAccepted, FalsePositive, Suppressed, NotApplicable, Mitigated, Duplicate, Resolved]"

definition closed_reply :: "bool \<Rightarrow> string option \<Rightarrow> string \<Rightarrow> json_object" where
  "closed_reply ok finding_id reason =
     [(''reopened'', JBool ok), (''finding_id'', opt_json finding_id), (''reason'', JStr reason)]"

definition handle_tracker_issue_closed_without_vat :: "linear_side \<Rightarrow> string \<Rightarrow> string \<Rightarrow> json \<Rightarrow> session \<Rightarrow> py_error + json_object" where
  "handle_tracker_issue_closed_without_vat L issue_id issue_uuid state_id s =
     (if \<not> ls_is_state_closed L state_id then Inr (closed_reply False None ''state not closed'')
      else case (case find_finding_by_external_id s ''linear'' issue_id of
                   Some f \<Rightarrow> Some f | None \<Rightarrow> find_finding_by_external_id s ''linear'' issue_uuid) of
             None \<Rightarrow> Inr (closed_reply False None ''no linked finding'')
           | Some f \<Rightarrow>
               if f_status f \<in> set FINDING_TERMINAL_STATUSES then Inr (closed_reply False (Some (f_id f)) ''finding already terminal'')
               else res_bind (ls_reopen_issue L issue_id) (\<lambda>ok.
                      Inr (if ok then closed_reply True (Some (f_id f)) ''reopened to prevent drift''
                           else closed_reply False (Some (f_id f)) ''reopen failed'')))"

section \<open>watched\_label\_inject.py\<close>

definition hashable :: "json \<Rightarrow> bool" where
  "hashable j = (case j of JList _ \<Rightarrow> False | JObj _ \<Rightarrow> False | _ \<Rightarrow> True)"

definition label_ids_from_issue :: "json \<Rightarrow> py_error + json list" where
  "label_ids_from_issue data =
     res_bind (dyn_get data ''issue'') (\<lambda>i. let issue = jor i data in
     res_bind (dyn_get issue ''labels'') (\<lambda>a. res_bind (dyn_get issue ''labelIds'') (\<lambda>b.
       let l = jor (jor a b) (JList []);
           labels = (if is_dict l \<and> map_of (as_dict l) ''nodes'' \<noteq> None then jget ''nodes'' (as_dict l) else l)
       in Inr (case labels of
                 JList xs \<Rightarrow> List.map_filter (\<lambda>x. case x of JStr t \<Rightarrow> Some x
                               | JObj d \<Rightarrow> if py_truth (jget ''id'' d) then Some (jget ''id'' d) else None | _ \<Rightarrow> None) xs
               | _ \<Rightarrow> []))))"

text \<open>\<open>k in j\<close> for a value of unknown type.\<close>

definition dyn_in :: "string \<Rightarrow> json \<Rightarrow> py_error + bool" where
  "dyn_in k j =
     (case j of JObj d \<Rightarrow> Inr (map_of d k \<noteq> None) | JList xs \<Rightarrow> Inr (JStr k \<in> set xs) | JStr t \<Rightarrow> Inr (py_in k t)
      | _ \<Rightarrow> Inl (TypeError ''argument is not iterable''))"

definition label_ids_from_updated_from :: "json \<Rightarrow> py_error + json list" where
  "label_ids_from_updated_from u =
     res_bind (dyn_get u ''labels'') (\<lambda>a. res_bind (dyn_get u ''labelIds'') (\<lambda>b.
       Inr (case jor (jor a b) (JList []) of
              JList xs \<Rightarrow> filter (\<lambda>x. case x of JStr t \<Rightarrow> True | _ \<Rightarrow> False) xs | _ \<Rightarrow> [])))"

definition either_in :: "string \<Rightarrow> string \<Rightarrow> json \<Rightarrow> py_error + bool" where
  "either_in k l j = res_bind (dyn_in k j) (\<lambda>a. if a then Inr True else dyn_in l j)"

definition injected_reply :: "linear_side \<Rightarrow> string \<Rightarrow> string \<Rightarrow> json \<Rightarrow> json \<Rightarrow> string \<Rightarrow> string \<Rightarrow> json_object" where
  "injected_reply L field issue_id shown cve_id template reason =
     (case ls_inject L issue_id cve_id template reason of
        Inr _ \<Rightarrow> [(field, JBool True), (''issue_id'', shown), (''cve_id'', cve_id)]
      | Inl e \<Rightarrow> [(field, JBool False), (''error'', JStr (exc_text e))])"

definition dyn_text :: "json \<Rightarrow> py_error + string" where
  "dyn_text j = (if \<not> py_truth j then Inr [] else case j of JStr t \<Rightarrow> Inr t | _ \<Rightarrow> Inl (TypeError ''unsupported operand type(s) for +''))"

text \<open>After the labels are known to be new: look the issue up and post the template unless it has one.\<close>

definition inject_on_issue :: "sync_conf \<Rightarrow> linear_side \<Rightarrow> json \<Rightarrow> py_error + json_object option" where
  "inject_on_issue C L data =
     (let issue_obj = jor (jget ''issue'' (as_dict data)) data
      in res_bind (dyn_get issue_obj ''identifier'') (\<lambda>ident. res_bind (dyn_get issue_obj ''id'') (\<lambda>iid.
           let issue_id = jor (jor ident iid) (jget ''issueId'' (as_dict data))
           in if \<not> py_truth issue_id then Inr None
              else res_bind (ls_get_issue L (py_str issue_id)) (\<lambda>issue.
                if \<not> py_truth issue then Inr None
                else res_bind (res_bind (dyn_get issue ''description'') dyn_text) (\<lambda>d. res_bind (res_bind (dyn_get issue ''title'') dyn_text) (\<lambda>t.
                  let desc = d @ t
                  in if py_in ''[VAT]'' desc \<and> py_in ''status:'' desc
                     then Inr (Some [(''injected'', JBool False), (''reason'', JStr ''issue already has [VAT] block'')])
                     else (let cve_id = (case extract_cve_ids desc of c # _ \<Rightarrow> JStr c
                                         | [] \<Rightarrow> jor (jget ''identifier'' (as_dict issue)) (JStr ''unknown''))
                           in Inr (Some (injected_reply L ''injected'' (py_str issue_id) issue_id cve_id
                                (get_tracker_issue_template (sc_config C) (sc_kv C)) ''watched label applied'')))))))))"

definition handle_issue_label_update :: "sync_conf \<Rightarrow> linear_side \<Rightarrow> json \<Rightarrow> json \<Rightarrow> py_error + json_object option" where
  "handle_issue_label_update C L data before =
     (let (api_key, team_id, _) = get_linear_credentials (sc_config C) (sc_kv C);
          watched = map (\<lambda>l. py_strip (py_str (jget ''name'' l))) (get_labels (sc_kv C))
      in if \<not> py_truth api_key \<or> \<not> py_truth team_id \<or> watched = [] then Inr None
         else res_bind (either_in ''labelIds'' ''labels'' before) (\<lambda>changed.
           if \<not> changed then Inr None
           else res_bind (label_ids_from_issue data) (\<lambda>current.
             if \<not> list_all hashable current then Inl (TypeError ''unhashable type'')
             else res_bind (label_ids_from_updated_from before) (\<lambda>previous.
               let added = filter (\<lambda>x. x \<notin> set previous) current
               in if added = [] then Inr None
                  else res_bind (ls_resolve_label_ids L watched) (\<lambda>ids.
                    if list_ex (\<lambda>x. x \<in> set ids) added then inject_on_issue C L data else Inr None)))))"

definition REINJECT_REASON :: string where
  "REINJECT_REASON = ''template was removed or altered '' @ [CHR 0xE2, CHR 0x80, CHR 0x94] @ '' please use the format below''"

definition handle_template_reinject :: "sync_conf \<Rightarrow> linear_side \<Rightarrow> json_object \<Rightarrow> string \<Rightarrow> string \<Rightarrow> json_object option" where
  "handle_template_reinject C L issue_obj issue_id new_description =
     (let has = (\<lambda>words. list_ex (\<lambda>k. py_in k (py_lower new_description)) words)
      in if \<not> ls_reinject_on_removal L \<or> new_description = [] \<or> parse_vat_block_from_text L new_description \<noteq> None \<or>
            has [''status:'', ''verdict:'', ''disposition:''] \<and> has [''justification:'', ''reason:'', ''rationale:''] then None
         else (let cve_id = (case extract_cve_ids new_description of c # _ \<Rightarrow> JStr c
                             | [] \<Rightarrow> jor (jget ''identifier'' issue_obj) (JStr ''unknown''))
               in Some (injected_reply L ''reinjected'' issue_id (JStr issue_id) cve_id (get_tracker_issue_template (sc_config C) (sc_kv C))
                    REINJECT_REASON)))"

section \<open>webhooks/linear.py\<close>

text \<open>A step in a session of its own: an exception rolls back, the steps before stay.\<close>

definition commit :: "(web_state \<Rightarrow> py_error + ('a \<times> web_state)) \<Rightarrow> web_state \<Rightarrow> (py_error + 'a) \<times> web_state" where
  "commit f w = (case f w of Inl e \<Rightarrow> (Inl e, w) | Inr (x, w1) \<Rightarrow> (Inr x, w1))"

definition web_bind :: "(py_error + 'a) \<times> web_state \<Rightarrow> ('a \<Rightarrow> web_state \<Rightarrow> (py_error + 'b) \<times> web_state) \<Rightarrow> (py_error + 'b) \<times> web_state" where
  "web_bind r k = (case fst r of Inl e \<Rightarrow> (Inl e, snd r) | Inr x \<Rightarrow> k x (snd r))"

definition web_pure :: "py_error + 'a \<Rightarrow> web_state \<Rightarrow> (py_error + 'a) \<times> web_state" where
  "web_pure r w = (r, w)"

text \<open>Claim the key, then run the effect; a delivery that loses the claim rolls back.\<close>

definition once ::
  "(string \<Rightarrow> string) \<Rightarrow> string \<Rightarrow> json \<Rightarrow> json \<Rightarrow> (web_state \<Rightarrow> py_error + ('a \<times> web_state)) \<Rightarrow> web_state \<Rightarrow>
   (py_error + 'a option) \<times> web_state" where
  "once H key event data f =
     commit (\<lambda>w. res_bind (claim_webhook H key ''linear'' event data w) (\<lambda>(claimed, w1).
       if claimed then res_bind (f w1) (\<lambda>(x, w2). Inr (Some x, w2)) else Inr (None, w)))"

definition text_plus :: "string \<Rightarrow> json \<Rightarrow> py_error + string" where
  "text_plus a b = (case b of JStr t \<Rightarrow> Inr (a @ t) | _ \<Rightarrow> Inl (TypeError ''can only concatenate str''))"

definition text_part :: "json \<Rightarrow> string list" where
  "text_part j = (if j = JNull then [] else [py_str j])"

record issue_delivery =
  id_data :: json
  id_body :: json
  id_issue :: json
  id_issue_id :: string
  id_uuid :: string
  id_time :: json
  id_before :: json

definition read_issue_delivery :: "json \<Rightarrow> py_error + issue_delivery" where
  "read_issue_delivery data =
     (let d = as_dict data; body = jget_default ''data'' data d
      in res_bind (dyn_get body ''issue'') (\<lambda>i. let issue = jor i body in
         res_bind (dyn_get issue ''identifier'') (\<lambda>a. res_bind (dyn_get issue ''id'') (\<lambda>b.
           Inr \<lparr>id_data = data, id_body = body, id_issue = issue,
                id_issue_id = str_or_empty (jor (jor a b) (jget ''issueId'' (as_dict body))), id_uuid = str_or_empty b,
                id_time = jor (jget_default ''createdAt'' (JStr []) d) (jget_default ''webhookTimestamp'' (JStr []) d),
                id_before = jor (jget ''updatedFrom'' d) (JObj [])\<rparr>))))"

definition label_step :: "env \<Rightarrow> sync_conf \<Rightarrow> linear_side \<Rightarrow> issue_delivery \<Rightarrow> web_state \<Rightarrow> (py_error + json_object option) \<times> web_state" where
  "label_step E C L r w =
     web_bind (web_pure (either_in ''labelIds'' ''labels'' (id_before r)) w) (\<lambda>changed w.
       if \<not> changed then (Inr None, w)
       else web_bind (once (env_sha256 E)
                (compute_idempotency_key (env_sha256 E) ''linear'' ''Issue.update.label'' (id_issue_id r # text_part (id_time r)))
                (JStr ''Issue.update'') (id_data r)
                (\<lambda>w1. res_bind (handle_issue_label_update C L (id_body r) (id_before r)) (\<lambda>x. Inr (x, w1))) w)
              (\<lambda>x w. (Inr (case x of Some y \<Rightarrow> y | None \<Rightarrow> None), w)))"

definition edited_description :: "issue_delivery \<Rightarrow> string" where
  "edited_description r = str_or_empty (jget ''description'' (as_dict (id_issue r)))"

definition description_key :: "(string \<Rightarrow> string) \<Rightarrow> string \<Rightarrow> nat \<Rightarrow> issue_delivery \<Rightarrow> py_error + string" where
  "description_key H kind n r =
     res_bind (text_plus (take n (edited_description r)) (id_time r)) (\<lambda>t. Inr (compute_idempotency_key H ''linear'' kind [id_issue_id r, t]))"

text \<open>The results for an edited description: of the block it has, or of putting the template back.\<close>

definition description_step ::
  "env \<Rightarrow> sync_conf \<Rightarrow> (string \<Rightarrow> nat option) \<Rightarrow> linear_side \<Rightarrow> issue_delivery \<Rightarrow> web_state \<Rightarrow>
   (py_error + (json_object option \<times> json_object option)) \<times> web_state" where
  "description_step E C cvss3 L r w =
     web_bind (web_pure (dyn_in ''description'' (id_before r)) w) (\<lambda>changed w.
       if \<not> changed then (Inr (None, None), w)
       else case parse_vat_block_from_text L (edited_description r) of
              Some b \<Rightarrow>
                web_bind (web_pure (description_key (env_sha256 E) ''Issue.update.description'' 200 r) w) (\<lambda>k w.
                  web_bind (once (env_sha256 E) k (JStr ''Issue.update.description'') (id_data r)
                      (apply_vat_parsed_update E C cvss3 L b (id_issue_id r) (id_uuid r) k (JStr ''Issue.update.description'') (id_data r)) w)
                    (\<lambda>x w. (Inr (x, None), w)))
            | None \<Rightarrow>
                web_bind (web_pure (description_key (env_sha256 E) ''Issue.update.reinject'' 100 r) w) (\<lambda>k w.
                  web_bind (once (env_sha256 E) k (JStr ''Issue.update.reinject'') (id_data r)
                      (\<lambda>w1. Inr (handle_template_reinject C L (as_dict (id_issue r)) (id_issue_id r) (edited_description r), w1)) w)
                    (\<lambda>x w. (Inr (None, case x of Some y \<Rightarrow> y | None \<Rightarrow> None), w))))"

definition new_state :: "issue_delivery \<Rightarrow> py_error + json" where
  "new_state r =
     (if py_truth (jget ''stateId'' (as_dict (id_issue r))) then Inr (jget ''stateId'' (as_dict (id_issue r)))
      else dyn_get (jor (jget ''state'' (as_dict (id_issue r))) (JObj [])) ''id'')"

definition state_step :: "env \<Rightarrow> linear_side \<Rightarrow> issue_delivery \<Rightarrow> web_state \<Rightarrow> (py_error + json_object option) \<times> web_state" where
  "state_step E L r w =
     web_bind (web_pure (either_in ''stateId'' ''state'' (id_before r)) w) (\<lambda>changed w.
       if \<not> changed then (Inr None, w)
       else web_bind (web_pure (new_state r) w) (\<lambda>state w.
              if \<not> py_truth state then (Inr None, w)
              else web_bind (web_pure (text_plus (py_str state) (id_time r)) w) (\<lambda>t w.
                     once (env_sha256 E) (compute_idempotency_key (env_sha256 E) ''linear'' ''Issue.update.state'' [id_issue_id r, t])
                       (JStr ''Issue.update.state'') (id_data r)
                       (\<lambda>w1. res_bind (handle_tracker_issue_closed_without_vat L (id_issue_id r) (id_uuid r) state (w_session w1))
                               (\<lambda>x. Inr (x, w1))) w)))"

definition of_result :: "string \<Rightarrow> json_object option \<Rightarrow> json" where
  "of_result k x = (case x of Some d \<Rightarrow> if d \<noteq> [] then jget k d else JNull | None \<Rightarrow> JNull)"

definition linear_issue_update ::
  "env \<Rightarrow> sync_conf \<Rightarrow> (string \<Rightarrow> nat option) \<Rightarrow> linear_side \<Rightarrow> json \<Rightarrow> web_state \<Rightarrow> (py_error + web_reply) \<times> web_state" where
  "linear_issue_update E C cvss3 L data w =
     web_bind (web_pure (read_issue_delivery data) w) (\<lambda>r w.
     web_bind (label_step E C L r w) (\<lambda>label w.
     web_bind (description_step E C cvss3 L r w) (\<lambda>(desc, reinject) w.
     web_bind (state_step E L r w) (\<lambda>state w.
       (Inr (Reply [(''received'', JBool True), (''event'', JStr ''Issue.update''),
          (''label_inject'', case label of None \<Rightarrow> JNull | Some d \<Rightarrow> JObj d),
          (''description_parsed'', of_result ''parsed'' desc), (''finding_id'', of_result ''finding_id'' desc),
          (''template_reinjected'', of_result ''reinjected'' reinject), (''reopened'', of_result ''reopened'' state)]), w)))))"

section \<open>Comments\<close>

record comment_update =
  cu_block :: vat_block
  cu_tracker_issue_id :: string
  cu_tracker_comment_id :: "string option"

definition comment_text :: "json_object \<Rightarrow> string" where
  "comment_text body =
     (let b = jor (jget ''body'' body) (jget ''content'' body)
      in str_or_empty (if is_dict b \<and> py_truth b then jor (jget ''body'' (as_dict b)) (jget ''content'' (as_dict b)) else b))"

definition to_vat_comment_update :: "linear_side \<Rightarrow> json_object \<Rightarrow> json_object \<Rightarrow> string \<Rightarrow> py_error + comment_update option" where
  "to_vat_comment_update L body issue hint =
     (case ls_parse_block L (comment_text body) (case extract_cve_ids hint of c # _ \<Rightarrow> Some c | [] \<Rightarrow> None) of
        None \<Rightarrow> Inr None
      | Some b \<Rightarrow>
          (let issue_id = str_or_empty (jor (jor (jget ''identifier'' issue) (jget ''id'' issue)) (jget ''issueId'' body));
               comment_id = str_or_empty (jor (jget ''id'' body) (jget ''commentId'' body))
           in if vb_cve_id b = [] \<or> 128 < length (vb_cve_id b) \<or> 64 < length (vb_status b) \<or> 10000 < length (vb_justification b) \<or>
                 2000 < length (vb_compensating_controls b) \<or> 64 < length issue_id \<or> 64 < length comment_id
              then Inl (ValueError ''validation error'')
              else Inr (Some \<lparr>cu_block = b, cu_tracker_issue_id = issue_id, cu_tracker_comment_id = nonempty comment_id\<rparr>)))"

definition read_comment :: "linear_side \<Rightarrow> json \<Rightarrow> py_error + (comment_update option \<times> json_object \<times> json_object)" where
  "read_comment L data =
     (let body_json = jget_default ''data'' data (as_dict data)
      in res_bind (dyn_get body_json ''issue'') (\<lambda>i.
           let issue = jor i (JObj []) in res_bind (dyn_get issue ''description'') (\<lambda>d.
             let body = as_dict body_json; hint = str_or_empty d @ '' '' @ str_or_empty (jget ''title'' (as_dict issue))
             in res_bind (to_vat_comment_update L body (as_dict issue) hint) (\<lambda>u. Inr (u, body, as_dict issue)))))"

definition comment_uuid :: "json_object \<Rightarrow> json_object \<Rightarrow> string" where
  "comment_uuid body issue = str_or_empty (jor (jget ''issueId'' body) (jget ''id'' issue))"

definition comment_key :: "(string \<Rightarrow> string) \<Rightarrow> json \<Rightarrow> comment_update \<Rightarrow> json_object \<Rightarrow> json_object \<Rightarrow> string" where
  "comment_key H action c body issue =
     compute_idempotency_key H ''linear'' (py_str action)
       [or_empty (py_or (cu_tracker_comment_id c) (Some (cu_tracker_issue_id c))),
        py_str (jor (jor (jget ''createdAt'' body) (jget ''created_at'' body)) (JStr (comment_uuid body issue)))]"

definition linear_comment ::
  "env \<Rightarrow> sync_conf \<Rightarrow> (string \<Rightarrow> nat option) \<Rightarrow> linear_side \<Rightarrow> json \<Rightarrow> json \<Rightarrow> web_state \<Rightarrow> (py_error + web_reply) \<times> web_state" where
  "linear_comment E C cvss3 L act data w =
     (let action = jor act (JStr ''Comment.create'')
      in web_bind (web_pure (read_comment L data) w)
         (\<lambda>(u, body, issue) w.
            case u of
              None \<Rightarrow> (Inr (Reply [(''received'', JBool True), (''event'', action), (''parsed'', JBool False)]), w)
            | Some c \<Rightarrow>
                (let uuid = comment_uuid body issue; key = comment_key (env_sha256 E) action c body issue
                 in web_bind (once (env_sha256 E) key action data
                        (apply_vat_parsed_update E C cvss3 L (cu_block c) (cu_tracker_issue_id c) uuid key action data) w)
                      (\<lambda>x w. (Inr (Reply (case x of Some r \<Rightarrow> r
                         | None \<Rightarrow> [(''received'', JBool True), (''event'', action), (''parsed'', JBool True), (''duplicate'', JBool True)])), w)))))"

definition SIGNATURE_HEADERS :: "string list" where
  "SIGNATURE_HEADERS = [''Linear-Signature'', ''linear-signature'', ''X-VAT-Signature'']"

definition linear_webhook ::
  "env \<Rightarrow> (string \<Rightarrow> string \<Rightarrow> string) \<Rightarrow> linear_side \<Rightarrow> int \<Rightarrow> sync_conf \<Rightarrow> (string \<Rightarrow> nat option) \<Rightarrow> http_request \<Rightarrow> web_state \<Rightarrow>
   (py_error + web_reply) \<times> web_state" where
  "linear_webhook E hmac L now C cvss3 rq w =
     (let (api_key, team_id, secret) = get_linear_credentials (sc_config C) (sc_kv C)
      in if \<not> py_truth api_key \<or> \<not> py_truth team_id then (Inr (Response 503 ''Linear not configured''), w)
         else if \<not> py_truth secret then (Inr (Response 503 ''Linear webhook secret not configured''), w)
         else web_bind (web_pure (verify_hmac hmac secret (rq_body rq) (first_header SIGNATURE_HEADERS rq)) w) (\<lambda>ok w.
           if \<not> ok then (Inr (Response 401 ''Invalid signature''), w)
           else case rq_json rq of
                  None \<Rightarrow> (Inr (Response 400 ''Invalid JSON''), w)
                | Some data \<Rightarrow>
                    web_bind (web_pure (verify_replay_timestamp now rq data 300) w) (\<lambda>fresh w.
                      if \<not> fresh then (Inr (Response 401 ''Replay: timestamp too old or invalid''), w)
                      else if \<not> is_dict data then (Inl (AttributeError ''get''), w)
                      else (let d = as_dict data; action = jor (jget ''action'' d) (jor (jget ''type'' d) (JStr []))
                            in if jget ''type'' d = JStr ''Issue'' \<and> action = JStr ''update''
                               then linear_issue_update E C cvss3 L data w
                               else linear_comment E C cvss3 L action data w))))"

section \<open>What a block writes\<close>

lemma update_stored:
  assumes "update_finding E C cvss3 i u user s = Inr (Some g, t)"
  shows "get_finding i t = Some g"
proof -
  from assms obtain f s2 s4 where f: "get_finding i s = Some f" "updated_from f g" and p: "s_findings s2 = s_findings (put_finding g s)"
    and a: "appends s2 s4" "f_status g = f_status f \<longrightarrow> t = s4"
      "f_status g \<noteq> f_status f \<longrightarrow> (\<exists>s5. enqueue_sync_on_status_change E C g (f_status g) user s4 = Inr s5 \<and> appends s5 t)" by (rule update_steps)
  have "appends s4 t" using a(2,3) status_change_appends appends_trans appends_refl by metis
  then have "s_findings t = s_findings (put_finding g s)" using a(1) p by (simp add: appends_def)
  from stored_put[OF f(1) updated_from_id[OF f(2)] this] show ?thesis by blast
qed

lemma block_with_fields:
  "with_fields E cvss3 (block_update b) user f s =
     (f\<lparr>f_justification := Some (vb_justification b), f_compensating_controls := Some (vb_compensating_controls b)\<rparr>, s)"
  by (simp add: with_fields_def block_update_def)

lemma block_status:
  assumes "with_status (block_update b) f = Inr g" "vb_status b \<noteq> []"
  shows "status_to_enum (vb_status b) = Inr (f_status g)"
  using assms by (auto simp: with_status_def block_update_def res_bind_Inr split: list.splits)

lemma update_block_values:
  assumes "update_finding E C cvss3 i (block_update b) user s = Inr (Some g, t)" "vb_status b \<noteq> []"
  shows "f_justification g = Some (vb_justification b) \<and> f_compensating_controls g = Some (vb_compensating_controls b) \<and>
    status_to_enum (vb_status b) = Inr (f_status g)"
proof -
  obtain f f1 where f: "get_finding i s = Some f" and f1: "with_status (block_update b) f = Inr f1"
    using assms by (auto simp: update_finding_def res_bind_Inr split: option.splits)
  let ?f2 = "f1\<lparr>f_justification := Some (vb_justification b), f_compensating_controls := Some (vb_compensating_controls b)\<rparr>"
  obtain f3 s2 where a: "audited E user (audit_action_for_update (block_update b) (f_status f) (f_status f1)) (audit_note_for_update (block_update b)) ?f2 s = (f3, s2)"
    by fastforce
  have "g = f3"
    using assms(1) by (auto simp: update_finding_def f f1 block_with_fields a Let_def res_bind_Inr split: if_splits)
  with audited_effect[OF a] block_status[OF f1 assms(2)] show ?thesis by auto
qed

lemma update_some:
  assumes "update_finding E C cvss3 i u user s = Inr (res, t)" "get_finding i s = Some f"
  shows "\<exists>g. res = Some g"
  using assms by (auto simp: update_finding_def res_bind_Inr Let_def split_beta split: if_splits)

text \<open>C21. A block of the tracker replaces the review as a whole: the finding it is about gets its status, its justification and its
  compensating controls, and a block without controls erases the recorded ones.\<close>

theorem block_replaces_review:
  assumes "apply_vat_parsed_update E C cvss3 L b issue_id issue_uuid key event data w = Inr (r, w1)"
    and "block_target (w_session w) (vb_cve_id b) issue_id issue_uuid = Some f" "get_finding (f_id f) (w_session w) = Some f"
    and "ls_supports_inbound_sync L" "vb_status b \<noteq> []"
  shows "\<exists>g. get_finding (f_id f) (w_session w1) = Some g \<and> status_to_enum (vb_status b) = Inr (f_status g) \<and>
    f_justification g = Some (vb_justification b) \<and> f_compensating_controls g = Some (vb_compensating_controls b)"
proof -
  from assms(1-4) obtain res s1 where u: "update_finding E C cvss3 (f_id f) (block_update b) inbound_user (w_session w) = Inr (res, s1)"
    "w_session w1 = s1"
    by (auto simp: apply_vat_parsed_update_def Let_def res_bind_Inr record_webhook_processed_def dest!: insert_event_cases)
  from update_some[OF u(1) assms(3)] obtain g where g: "res = Some g" by blast
  from update_stored[OF u(1)[unfolded g]] update_block_values[OF u(1)[unfolded g] assms(5)] u(2) show ?thesis by auto
qed

text \<open>A block on an issue that no finding is linked to goes to the first finding with the CVE, whatever its tenant is.\<close>

lemma unlinked_block_target:
  assumes "find_finding_by_linear_issue_id_or_uuid s issue_id (nonempty issue_uuid) = None" "find (\<lambda>f. f_cve_id f = cve) (s_findings s) = Some f"
  shows "block_target s cve issue_id issue_uuid = Some f"
  using assms by (simp add: block_target_def)

section \<open>Issues that are closed without a decision\<close>

lemma reopened_iff:
  assumes "handle_tracker_issue_closed_without_vat L issue_id issue_uuid state_id s = Inr r"
  shows "jget ''reopened'' r = JBool True \<longleftrightarrow> ls_is_state_closed L state_id \<and> ls_reopen_issue L issue_id = Inr True \<and>
    (\<exists>f. (case find_finding_by_external_id s ''linear'' issue_id of Some f \<Rightarrow> Some f | None \<Rightarrow> find_finding_by_external_id s ''linear'' issue_uuid) = Some f \<and>
         f_status f \<notin> set FINDING_TERMINAL_STATUSES)"
  using assms by (auto simp: handle_tracker_issue_closed_without_vat_def closed_reply_def jget_def res_bind_Inr
      split: if_splits option.splits)

section \<open>Repeated deliveries\<close>

definition grows :: "web_state \<Rightarrow> web_state \<Rightarrow> bool" where
  "grows w w' \<longleftrightarrow> set (w_events w) \<subseteq> set (w_events w')"

lemma grows_refl [simp]: "grows w w"
  by (simp add: grows_def)

lemma grows_trans: "grows u v \<Longrightarrow> grows v w \<Longrightarrow> grows u w"
  by (auto simp: grows_def)

lemma seen_grows: "seen key w \<Longrightarrow> grows w w' \<Longrightarrow> seen key w'"
  unfolding grows_def by (rule seen_mono)

lemma insert_event_grows: "insert_event H key source ev payload result w = Inr (b, w1) \<Longrightarrow> grows w w1"
  by (auto simp: insert_event_def grows_def split: if_splits)

lemma apply_grows:
  assumes "apply_vat_parsed_update E C cvss3 L b i u key event data w = Inr (r, w1)"
  shows "grows w w1"
proof -
  have "grows w w1" if "insert_event H k src ev p res (w\<lparr>w_session := s\<rparr>) = Inr (x, w1)" for H k src ev p res s x
    using insert_event_grows[OF that] by (simp add: grows_def)
  with assms show ?thesis
    by (auto simp: apply_vat_parsed_update_def Let_def res_bind_Inr record_webhook_processed_def intro: insert_event_grows
        split: option.splits if_splits)
qed

lemma web_bind_Inr:
  "web_bind r k = (Inr y, w2) \<longleftrightarrow> (\<exists>x w1. r = (Inr x, w1) \<and> k x w1 = (Inr y, w2))"
  by (cases r; cases "fst r") (auto simp: web_bind_def)

lemma web_bind_stays:
  assumes "snd r = w" "\<And>x. fst r = Inr x \<Longrightarrow> snd (k x w) = w"
  shows "snd (web_bind r k) = w"
  using assms by (auto simp: web_bind_def split: sum.splits)

lemma web_pure_simps [simp]: "snd (web_pure r w) = w" "fst (web_pure r w) = r"
  by (simp_all add: web_pure_def)

lemma web_pure_Inr [simp]: "web_pure r w = (Inr x, w1) \<longleftrightarrow> r = Inr x \<and> w1 = w"
  by (auto simp: web_pure_def)

lemma once_done:
  assumes "once H key ev data f w = (Inr x, w1)" "\<And>u y v. f u = Inr (y, v) \<Longrightarrow> grows u v"
  shows "seen key w1 \<and> grows w w1"
proof -
  from assms(1) obtain c w0 where c: "claim_webhook H key ''linear'' ev data w = Inr (c, w0)"
    and r: "(if c then res_bind (f w0) (\<lambda>(x, w2). Inr (Some x, w2)) else Inr (None, w)) = Inr (x, w1)"
    by (auto simp: once_def commit_def res_bind_Inr split: sum.splits)
  have g: "grows w w0" using c unfolding claim_webhook_def by (rule insert_event_grows)
  show ?thesis
  proof (cases c)
    case True
    with r obtain y where "f w0 = Inr (y, w1)" by (auto simp: res_bind_Inr)
    then have "grows w0 w1" by (rule assms(2))
    with claim_cases[OF c] g show ?thesis by (auto intro: seen_grows grows_trans)
  next
    case False
    with r claim_cases[OF c] show ?thesis by auto
  qed
qed

lemma once_repeat: "seen key w \<Longrightarrow> snd (once H key ev data f w) = w"
  by (auto simp: once_def commit_def claim_webhook_def insert_event_def)

lemma web_bind_pure [simp]: "web_bind (web_pure (Inr x) w) k = k x w" "web_bind (web_pure (Inl e) w) k = (Inl e, w)"
  by (simp_all add: web_bind_def web_pure_def)

lemma once_bind_done:
  assumes "web_bind (once H key ev data f w) k = (Inr x, w1)" "\<And>u y v. f u = Inr (y, v) \<Longrightarrow> grows u v" "\<And>y v. snd (k y v) = v"
  shows "seen key w1 \<and> grows w w1"
proof -
  from assms(1) obtain y w0 where "once H key ev data f w = (Inr y, w0)" "k y w0 = (Inr x, w1)" by (auto simp: web_bind_Inr)
  with once_done[of H key ev data f w y w0] assms(2,3) show ?thesis by (metis snd_conv)
qed

lemma once_bind_repeat: "seen key w \<Longrightarrow> (\<And>y. snd (k y w) = w) \<Longrightarrow> snd (web_bind (once H key ev data f w) k) = w"
  by (simp add: web_bind_stays once_repeat)

text \<open>The steps of an issue delivery: an answered step is settled for the deliveries that find its events.\<close>

lemma label_step_repeat:
  assumes "label_step E C L r w = (Inr x, w1)"
  shows "grows w w1 \<and> (\<forall>E' C' L' w2. env_sha256 E' = env_sha256 E \<longrightarrow> grows w1 w2 \<longrightarrow> snd (label_step E' C' L' r w2) = w2)"
proof (cases "either_in ''labelIds'' ''labels'' (id_before r) = Inr True")
  case True
  let ?key = "compute_idempotency_key (env_sha256 E) ''linear'' ''Issue.update.label'' (id_issue_id r # text_part (id_time r))"
  from assms True have d: "seen ?key w1 \<and> grows w w1"
    by (auto simp: label_step_def res_bind_Inr elim!: once_bind_done)
  have "snd (label_step E' C' L' r w2) = w2" if "env_sha256 E' = env_sha256 E" "grows w1 w2" for E' C' L' w2
    using seen_grows[of ?key w1 w2] d that True by (simp add: label_step_def once_bind_repeat)
  with d show ?thesis by blast
next
  case False
  with assms show ?thesis by (cases "either_in ''labelIds'' ''labels'' (id_before r)") (auto simp: label_step_def)
qed

lemma parse_cong: "ls_parse_block L' = ls_parse_block L \<Longrightarrow> parse_vat_block_from_text L' t = parse_vat_block_from_text L t"
  by (simp add: parse_vat_block_from_text_def)

lemma description_step_repeat:
  assumes "description_step E C cvss3 L r w = (Inr x, w1)"
  shows "grows w w1 \<and> (\<forall>E' C' cvss' L' w2. env_sha256 E' = env_sha256 E \<longrightarrow> ls_parse_block L' = ls_parse_block L \<longrightarrow> grows w1 w2 \<longrightarrow>
    snd (description_step E' C' cvss' L' r w2) = w2)"
proof (cases "dyn_in ''description'' (id_before r) = Inr True")
  case True
  define kind where "kind = (if parse_vat_block_from_text L (edited_description r) = None then (''Issue.update.reinject'', 100)
    else (''Issue.update.description'', 200 :: nat))"
  obtain key where k: "description_key (env_sha256 E) (fst kind) (snd kind) r = Inr key"
    using assms True
    by (cases "description_key (env_sha256 E) (fst kind) (snd kind) r"; cases "parse_vat_block_from_text L (edited_description r)")
      (auto simp: description_step_def kind_def)
  have d: "seen key w1 \<and> grows w w1"
    using assms True k
    by (cases "parse_vat_block_from_text L (edited_description r)")
      (auto simp: description_step_def kind_def elim!: once_bind_done intro: apply_grows)
  have "snd (description_step E' C' cvss' L' r w2) = w2"
    if h: "env_sha256 E' = env_sha256 E" "ls_parse_block L' = ls_parse_block L" "grows w1 w2" for E' C' cvss' L' w2
  proof -
    from d h(3) have "seen key w2" by (auto intro: seen_grows)
    with True k show ?thesis
      by (cases "parse_vat_block_from_text L (edited_description r)")
        (simp_all add: description_step_def kind_def h(1) parse_cong[OF h(2)] once_bind_repeat)
  qed
  with d show ?thesis by blast
next
  case False
  with assms show ?thesis by (cases "dyn_in ''description'' (id_before r)") (auto simp: description_step_def)
qed

lemma state_step_repeat:
  assumes "state_step E L r w = (Inr x, w1)"
  shows "grows w w1 \<and> (\<forall>E' L' w2. env_sha256 E' = env_sha256 E \<longrightarrow> grows w1 w2 \<longrightarrow> snd (state_step E' L' r w2) = w2)"
proof (cases "\<exists>st. either_in ''stateId'' ''state'' (id_before r) = Inr True \<and> new_state r = Inr st \<and> py_truth st")
  case True
  then obtain st where c: "either_in ''stateId'' ''state'' (id_before r) = Inr True" and st: "new_state r = Inr st" "py_truth st" by blast
  then obtain t where t: "text_plus (py_str st) (id_time r) = Inr t"
    using assms by (cases "text_plus (py_str st) (id_time r)") (auto simp: state_step_def Let_def)
  let ?key = "compute_idempotency_key (env_sha256 E) ''linear'' ''Issue.update.state'' [id_issue_id r, t]"
  from assms c st t have d: "seen ?key w1 \<and> grows w w1"
    by (auto simp: state_step_def Let_def res_bind_Inr dest!: once_done)
  have "snd (state_step E' L' r w2) = w2" if "env_sha256 E' = env_sha256 E" "grows w1 w2" for E' L' w2
    using seen_grows[of ?key w1 w2] d that c st t by (simp add: state_step_def Let_def once_repeat)
  with d show ?thesis by blast
next
  case False
  then have "state_step E' L' r u = (case either_in ''stateId'' ''state'' (id_before r) of Inl e \<Rightarrow> (Inl e, u)
      | Inr c \<Rightarrow> if \<not> c then (Inr None, u) else case new_state r of Inl e \<Rightarrow> (Inl e, u) | Inr _ \<Rightarrow> (Inr None, u))" for E' L' u
    by (cases "either_in ''stateId'' ''state'' (id_before r)"; cases "new_state r")
      (auto simp: state_step_def Let_def)
  with assms show ?thesis by (auto split: sum.splits if_splits)
qed

lemma issue_update_repeat:
  assumes "linear_issue_update E C cvss3 L data w = (Inr x, w1)" "env_sha256 E' = env_sha256 E" "ls_parse_block L' = ls_parse_block L"
    and "grows w1 w2"
  shows "snd (linear_issue_update E' C' cvss' L' data w2) = w2"
proof -
  from assms(1) obtain r la wa de wb st where s: "read_issue_delivery data = Inr r" "label_step E C L r w = (Inr la, wa)"
    "description_step E C cvss3 L r wa = (Inr de, wb)" "state_step E L r wb = (Inr st, w1)"
    by (auto simp: linear_issue_update_def web_bind_Inr)
  note a = label_step_repeat[OF s(2)] and b = description_step_repeat[OF s(3)] and c = state_step_repeat[OF s(4)]
  from b c assms(4) have g: "grows wb w2" "grows wa w2" by (auto intro: grows_trans)
  show ?thesis unfolding linear_issue_update_def
    using a b c g assms(2-4) by (auto simp: s(1) intro!: web_bind_stays)
qed

lemma comment_repeat:
  assumes "linear_comment E C cvss3 L act data w = (Inr x, w1)" "env_sha256 E' = env_sha256 E" "ls_parse_block L' = ls_parse_block L"
    and "grows w1 w2"
  shows "snd (linear_comment E' C' cvss' L' act data w2) = w2"
proof -
  have same: "read_comment L' data = read_comment L data" by (simp add: read_comment_def to_vat_comment_update_def assms(3))
  obtain u body issue where rd: "read_comment L data = Inr (u, body, issue)"
  proof (cases "read_comment L data")
    case (Inl e)
    with assms(1) show thesis by (simp add: linear_comment_def)
  next
    case (Inr v)
    then show thesis by (cases v) (auto intro: that)
  qed
  show ?thesis
  proof (cases u)
    case None
    then show ?thesis by (simp add: linear_comment_def same rd)
  next
    case (Some c)
    let ?key = "comment_key (env_sha256 E) (jor act (JStr ''Comment.create'')) c body issue"
    from assms(1) have "seen ?key w1"
      by (auto simp: linear_comment_def rd Some Let_def dest!: once_bind_done intro: apply_grows)
    with assms(4) have "seen ?key w2" by (auto intro: seen_grows)
    then show ?thesis
      by (simp add: linear_comment_def same rd Some assms(2) Let_def once_bind_repeat)
  qed
qed

text \<open>C20. A tracker delivery takes effect once: when it was answered, a repetition of the request changes nothing, however the issue
  was handled (labels, description, state, or a comment) and whatever happened in between.\<close>

theorem tracker_delivery_once:
  assumes "linear_webhook E hmac L now C cvss3 rq w = (Inr (Reply r), w1)"
    and "env_sha256 E' = env_sha256 E" "ls_parse_block L' = ls_parse_block L" "grows w1 w2"
  shows "snd (linear_webhook E' hmac' L' now' C' cvss' rq w2) = w2"
proof -
  from assms(1) obtain data where d: "rq_json rq = Some data" "is_dict data"
    and h: "(let action = jor (jget ''action'' (as_dict data)) (jor (jget ''type'' (as_dict data)) (JStr []))
             in if jget ''type'' (as_dict data) = JStr ''Issue'' \<and> action = JStr ''update'' then linear_issue_update E C cvss3 L data w
                else linear_comment E C cvss3 L action data w) = (Inr (Reply r), w1)"
    by (auto simp: linear_webhook_def web_bind_Inr Let_def split: if_splits option.splits prod.splits)
  then have "snd (let action = jor (jget ''action'' (as_dict data)) (jor (jget ''type'' (as_dict data)) (JStr []))
             in if jget ''type'' (as_dict data) = JStr ''Issue'' \<and> action = JStr ''update'' then linear_issue_update E' C' cvss' L' data w2
                else linear_comment E' C' cvss' L' action data w2) = w2"
    using assms(2-4) by (auto simp: Let_def intro: issue_update_repeat comment_repeat split: if_splits)
  then show ?thesis
    by (auto simp: linear_webhook_def d Let_def split: prod.splits intro!: web_bind_stays)
qed

section \<open>Witnesses\<close>

definition demo_block :: vat_block where
  "demo_block = \<lparr>vb_cve_id = ''CVE-2024-1'', vb_status = ''Open'', vb_justification = ''still open'', vb_compensating_controls = []\<rparr>"

definition demo_side :: linear_side where
  "demo_side = \<lparr>ls_parse_block = (\<lambda>text hint. if text = ''[VAT]'' then Some demo_block else None), ls_resolve_label_ids = (\<lambda>_. Inr []),
     ls_get_issue = (\<lambda>_. Inr JNull), ls_inject = (\<lambda>_ _ _ _. Inr ()), ls_is_state_closed = (\<lambda>_. False), ls_reopen_issue = (\<lambda>_. Inr False),
     ls_supports_inbound_sync = True, ls_reinject_on_removal = True\<rparr>"

definition demo_inbound_conf :: sync_conf where
  "demo_inbound_conf = demo_conf\<lparr>sc_kv := [(''linear_credentials'',
     JObj [(''api_key'', JStr ''lin1''), (''team_id'', JStr ''T1''), (''webhook_secret'', JStr ''k'')])]\<rparr>"

definition demo_comment :: http_request where
  "demo_comment = \<lparr>rq_headers = [(''Linear-Signature'', ''ok'')], rq_body = ''b'', rq_json = Some (JObj [(''type'', JStr ''Comment''),
     (''action'', JStr ''create''), (''data'', JObj [(''id'', JStr ''c1''), (''body'', JStr ''[VAT]''), (''issueId'', JStr ''SEC-1'')])])\<rparr>"

abbreviation demo_receive where
  "demo_receive \<equiv> linear_webhook demo_web_env (\<lambda>k b. ''ok'') demo_side 110 demo_inbound_conf (\<lambda>_. None) demo_comment"

lemma demo_receive_runs:
  "case demo_receive (demo_web_state []) of (Inr (Reply r), w1) \<Rightarrow> length (w_events w1) = 1 | _ \<Rightarrow> False"
  by code_simp

theorem tracker_delivery_once_witness:
  "\<exists>r w1. demo_receive (demo_web_state []) = (Inr (Reply r), w1) \<and> length (w_events w1) = 1 \<and> snd (demo_receive w1) = w1"
proof -
  obtain r w1 where r: "demo_receive (demo_web_state []) = (Inr (Reply r), w1)" "length (w_events w1) = 1"
    using demo_receive_runs by (auto split: prod.splits sum.splits web_reply.splits)
  from tracker_delivery_once[OF r(1) refl refl grows_refl] r show ?thesis by blast
qed

lemma demo_block_target: "block_target demo_triage ''CVE-2024-1'' ''SEC-9'' [] = Some demo_untriaged"
proof -
  have "find_finding_by_linear_issue_id_or_uuid demo_triage ''SEC-9'' None = None" by code_simp
  moreover have "f_cve_id demo_untriaged = ''CVE-2024-1''" by code_simp
  ultimately show ?thesis by (simp add: block_target_def demo_triage_def demo_untriaged_def nonempty_def)
qed

lemma update_same_status:
  assumes "get_finding i s = Some f" "status_to_enum (vb_status b) = Inr (f_status f)" "vb_status b \<noteq> []"
  shows "\<exists>g t. update_finding E C cvss3 i (block_update b) user s = Inr (Some g, t)"
proof -
  have st: "with_status (block_update b) f = Inr f"
    using assms(2,3) by (auto simp: with_status_def block_update_def split: list.splits)
  let ?f = "f\<lparr>f_justification := Some (vb_justification b), f_compensating_controls := Some (vb_compensating_controls b)\<rparr>"
  obtain f3 s2 where a: "audited E user (audit_action_for_update (block_update b) (f_status f) (f_status f)) (audit_note_for_update (block_update b)) ?f s = (f3, s2)"
    by fastforce
  from audited_effect[OF a] have "f_status f3 = f_status f" by auto
  then show ?thesis by (simp add: update_finding_def assms(1) st block_with_fields a Let_def)
qed

lemma demo_block_applied:
  "\<exists>r w1. apply_vat_parsed_update demo_triage_env demo_conf (\<lambda>_. None) demo_side demo_block ''SEC-9'' [] ''x'' JNull JNull
     \<lparr>w_session = demo_triage, w_events = []\<rparr> = Inr (r, w1)"
proof -
  have "status_to_enum (vb_status demo_block) = Inr (f_status demo_untriaged)" by code_simp
  moreover have "get_finding (f_id demo_untriaged) demo_triage = Some demo_untriaged"
    by (simp add: get_finding_def demo_untriaged_def demo_triage_def)
  ultimately obtain g t where "update_finding demo_triage_env demo_conf (\<lambda>_. None) (f_id demo_untriaged) (block_update demo_block) inbound_user demo_triage = Inr (Some g, t)"
    using update_same_status[of "f_id demo_untriaged" demo_triage demo_untriaged demo_block demo_triage_env demo_conf "\<lambda>_. None" inbound_user]
    by (auto simp: demo_block_def)
  then show ?thesis using demo_block_target
    by (simp add: apply_vat_parsed_update_def Let_def record_webhook_processed_def insert_event_def valid_event_type_def seen_def demo_side_def demo_block_def)
qed

theorem block_replaces_review_witness:
  "\<exists>r w1 g. apply_vat_parsed_update demo_triage_env demo_conf (\<lambda>_. None) demo_side demo_block ''SEC-9'' [] ''x'' JNull JNull
     \<lparr>w_session = demo_triage, w_events = []\<rparr> = Inr (r, w1) \<and>
     get_finding ''F-1'' (w_session w1) = Some g \<and> f_compensating_controls g = Some []"
proof -
  obtain r w1 where a: "apply_vat_parsed_update demo_triage_env demo_conf (\<lambda>_. None) demo_side demo_block ''SEC-9'' [] ''x'' JNull JNull
     \<lparr>w_session = demo_triage, w_events = []\<rparr> = Inr (r, w1)"
    using demo_block_applied by blast
  have f: "f_id demo_untriaged = ''F-1''" by code_simp
  have g: "get_finding (f_id demo_untriaged) (w_session \<lparr>w_session = demo_triage, w_events = []\<rparr>) = Some demo_untriaged"
    by (simp add: get_finding_def demo_untriaged_def demo_triage_def)
  have t: "block_target (w_session \<lparr>w_session = demo_triage, w_events = []\<rparr>) (vb_cve_id demo_block) ''SEC-9'' [] = Some demo_untriaged"
    using demo_block_target by (simp add: demo_block_def)
  have "ls_supports_inbound_sync demo_side" "vb_status demo_block \<noteq> []" "vb_compensating_controls demo_block = []"
    by (simp_all add: demo_side_def demo_block_def)
  with block_replaces_review[OF a t g] a f show ?thesis by auto
qed

end
