(* ===== verification/Vat_Gating.thy ===== *)
theory Vat_Gating
  imports Vat_Settings
begin

text \<open>
  The build gate of the local scanner (\<open>vat_scanner/gating.py\<close> and \<open>_run_gating\<close> of \<open>vat_scanner/cli.py\<close>): the
  findings of the scanners' reports with a path and a severity, the restriction to the files of a pull request, and the
  exit code. A report is the JSON document that the scanner wrote; a report of another shape raises as
  in Python. \<open>git diff\<close> is a parameter: its exit code and output, or \<open>None\<close> when it cannot be run or times out.
\<close>

section \<open>Iterating a document\<close>

text \<open>\<open>for x in j\<close>, \<open>a + b\<close> and \<open>j[0]\<close> of values of unknown type.\<close>

definition dyn_iter :: "json \<Rightarrow> py_error + json list" where
  "dyn_iter j =
     (case j of JList xs \<Rightarrow> Inr xs | JStr s \<Rightarrow> Inr (map (\<lambda>c. JStr [c]) s) | JObj kvs \<Rightarrow> Inr (map (JStr \<circ> fst) kvs)
      | _ \<Rightarrow> Inl (TypeError ''object is not iterable''))"

definition dyn_plus :: "json \<Rightarrow> json \<Rightarrow> py_error + json" where
  "dyn_plus a b =
     (case (a, b) of
        (JList xs, JList ys) \<Rightarrow> Inr (JList (xs @ ys))
      | (JStr s, JStr t) \<Rightarrow> Inr (JStr (s @ t))
      | _ \<Rightarrow> Inl (TypeError ''unsupported operand type(s) for +''))"

definition dyn_first :: "json \<Rightarrow> py_error + json" where
  "dyn_first j =
     (case j of JList (x # xs) \<Rightarrow> Inr x | JStr (c # cs) \<Rightarrow> Inr (JStr [c]) | JObj kvs \<Rightarrow> Inl (KeyError ''0'')
      | _ \<Rightarrow> Inl (TypeError ''object is not subscriptable''))"

text \<open>A loop that appends to a list and may raise, over the entries that are dictionaries.\<close>

fun collect :: "(json_object \<Rightarrow> py_error + 'a list) \<Rightarrow> json list \<Rightarrow> py_error + 'a list" where
  "collect f [] = Inr []"
| "collect f (j # js) =
     (if is_dict j then res_bind (f (as_dict j)) (\<lambda>xs. res_bind (collect f js) (\<lambda>ys. Inr (xs @ ys))) else collect f js)"

lemma collect_set: "collect f js = Inr ys \<Longrightarrow> y \<in> set ys \<Longrightarrow> \<exists>d xs. JObj d \<in> set js \<and> f d = Inr xs \<and> y \<in> set xs"
proof (induction js arbitrary: ys)
  case (Cons j js)
  then show ?case
  proof (cases "is_dict j")
    case True
    then obtain d where j: "j = JObj d" by (auto simp: is_dict_def split: json.splits)
    from Cons.prems(1) True obtain xs zs where "f d = Inr xs" "collect f js = Inr zs" "ys = xs @ zs"
      by (auto simp: res_bind_Inr j as_dict_def)
    with Cons.IH[of zs] Cons.prems(2) j show ?thesis by auto
  qed auto
qed simp

section \<open>Severities\<close>

definition GATE_SEVERITY_ORDER :: "(string \<times> nat) list" where
  "GATE_SEVERITY_ORDER = [(''critical'', 4), (''high'', 3), (''medium'', 2), (''low'', 1)]"

definition gate_normalize_severity :: "json \<Rightarrow> string" where
  "gate_normalize_severity s =
     (if \<not> py_truth s then ''unknown''
      else (let v = py_lower (py_strip (py_str s))
            in case find (\<lambda>known. py_in known v \<or> v = known) [''critical'', ''high'', ''medium'', ''low''] of
                 Some known \<Rightarrow> known | None \<Rightarrow> ''unknown''))"

definition severity_level :: "string \<Rightarrow> nat" where
  "severity_level sev = (case map_of GATE_SEVERITY_ORDER (gate_normalize_severity (JStr sev)) of Some n \<Rightarrow> n | None \<Rightarrow> 0)"

section \<open>Findings of a report\<close>

record gate_finding =
  gf_path :: json
  gf_severity :: string
  gf_parser :: string
  gf_raw :: json

definition trivy_entry :: "string \<Rightarrow> json_object \<Rightarrow> py_error + gate_finding list" where
  "trivy_entry target v =
     (let sev = gate_normalize_severity (jor (jget ''Severity'' v) (jget ''severity'' v));
          path = jor (jor (jor (jget ''Target'' v) (jget ''File'' v)) (jget ''file'' v)) (JStr target)
      in Inr [\<lparr>gf_path = JStr (py_str path), gf_severity = sev, gf_parser = ''trivy'', gf_raw = JObj v\<rparr>])"

definition trivy_result :: "json_object \<Rightarrow> py_error + gate_finding list" where
  "trivy_result r =
     (let target = py_str (jor (jor (jget ''Target'' r) (jget ''target'' r)) (JStr []));
          vulns = jor (jor (jget ''Vulnerabilities'' r) (jget ''vulnerabilities'' r)) (JList []);
          misconfigs = jor (jor (jget ''Misconfigurations'' r) (jget ''misconfigurations'' r)) (JList []);
          secrets = jor (jor (jget ''Secrets'' r) (jget ''secrets'' r)) (JList [])
      in res_bind (dyn_plus vulns misconfigs) (\<lambda>a. res_bind (dyn_plus a secrets) (\<lambda>b.
           res_bind (dyn_iter b) (collect (trivy_entry target)))))"

definition extract_trivy_findings :: "json \<Rightarrow> py_error + gate_finding list" where
  "extract_trivy_findings report =
     res_bind (dyn_get report ''Results'') (\<lambda>a. res_bind (dyn_get report ''results'') (\<lambda>b.
       res_bind (dyn_iter (jor (jor a b) (JList []))) (collect trivy_result)))"

definition grype_match :: "json_object \<Rightarrow> py_error + gate_finding list" where
  "grype_match m =
     (let vuln = jor (jget ''vulnerability'' m) (JObj []); artifact = jor (jget ''artifact'' m) (JObj [])
      in res_bind (dyn_get vuln ''severity'') (\<lambda>s. res_bind (dyn_get artifact ''locations'') (\<lambda>path.
           res_bind (if py_truth path then dyn_first path else Inr (JObj [])) (\<lambda>loc.
             let file_path = (if is_dict loc then jget ''path'' (as_dict loc)
                              else JStr (py_str (jget_default ''name'' (JStr []) (as_dict artifact))))
             in Inr [\<lparr>gf_path = jor file_path (JStr ''package''), gf_severity = gate_normalize_severity s, gf_parser = ''grype'',
                      gf_raw = JObj m\<rparr>]))))"

definition extract_grype_findings :: "json \<Rightarrow> py_error + gate_finding list" where
  "extract_grype_findings report =
     res_bind (dyn_get report ''matches'') (\<lambda>a. res_bind (dyn_iter (jor a (JList []))) (collect grype_match))"

definition npm_entry :: "json_object \<Rightarrow> py_error + gate_finding list" where
  "npm_entry v =
     Inr [\<lparr>gf_path = JStr ''package.json'', gf_severity = gate_normalize_severity (jget ''severity'' v), gf_parser = ''npm_audit'',
           gf_raw = JObj v\<rparr>]"

definition extract_npm_findings :: "json \<Rightarrow> py_error + gate_finding list" where
  "extract_npm_findings report =
     res_bind (dyn_get report ''vulnerabilities'') (\<lambda>a. res_bind (dyn_get report ''advisories'') (\<lambda>b.
       let vulns = jor (jor a b) (JObj [])
       in if is_dict vulns then collect npm_entry (map snd (as_dict vulns)) else Inr []))"

text \<open>\<open>_normalize_severity(...) or "medium"\<close>: the first operand is never empty.\<close>

definition pip_vuln :: "json \<Rightarrow> json_object \<Rightarrow> py_error + gate_finding list" where
  "pip_vuln pkg_name v =
     (let sev = gate_normalize_severity (jget ''severity'' v)
      in Inr [\<lparr>gf_path = pkg_name, gf_severity = (if sev \<noteq> [] then sev else ''medium''), gf_parser = ''pip_audit'', gf_raw = JObj v\<rparr>])"

definition pip_dependency :: "json_object \<Rightarrow> py_error + gate_finding list" where
  "pip_dependency d =
     (let vulns = jor (jor (jget ''vulns'' d) (jget ''vulnerabilities'' d)) (JList []);
          pkg_name = jget_default ''name'' (JStr ''requirements'') d
      in res_bind (dyn_iter vulns) (collect (pip_vuln pkg_name)))"

definition is_list :: "json \<Rightarrow> bool" where
  "is_list j = (case j of JList _ \<Rightarrow> True | _ \<Rightarrow> False)"

definition extract_pip_findings :: "json \<Rightarrow> py_error + gate_finding list" where
  "extract_pip_findings report =
     res_bind (if is_list report then Inr report
               else res_bind (dyn_get report ''dependencies'') (\<lambda>d. Inr (jor d (JList []))))
       (\<lambda>deps. res_bind (dyn_iter deps) (collect pip_dependency))"

definition semgrep_result :: "json_object \<Rightarrow> py_error + gate_finding list" where
  "semgrep_result r =
     res_bind (dyn_get (jor (jget ''extra'' r) (JObj [])) ''severity'') (\<lambda>s.
       Inr [\<lparr>gf_path = jor (jget ''path'' r) (JStr []), gf_severity = gate_normalize_severity s, gf_parser = ''semgrep'',
             gf_raw = JObj r\<rparr>])"

definition extract_semgrep_findings :: "json \<Rightarrow> py_error + gate_finding list" where
  "extract_semgrep_findings report =
     res_bind (dyn_get report ''results'') (\<lambda>a. res_bind (dyn_iter (jor a (JList []))) (collect semgrep_result))"

definition gitleaks_finding :: "json_object \<Rightarrow> py_error + gate_finding list" where
  "gitleaks_finding f =
     Inr [\<lparr>gf_path = jor (jor (jget ''File'' f) (jget ''file'' f)) (JStr []), gf_severity = ''high'', gf_parser = ''gitleaks'',
           gf_raw = JObj f\<rparr>]"

definition extract_gitleaks_findings :: "json \<Rightarrow> py_error + gate_finding list" where
  "extract_gitleaks_findings report =
     res_bind (if is_list report then Inr report
               else res_bind (dyn_get report ''findings'') (\<lambda>a. res_bind (dyn_get report ''Findings'') (\<lambda>b.
                      Inr (jor (jor a b) (JList [])))))
       (\<lambda>findings. res_bind (dyn_iter findings) (collect gitleaks_finding))"

definition extract_report :: "string \<Rightarrow> json \<Rightarrow> py_error + gate_finding list" where
  "extract_report parser report =
     (if parser = ''trivy'' then extract_trivy_findings report
      else if parser = ''grype'' then extract_grype_findings report
      else if parser = ''npm_audit'' then extract_npm_findings report
      else if parser = ''pip_audit'' then extract_pip_findings report
      else if parser = ''semgrep'' then extract_semgrep_findings report
      else if parser = ''gitleaks'' then extract_gitleaks_findings report
      else Inr [])"

fun extract_gating_findings :: "(string \<times> json) list \<Rightarrow> py_error + gate_finding list" where
  "extract_gating_findings [] = Inr []"
| "extract_gating_findings ((parser, report) # rs) =
     res_bind (extract_report parser report) (\<lambda>xs. res_bind (extract_gating_findings rs) (\<lambda>ys. Inr (xs @ ys)))"

section \<open>Changed files\<close>

definition is_line_break :: "char \<Rightarrow> bool" where
  "is_line_break c = (let n = (of_char c :: nat) in (10 \<le> n \<and> n \<le> 13) \<or> (28 \<le> n \<and> n \<le> 30))"

text \<open>\<open>splitlines\<close> up to empty lines, which every use drops.\<close>

fun split_lines :: "string \<Rightarrow> string list" where
  "split_lines [] = [[]]"
| "split_lines (c # cs) =
     (if is_line_break c then [] # split_lines cs
      else (case split_lines cs of [] \<Rightarrow> [[c]] | l # ls \<Rightarrow> (c # l) # ls))"

type_synonym git_result = "(int \<times> string) option"

definition get_changed_files :: "(string \<Rightarrow> string \<Rightarrow> git_result) \<Rightarrow> string \<Rightarrow> string \<Rightarrow> string list" where
  "get_changed_files git base head =
     (case git base head of
        None \<Rightarrow> []
      | Some (returncode, stdout) \<Rightarrow>
          if returncode \<noteq> 0 then [] else remdups (filter (\<lambda>p. p \<noteq> []) (map py_strip (split_lines stdout))))"

definition slashes :: "string \<Rightarrow> string" where
  "slashes p = map (\<lambda>c. if c = CHR 92 then CHR ''/'' else c) p"

definition in_changed :: "string list \<Rightarrow> string \<Rightarrow> bool" where
  "in_changed changed path = list_ex (\<lambda>cf. slashes path = slashes cf \<or> py_startswith (slashes path) (slashes cf @ ''/'')) changed"

fun keep_changed :: "string list \<Rightarrow> gate_finding list \<Rightarrow> py_error + gate_finding list" where
  "keep_changed changed [] = Inr []"
| "keep_changed changed (f # fs) =
     (if \<not> py_truth (gf_path f) then keep_changed changed fs
      else (case gf_path f of
              JStr p \<Rightarrow> res_bind (keep_changed changed fs) (\<lambda>gs. Inr (if in_changed changed p then f # gs else gs))
            | _ \<Rightarrow> Inl (AttributeError ''replace'')))"

definition filter_findings_in_diff :: "gate_finding list \<Rightarrow> string list \<Rightarrow> py_error + gate_finding list" where
  "filter_findings_in_diff findings changed = (if changed = [] then Inr findings else keep_changed changed findings)"

section \<open>The gate\<close>

definition evaluate_gating :: "gate_finding list \<Rightarrow> string \<Rightarrow> bool \<times> gate_finding list" where
  "evaluate_gating findings fail_on =
     (let threshold = severity_level fail_on
      in if threshold = 0 then (False, [])
         else (let exceeding = filter (\<lambda>f. threshold \<le> severity_level (gf_severity f)) findings
               in (exceeding \<noteq> [], exceeding)))"

record gate_config =
  gc_gating_mode :: "string option"
  gc_fail_on :: "string option"
  gc_base_commit_id :: "string option"
  gc_head_commit_id :: "string option"

definition gating_findings ::
  "(string \<Rightarrow> string \<Rightarrow> git_result) \<Rightarrow> gate_config \<Rightarrow> (string \<times> json) list \<Rightarrow> py_error + gate_finding list" where
  "gating_findings git cfg reports =
     res_bind (extract_gating_findings reports)
       (\<lambda>findings. if gc_gating_mode cfg = Some ''pr'' \<and> truthy (gc_base_commit_id cfg) \<and> truthy (gc_head_commit_id cfg)
          then filter_findings_in_diff findings (get_changed_files git (or_empty (gc_base_commit_id cfg)) (or_empty (gc_head_commit_id cfg)))
          else Inr findings)"

text \<open>The exit code and the document for \<open>--gating-result-output\<close>, if there is one to write.\<close>

definition run_gating ::
  "(string \<Rightarrow> string \<Rightarrow> git_result) \<Rightarrow> gate_config \<Rightarrow> (string \<times> json) list \<Rightarrow> py_error + (nat \<times> json option)" where
  "run_gating git cfg reports =
     (if \<not> truthy (gc_fail_on cfg) \<or> \<not> truthy (gc_gating_mode cfg) then Inr (0, None)
      else res_bind (gating_findings git cfg reports)
        (\<lambda>findings.
          let fail_on = or_empty (gc_fail_on cfg); (should_fail, exceeding) = evaluate_gating findings fail_on
          in Inr (if should_fail then 1 else 0,
               Some (JObj [(''fail'', JBool should_fail), (''fail_on'', JStr fail_on), (''exceeding_count'', JInt (int (length exceeding))),
                 (''exceeding'', JList (map (\<lambda>f. JObj [(''path'', gf_path f), (''severity'', JStr (gf_severity f)),
                                                        (''parser'', JStr (gf_parser f))]) exceeding))]))))"

section \<open>Properties\<close>

lemma evaluate_fails_iff:
  "fst (evaluate_gating fs t) \<longleftrightarrow> 0 < severity_level t \<and> (\<exists>f\<in>set fs. severity_level t \<le> severity_level (gf_severity f))"
  by (auto simp: evaluate_gating_def Let_def filter_empty_conv)

lemma run_gating_exit:
  assumes "truthy (gc_fail_on cfg)" "truthy (gc_gating_mode cfg)" "gating_findings git cfg reports = Inr fs"
  shows "\<exists>doc. run_gating git cfg reports = Inr (if fst (evaluate_gating fs (or_empty (gc_fail_on cfg))) then 1 else 0, doc)"
  using assms by (simp add: run_gating_def Let_def split_beta)

lemma run_gating_Inr:
  assumes "run_gating git cfg reports = Inr (n, doc)" "n \<noteq> 0"
  obtains fs where "truthy (gc_fail_on cfg)" "truthy (gc_gating_mode cfg)" "gating_findings git cfg reports = Inr fs"
    "fst (evaluate_gating fs (or_empty (gc_fail_on cfg)))"
  using assms by (auto simp: run_gating_def Let_def split_beta res_bind_Inr split: if_splits)

lemma gating_findings_fail_on [simp]: "gating_findings git (cfg\<lparr>gc_fail_on := t\<rparr>) reports = gating_findings git cfg reports"
  by (simp add: gating_findings_def cong: if_cong)

lemma truthy_level: "0 < severity_level t \<Longrightarrow> truthy (Some t)"
  by (cases t) (simp_all add: severity_level_def gate_normalize_severity_def GATE_SEVERITY_ORDER_def)


section \<open>A diff that cannot be computed\<close>

lemma keep_changed_sub: "keep_changed changed fs = Inr gs \<Longrightarrow> set gs \<subseteq> set fs"
proof (induction fs arbitrary: gs)
  case (Cons f fs)
  show ?case
  proof (cases "py_truth (gf_path f)")
    case True
    with Cons.prems obtain p hs where "gf_path f = JStr p" "keep_changed changed fs = Inr hs"
      "gs = (if in_changed changed p then f # hs else hs)"
      by (auto simp: res_bind_Inr split: json.splits)
    with Cons.IH[of hs] show ?thesis by auto
  next
    case False
    with Cons show ?thesis by auto
  qed
qed simp

lemma filter_diff_sub: "filter_findings_in_diff fs changed = Inr gs \<Longrightarrow> set gs \<subseteq> set fs"
  by (auto simp: filter_findings_in_diff_def dest: keep_changed_sub split: if_splits)

lemma broken_diff_keeps_all:
  assumes "\<And>base head. case git base head of None \<Rightarrow> True | Some (code, out) \<Rightarrow> code \<noteq> 0"
  shows "gating_findings git cfg reports = extract_gating_findings reports"
proof -
  have "get_changed_files git base head = []" for base head
    using assms[of base head] by (auto simp: get_changed_files_def split: option.splits)
  then show ?thesis by (cases "extract_gating_findings reports") (simp_all add: gating_findings_def filter_findings_in_diff_def)
qed

section \<open>Reports without severities\<close>

text \<open>A report of pip-audit: its documented entries carry no severity.\<close>

definition pip_report :: "(string \<times> string list) list \<Rightarrow> json" where
  "pip_report deps =
     JObj [(''dependencies'', JList (map (\<lambda>(name, ids).
        JObj [(''name'', JStr name), (''vulns'', JList (map (\<lambda>i. JObj [(''id'', JStr i)]) ids))]) deps))]"

definition pip_found :: "string \<Rightarrow> string \<Rightarrow> gate_finding" where
  "pip_found name i =
     \<lparr>gf_path = JStr name, gf_severity = ''unknown'', gf_parser = ''pip_audit'', gf_raw = JObj [(''id'', JStr i)]\<rparr>"

lemma collect_pip_vulns: "collect (pip_vuln (JStr name)) (map (\<lambda>i. JObj [(''id'', JStr i)]) ids) = Inr (map (pip_found name) ids)"
  by (induction ids)
    (simp_all add: is_dict_def as_dict_def pip_vuln_def jget_def gate_normalize_severity_def pip_found_def)

lemma jor_list: "jor (jor (JList xs) JNull) (JList []) = JList xs" "jor (JList xs) (JList []) = JList xs"
  by (cases xs; simp add: jor_def py_truth_def)+

lemma pip_dependency_entry:
  "pip_dependency [(''name'', JStr name), (''vulns'', JList (map (\<lambda>i. JObj [(''id'', JStr i)]) ids))] = Inr (map (pip_found name) ids)"
  by (simp add: pip_dependency_def jget_def jget_default_def jor_list dyn_iter_def collect_pip_vulns)

lemma collect_pip_dependencies:
  "collect pip_dependency (map (\<lambda>(name, ids). JObj [(''name'', JStr name), (''vulns'', JList (map (\<lambda>i. JObj [(''id'', JStr i)]) ids))]) deps)
   = Inr (concat (map (\<lambda>(name, ids). map (pip_found name) ids) deps))"
  by (induction deps) (auto simp: is_dict_def as_dict_def pip_dependency_entry)

lemma extract_pip_report:
  "extract_pip_findings (pip_report deps) = Inr (concat (map (\<lambda>(name, ids). map (pip_found name) ids) deps))"
  by (simp add: extract_pip_findings_def pip_report_def is_list_def dyn_get_def is_dict_def as_dict_def jget_def jor_list
      dyn_iter_def collect_pip_dependencies)

lemma keep_changed_text: "\<forall>f\<in>set fs. \<exists>p. gf_path f = JStr p \<Longrightarrow> \<exists>gs. keep_changed changed fs = Inr gs"
  by (induction fs) (auto simp: res_bind_Inr)

lemma severity_level_unknown [simp]: "severity_level ''unknown'' = 0"
  by code_simp

text \<open>A pip-audit report passes the gate whatever it lists and whatever the threshold is: its entries have no severity, and the
  fallback to medium that the code intends is never taken.\<close>

lemma pip_audit_never_gates: "\<exists>doc. run_gating git cfg [(''pip_audit'', pip_report deps)] = Inr (0, doc)"
proof (cases "truthy (gc_fail_on cfg) \<and> truthy (gc_gating_mode cfg)")
  case True
  define fs where "fs = concat (map (\<lambda>(name, ids). map (pip_found name) ids) deps)"
  have ex: "extract_gating_findings [(''pip_audit'', pip_report deps)] = Inr fs"
    by (simp add: extract_report_def extract_pip_report fs_def)
  have "\<exists>gs. gating_findings git cfg [(''pip_audit'', pip_report deps)] = Inr gs \<and> set gs \<subseteq> set fs"
    using keep_changed_text[of fs] keep_changed_sub
    by (fastforce simp: gating_findings_def ex filter_findings_in_diff_def fs_def pip_found_def simp del: extract_gating_findings.simps)
  then obtain gs where gs: "gating_findings git cfg [(''pip_audit'', pip_report deps)] = Inr gs" "set gs \<subseteq> set fs" by blast
  from gs(2) have "severity_level (gf_severity f) = 0" if "f \<in> set gs" for f
    using that by (auto simp: fs_def pip_found_def)
  then have "\<not> fst (evaluate_gating gs t)" for t
    by (auto simp: evaluate_fails_iff)
  with run_gating_exit[OF _ _ gs(1)] True show ?thesis by simp
qed (auto simp: run_gating_def)

text \<open>The levels that Semgrep documents are not among the words that the gate knows.\<close>

lemma semgrep_levels_ungraded: "\<forall>level\<in>set [''ERROR'', ''WARNING'', ''INFO'']. severity_level level = 0"
  by code_simp

section \<open>Witness\<close>

definition demo_gate :: gate_config where
  "demo_gate = \<lparr>gc_gating_mode = Some ''full'', gc_fail_on = None, gc_base_commit_id = None, gc_head_commit_id = None\<rparr>"

definition demo_npm :: "(string \<times> json) list" where
  "demo_npm = [(''npm_audit'', JObj [(''vulnerabilities'', JObj [(''lodash'', JObj [(''severity'', JStr ''high'')])])])]"

lemma demo_gate_fails: "\<exists>doc. run_gating (\<lambda>b h. None) (demo_gate\<lparr>gc_fail_on := Some ''high''\<rparr>) demo_npm = Inr (1, doc)"
proof -
  have "extract_gating_findings demo_npm =
      Inr [\<lparr>gf_path = JStr ''package.json'', gf_severity = ''high'', gf_parser = ''npm_audit'', gf_raw = JObj [(''severity'', JStr ''high'')]\<rparr>]"
    by code_simp
  then have g: "gating_findings (\<lambda>b h. None) (demo_gate\<lparr>gc_fail_on := Some ''high''\<rparr>) demo_npm =
      Inr [\<lparr>gf_path = JStr ''package.json'', gf_severity = ''high'', gf_parser = ''npm_audit'', gf_raw = JObj [(''severity'', JStr ''high'')]\<rparr>]"
    by (simp add: gating_findings_def demo_gate_def)
  have "severity_level ''high'' = 3" by code_simp
  with run_gating_exit[OF _ _ g] show ?thesis by (simp add: demo_gate_def evaluate_fails_iff or_empty_def truthy_def)
qed


end
