(* ===== verification/Vat_Access.thy ===== *)
theory Vat_Access
  imports Vat_Settings
begin

text \<open>
  Stored credentials: \<open>core/key_hashing.py\<close>, \<open>services/ingest_keys.py\<close>, \<open>services/admin_keys.py\<close> and
  \<open>services/oauth_clients.py\<close>. A store is a JSON document in the key-value table of settings. HMAC-SHA256, SHA-256 and the
  secret of the deployment are the record \<open>crypto\<close>; the random part of a new credential and the time are arguments of the
  operation. Python's \<open>compare_digest\<close> is equality of text.
\<close>

record crypto =
  cr_secret_key :: string
  cr_hmac :: "string \<Rightarrow> string \<Rightarrow> string"
  cr_hmac_digest :: "string \<Rightarrow> string \<Rightarrow> string"
  cr_sha256 :: "string \<Rightarrow> string"

section \<open>key\_hashing.py\<close>

definition V2_PREFIX :: string where
  "V2_PREFIX = ''v2:''"

definition pepper :: "crypto \<Rightarrow> string" where
  "pepper K = cr_hmac_digest K (cr_secret_key K) ''vat-key-hash-v2''"

definition hash_key :: "crypto \<Rightarrow> string \<Rightarrow> string" where
  "hash_key K key = V2_PREFIX @ cr_hmac K (pepper K) key"

definition legacy_hash :: "crypto \<Rightarrow> string \<Rightarrow> string" where
  "legacy_hash K key = cr_sha256 K key"

definition verify_key :: "crypto \<Rightarrow> string \<Rightarrow> string \<Rightarrow> bool" where
  "verify_key K key stored_hash =
     (if stored_hash = [] then False
      else if py_startswith stored_hash V2_PREFIX then hash_key K key = stored_hash
      else legacy_hash K key = stored_hash)"

lemma verify_hash_key [simp]: "verify_key K key (hash_key K key')  \<longleftrightarrow> hash_key K key = hash_key K key'"
  by (simp add: verify_key_def hash_key_def V2_PREFIX_def py_startswith_def)

text \<open>A stored value that is not text makes \<open>startswith\<close> fail.\<close>

definition verify_stored :: "crypto \<Rightarrow> string \<Rightarrow> json \<Rightarrow> py_error + bool" where
  "verify_stored K key stored =
     (if \<not> py_truth stored then Inr False
      else case stored of JStr h \<Rightarrow> Inr (verify_key K key h) | _ \<Rightarrow> Inl (AttributeError ''startswith''))"

section \<open>The stores\<close>

definition put_store :: "string \<Rightarrow> json_object \<Rightarrow> settings_kv \<Rightarrow> settings_kv" where
  "put_store name store kv = jset name (JObj store) kv"

definition drop_key :: "string \<Rightarrow> json_object \<Rightarrow> json_object" where
  "drop_key k d = filter (\<lambda>(l, v). l \<noteq> k) d"

lemma get_put_store [simp]: "get_credentials (put_store name store kv) name = store"
  by (simp add: get_credentials_def put_store_def map_of_jset)

lemma get_put_other [simp]: "name' \<noteq> name \<Longrightarrow> get_credentials (put_store name store kv) name' = get_credentials kv name'"
  by (simp add: get_credentials_def put_store_def map_of_jset)

text \<open>The first entry that is a dictionary and passes a test that may raise.\<close>

fun first_entry :: "(json_object \<Rightarrow> py_error + bool) \<Rightarrow> json_object \<Rightarrow> py_error + (string \<times> json_object) option" where
  "first_entry p [] = Inr None"
| "first_entry p ((k, v) # d) =
     (if is_dict v then res_bind (p (as_dict v)) (\<lambda>b. if b then Inr (Some (k, as_dict v)) else first_entry p d) else first_entry p d)"

text \<open>An entry that is rejected.\<close>

definition rejects :: "(json_object \<Rightarrow> py_error + bool) \<Rightarrow> json \<Rightarrow> bool" where
  "rejects p v \<longleftrightarrow> (\<not> is_dict v \<or> p (as_dict v) = Inr False)"

lemma first_entry_none: "\<forall>(k, v)\<in>set d. rejects p v \<Longrightarrow> first_entry p d = Inr None"
  by (induction d) (auto simp: rejects_def)

lemma first_entry_jset:
  assumes "p e = Inr True" "\<forall>(k, v)\<in>set d. k \<noteq> i \<longrightarrow> rejects p v"
  shows "first_entry p (jset i (JObj e) d) = Inr (Some (i, e))"
  using assms(2) by (induction d) (auto simp: assms(1) rejects_def is_dict_def as_dict_def)

lemma drop_jset: "drop_key k (jset k v d) = drop_key k d"
  by (induction d) (auto simp: drop_key_def)

lemma drop_key_subset: "set (drop_key k d) \<subseteq> set d"
  by (auto simp: drop_key_def)

lemma jset_entries: "(k, v) \<in> set (jset i w d) \<Longrightarrow> distinct (map fst d) \<Longrightarrow> k = i \<and> v = w \<or> k \<noteq> i \<and> (k, v) \<in> set d"
  by (induction d) (auto split: if_splits dest: in_set_zipE intro: rev_image_eqI)

lemma jset_new: "k \<notin> fst ` set d \<Longrightarrow> jset k v d = d @ [(k, v)]"
  by (induction d) auto

section \<open>ingest\_keys.py\<close>

definition KEY_PREFIX :: string where
  "KEY_PREFIX = ''vat_''"

definition KEY_PREFIX_LEN :: nat where
  "KEY_PREFIX_LEN = 6"

definition INGEST_KEYS_KEY :: string where
  "INGEST_KEYS_KEY = ''ingest_api_keys''"

definition generate_key :: "crypto \<Rightarrow> string \<Rightarrow> string \<times> string \<times> string" where
  "generate_key K raw = (let full_key = KEY_PREFIX @ raw in (full_key, hash_key K full_key, take KEY_PREFIX_LEN full_key))"

definition create_key :: "crypto \<Rightarrow> string \<Rightarrow> string \<Rightarrow> string \<Rightarrow> settings_kv \<Rightarrow> py_error + (string \<times> string \<times> settings_kv)" where
  "create_key K raw now source_id kv =
     (let sid = py_strip source_id
      in if sid = [] then Inl (ValueError ''sourceId is required'')
         else (let (full_key, key_hash, key_prefix) = generate_key K raw
               in Inr (full_key, key_prefix, put_store INGEST_KEYS_KEY
                    (jset sid (JObj [(''authType'', JStr ''api_token''), (''keyHash'', JStr key_hash), (''keyPrefix'', JStr key_prefix),
                       (''createdAt'', JStr now), (''sourceId'', JStr sid)]) (get_credentials kv INGEST_KEYS_KEY)) kv)))"

definition rotated_entry :: "string \<Rightarrow> string \<Rightarrow> string \<Rightarrow> string \<Rightarrow> json option \<Rightarrow> json_object" where
  "rotated_entry key_hash key_prefix now source_id old =
     (case old of
        Some (JObj info) \<Rightarrow>
          fold (\<lambda>(k, v). jset k v)
            [(''authType'', JStr ''api_token''), (''keyHash'', JStr key_hash), (''keyPrefix'', JStr key_prefix),
             (''createdAt'', jget_default ''createdAt'' (JStr now) info), (''rotatedAt'', JStr now), (''sourceId'', JStr source_id)] info
      | _ \<Rightarrow> [(''authType'', JStr ''api_token''), (''keyHash'', JStr key_hash), (''keyPrefix'', JStr key_prefix), (''createdAt'', JStr now),
              (''rotatedAt'', JStr now), (''sourceId'', JStr source_id)])"

definition regenerate_key :: "crypto \<Rightarrow> string \<Rightarrow> string \<Rightarrow> string \<Rightarrow> settings_kv \<Rightarrow> string \<times> string \<times> settings_kv" where
  "regenerate_key K raw now source_id kv =
     (let (full_key, key_hash, key_prefix) = generate_key K raw; store = get_credentials kv INGEST_KEYS_KEY
      in (full_key, key_prefix, put_store INGEST_KEYS_KEY
            (jset source_id (JObj (rotated_entry key_hash key_prefix now source_id (map_of store source_id))) store) kv))"

definition revoke_key :: "string \<Rightarrow> settings_kv \<Rightarrow> bool \<times> settings_kv" where
  "revoke_key source_id kv =
     (let store = get_credentials kv INGEST_KEYS_KEY
      in (map_of store source_id \<noteq> None, put_store INGEST_KEYS_KEY (drop_key source_id store) kv))"

record ingest_key_info =
  ik_source_id :: string
  ik_key_prefix :: json
  ik_configured :: bool
  ik_auth_type :: json
  ik_created_at :: json
  ik_rotated_at :: json

definition list_keys :: "settings_kv \<Rightarrow> ingest_key_info list" where
  "list_keys kv =
     map (\<lambda>(sid, v). let info = as_dict v in
            \<lparr>ik_source_id = sid, ik_key_prefix = jget_default ''keyPrefix'' (JStr ''vat_'') info, ik_configured = py_truth (jget ''keyHash'' info),
             ik_auth_type = jget_default ''authType'' (JStr ''api_token'') info, ik_created_at = jget ''createdAt'' info,
             ik_rotated_at = jget ''rotatedAt'' info\<rparr>)
       (filter (\<lambda>(sid, v). is_dict v \<and> py_truth (jget ''keyHash'' (as_dict v))) (get_credentials kv INGEST_KEYS_KEY))"

definition key_matches :: "crypto \<Rightarrow> string \<Rightarrow> json_object \<Rightarrow> py_error + bool" where
  "key_matches K key info = verify_stored K key (jget ''keyHash'' info)"

definition validate_key :: "crypto \<Rightarrow> string \<Rightarrow> settings_kv \<Rightarrow> py_error + (string \<times> string) option" where
  "validate_key K key kv =
     (let k = py_strip key
      in if k = [] \<or> \<not> py_startswith k KEY_PREFIX then Inr None
         else res_bind (first_entry (key_matches K k) (get_credentials kv INGEST_KEYS_KEY))
                (\<lambda>r. Inr (map_option (\<lambda>(sid, _). (sid, ''ingest:'' @ sid)) r)))"

section \<open>admin\_keys.py\<close>

definition ADMIN_KEYS_KEY :: string where
  "ADMIN_KEYS_KEY = ''admin_api_keys''"

definition generate_admin_key :: "crypto \<Rightarrow> string \<Rightarrow> string \<times> string \<times> string" where
  "generate_admin_key K raw = (let full_key = KEY_PREFIX @ raw in (full_key, hash_key K full_key, take KEY_PREFIX_LEN full_key))"

definition digits_nat :: "string \<Rightarrow> nat" where
  "digits_nat ds = foldl (\<lambda>n c. 10 * n + (of_char c - 48)) 0 ds"

definition used_numbers :: "json_object \<Rightarrow> nat list" where
  "used_numbers store =
     map (\<lambda>(k, v). digits_nat (drop 3 k))
       (filter (\<lambda>(k, v). py_startswith k ''ak_'' \<and> drop 3 k \<noteq> [] \<and> list_all py_isdigit (drop 3 k)) store)"

text \<open>The loop ends after at most one round more than there are numbers in use.\<close>

definition next_id :: "json_object \<Rightarrow> string" where
  "next_id store =
     (let used = used_numbers store
      in case find (\<lambda>n. n \<notin> set used) [1..<length used + 2] of Some n \<Rightarrow> ''ak_'' @ nat_str n | None \<Rightarrow> [])"

definition create_admin_key ::
  "crypto \<Rightarrow> string \<Rightarrow> string \<Rightarrow> string option \<Rightarrow> bool \<Rightarrow> settings_kv \<Rightarrow> py_error + (string \<times> string \<times> string \<times> settings_kv)" where
  "create_admin_key K raw now tenant_id cross_tenant kv =
     (if cross_tenant \<and> tenant_id \<noteq> None then Inl (ValueError ''cross_tenant keys must not be bound to a tenant_id'')
      else if \<not> cross_tenant \<and> \<not> truthy tenant_id then Inl (ValueError ''admin key requires either tenant_id or cross_tenant=True'')
      else (let (full_key, key_hash, key_prefix) = generate_admin_key K raw; store = get_credentials kv ADMIN_KEYS_KEY; key_id = next_id store
            in Inr (key_id, full_key, key_prefix, put_store ADMIN_KEYS_KEY
                 (jset key_id (JObj [(''keyHash'', JStr key_hash), (''keyPrefix'', JStr key_prefix), (''tenantId'', opt_json tenant_id),
                    (''crossTenant'', JBool cross_tenant), (''createdAt'', JStr now)]) store) kv)))"

definition revoke_admin_key :: "string \<Rightarrow> settings_kv \<Rightarrow> bool \<times> settings_kv" where
  "revoke_admin_key key_id kv =
     (let store = get_credentials kv ADMIN_KEYS_KEY
      in if map_of store key_id \<noteq> None then (True, put_store ADMIN_KEYS_KEY (drop_key key_id store) kv) else (False, kv))"

definition legacy_entry :: "json_object \<Rightarrow> bool" where
  "legacy_entry info \<longleftrightarrow> map_of info ''tenantId'' = None \<and> map_of info ''crossTenant'' = None"

definition entry_cross_tenant :: "json_object \<Rightarrow> bool" where
  "entry_cross_tenant info = py_truth (jget_default ''crossTenant'' (JBool (legacy_entry info)) info)"

record admin_key_info =
  ak_id :: string
  ak_key_prefix :: json
  ak_tenant_id :: json
  ak_cross_tenant :: bool
  ak_created_at :: json
  ak_legacy :: bool

definition list_admin_keys :: "settings_kv \<Rightarrow> admin_key_info list" where
  "list_admin_keys kv =
     map (\<lambda>(kid, v). let info = as_dict v in
            \<lparr>ak_id = kid, ak_key_prefix = jget_default ''keyPrefix'' (JStr KEY_PREFIX) info, ak_tenant_id = jget ''tenantId'' info,
             ak_cross_tenant = entry_cross_tenant info, ak_created_at = jget ''createdAt'' info, ak_legacy = legacy_entry info\<rparr>)
       (filter (\<lambda>(kid, v). is_dict v \<and> py_truth (jget ''keyHash'' (as_dict v))) (get_credentials kv ADMIN_KEYS_KEY))"

record resolved_admin_key =
  ra_key_id :: string
  ra_tenant_id :: json
  ra_cross_tenant :: bool
  ra_legacy :: bool

definition resolve_admin_key :: "crypto \<Rightarrow> string \<Rightarrow> settings_kv \<Rightarrow> py_error + resolved_admin_key option" where
  "resolve_admin_key K key kv =
     (let k = py_strip key
      in if k = [] \<or> \<not> py_startswith k KEY_PREFIX then Inr None
         else res_bind (first_entry (key_matches K k) (get_credentials kv ADMIN_KEYS_KEY))
                (\<lambda>r. Inr (map_option (\<lambda>(kid, info).
                   \<lparr>ra_key_id = kid, ra_tenant_id = (if entry_cross_tenant info then JNull else jget ''tenantId'' info),
                    ra_cross_tenant = entry_cross_tenant info, ra_legacy = legacy_entry info\<rparr>) r)))"

definition validate_admin_key :: "crypto \<Rightarrow> string \<Rightarrow> settings_kv \<Rightarrow> py_error + bool" where
  "validate_admin_key K key kv = res_bind (resolve_admin_key K key kv) (\<lambda>r. Inr (r \<noteq> None))"

section \<open>oauth\_clients.py\<close>

definition INGEST_OAUTH_CLIENTS_KEY :: string where
  "INGEST_OAUTH_CLIENTS_KEY = ''ingest_oauth_clients''"

definition OAUTH_CLIENT_ID_PREFIX :: string where
  "OAUTH_CLIENT_ID_PREFIX = ''vat_oauth_''"

definition generate_client_credentials :: "string \<Rightarrow> string \<Rightarrow> string \<times> string" where
  "generate_client_credentials raw secret = (OAUTH_CLIENT_ID_PREFIX @ take 16 raw, secret)"

definition create_oauth_client ::
  "crypto \<Rightarrow> string \<Rightarrow> string \<Rightarrow> string \<Rightarrow> string \<Rightarrow> settings_kv \<Rightarrow> py_error + (string \<times> string \<times> settings_kv)" where
  "create_oauth_client K raw secret now source_id kv =
     (let sid = py_strip source_id
      in if sid = [] then Inl (ValueError ''sourceId is required'')
         else (let (client_id, client_secret) = generate_client_credentials raw secret
               in Inr (client_id, client_secret, put_store INGEST_OAUTH_CLIENTS_KEY
                    (jset sid (JObj [(''clientId'', JStr client_id), (''clientSecretHash'', JStr (hash_key K client_secret)),
                       (''createdAt'', JStr now), (''sourceId'', JStr sid)]) (get_credentials kv INGEST_OAUTH_CLIENTS_KEY)) kv)))"

definition client_matches :: "crypto \<Rightarrow> string \<Rightarrow> string \<Rightarrow> json_object \<Rightarrow> py_error + bool" where
  "client_matches K client_id client_secret info =
     (if jget ''clientId'' info = JStr client_id then verify_stored K client_secret (jget_default ''clientSecretHash'' (JStr []) info)
      else Inr False)"

definition validate_oauth_client :: "crypto \<Rightarrow> string \<Rightarrow> string \<Rightarrow> settings_kv \<Rightarrow> py_error + (string \<times> string) option" where
  "validate_oauth_client K client_id client_secret kv =
     (let k = py_strip client_id
      in if client_secret = [] \<or> k = [] \<or> \<not> py_startswith k OAUTH_CLIENT_ID_PREFIX then Inr None
         else res_bind (first_entry (client_matches K k client_secret) (get_credentials kv INGEST_OAUTH_CLIENTS_KEY))
                (\<lambda>r. Inr (map_option (\<lambda>(sid, _). (sid, ''ingest:'' @ sid)) r)))"

record oauth_client_info =
  oc_source_id :: string
  oc_client_id :: json
  oc_created_at :: json
  oc_rotated_at :: json

definition client_info :: "string \<Rightarrow> json_object \<Rightarrow> oauth_client_info" where
  "client_info sid info =
     \<lparr>oc_source_id = sid, oc_client_id = jget_default ''clientId'' (JStr []) info, oc_created_at = jget ''createdAt'' info,
      oc_rotated_at = jget ''rotatedAt'' info\<rparr>"

definition get_client_by_source :: "string \<Rightarrow> settings_kv \<Rightarrow> oauth_client_info option" where
  "get_client_by_source source_id kv =
     (case map_of (get_credentials kv INGEST_OAUTH_CLIENTS_KEY) source_id of
        Some (JObj info) \<Rightarrow> Some (client_info source_id info) | _ \<Rightarrow> None)"

definition rotate_oauth_client :: "crypto \<Rightarrow> string \<Rightarrow> string \<Rightarrow> string \<Rightarrow> settings_kv \<Rightarrow> py_error + (json \<times> string \<times> settings_kv)" where
  "rotate_oauth_client K secret now source_id kv =
     (let sid = py_strip source_id; store = get_credentials kv INGEST_OAUTH_CLIENTS_KEY
      in if sid = [] then Inl (ValueError ''sourceId is required'')
         else case map_of store sid of
                Some (JObj info) \<Rightarrow>
                  Inr (jget_default ''clientId'' (JStr []) info, secret, put_store INGEST_OAUTH_CLIENTS_KEY
                    (jset sid (JObj (jset ''rotatedAt'' (JStr now) (jset ''clientSecretHash'' (JStr (hash_key K secret)) info))) store) kv)
              | _ \<Rightarrow> Inl (ValueError (''No OAuth client for source '' @ sid)))"

definition revoke_oauth_client :: "string \<Rightarrow> settings_kv \<Rightarrow> bool \<times> settings_kv" where
  "revoke_oauth_client source_id kv =
     (let store = get_credentials kv INGEST_OAUTH_CLIENTS_KEY
      in if map_of store source_id \<noteq> None then (True, put_store INGEST_OAUTH_CLIENTS_KEY (drop_key source_id store) kv) else (False, kv))"

definition list_oauth_clients :: "settings_kv \<Rightarrow> oauth_client_info list" where
  "list_oauth_clients kv =
     map (\<lambda>(sid, v). client_info sid (as_dict v))
       (filter (\<lambda>(sid, v). is_dict v \<and> py_truth (jget ''clientId'' (as_dict v))) (get_credentials kv INGEST_OAUTH_CLIENTS_KEY))"

section \<open>Fresh numbers\<close>

lemma digits_nat_snoc: "digits_nat (ds @ [c]) = 10 * digits_nat ds + (of_char c - 48)"
  by (simp add: digits_nat_def)

lemma digit_char_value: "n < 10 \<Longrightarrow> of_char (digit_char n) - (48 :: nat) = n \<and> py_isdigit (digit_char n)"
  by (simp add: digit_char_def py_isdigit_def of_char_of)

lemma nat_str_digits: "digits_nat (nat_str n) = n \<and> nat_str n \<noteq> [] \<and> list_all py_isdigit (nat_str n)"
proof (induction n rule: nat_str.induct)
  case (1 n)
  show ?case
  proof (cases "n < 10")
    case True
    then show ?thesis using digit_char_value[of n] by (simp add: nat_str.simps digits_nat_def)
  next
    case False
    then show ?thesis using 1 digit_char_value[of "n mod 10"]
      by (subst nat_str.simps, subst (2) nat_str.simps, subst (3) nat_str.simps) (simp add: digits_nat_snoc)
  qed
qed

lemma find_fresh: "\<exists>n. find (\<lambda>n. n \<notin> set used) [1..<length used + 2] = Some n \<and> n \<notin> set (used :: nat list)"
proof -
  have "\<not> set [1..<length used + 2] \<subseteq> set used"
  proof
    assume "set [1..<length used + 2] \<subseteq> set used"
    then have "card (set [1..<length used + 2]) \<le> length used" by (meson card_length card_mono finite_set le_trans)
    moreover have "card (set [1..<length used + 2]) = length used + 1" by (simp only: distinct_card[OF distinct_upt] length_upt)
    ultimately show False by linarith
  qed
  then obtain m where m: "m \<in> set [1..<length used + 2]" "m \<notin> set used" by blast
  show ?thesis
  proof (cases "find (\<lambda>n. n \<notin> set used) [1..<length used + 2]")
    case None
    with m show ?thesis by (metis (mono_tags, lifting) find_None_iff)
  next
    case (Some n)
    then have "n \<notin> set used" by (metis (mono_tags, lifting) find_Some_iff)
    with Some show ?thesis by blast
  qed
qed

lemma next_id_fresh: "next_id store \<notin> fst ` set store"
proof
  assume a: "next_id store \<in> fst ` set store"
  obtain n where n: "find (\<lambda>n. n \<notin> set (used_numbers store)) [1..<length (used_numbers store) + 2] = Some n" "n \<notin> set (used_numbers store)"
    using find_fresh by blast
  then have i: "next_id store = ''ak_'' @ nat_str n" by (simp add: next_id_def)
  from a obtain v where "(''ak_'' @ nat_str n, v) \<in> set store" unfolding i by force
  then have "digits_nat (drop 3 (''ak_'' @ nat_str n)) \<in> set (used_numbers store)"
    using nat_str_digits[of n] by (force simp: used_numbers_def py_startswith_def)
  with n(2) nat_str_digits[of n] show False by simp
qed

section \<open>Properties\<close>

lemma stripped_key: "\<forall>c\<in>set raw. \<not> py_isspace c \<Longrightarrow> py_strip (KEY_PREFIX @ raw) = KEY_PREFIX @ raw \<and> py_startswith (KEY_PREFIX @ raw) KEY_PREFIX"
proof -
  assume "\<forall>c\<in>set raw. \<not> py_isspace c"
  moreover have "\<forall>c\<in>set KEY_PREFIX. \<not> py_isspace c" by code_simp
  ultimately have "\<forall>c\<in>set (KEY_PREFIX @ raw). \<not> py_isspace c" "KEY_PREFIX @ raw \<noteq> []" by (auto simp: KEY_PREFIX_def)
  then have "py_strip (KEY_PREFIX @ raw) = KEY_PREFIX @ raw" by (intro py_strip_fixed) (metis hd_in_set last_in_set)
  then show ?thesis by (simp add: py_startswith_def)
qed

lemma key_prefix_ne [simp]: "KEY_PREFIX \<noteq> []"
  by (simp add: KEY_PREFIX_def)

text \<open>C23. An administrator's key works from its creation to its revocation, with the scope it was created for: it resolves to its own
  entry, bound to its tenant or cross-tenant but never both, and after the revocation to nothing.\<close>

theorem admin_key_lifecycle:
  assumes "create_admin_key K raw now tenant_id cross_tenant kv = Inr (key_id, full_key, key_prefix, kv1)"
    and "\<forall>c\<in>set raw. \<not> py_isspace c"
    and "\<forall>(k, v)\<in>set (get_credentials kv ADMIN_KEYS_KEY). rejects (key_matches K full_key) v"
  shows "resolve_admin_key K full_key kv1 =
      Inr (Some \<lparr>ra_key_id = key_id, ra_tenant_id = opt_json tenant_id, ra_cross_tenant = cross_tenant, ra_legacy = False\<rparr>) \<and>
    (cross_tenant \<longleftrightarrow> tenant_id = None) \<and>
    fst (revoke_admin_key key_id kv1) \<and> resolve_admin_key K full_key (snd (revoke_admin_key key_id kv1)) = Inr None"
proof -
  let ?store = "get_credentials kv ADMIN_KEYS_KEY"
  define e where "e = [(''keyHash'', JStr (hash_key K full_key)), (''keyPrefix'', JStr (take KEY_PREFIX_LEN full_key)), (''tenantId'', opt_json tenant_id),
    (''crossTenant'', JBool cross_tenant), (''createdAt'', JStr now)]"
  from assms(1) have c: "full_key = KEY_PREFIX @ raw" "key_id = next_id ?store" "kv1 = put_store ADMIN_KEYS_KEY (jset key_id (JObj e) ?store) kv"
    "cross_tenant \<longleftrightarrow> tenant_id = None"
    by (auto simp: create_admin_key_def generate_admin_key_def e_def Let_def truthy_def or_empty_def split: if_splits option.splits)
  have f: "py_strip full_key = full_key" "py_startswith full_key KEY_PREFIX" "full_key \<noteq> []"
    using stripped_key[OF assms(2)] c(1) by auto
  have m: "key_matches K full_key e = Inr True"
    by (simp add: key_matches_def verify_stored_def e_def jget_def py_truth_def hash_key_def V2_PREFIX_def verify_key_def py_startswith_def)
  have r: "resolve_admin_key K full_key kv1 =
      Inr (Some \<lparr>ra_key_id = key_id, ra_tenant_id = opt_json tenant_id, ra_cross_tenant = cross_tenant, ra_legacy = False\<rparr>)"
    using first_entry_jset[of "key_matches K full_key" e ?store key_id] m assms(3) c(4)
    by (auto simp: resolve_admin_key_def f c(3) entry_cross_tenant_def legacy_entry_def e_def jget_def jget_default_def py_truth_def opt_json_def
        split: prod.splits)
  have d: "drop_key key_id (jset key_id (JObj e) ?store) = drop_key key_id ?store" by (rule drop_jset)
  have "\<forall>(k, v)\<in>set (drop_key key_id ?store). rejects (key_matches K full_key) v"
    using assms(3) drop_key_subset by blast
  then have "resolve_admin_key K full_key (snd (revoke_admin_key key_id kv1)) = Inr None"
    by (simp add: revoke_admin_key_def c(3) map_of_jset resolve_admin_key_def f d first_entry_none)
  moreover have "fst (revoke_admin_key key_id kv1)" by (simp add: revoke_admin_key_def c(3) map_of_jset Let_def)
  ultimately show ?thesis using r c(4) by blast
qed

lemma map_of_fold_jset: "map_of (fold (\<lambda>(k, v). jset k v) kvs d) k = (case map_of (rev kvs) k of Some v \<Rightarrow> Some v | None \<Rightarrow> map_of d k)"
  by (induction kvs arbitrary: d) (auto simp: map_of_jset split: option.splits)

lemma rotated_hash: "jget ''keyHash'' (rotated_entry h p now sid old) = JStr h"
  by (auto simp: rotated_entry_def jget_def map_of_jset split: option.splits json.splits)

text \<open>Rotating the key of a source replaces it: the new key is valid for the source, and the old one is valid no more.\<close>

lemma rotation_replaces_key:
  assumes "regenerate_key K raw now source_id kv = (full_key, key_prefix, kv1)" and "\<forall>c\<in>set raw. \<not> py_isspace c"
    and "\<forall>(k, v)\<in>set (get_credentials kv INGEST_KEYS_KEY). k \<noteq> source_id \<longrightarrow>
      rejects (key_matches K full_key) v \<and> rejects (key_matches K (py_strip old_key)) v"
    and "hash_key K (py_strip old_key) \<noteq> hash_key K full_key" "distinct (map fst (get_credentials kv INGEST_KEYS_KEY))"
  shows "validate_key K full_key kv1 = Inr (Some (source_id, ''ingest:'' @ source_id)) \<and> validate_key K old_key kv1 = Inr None"
proof -
  let ?store = "get_credentials kv INGEST_KEYS_KEY"
  define e where "e = rotated_entry (hash_key K full_key) (take KEY_PREFIX_LEN full_key) now source_id (map_of ?store source_id)"
  from assms(1) have c: "full_key = KEY_PREFIX @ raw" "kv1 = put_store INGEST_KEYS_KEY (jset source_id (JObj e) ?store) kv"
    by (auto simp: regenerate_key_def generate_key_def e_def Let_def)
  have f: "py_strip full_key = full_key" "py_startswith full_key KEY_PREFIX" "full_key \<noteq> []"
    using stripped_key[OF assms(2)] c(1) by auto
  have h: "jget ''keyHash'' e = JStr (hash_key K full_key)" by (simp add: e_def rotated_hash)
  have ne: "hash_key K full_key \<noteq> []" by (simp add: hash_key_def V2_PREFIX_def)
  have m: "key_matches K full_key e = Inr True" "key_matches K (py_strip old_key) e = Inr False"
    using assms(4) ne by (auto simp: key_matches_def verify_stored_def h py_truth_def)
  have "first_entry (key_matches K full_key) (jset source_id (JObj e) ?store) = Inr (Some (source_id, e))"
    using assms(3) m(1) by (intro first_entry_jset) auto
  moreover have "first_entry (key_matches K (py_strip old_key)) (jset source_id (JObj e) ?store) = Inr None"
    by (rule first_entry_none) (use assms(3,5) m(2) in \<open>auto simp: rejects_def dest!: jset_entries\<close>)
  ultimately show ?thesis
    by (simp add: validate_key_def f c(2) Let_def)
qed

section \<open>Witnesses\<close>

definition demo_crypto :: crypto where
  "demo_crypto = \<lparr>cr_secret_key = ''s'', cr_hmac = (\<lambda>k m. m), cr_hmac_digest = (\<lambda>k m. k @ m), cr_sha256 = (\<lambda>m. m)\<rparr>"

theorem admin_key_lifecycle_witness:
  "\<exists>key_id full_key key_prefix kv1. create_admin_key demo_crypto ''abc'' ''now'' (Some ''acme'') False [] = Inr (key_id, full_key, key_prefix, kv1) \<and>
    resolve_admin_key demo_crypto full_key kv1 =
      Inr (Some \<lparr>ra_key_id = key_id, ra_tenant_id = JStr ''acme'', ra_cross_tenant = False, ra_legacy = False\<rparr>) \<and>
    resolve_admin_key demo_crypto full_key (snd (revoke_admin_key key_id kv1)) = Inr None"
proof -
  obtain key_id full_key key_prefix kv1
    where c: "create_admin_key demo_crypto ''abc'' ''now'' (Some ''acme'') False [] = Inr (key_id, full_key, key_prefix, kv1)"
    by (simp add: create_admin_key_def truthy_def or_empty_def Let_def generate_admin_key_def)
  have "\<forall>c\<in>set ''abc''. \<not> py_isspace c" by code_simp
  from admin_key_lifecycle[OF c this] have "resolve_admin_key demo_crypto full_key kv1 =
      Inr (Some \<lparr>ra_key_id = key_id, ra_tenant_id = opt_json (Some ''acme''), ra_cross_tenant = False, ra_legacy = False\<rparr>)"
    "resolve_admin_key demo_crypto full_key (snd (revoke_admin_key key_id kv1)) = Inr None"
    by (simp_all add: get_credentials_def)
  with c show ?thesis by (auto simp: opt_json_def)
qed

end
