(* ===== verification/Vat_Limits.thy ===== *)
theory Vat_Limits
  imports Vat_Access
begin

text \<open>
  Throttling: \<open>core/rate_limit.py\<close> (failure counters and the shared schedule of requests in Redis), the token endpoint
  \<open>api/oauth.py\<close> that uses the counters, and \<open>core/retry.py\<close>. Redis is a table of values with an
  expiry; \<open>None\<close> stands for a store that cannot be reached. Times are milliseconds; fractions of a millisecond are left out.
\<close>

section \<open>Redis\<close>

record cell =
  ce_value :: int
  ce_expires :: "int option"

type_synonym redis = "(string \<times> cell) list"

definition redis_get :: "int \<Rightarrow> string \<Rightarrow> redis \<Rightarrow> cell option" where
  "redis_get now key r =
     (case map_of r key of
        Some c \<Rightarrow> (case ce_expires c of None \<Rightarrow> Some c | Some t \<Rightarrow> if now < t then Some c else None)
      | None \<Rightarrow> None)"

definition redis_del :: "string \<Rightarrow> redis \<Rightarrow> redis" where
  "redis_del key r = filter (\<lambda>(k, c). k \<noteq> key) r"

definition redis_set :: "string \<Rightarrow> cell \<Rightarrow> redis \<Rightarrow> redis" where
  "redis_set key c r = (key, c) # redis_del key r"

lemma map_of_redis_del: "map_of (redis_del key r) k = (if k = key then None else map_of r k)"
  by (induction r) (auto simp: redis_del_def)

lemma redis_get_set [simp]:
  "redis_get now k (redis_set key c r) =
     (if k = key then (case ce_expires c of None \<Rightarrow> Some c | Some t \<Rightarrow> if now < t then Some c else None) else redis_get now k r)"
  by (simp add: redis_get_def redis_set_def map_of_redis_del)

lemma redis_get_del [simp]: "redis_get now k (redis_del key r) = (if k = key then None else redis_get now k r)"
  by (simp add: redis_get_def map_of_redis_del)

text \<open>\<open>INCR\<close> keeps the expiry of a live key; \<open>EXPIRE\<close> sets it.\<close>

definition redis_incr :: "int \<Rightarrow> string \<Rightarrow> redis \<Rightarrow> int \<times> redis" where
  "redis_incr now key r =
     (case redis_get now key r of
        None \<Rightarrow> (1, redis_set key \<lparr>ce_value = 1, ce_expires = None\<rparr> r)
      | Some c \<Rightarrow> (ce_value c + 1, redis_set key (c\<lparr>ce_value := ce_value c + 1\<rparr>) r))"

definition redis_expire :: "int \<Rightarrow> string \<Rightarrow> int \<Rightarrow> redis \<Rightarrow> redis" where
  "redis_expire now key seconds r =
     (case redis_get now key r of None \<Rightarrow> r | Some c \<Rightarrow> redis_set key (c\<lparr>ce_expires := Some (now + 1000 * seconds)\<rparr>) r)"

section \<open>Failure counters\<close>

definition is_locked :: "int \<Rightarrow> string \<Rightarrow> int \<Rightarrow> redis option \<Rightarrow> bool" where
  "is_locked now key threshold r =
     (case r of None \<Rightarrow> False | Some db \<Rightarrow> (case redis_get now key db of None \<Rightarrow> False | Some c \<Rightarrow> threshold \<le> ce_value c))"

definition record_failure :: "int \<Rightarrow> string \<Rightarrow> int \<Rightarrow> redis option \<Rightarrow> int \<times> redis option" where
  "record_failure now key window_seconds r =
     (case r of
        None \<Rightarrow> (0, None)
      | Some db \<Rightarrow>
          (let (count, db1) = redis_incr now key db
           in (count, Some (if count = 1 then redis_expire now key window_seconds db1 else db1))))"

definition reset_counter :: "string \<Rightarrow> redis option \<Rightarrow> redis option" where
  "reset_counter key r = map_option (redis_del key) r"

section \<open>The shared schedule\<close>

definition GAP_TTL_MS :: int where
  "GAP_TTL_MS = 300000"

definition MAX_WAIT_MS :: int where
  "MAX_WAIT_MS = 120000"

definition gap_key :: "string \<Rightarrow> string" where
  "gap_key key = ''ratelimit:gap:'' @ key"

text \<open>The Lua script: the milliseconds to wait for the next slot.\<close>

definition claim_slot :: "int \<Rightarrow> string \<Rightarrow> int \<Rightarrow> redis \<Rightarrow> int \<times> redis" where
  "claim_slot now key gap r =
     (let nxt = (case redis_get now key r of None \<Rightarrow> 0 | Some c \<Rightarrow> ce_value c);
          put = (\<lambda>v. redis_set key \<lparr>ce_value = v, ce_expires = Some (now + GAP_TTL_MS)\<rparr> r)
      in if nxt \<le> now then (0, put (now + gap)) else (nxt - now, put (nxt + gap)))"

definition acquire_gap_slot :: "int \<Rightarrow> string \<Rightarrow> int \<Rightarrow> redis option \<Rightarrow> int option \<times> redis option" where
  "acquire_gap_slot now key gap r =
     (case r of
        None \<Rightarrow> (None, None)
      | Some db \<Rightarrow> (let (wait, db1) = claim_slot now (gap_key key) gap db in (Some (min (max wait 0) MAX_WAIT_MS), Some db1)))"

definition note_upstream_backoff :: "int \<Rightarrow> string \<Rightarrow> int \<Rightarrow> redis option \<Rightarrow> redis option" where
  "note_upstream_backoff now key retry_after_ms r =
     map_option (\<lambda>db.
       let nxt = (case redis_get now (gap_key key) db of None \<Rightarrow> 0 | Some c \<Rightarrow> ce_value c); until = now + max retry_after_ms 0
       in if nxt < until then redis_set (gap_key key) \<lparr>ce_value = until, ce_expires = Some (now + GAP_TTL_MS)\<rparr> db else db) r"

section \<open>core/retry.py\<close>

text \<open>The outcome of the calls from number \<open>attempt\<close> on; \<open>None\<close> is the \<open>TypeError\<close> of raising nothing when no attempt is allowed.\<close>

function retry_from :: "(nat \<Rightarrow> 'e + 'a) \<Rightarrow> nat \<Rightarrow> nat \<Rightarrow> 'e option \<Rightarrow> 'e option + 'a" where
  "retry_from f max_attempts attempt last_exc =
     (if max_attempts \<le> attempt then Inl last_exc
      else case f attempt of Inr x \<Rightarrow> Inr x | Inl e \<Rightarrow> retry_from f max_attempts (Suc attempt) (Some e))"
  by pat_completeness auto
termination by (relation "measure (\<lambda>(f, m, a, e). m - a)") auto

declare retry_from.simps [simp del]

definition retry_async :: "(nat \<Rightarrow> 'e + 'a) \<Rightarrow> nat \<Rightarrow> 'e option + 'a" where
  "retry_async f max_attempts = retry_from f max_attempts 0 None"

definition retry_delay :: "nat \<Rightarrow> nat \<Rightarrow> nat \<Rightarrow> nat" where
  "retry_delay base_delay max_delay attempt = min (base_delay * 2 ^ attempt) max_delay"

section \<open>api/oauth.py\<close>

definition lockout_key :: "string \<Rightarrow> string" where
  "lockout_key client_id = ''vat:oauth_token:lockout:'' @ client_id"

text \<open>The source that the issued token names.\<close>

definition post_token ::
  "crypto \<Rightarrow> int \<Rightarrow> int \<Rightarrow> settings_kv \<Rightarrow> int \<Rightarrow> string \<Rightarrow> string option \<Rightarrow> string option \<Rightarrow> redis option \<Rightarrow> (py_error + string) \<times> redis option" where
  "post_token K threshold window kv now grant_type client_id client_secret r =
     (if grant_type \<noteq> ''client_credentials'' then (Inl (HTTPException 400 ''grant_type must be client_credentials''), r)
      else if \<not> truthy client_id \<or> \<not> truthy client_secret then (Inl (HTTPException 400 ''client_id and client_secret required''), r)
      else (let cid = or_empty client_id; key = lockout_key cid
            in if is_locked now key threshold r then (Inl (HTTPException 429 ''Too many failed attempts. Try again later.''), r)
               else case validate_oauth_client K cid (or_empty client_secret) kv of
                      Inl e \<Rightarrow> (Inl e, r)
                    | Inr None \<Rightarrow> (Inl (HTTPException 401 ''Invalid client credentials''), snd (record_failure now key window r))
                    | Inr (Some (source_id, _)) \<Rightarrow> (Inr source_id, reset_counter key r)))"

section \<open>The lockout\<close>

text \<open>A run of attempts with one client id, at given times and with given secrets.\<close>

fun attempts :: "crypto \<Rightarrow> int \<Rightarrow> int \<Rightarrow> settings_kv \<Rightarrow> string \<Rightarrow> (int \<times> string) list \<Rightarrow> redis option \<Rightarrow> redis option" where
  "attempts K threshold window kv cid [] r = r"
| "attempts K threshold window kv cid ((now, secret) # ts) r =
     attempts K threshold window kv cid ts (snd (post_token K threshold window kv now ''client_credentials'' (Some cid) (Some secret) r))"

lemma failed_attempt:
  assumes "cid \<noteq> []" "secret \<noteq> []" "validate_oauth_client K cid secret kv = Inr None"
  shows "snd (post_token K threshold window kv now ''client_credentials'' (Some cid) (Some secret) r) =
    (if is_locked now (lockout_key cid) threshold r then r else snd (record_failure now (lockout_key cid) window r))"
  using assms by (simp add: post_token_def truthy_def or_empty_def Let_def)

text \<open>The counter while a window is open.\<close>

definition counting :: "string \<Rightarrow> int \<Rightarrow> int \<Rightarrow> redis option \<Rightarrow> bool" where
  "counting key n ends r \<longleftrightarrow> (\<exists>db. r = Some db \<and> map_of db key = Some \<lparr>ce_value = n, ce_expires = Some ends\<rparr>)"

lemma counting_get: "counting key n ends (Some db) \<Longrightarrow> now < ends \<Longrightarrow> redis_get now key db = Some \<lparr>ce_value = n, ce_expires = Some ends\<rparr>"
  by (simp add: counting_def redis_get_def)

lemma counting_failure:
  assumes "counting key n ends r" "now < ends" "1 \<le> n"
  shows "counting key (n + 1) ends (snd (record_failure now key window r))"
  using assms by (auto simp: record_failure_def redis_incr_def counting_def redis_get_def redis_set_def)

lemma first_failure:
  assumes "redis_get now key db = None" "0 < window"
  shows "counting key 1 (now + 1000 * window) (snd (record_failure now key window (Some db)))"
proof -
  have "redis_incr now key db = (1, redis_set key \<lparr>ce_value = 1, ce_expires = None\<rparr> db)" using assms(1) by (simp add: redis_incr_def)
  then show ?thesis by (simp add: record_failure_def redis_expire_def counting_def) (simp add: redis_set_def)
qed

lemma attempts_count:
  assumes "cid \<noteq> []" "\<forall>(now, secret)\<in>set ts. now < ends \<and> secret \<noteq> [] \<and> validate_oauth_client K cid secret kv = Inr None"
    and "counting (lockout_key cid) n ends r" "1 \<le> n"
  shows "counting (lockout_key cid) (max n (min threshold (n + int (length ts)))) ends (attempts K threshold window kv cid ts r)"
  using assms
proof (induction ts arbitrary: n r)
  case Nil
  have "max n (min threshold n) = n" by (rule max_absorb1) simp
  with Nil show ?case by simp
next
  case (Cons a ts)
  obtain now secret where a: "a = (now, secret)" by force
  obtain db where r: "r = Some db" using Cons.prems(3) by (auto simp: counting_def)
  have now: "now < ends" and bad: "secret \<noteq> []" "validate_oauth_client K cid secret kv = Inr None" using Cons.prems(2) a by auto
  have l: "is_locked now (lockout_key cid) threshold r \<longleftrightarrow> threshold \<le> n"
    using Cons.prems(3) now by (simp add: is_locked_def r counting_get)
  have rest: "\<forall>(now, secret)\<in>set ts. now < ends \<and> secret \<noteq> [] \<and> validate_oauth_client K cid secret kv = Inr None" using Cons.prems(2) by auto
  show ?case
  proof (cases "threshold \<le> n")
    case True
    with Cons.IH[OF Cons.prems(1) rest Cons.prems(3,4)] l show ?thesis
      by (simp add: a failed_attempt[OF Cons.prems(1) bad] max_def min_def)
  next
    case False
    have "max (n + 1) (min threshold (n + 1 + int (length ts))) = max n (min threshold (n + int (length (a # ts))))" using False by simp
    with Cons.IH[OF Cons.prems(1) rest counting_failure[OF Cons.prems(3) now Cons.prems(4), of window]] l False Cons.prems(4) show ?thesis
      by (simp add: a failed_attempt[OF Cons.prems(1) bad])
  qed
qed

text \<open>C24. Guessing is stopped: after as many wrong secrets for one client id as the threshold allows, within one window, every further
  attempt with this id is refused until the window ends, even with the right secret.\<close>

theorem lockout_after_threshold:
  assumes "cid \<noteq> []" "0 < window" "redis_get start (lockout_key cid) db = None"
    and "\<forall>(now, secret)\<in>set ((start, wrong) # ts). now < start + 1000 * window \<and> secret \<noteq> [] \<and> validate_oauth_client K cid secret kv = Inr None"
    and "threshold \<le> 1 + int (length ts)" "now < start + 1000 * window" "secret \<noteq> []" "1 \<le> threshold"
  shows "fst (post_token K threshold window kv now ''client_credentials'' (Some cid) (Some secret)
      (attempts K threshold window kv cid ((start, wrong) # ts) (Some db))) =
    Inl (HTTPException 429 ''Too many failed attempts. Try again later.'')"
proof -
  let ?r = "snd (record_failure start (lockout_key cid) window (Some db))"
  have w: "wrong \<noteq> []" "validate_oauth_client K cid wrong kv = Inr None" using assms(4) by auto
  have f: "attempts K threshold window kv cid ((start, wrong) # ts) (Some db) = attempts K threshold window kv cid ts ?r"
    using assms(3) by (simp add: failed_attempt[OF assms(1) w] is_locked_def)
  have "counting (lockout_key cid) (max 1 (min threshold (1 + int (length ts)))) (start + 1000 * window)
      (attempts K threshold window kv cid ts ?r)"
    by (rule attempts_count) (use assms(1,4) first_failure[OF assms(3,2)] in auto)
  then have "counting (lockout_key cid) threshold (start + 1000 * window) (attempts K threshold window kv cid ts ?r)"
    using assms(5,8) by (simp add: max_def min_def split: if_splits)
  then have "is_locked now (lockout_key cid) threshold (attempts K threshold window kv cid ts ?r)"
    using assms(6) by (auto simp: is_locked_def counting_def redis_get_def)
  then show ?thesis using assms(1,7) by (simp add: post_token_def truthy_def or_empty_def Let_def f del: attempts.simps)
qed

lemma strip_trailing_space: "py_strip (cid @ '' '') = py_strip cid"
proof -
  have sp: "py_isspace (CHR '' '')" by code_simp
  show ?thesis
  proof (cases "\<forall>c\<in>set cid. py_isspace c")
    case True
    with sp have "lstrip_by py_isspace cid = []" "lstrip_by py_isspace (cid @ '' '') = []" by (auto simp: lstrip_by_def dropWhile_eq_Nil_conv)
    then show ?thesis by (simp add: py_strip_def strip_by_def)
  next
    case False
    then have "lstrip_by py_isspace (cid @ '' '') = lstrip_by py_isspace cid @ '' ''" by (auto simp: lstrip_by_def dropWhile_append1)
    with sp show ?thesis by (simp add: py_strip_def strip_by_def rstrip_by_def)
  qed
qed

text \<open>C25. The lockout can be walked around: the counter belongs to the id as it was sent, while the client is looked up by the id without
  surrounding spaces. Whoever appends a space has a fresh counter, so the right secret is accepted although the client is locked.\<close>

theorem lockout_ignores_spelling:
  assumes "validate_oauth_client K cid secret kv = Inr (Some (source_id, attribution))"
    and "redis_get now (lockout_key (cid @ '' '')) db = None" "1 \<le> threshold"
  shows "fst (post_token K threshold window kv now ''client_credentials'' (Some (cid @ '' '')) (Some secret) (Some db)) = Inr source_id"
proof -
  have "validate_oauth_client K (cid @ '' '') secret kv = validate_oauth_client K cid secret kv"
    by (simp add: validate_oauth_client_def strip_trailing_space)
  moreover from assms(1) have "secret \<noteq> []" by (auto simp: validate_oauth_client_def)
  ultimately show ?thesis using assms by (simp add: post_token_def truthy_def or_empty_def Let_def is_locked_def)
qed

section \<open>The schedule and the retries\<close>

text \<open>Two processes that ask for a slot get different ones, at least the gap apart.\<close>

lemma slots_apart:
  assumes "claim_slot now key gap db = (w, db1)" "claim_slot now' key gap db1 = (w', db2)"
    and "now \<le> now'" "0 \<le> gap" "now' < now + GAP_TTL_MS"
  shows "now + w + gap \<le> now' + w'"
  using assms by (auto simp: claim_slot_def Let_def split: if_splits)

text \<open>The wait is capped after the slot was claimed: when the schedule is longer than the cap, two processes leave at the same time.\<close>

lemma capped_slots_collide:
  "fst (acquire_gap_slot 0 ''k'' 1000 (Some [(gap_key ''k'', \<lparr>ce_value = 120000, ce_expires = Some 300000\<rparr>)])) = Some 120000 \<and>
   fst (acquire_gap_slot 0 ''k'' 1000
     (snd (acquire_gap_slot 0 ''k'' 1000 (Some [(gap_key ''k'', \<lparr>ce_value = 120000, ce_expires = Some 300000\<rparr>)])))) = Some 120000"
  by code_simp

text \<open>A call that succeeds within the allowed attempts gives its first success; otherwise the last error is raised.\<close>

lemma retry_from_result:
  "attempt \<le> max_attempts \<Longrightarrow> retry_from f max_attempts attempt last_exc =
    (case List.find (\<lambda>i. \<exists>x. f i = Inr x) [attempt..<max_attempts] of
       Some i \<Rightarrow> Inr (projr (f i))
     | None \<Rightarrow> Inl (if attempt = max_attempts then last_exc else Some (projl (f (max_attempts - 1)))))"
proof (induction f max_attempts attempt last_exc rule: retry_from.induct)
  case (1 f max_attempts attempt last_exc)
  show ?case
  proof (cases "attempt = max_attempts")
    case True
    then show ?thesis by (simp add: retry_from.simps)
  next
    case False
    with 1 have "attempt < max_attempts" by simp
    with 1 show ?thesis
      by (subst retry_from.simps) (auto simp: upt_conv_Cons split: sum.split option.split)
  qed
qed

lemma retry_async_result:
  "0 < max_attempts \<Longrightarrow> retry_async f max_attempts =
    (case List.find (\<lambda>i. \<exists>x. f i = Inr x) [0..<max_attempts] of
       Some i \<Rightarrow> Inr (projr (f i)) | None \<Rightarrow> Inl (Some (projl (f (max_attempts - 1)))))"
  by (simp add: retry_async_def retry_from_result split: option.split)

section \<open>Witnesses\<close>

definition demo_clients :: settings_kv where
  "demo_clients = (case create_oauth_client demo_crypto ''id'' ''pw'' ''now'' ''ci'' [] of Inr (_, _, kv) \<Rightarrow> kv | _ \<Rightarrow> [])"

theorem lockout_after_threshold_witness:
  "fst (post_token demo_crypto 2 60 demo_clients 9000 ''client_credentials'' (Some ''vat_oauth_id'') (Some ''pw'')
      (attempts demo_crypto 2 60 demo_clients ''vat_oauth_id'' [(1000, ''a''), (2000, ''b'')] (Some []))) =
    Inl (HTTPException 429 ''Too many failed attempts. Try again later.'')"
proof -
  have "validate_oauth_client demo_crypto ''vat_oauth_id'' ''a'' demo_clients = Inr None"
    "validate_oauth_client demo_crypto ''vat_oauth_id'' ''b'' demo_clients = Inr None" by code_simp+
  then show ?thesis
    using lockout_after_threshold[of "''vat_oauth_id''" 60 1000 "[]" "''a''" "[(2000, ''b'')]" demo_crypto demo_clients 2 9000 "''pw''"]
    by (simp add: redis_get_def)
qed

theorem lockout_ignores_spelling_witness:
  "fst (post_token demo_crypto 2 60 demo_clients 9000 ''client_credentials'' (Some ''vat_oauth_id '') (Some ''pw'')
      (attempts demo_crypto 2 60 demo_clients ''vat_oauth_id'' [(1000, ''a''), (2000, ''b'')] (Some []))) = Inr ''ci''"
proof -
  have "validate_oauth_client demo_crypto ''vat_oauth_id'' ''pw'' demo_clients = Inr (Some (''ci'', ''ingest:ci''))" by code_simp
  moreover have a: "attempts demo_crypto 2 60 demo_clients ''vat_oauth_id'' [(1000, ''a''), (2000, ''b'')] (Some []) =
    Some [(lockout_key ''vat_oauth_id'', \<lparr>ce_value = 2, ce_expires = Some 61000\<rparr>)]" by code_simp
  moreover have "redis_get 9000 (lockout_key (''vat_oauth_id'' @ '' ''))
    [(lockout_key ''vat_oauth_id'', \<lparr>ce_value = 2, ce_expires = Some 61000\<rparr>)] = None" by code_simp
  ultimately show ?thesis
    using lockout_ignores_spelling[of demo_crypto "''vat_oauth_id''" "''pw''" demo_clients "''ci''" "''ingest:ci''" 9000
      "[(lockout_key ''vat_oauth_id'', \<lparr>ce_value = 2, ce_expires = Some 61000\<rparr>)]" 2 60] by simp
qed

end
