(* ===== verification/Spec2Isabelle.thy ===== *)
theory Spec2Isabelle
  imports Vat_Ledger_Inv Vat_Ingest_Props Vat_Asset_Unmerge Vat_Sync_Backfill Vat_Triage Vat_Inbound Vat_Gating Vat_Limits
begin

text \<open>
  Verification development of the VAT backend (\<open>src/backend/app\<close>), a vulnerability triage
  service: scanners and vendors send findings, the service gives each finding a stable identity, merges
  repeated imports, correlates findings of different scanners, keeps the decisions of the reviewers in a
  ledger that survives re-imports, and writes a hash-chained audit log.

  \<^bold>\<open>How the code is modelled.\<close> A Python function is a HOL function of the same name (a leading underscore
  is dropped; a long function is cut into a few definitions that are named in the manifest's map). A
  table is the list of its rows, a row is a record with the columns that the modelled code
  reads or writes (\<open>Vat_State\<close>), and a service that gets a database session takes and returns the record
  \<open>session\<close>. Exceptions are values of \<open>py_error + 'a\<close>. Text is \<open>string\<close>; the characters are the
  8-bit characters of HOL and case conversion is that of ASCII. The clock, the UUID source and SHA-256 are
  fields of \<open>env\<close>: the session counts readings, so two readings are two
  values. Theorems assume of them only what they name: \<open>strict_clock\<close> (later readings are
  later), \<open>uuid_distinct E N\<close> (the first \<open>N\<close> identifiers differ), or that the digest is
  injective on the texts at hand.

  \<^bold>\<open>The theories.\<close>
  \<^item> \<open>Vat_Prelude\<close>, \<open>Vat_Tables\<close>, \<open>Vat_Values\<close>: Python string operations; tables with the interfaces
    \<open>upsert_table\<close> (insert or merge under a unique key), \<open>movable_rows\<close>/\<open>weighted_rows\<close> (hand rows over to
    another owner), \<open>link_graph\<close> (an undirected graph with restorable edges), \<open>canonicaliser\<close>,
    \<open>step_system\<close>; JSON values and datetimes. Each interface is a locale that is interpreted on
    the tables of the program.
  \<^item> \<open>Vat_Identity\<close>, \<open>Vat_Container_Ref\<close>, \<open>Vat_Keys\<close>: \<open>services/dedup.py\<close>, \<open>core/tenancy.py\<close>,
    \<open>services/identity_normalization.py\<close>, \<open>services/sca_cross_scanner.py\<close>, \<open>parsers/image_digest.py\<close>,
    \<open>services/container_ref_normalization.py\<close>, \<open>services/correlation.py\<close>,
    \<open>services/decision_subject_key.py\<close>. Shown: fingerprints and keys are equal exactly
    when the normalised identities are equal, normal forms are fixed points, tenants never share a key.
  \<^item> \<open>Vat_Payload\<close>: \<open>schemas/vat.py\<close>, \<open>services/ingest_identity.py\<close>, \<open>services/sarif_fingerprints.py\<close>.
  \<^item> \<open>Vat_Audit\<close>: \<open>services/audit_events.py\<close>. Shown: the rows of a trace form one hash chain, bulk mode
    stores the same rows, which events a daily checkpoint covers.
  \<^item> \<open>Vat_Asset\<close>, \<open>Vat_Observations\<close>: \<open>services/asset_aliases.py\<close>, \<open>services/asset_resolver.py\<close>,
    \<open>services/asset_type_infer.py\<close>, \<open>services/container_asset_observations.py\<close>. Shown: resolution
    ends at the end of the alias chain (the code stops after 16 hops, so does the model), when a digest
    conflict is open, that a merge of two assets loses no observation.
  \<^item> \<open>Vat_Ledger\<close>, \<open>Vat_Waiver\<close>, \<open>Vat_Ledger_Read\<close>, \<open>Vat_Ledger_Inv\<close>:
    \<open>services/decision_ledger.py\<close> and \<open>services/waiver_expiry.py\<close>. Shown: recorded decisions
    reach re-imported findings, lookups stay within the tenant, a human edit is respected once (and only
    once), no expired waiver remains after the job, and the consistency of every reachable ledger, stated on
    the step relation \<open>ledger_step\<close>.
  \<^item> \<open>Vat_Edges\<close>, \<open>Vat_Scoring\<close>, \<open>Vat_Linking\<close>: \<open>services/correlation_edges.py\<close>,
    \<open>services/finding_identifiers.py\<close>, \<open>services/crosswalks.py\<close>, \<open>services/correlation_scoring.py\<close>,
    \<open>services/correlation_linking.py\<close>. Shown: the edge table refines an undirected graph, bounds and
    gates of the score, what a crosswalk run accounts for, that linking joins a cluster to its oldest member.
  \<^item> \<open>Vat_Links\<close>, \<open>Vat_Risk\<close>: \<open>services/external_links_service.py\<close> and \<open>services/risk_scoring.py\<close> (the CVSS
    library is a parameter). Shown: a tracker link can be found and removed again without touching the
    others; scanner and reviewer own disjoint sections of the risk data.
  \<^item> \<open>Vat_Ingest_Facts\<close>, \<open>Vat_Ingest\<close>, \<open>Vat_Ingest_Props\<close>: \<open>services/ingest.py\<close> with the tables it reads
    (\<open>services/sla.py\<close>, \<open>models/sbom.py\<close>, \<open>parsers/__init__.py\<close>). \<open>ingest_finding\<close> composes the theories
    above: payload, asset resolution, fingerprint, correlation, links, risk data, observations, decision
    ledger and audit log, for \<open>auto_sync_to_tracker=False\<close>. Shown: an ingest keeps fingerprints
    and ids unique and adds at most one row, a re-import merges into the row of its fingerprint, and a merge
    keeps what a reviewer decided.
  \<^item> \<open>Vat_Asset_Merge\<close>, \<open>Vat_Asset_Unmerge\<close>: the writing half of \<open>services/asset_aliases.py\<close> and the handlers
    \<open>group_asset_into_target\<close> and \<open>unmerge_asset_alias\<close> of \<open>api/assets.py\<close>. Shown: the alias table refines a
    map to canonical assets that a merge redirects, and undoing a merge restores the moved findings.
  \<^item> \<open>Vat_Settings\<close>: the readers of \<open>api/settings.py\<close> and \<open>services/credential_resolver.py\<close> on the
    key-value table of settings.
  \<^item> \<open>Vat_Grouping\<close>: \<open>services/grouping.py\<close>, with a small backtracking matcher for its regular expressions.
    Shown: when two findings are in one group.
  \<^item> \<open>Vat_Sync\<close>, \<open>Vat_Sync_Worker\<close>, \<open>Vat_Sync_Props\<close>: the outbound queue of \<open>services/sync_service.py\<close>:
    building and queueing requests (\<open>schemas/vat.py\<close>), the worker that sends one event or a batch, retries and resets.
    A tracker or source adapter is a record of functions that may raise; each call gets the number of the call, so
    two calls may answer differently. Shown, on the step relation \<open>queue_step\<close>: the queue is well typed, completed
    events are final, a failed send is retried or reported; and that failures inside a batch never give up.
  \<^item> \<open>Vat_Linear\<close>, \<open>Vat_Linear_Props\<close>, \<open>Vat_Sync_Backfill\<close>: the searches of \<open>adapters/linear.py\<close> over the pages
    of issues, \<open>link_linear_issues_to_findings\<close>, the backfills and the single sync. Shown: the group marker is read back,
    paging ends, a finding is linked only to an issue that is its own, the backfill queues no duplicates.
  \<^item> \<open>Vat_Findings\<close>, \<open>Vat_Triage\<close>: \<open>services/findings_service.py\<close>, \<open>schemas/finding.py\<close> and their handlers in
    \<open>api/findings.py\<close>: the filtered, ordered and paged listing (buffered and streamed), the grouped
    listing, and the reviewer's operations (update, bulk update, revert, archive, fingerprint override). Shown: the stream
    is the list cut into batches, the severity a group reports is its least one, an update writes only the review columns and
    is recorded in the ledger, a revert is its own inverse, and an override does not fit the fingerprint column.
  \<^item> \<open>Vat_Webhooks\<close>, \<open>Vat_Inbound\<close>: the deliveries of the vendor (\<open>api/webhooks/aikido.py\<close>) and of the tracker
    (\<open>api/webhooks/linear.py\<close> with the services it calls): signature, age, idempotency key, and then an ingest, the closing of
    a finding, a reviewer's decision, or a template. HMAC, the parser of a decision block and the calls to
    the tracker are parameters. Shown: what changes data was signed, a delivery takes effect once, what a decision block replaces
    and what the closing of an issue forgets.
  \<^item> \<open>Vat_Access\<close>, \<open>Vat_Limits\<close>: the stored credentials (\<open>core/key_hashing.py\<close>, \<open>services/ingest_keys.py\<close>,
    \<open>services/admin_keys.py\<close>, \<open>services/oauth_clients.py\<close>), the counters of \<open>core/rate_limit.py\<close>, \<open>core/retry.py\<close> and
    the token endpoint \<open>api/oauth.py\<close>. Shown: a key works from creation to revocation or rotation, wrong secrets lock a
    client id for the window, and how the lockout is walked around.
  \<^item> \<open>Vat_Gating\<close>: the build gate of the local scanner (\<open>vat_scanner/gating.py\<close>). Shown: the gate is monotone in its
    threshold, keeps all findings when the diff fails, and never stops a pip-audit report.

  \<^bold>\<open>Bounds and termination.\<close> The loops of the modelled code run over finite lists and are structural
  recursions or have a length measure; the alias chain has the depth bound of the code (\<open>MAX_DEPTH\<close>). The loops over
  the pages of a tracker may not end: they are \<open>partial_function (option)\<close>, where \<open>None\<close> is a loop that does not
  return. Integers are Python's unbounded integers. A float is a number of hundredths, which is exact for the
  correlation scores.

  \<^bold>\<open>Not modelled.\<close> HTTP clients and the request side of the vendor adapters (\<open>adapters\<close>, the Aikido and
  Linear jobs), vulnerability feeds, parsers of scanner reports, SBOM storage, spreadsheet export, the handlers that
  write settings, user accounts and sign-in, the task queue, the rest of the local scanner and
  the frontend: they are I/O, rest on services and cryptography outside the repository, or only lay out data.
  Concurrency of transactions is not modelled; a service runs in one transaction.
\<close>

end
